(* ===== verification/Prelude.thy ===== *)
theory Prelude
  imports Complex_Main "HOL-Library.Product_Lexorder" "HOL-Library.Sublist"
    "HOL-Library.Multiset"
begin

text \<open>
  Shared vocabulary of the US-FoodScope development: the Python exceptions the
  modelled code raises or catches, statement sequencing with exceptions, the
  pandas cell values the offline build reads, JSON values exchanged between
  the Django site and the inference services, and the few list and real lemmas
  that every component proof uses (clamping, descending order, joining).
  Python floats are modelled as \<open>real\<close> (rounding is not modelled);
  Python strings as \<open>string\<close>.
\<close>

named_theorems model_simps \<open>definitions unfolded to evaluate the model on concrete inputs\<close>

section \<open>Python exceptions and statement sequencing\<close>

text \<open>
  The exceptions that escape or are caught somewhere in the modelled code.
  \<open>FaissError\<close> is the assertion faiss raises on a dimension mismatch;
  \<open>RequestException\<close> carries \<open>str(e)\<close>; \<open>HTTPException\<close> is FastAPI's, with
  its status code and detail.
\<close>

datatype exn =
    OSError
  | UnpicklingError
  | AttributeError
  | FaissError
  | IndexError
  | KeyError
  | ValueError
  | RequestException string
  | TypeError
  | HTTPException nat string
  | ImportError

text \<open>
  A method that mutates \<open>self\<close> and may raise half-way returns the exception
  it raised (if any) together with the state as far as it got: the Python
  object keeps every assignment made before the raise.
\<close>

type_synonym 's py_eff = "exn option \<times> 's"

definition then_do :: "'s py_eff \<Rightarrow> ('s \<Rightarrow> 's py_eff) \<Rightarrow> 's py_eff" where
  "then_do r f = (case r of (Some e, s) \<Rightarrow> (Some e, s) | (None, s) \<Rightarrow> f s)"

lemma then_do_None [simp]: "then_do (None, s) f = f s"
  by (simp add: then_do_def)

lemma then_do_Some [simp]: "then_do (Some e, s) f = (Some e, s)"
  by (simp add: then_do_def)

section \<open>Strings\<close>

definition nl :: string where
  "nl = [CHR 0x0A]"

text \<open>Python's \<open>sep.join(xs)\<close>.\<close>

fun py_join :: "string \<Rightarrow> string list \<Rightarrow> string" where
  "py_join sep [] = []"
| "py_join sep [x] = x"
| "py_join sep (x # y # ys) = x @ sep @ py_join sep (y # ys)"

section \<open>pandas cells\<close>

text \<open>
  A cell of a pandas row as the offline build reads it: a value rendered by
  \<open>str()\<close>, or NaN (an empty CSV field, or no match in a left join).
  \<open>row.get(k)\<close> on a missing column gives \<open>None\<close>.
\<close>

datatype cell = Cell string | NaN

definition notna :: "cell option \<Rightarrow> bool" where
  "notna c = (case c of Some (Cell _) \<Rightarrow> True | _ \<Rightarrow> False)"

text \<open>\<open>f"{v}"\<close> of a cell value: \<open>None\<close> prints as \<open>None\<close>, NaN as \<open>nan\<close>.\<close>

definition py_str :: "cell option \<Rightarrow> string" where
  "py_str c = (case c of None \<Rightarrow> ''None'' | Some NaN \<Rightarrow> ''nan'' | Some (Cell s) \<Rightarrow> s)"

lemma notna_simps [simp]:
  "notna None = False" "notna (Some NaN) = False" "notna (Some (Cell s)) = True"
  by (simp_all add: notna_def)

lemma py_str_simps [simp]:
  "py_str None = ''None''" "py_str (Some NaN) = ''nan''" "py_str (Some (Cell s)) = s"
  by (simp_all add: py_str_def)

section \<open>JSON values\<close>

text \<open>
  The bodies exchanged over HTTP. Objects keep their key order (an
  association list); \<open>d.get(k)\<close> is \<open>map_of\<close>.
\<close>

datatype json =
    JNull
  | JBool bool
  | JNum real
  | JStr string
  | JList "json list"
  | JObj "(string \<times> json) list"

definition has_key :: "(string \<times> 'v) list \<Rightarrow> string \<Rightarrow> bool" where
  "has_key d k \<longleftrightarrow> k \<in> fst ` set d"

definition dict_get :: "(string \<times> 'v) list \<Rightarrow> string \<Rightarrow> 'v \<Rightarrow> 'v" where
  "dict_get d k dflt = (case map_of d k of None \<Rightarrow> dflt | Some v \<Rightarrow> v)"

lemma has_key_Cons [simp]: "has_key ((k', v) # d) k \<longleftrightarrow> k = k' \<or> has_key d k"
  by (auto simp: has_key_def)

lemma has_key_Nil [simp]: "\<not> has_key [] k"
  by (simp add: has_key_def)

lemma dict_get_Cons [simp]:
  "dict_get ((k', v) # d) k dflt = (if k = k' then v else dict_get d k dflt)"
  by (simp add: dict_get_def)

lemma dict_get_Nil [simp]: "dict_get [] k dflt = dflt"
  by (simp add: dict_get_def)

section \<open>Python's float()\<close>

text \<open>
  \<open>float(s)\<close> on a string: surrounding whitespace stripped, an optional sign,
  digits with an optional fraction (\<open>5\<close>, \<open>5.\<close>, \<open>.5\<close>, \<open>5.25\<close>) and an
  optional exponent (\<open>e-3\<close>). The spellings of infinity and NaN (not reals)
  and digit-group underscores are outside the model and give \<open>None\<close>, the
  value of every string \<open>float\<close> rejects with \<open>ValueError\<close>.
\<close>

definition is_digit :: "char \<Rightarrow> bool" where
  "is_digit c \<longleftrightarrow> 48 \<le> (of_char c :: nat) \<and> (of_char c :: nat) \<le> 57"

definition digits_nat :: "string \<Rightarrow> nat" where
  "digits_nat ds = foldl (\<lambda>n c. 10 * n + (of_char c - 48)) 0 ds"

definition py_isspace :: "char \<Rightarrow> bool" where
  "py_isspace c \<longleftrightarrow> c \<in> set [CHR '' '', CHR 0x09, CHR 0x0A, CHR 0x0B, CHR 0x0C, CHR 0x0D]"

definition py_strip :: "string \<Rightarrow> string" where
  "py_strip s = rev (dropWhile py_isspace (rev (dropWhile py_isspace s)))"

definition parse_mantissa :: "string \<Rightarrow> (real \<times> string) option" where
  "parse_mantissa s =
     (let ip = takeWhile is_digit s; r1 = dropWhile is_digit s in
      if r1 \<noteq> [] \<and> hd r1 = CHR ''.'' then
        (let fp = takeWhile is_digit (tl r1); r3 = dropWhile is_digit (tl r1) in
         if ip = [] \<and> fp = [] then None
         else Some (of_nat (digits_nat ip) + of_nat (digits_nat fp) / 10 ^ length fp, r3))
      else if ip = [] then None else Some (of_nat (digits_nat ip), r1))"

text \<open>An optional sign: its value and the rest of the string.\<close>

definition py_sign :: "string \<Rightarrow> int \<times> string" where
  "py_sign t =
     (if t \<noteq> [] \<and> hd t = CHR ''-'' then (-1, tl t)
      else if t \<noteq> [] \<and> hd t = CHR ''+'' then (1, tl t) else (1, t))"

definition parse_exponent :: "string \<Rightarrow> int option" where
  "parse_exponent s =
     (if s = [] then Some 0
      else if hd s = CHR ''e'' \<or> hd s = CHR ''E'' then
        (let (sg, ds) = py_sign (tl s)
         in if ds \<noteq> [] \<and> list_all is_digit ds then Some (sg * int (digits_nat ds)) else None)
      else None)"

definition pow10 :: "int \<Rightarrow> real" where
  "pow10 e = (if 0 \<le> e then 10 ^ nat e else 1 / 10 ^ nat (- e))"

definition py_float_str :: "string \<Rightarrow> real option" where
  "py_float_str s =
     (let (sg, u) = py_sign (py_strip s)
      in case parse_mantissa u of
           None \<Rightarrow> None
         | Some (m, rest) \<Rightarrow>
             (case parse_exponent rest of None \<Rightarrow> None | Some e \<Rightarrow> Some (of_int sg * m * pow10 e)))"

text \<open>
  \<open>float(v)\<close> on a value decoded from JSON or a request: numbers as they
  are, \<open>bool\<close> as 1 or 0 (an \<open>int\<close> subclass), strings parsed; \<open>None\<close>, lists
  and dicts raise \<open>TypeError\<close>. \<open>None\<close> stands for the raise.
\<close>

fun py_float :: "json \<Rightarrow> real option" where
  "py_float (JNum r) = Some r"
| "py_float (JBool b) = Some (if b then 1 else 0)"
| "py_float (JStr s) = py_float_str s"
| "py_float _ = None"

section \<open>Python and numpy arithmetic\<close>

text \<open>\<open>x % y\<close> on floats takes the sign of the divisor.\<close>

definition py_mod :: "real \<Rightarrow> real \<Rightarrow> real" where
  "py_mod x y = x - y * of_int \<lfloor>x / y\<rfloor>"

text \<open>\<open>round(x, 2)\<close>: to the nearest hundredth, ties to even.\<close>

definition round_half_even :: "real \<Rightarrow> int" where
  "round_half_even y =
     (let f = \<lfloor>y\<rfloor>; d = y - of_int f in
      if d < 1 / 2 then f else if 1 / 2 < d then f + 1 else if even f then f else f + 1)"

definition py_round2 :: "real \<Rightarrow> real" where
  "py_round2 x = of_int (round_half_even (x * 100)) / 100"

text \<open>\<open>np.mean\<close> and \<open>np.std\<close> (population deviation, \<open>ddof=0\<close>) of a non-empty array.\<close>

definition np_mean :: "real list \<Rightarrow> real" where
  "np_mean xs = sum_list xs / of_nat (length xs)"

definition np_std :: "real list \<Rightarrow> real" where
  "np_std xs = sqrt (sum_list (map (\<lambda>x. (x - np_mean xs)\<^sup>2) xs) / of_nat (length xs))"

section \<open>Clamping\<close>

text \<open>Python's \<open>max(lo, min(hi, x))\<close>; also \<open>np.clip(x, lo, hi)\<close> when \<open>lo \<le> hi\<close>.\<close>

definition clip :: "real \<Rightarrow> real \<Rightarrow> real \<Rightarrow> real" where
  "clip lo hi x = max lo (min hi x)"

lemma clip_bounds [intro]: "lo \<le> hi \<Longrightarrow> lo \<le> clip lo hi x \<and> clip lo hi x \<le> hi"
  by (auto simp: clip_def)

lemma clip_mono: "x \<le> y \<Longrightarrow> clip lo hi x \<le> clip lo hi y"
  by (auto simp: clip_def)

lemma clip_id: "lo \<le> x \<Longrightarrow> x \<le> hi \<Longrightarrow> clip lo hi x = x"
  by (auto simp: clip_def)

section \<open>Descending order\<close>

abbreviation sorted_desc :: "real list \<Rightarrow> bool" where
  "sorted_desc xs \<equiv> sorted_wrt (\<ge>) xs"

lemma sorted_desc_map_mono:
  assumes "\<And>x y. x \<le> y \<Longrightarrow> f x \<le> f y" and "sorted_desc xs"
  shows "sorted_desc (map f xs)"
  using assms(2) by (induction xs) (auto simp: assms(1))

lemma sorted_desc_map_clip: "sorted_desc xs \<Longrightarrow> sorted_desc (map (clip lo hi) xs)"
  by (rule sorted_desc_map_mono) (auto intro: clip_mono)

lemma sorted_desc_filter_map:
  "sorted_wrt R (map g xs) \<Longrightarrow> sorted_wrt R (map g (filter P xs))"
  by (induction xs) auto

text \<open>Sorting ascending by \<open>(- s, i)\<close> lists scores descending.\<close>

lemma sorted_neg_fst_desc:
  "sorted (map (\<lambda>(i, s). (- s, i)) xs) \<Longrightarrow> sorted_desc (map snd xs)"
proof (induction xs)
  case Nil
  then show ?case by simp
next
  case (Cons x xs)
  have "\<forall>y \<in> set xs. snd y \<le> snd x"
  proof
    fix y assume "y \<in> set xs"
    with Cons.prems have "(- snd x, fst x) \<le> (- snd y, fst y)"
      by (auto split: prod.splits)
    then show "snd y \<le> snd x" by (auto simp: less_eq_prod_def)
  qed
  with Cons show ?case by (auto simp: case_prod_beta)
qed

section \<open>Lemmas on parsing and arithmetic\<close>

lemmas float_parse_defs =
  py_float_str_def py_sign_def py_strip_def py_isspace_def parse_mantissa_def parse_exponent_def
  digits_nat_def is_digit_def pow10_def

lemma dropWhile_none: "(\<forall>c \<in> set xs. \<not> P c) \<Longrightarrow> dropWhile P xs = xs"
  by (cases xs) auto

lemma digits_nat_snoc: "digits_nat (xs @ [c]) = 10 * digits_nat xs + (of_char c - 48)"
  by (simp add: digits_nat_def)

lemma py_mod_bounds: "0 < y \<Longrightarrow> 0 \<le> py_mod x y \<and> py_mod x y < y"
proof -
  assume y: "0 < y"
  have "of_int \<lfloor>x / y\<rfloor> \<le> x / y" by (rule of_int_floor_le)
  then have a: "of_int \<lfloor>x / y\<rfloor> * y \<le> x" using y by (simp add: le_divide_eq)
  have "x / y < of_int \<lfloor>x / y\<rfloor> + 1" by linarith
  then have b: "x < (of_int \<lfloor>x / y\<rfloor> + 1) * y" by (simp only: pos_divide_less_eq[OF y])
  show ?thesis using a b by (simp add: py_mod_def algebra_simps)
qed

lemma round_half_even_bounds:
  assumes "of_int k \<le> y" "y \<le> of_int m"
  shows "k \<le> round_half_even y \<and> round_half_even y \<le> m"
proof -
  have fk: "k \<le> \<lfloor>y\<rfloor>" using assms(1) by (simp add: le_floor_iff)
  have fm: "\<lfloor>y\<rfloor> \<le> m" using assms(2) by (simp add: floor_le_iff)
  show ?thesis
  proof (cases "\<lfloor>y\<rfloor> = m")
    case True
    then have "y = of_int m" using assms(2) by (metis floor_correct order_antisym_conv)
    then show ?thesis using fk True by (simp add: round_half_even_def Let_def)
  next
    case False
    then show ?thesis using fk fm by (auto simp: round_half_even_def Let_def)
  qed
qed

lemma py_round2_bounds:
  "of_int a / 100 \<le> x \<Longrightarrow> x \<le> of_int b / 100 \<Longrightarrow> of_int a / 100 \<le> py_round2 x \<and> py_round2 x \<le> of_int b / 100"
  using round_half_even_bounds[of a "x * 100" b] by (simp add: py_round2_def field_simps)

section \<open>Lemmas on lists and multisets\<close>

lemma find_unique:
  assumes "r \<in> set xs" and "P r" and "\<And>x. x \<in> set xs \<Longrightarrow> P x \<Longrightarrow> x = r"
  shows "find P xs = Some r"
  using assms
proof (induction xs)
  case Nil
  then show ?case by simp
next
  case (Cons a xs)
  show ?case
  proof (cases "P a")
    case True
    then have "a = r" using Cons.prems(3) by (meson list.set_intros(1))
    then show ?thesis using True by simp
  next
    case False
    then have "r \<in> set xs" using Cons.prems(1,2) by auto
    then show ?thesis using False Cons by (metis find.simps(2) list.set_intros(2))
  qed
qed

lemma mset_concat_map:
  "mset (concat (map f xs)) = sum_mset (image_mset (mset \<circ> f) (mset xs))"
  by (induction xs) auto

lemma mset_concat_map_perm:
  "mset xs = mset ys \<Longrightarrow> mset (concat (map f xs)) = mset (concat (map f ys))"
  by (simp add: mset_concat_map)

end
