(* ===== verification/Profile.thy ===== *)
theory Profile
  imports Prelude
begin

text \<open>
  The offline half of the RAG pipeline before embedding
  (src/us_foodscope/health/serving/generate_assets.py): a county row becomes a
  fixed-template paragraph (\<open>row_to_text\<close>), the county table is left-joined
  with the worst-risk-cluster table on (County, State), and every joined row
  becomes one \<open>Chunk\<close> whose id is its position
  (rag_service.py's \<open>Chunk\<close> dataclass).
  A pandas row is an association list from column names to cells, in column
  order; \<open>row.get(k, d)\<close> is \<open>row_get\<close>.
\<close>

type_synonym row = "(string \<times> cell) list"

definition row_get :: "row \<Rightarrow> string \<Rightarrow> string \<Rightarrow> string" where
  "row_get r k dflt = (case map_of r k of None \<Rightarrow> dflt | Some c \<Rightarrow> py_str (Some c))"

section \<open>Profile Builder: \<open>row_to_text\<close>\<close>

text \<open>
  One definition per \<open>text += f"..."\<close> statement of lines 37--57; the
  local variables \<open>pop\<close>, \<open>poverty\<close>, ... of lines 15--35 are the \<open>row_get\<close>
  calls inlined.
\<close>

definition risk_alert_lines :: "row \<Rightarrow> string" where
  "risk_alert_lines row =
     ''!!! ALERT: This county is identified as a Highest Composite Health Risk area (Cluster ''
     @ py_str (map_of row ''Cluster'') @ '').'' @ nl
     @ ''- Composite Health Risk Score: '' @ py_str (map_of row ''composite_risk'') @ ''.'' @ nl"

definition demographics_line :: "row \<Rightarrow> string" where
  "demographics_line row =
     ''- Demographics: Population: '' @ row_get row ''Population'' ''N/A''
     @ '', Poverty Rate: '' @ row_get row ''Poverty_Rate'' ''N/A''
     @ ''%, Median Income: $'' @ row_get row ''Median_Income'' ''N/A'' @ ''.'' @ nl"

definition health_outcomes_line :: "row \<Rightarrow> string" where
  "health_outcomes_line row =
     ''- Health Outcomes: Adult Obesity Rate: '' @ row_get row ''Adult_Obesity_Rate13'' ''N/A''
     @ ''%, Adult Diabetes Rate: '' @ row_get row ''Adult_Diabetes_Rate13'' ''N/A'' @ ''%.'' @ nl"

definition food_environment_line :: "row \<Rightarrow> string" where
  "food_environment_line row =
     ''- Food Environment: '' @ row_get row ''Grocery_Stores_Per1000'' ''N/A''
     @ '' grocery stores per 1k residents, '' @ row_get row ''Farmers_Markets_Count_16'' ''N/A''
     @ '' farmers markets. ''
     @ ''Fast food density: '' @ row_get row ''FFRPTH14'' ''N/A'' @ ''/1k residents.'' @ nl"

definition food_security_line :: "row \<Rightarrow> string" where
  "food_security_line row =
     ''- Food Security: Food insecurity: '' @ row_get row ''FOODINSEC_13_15'' ''N/A''
     @ ''%. '' @ row_get row ''PCT_LACCESS_POP15'' ''N/A'' @ ''% of pop. has low food access.'' @ nl"

definition physical_activity_line :: "row \<Rightarrow> string" where
  "physical_activity_line row =
     ''- Physical Activity: Gym density: '' @ row_get row ''GYMs_Per_1000_Count_14'' ''N/A''
     @ ''/1k residents.'' @ nl"

definition row_to_text :: "row \<Rightarrow> string" where
  "row_to_text row =
    (let county = row_get row ''County'' ''Unknown County'';
         state = row_get row ''State'' ''Unknown State'';
         text0 = ''Comprehensive Profile for '' @ county @ '', '' @ state @ '':'' @ nl;
         text1 =
           (if notna (map_of row ''composite_risk'') then text0 @ risk_alert_lines row
            else text0);
         text2 = text1 @ demographics_line row @ health_outcomes_line row
           @ food_environment_line row @ food_security_line row @ physical_activity_line row;
         text3 =
           (if notna (map_of row ''Description'') then
              text2 @ ''- Environmental Context: '' @ py_str (map_of row ''Description'') @ nl
            else text2);
         text4 =
           (if notna (map_of row ''Rule_Description'') then
              text3 @ ''- Policy Context: '' @ py_str (map_of row ''Rule_Description'') @ nl
            else text3)
     in text4)"

lemmas profile_line_defs =
  risk_alert_lines_def demographics_line_def health_outcomes_line_def
  food_environment_line_def food_security_line_def physical_activity_line_def

section \<open>Left join with the risk table\<close>

text \<open>
  \<open>pd.merge(df_main, df_worst[['County', 'State', 'composite_risk']],
  on=['County', 'State'], how='left')\<close>: every main row, in order, once per
  matching risk row (in the risk table's order), or once with a NaN
  \<open>composite_risk\<close> when nothing matches. Only \<open>composite_risk\<close> is taken from
  the risk table. The main table is the dataset's, which has no
  \<open>composite_risk\<close> column of its own (otherwise pandas would suffix both).
\<close>

definition join_key :: "row \<Rightarrow> cell option \<times> cell option" where
  "join_key r = (map_of r ''County'', map_of r ''State'')"

definition risk_value :: "row \<Rightarrow> cell" where
  "risk_value r = (case map_of r ''composite_risk'' of Some c \<Rightarrow> c | None \<Rightarrow> NaN)"

definition merge_left :: "row list \<Rightarrow> row list \<Rightarrow> row list" where
  "merge_left main worst =
     concat (map (\<lambda>l.
       (case filter (\<lambda>r. join_key r = join_key l) worst of
          [] \<Rightarrow> [l @ [(''composite_risk'', NaN)]]
        | ms \<Rightarrow> map (\<lambda>r. l @ [(''composite_risk'', risk_value r)]) ms)) main)"

definition has_cols :: "string list \<Rightarrow> row \<Rightarrow> bool" where
  "has_cols ks r \<longleftrightarrow> list_all (\<lambda>k. has_key r k) ks"

text \<open>
  Lines 65--76 of generate_assets: without the risk file the main table is
  used as read; with it, a column missing from either side is a \<open>KeyError\<close>.
\<close>

definition combine_tables :: "row list \<Rightarrow> row list option \<Rightarrow> exn + row list" where
  "combine_tables main worst =
     (case worst of
        None \<Rightarrow> Inr main
      | Some w \<Rightarrow>
          if list_all (has_cols [''County'', ''State'', ''composite_risk'']) w
             \<and> list_all (has_cols [''County'', ''State'']) main
          then Inr (merge_left main w) else Inl KeyError)"

section \<open>Chunk Store\<close>

text \<open>
  The metadata dict built in the loop of generate_assets: the raw
  \<open>row.get('County')\<close> and \<open>row.get('State')\<close> values and \<open>is_high_risk\<close>.
\<close>

record chunk_meta =
  county :: "cell option"
  state :: "cell option"
  is_high_risk :: bool

record chunk =
  chunk_text :: string
  metadata :: chunk_meta
  chunk_id :: nat

definition make_chunk :: "nat \<Rightarrow> row \<Rightarrow> chunk" where
  "make_chunk i row =
     \<lparr>chunk_text = row_to_text row,
      metadata = \<lparr>county = map_of row ''County'', state = map_of row ''State'',
                  is_high_risk = notna (map_of row ''composite_risk'')\<rparr>,
      chunk_id = i\<rparr>"

text \<open>\<open>for i, row in df_combined.iterrows()\<close>: the combined frame has a fresh
  RangeIndex, so \<open>i\<close> is the position.\<close>

definition build_chunks :: "row list \<Rightarrow> chunk list" where
  "build_chunks rows = map (\<lambda>(i, r). make_chunk i r) (enumerate 0 rows)"

section \<open>Example rows\<close>

text \<open>The spec's Alpha and Beta records, split as the two CSV files hold them.\<close>

definition alpha_main :: row where
  "alpha_main = [(''County'', Cell ''Alpha''), (''State'', Cell ''CA''), (''Poverty_Rate'', Cell ''20'')]"

definition beta_main :: row where
  "beta_main = [(''County'', Cell ''Beta''), (''State'', Cell ''TX''), (''Poverty_Rate'', NaN)]"

definition alpha_worst :: row where
  "alpha_worst = [(''County'', Cell ''Alpha''), (''State'', Cell ''CA''),
                  (''composite_risk'', Cell ''8.2''), (''Cluster'', Cell ''1'')]"

section \<open>Chunk Store lemmas\<close>

lemma length_build_chunks [simp]: "length (build_chunks rows) = length rows"
  by (simp add: build_chunks_def)

lemma build_chunks_nth [simp]:
  "i < length rows \<Longrightarrow> build_chunks rows ! i = make_chunk i (rows ! i)"
  by (simp add: build_chunks_def nth_enumerate_eq)

lemma chunk_text_build_chunks: "map chunk_text (build_chunks rows) = map row_to_text rows"
  by (rule nth_equalityI) (simp_all add: make_chunk_def)

lemma row_to_text_demographics: "sublist (demographics_line r) (row_to_text r)"
  by (auto simp: row_to_text_def Let_def intro: sublist_appendI)

lemma merge_left_eq:
  "merge_left main worst =
     concat (map (\<lambda>l. map (\<lambda>v. l @ [(''composite_risk'', v)])
       (case filter (\<lambda>r. join_key r = join_key l) worst of [] \<Rightarrow> [NaN] | ms \<Rightarrow> map risk_value ms))
       main)"
  unfolding merge_left_def by (rule arg_cong[where f = concat]) (auto split: list.split)

lemma merge_left_member:
  "r' \<in> set (merge_left main worst) \<Longrightarrow>
   \<exists>l \<in> set main. \<exists>v. r' = l @ [(''composite_risk'', v)]"
  by (auto simp: merge_left_eq)

section \<open>Properties of the profile builder and the join\<close>

text \<open>
  C7. Risk-section conditioning: a profile's first line after the header is
  the risk alert exactly when the row's \<open>composite_risk\<close> is present and not
  NaN.
\<close>

theorem row_to_text_alert_iff:
  "(\<exists>rest. row_to_text r =
      ''Comprehensive Profile for '' @ row_get r ''County'' ''Unknown County'' @ '', ''
      @ row_get r ''State'' ''Unknown State'' @ '':'' @ nl
      @ ''!!! ALERT: This county is identified as a Highest Composite Health Risk area (Cluster ''
      @ rest)
   \<longleftrightarrow> notna (map_of r ''composite_risk'')"
  by (auto simp: row_to_text_def risk_alert_lines_def demographics_line_def Let_def nl_def)

text \<open>
  C13. The left join keeps the primary table's rows in order: when no county
  has more than one row in the risk table, dropping the joined
  \<open>composite_risk\<close> column gives back the primary table exactly.
\<close>

theorem merge_left_unique_keys:
  assumes "list_all (\<lambda>l. length (filter (\<lambda>r. join_key r = join_key l) worst) \<le> 1) main"
  shows "map butlast (merge_left main worst) = main"
  using assms
proof (induction main)
  case Nil
  then show ?case by (simp add: merge_left_def)
next
  case (Cons l main)
  then show ?case
    by (auto simp: merge_left_def length_Suc_conv le_Suc_eq split: list.splits)
qed


theorem merge_left_unique_keys_witness:
  "map butlast (merge_left [alpha_main, beta_main] [alpha_worst]) = [alpha_main, beta_main]"
  using merge_left_unique_keys [of "[alpha_worst]" "[alpha_main, beta_main]"]
  by (simp add: alpha_main_def beta_main_def alpha_worst_def join_key_def)

text \<open>
  C17. The join takes only \<open>composite_risk\<close> from the risk table, so a risk
  row's \<open>Cluster\<close> never reaches the profile: for a primary row without a
  Cluster column, every high-risk joined row's alert names cluster \<open>None\<close>
  (the spec's example expects \<open>(Cluster 1)\<close>).
\<close>

theorem merge_left_alert_cluster_none:
  assumes "map_of l ''Cluster'' = None" "map_of l ''composite_risk'' = None"
    "r' \<in> set (merge_left [l] worst)" "notna (map_of r' ''composite_risk'')"
  shows "\<exists>rest. row_to_text r' =
      ''Comprehensive Profile for '' @ row_get l ''County'' ''Unknown County'' @ '', ''
      @ row_get l ''State'' ''Unknown State'' @ '':'' @ nl
      @ ''!!! ALERT: This county is identified as a Highest Composite Health Risk area (Cluster ''
      @ ''None).'' @ nl @ rest"
proof -
  from merge_left_member[OF assms(3)] obtain v where r': "r' = l @ [(''composite_risk'', v)]"
    by auto
  have get: "row_get r' k d = row_get l k d" if "k \<noteq> ''composite_risk''" for k d
    using that by (simp add: r' row_get_def map_of_append map_add_def split: option.splits)
  have "map_of r' ''Cluster'' = None" using assms(1) by (simp add: r' map_of_append)
  then show ?thesis
    using assms(4)
    by (simp add: row_to_text_def risk_alert_lines_def Let_def get)
qed

theorem merge_left_alert_cluster_none_witness:
  "\<exists>rest. row_to_text (alpha_main @ [(''composite_risk'', Cell ''8.2'')]) =
      ''Comprehensive Profile for Alpha, CA:'' @ nl
      @ ''!!! ALERT: This county is identified as a Highest Composite Health Risk area (Cluster ''
      @ ''None).'' @ nl @ rest"
proof -
  have "alpha_main @ [(''composite_risk'', Cell ''8.2'')] \<in> set (merge_left [alpha_main] [alpha_worst])"
    by (simp add: merge_left_def alpha_main_def alpha_worst_def join_key_def risk_value_def)
  then show ?thesis
    using merge_left_alert_cluster_none [of alpha_main
            "alpha_main @ [(''composite_risk'', Cell ''8.2'')]" "[alpha_worst]"]
    by (simp add: alpha_main_def row_get_def)
qed

text \<open>
  C18. A field that is present but empty (NaN) is printed as \<open>nan\<close>, not as
  the \<open>N/A\<close> placeholder the spec requires; \<open>N/A\<close> appears only when the
  column is absent.
\<close>

theorem row_to_text_nan_field:
  assumes "map_of r ''Poverty_Rate'' = Some NaN"
  shows "sublist (''- Demographics: Population: '' @ row_get r ''Population'' ''N/A''
                  @ '', Poverty Rate: nan%, Median Income: $'' @ row_get r ''Median_Income'' ''N/A''
                  @ ''.'' @ nl) (row_to_text r)"
  using row_to_text_demographics[of r] assms
  by (simp add: demographics_line_def row_get_def)

theorem row_to_text_nan_field_witness:
  "sublist (''- Demographics: Population: N/A, Poverty Rate: nan%, Median Income: $N/A.'' @ nl)
     (row_to_text beta_main)"
  using row_to_text_nan_field [of beta_main] by (simp add: beta_main_def row_get_def)

end
