(* ===== verification/VectorIndex.thy ===== *)
theory VectorIndex
  imports Prelude
begin

text \<open>
  The vector index the RAG pipeline builds and searches: faiss's
  \<open>normalize_L2\<close>, \<open>IndexFlatIP\<close>, its \<open>add\<close> and its exact \<open>search\<close>, as
  generate_assets.py and rag_service.py call them. faiss is a library the
  sources only call, so these definitions follow the spec's contract for the
  Vector Index (section 4.4): insertion order kept, exact inner-product search,
  results by descending score with ties to the smaller index, \<open>k\<close> clamped to
  the number of entries. The embedding model is a parameter (\<open>embedder\<close>):
  a deterministic map from text to a vector.
\<close>

type_synonym vec = "real list"
type_synonym embedder = "string \<Rightarrow> vec"

section \<open>Vectors\<close>

definition fvec_inner_product :: "vec \<Rightarrow> vec \<Rightarrow> real" where
  "fvec_inner_product u v = sum_list (map2 (*) u v)"

definition fvec_norm_L2sqr :: "vec \<Rightarrow> real" where
  "fvec_norm_L2sqr v = sum_list (map (\<lambda>x. x * x) v)"

text \<open>\<open>faiss.normalize_L2\<close>: rows of norm 0 are left as they are.\<close>

definition normalize_L2 :: "vec \<Rightarrow> vec" where
  "normalize_L2 v =
     (let nr = fvec_norm_L2sqr v in if 0 < nr then map (\<lambda>x. x / sqrt nr) v else v)"

section \<open>IndexFlatIP\<close>

record index_flat_ip =
  dim :: nat
  xb :: "vec list"

definition index_new :: "nat \<Rightarrow> index_flat_ip" where
  "index_new d = \<lparr>dim = d, xb = []\<rparr>"

abbreviation ntotal :: "index_flat_ip \<Rightarrow> nat" where
  "ntotal ix \<equiv> length (xb ix)"

text \<open>\<open>index.add(x)\<close>: faiss asserts that the rows have the index's dimension.\<close>

definition index_add :: "index_flat_ip \<Rightarrow> vec list \<Rightarrow> exn + index_flat_ip" where
  "index_add ix vs =
     (if list_all (\<lambda>v. length v = dim ix) vs then Inr (ix\<lparr>xb := xb ix @ vs\<rparr>)
      else Inl FaissError)"

text \<open>Every stored vector with its label (its insertion position) and its score.\<close>

definition ip_scores :: "index_flat_ip \<Rightarrow> vec \<Rightarrow> (int \<times> real) list" where
  "ip_scores ix q = map (\<lambda>(i, v). (int i, fvec_inner_product q v)) (enumerate 0 (xb ix))"

text \<open>
  \<open>index.search(q, k)\<close> for one query row: labels and scores of the \<open>k\<close> best
  entries, best first, ties to the smaller label; fewer when the index holds
  fewer. A query of the wrong dimension fails faiss's assertion.
\<close>

definition search_order :: "int \<times> real \<Rightarrow> real \<times> int" where
  "search_order p = (- snd p, fst p)"

definition index_search :: "index_flat_ip \<Rightarrow> vec \<Rightarrow> nat \<Rightarrow> exn + (int \<times> real) list" where
  "index_search ix q k =
     (if length q \<noteq> dim ix then Inl FaissError
      else Inr (take k (sort_key search_order (ip_scores ix q))))"

section \<open>Search results\<close>

lemma index_search_Inr:
  "index_search ix q k = Inr res \<Longrightarrow> length q = dim ix \<and> res = take k (sort_key search_order (ip_scores ix q))"
  by (simp add: index_search_def split: if_splits)

lemma length_ip_scores [simp]: "length (ip_scores ix q) = ntotal ix"
  by (simp add: ip_scores_def)

lemma length_index_search:
  "index_search ix q k = Inr res \<Longrightarrow> length res = min k (ntotal ix)"
  by (auto dest!: index_search_Inr)

lemma sorted_index_search:
  "index_search ix q k = Inr res \<Longrightarrow> sorted (map search_order res)"
  by (auto dest!: index_search_Inr simp: take_map[symmetric] sorted_wrt_take)

lemma search_order_le:
  "search_order a \<le> search_order b \<longleftrightarrow> snd b < snd a \<or> (snd b = snd a \<and> fst a \<le> fst b)"
  by (auto simp: search_order_def less_eq_prod_def)

lemma index_search_topk:
  assumes "index_search ix q k = Inr res"
  shows "\<exists>rest. mset res + mset rest = mset (ip_scores ix q)
           \<and> (\<forall>a \<in> set res. \<forall>b \<in> set rest. snd b \<le> snd a \<and> (snd b = snd a \<longrightarrow> fst a \<le> fst b))"
proof -
  let ?ys = "sort_key search_order (ip_scores ix q)"
  from assms have res: "res = take k ?ys" by (auto dest!: index_search_Inr)
  have "mset res + mset (drop k ?ys) = mset (ip_scores ix q)"
    by (simp add: res flip: mset_append)
  moreover have "search_order a \<le> search_order b"
    if "a \<in> set res" "b \<in> set (drop k ?ys)" for a b
  proof -
    have "sorted (map search_order (take k ?ys) @ map search_order (drop k ?ys))"
      by (simp flip: map_append)
    with that show ?thesis by (auto simp: res sorted_append)
  qed
  ultimately show ?thesis
    by (intro exI[where x = "drop k ?ys"]) (fastforce simp: search_order_le)
qed

lemma ip_scores_member:
  "(i, s) \<in> set (ip_scores ix q) \<longleftrightarrow> 0 \<le> i \<and> i < int (ntotal ix) \<and> s = fvec_inner_product q (xb ix ! nat i)"
proof
  assume "(i, s) \<in> set (ip_scores ix q)"
  then show "0 \<le> i \<and> i < int (ntotal ix) \<and> s = fvec_inner_product q (xb ix ! nat i)"
    by (auto simp: ip_scores_def in_set_enumerate_eq)
next
  assume h: "0 \<le> i \<and> i < int (ntotal ix) \<and> s = fvec_inner_product q (xb ix ! nat i)"
  then have "(nat i, xb ix ! nat i) \<in> set (enumerate 0 (xb ix))"
    by (auto simp: in_set_enumerate_eq)
  with h show "(i, s) \<in> set (ip_scores ix q)"
    by (force simp: ip_scores_def)
qed

lemma index_search_member:
  "index_search ix q k = Inr res \<Longrightarrow> (i, s) \<in> set res \<Longrightarrow>
     0 \<le> i \<and> i < int (ntotal ix) \<and> s = fvec_inner_product q (xb ix ! nat i)"
  by (auto dest!: index_search_Inr in_set_takeD simp flip: ip_scores_member)

lemma sum_list_divide_const:
  "sum_list (map (\<lambda>x. f x / (c::real)) v) = sum_list (map f v) / c"
  by (induction v) (simp_all add: add_divide_distrib)

lemma normalize_L2_unit:
  "0 < fvec_norm_L2sqr v \<Longrightarrow> fvec_norm_L2sqr (normalize_L2 v) = 1"
  by (simp add: normalize_L2_def fvec_norm_L2sqr_def Let_def o_def sum_list_divide_const)

lemma inner_self: "fvec_inner_product v v = fvec_norm_L2sqr v"
  by (induction v) (auto simp: fvec_inner_product_def fvec_norm_L2sqr_def)

lemma sq_diff_expand:
  "length u = length v \<Longrightarrow>
   sum_list (map2 (\<lambda>x y. (x - y) * (x - y)) u v) = fvec_norm_L2sqr u - 2 * fvec_inner_product u v + fvec_norm_L2sqr v"
  by (induction u v rule: list_induct2) (auto simp: fvec_inner_product_def fvec_norm_L2sqr_def algebra_simps)

lemma sq_sum_expand:
  "length u = length v \<Longrightarrow>
   sum_list (map2 (\<lambda>x y. (x + y) * (x + y)) u v) = fvec_norm_L2sqr u + 2 * fvec_inner_product u v + fvec_norm_L2sqr v"
  by (induction u v rule: list_induct2) (auto simp: fvec_inner_product_def fvec_norm_L2sqr_def algebra_simps)

lemma sum_list_squares_nonneg: "0 \<le> sum_list (map2 (\<lambda>x y. f x y * (f x y :: real)) u v)"
  by (rule sum_list_nonneg) (auto simp: zero_le_square)

lemma inner_unit_bounds:
  assumes "length u = length v" "fvec_norm_L2sqr u = 1" "fvec_norm_L2sqr v = 1"
  shows "- 1 \<le> fvec_inner_product u v \<and> fvec_inner_product u v \<le> 1"
proof -
  have "0 \<le> sum_list (map2 (\<lambda>x y. (x - y) * (x - y)) u v)"
    using sum_list_squares_nonneg[of "\<lambda>x y. x - y" u v] by simp
  moreover have "0 \<le> sum_list (map2 (\<lambda>x y. (x + y) * (x + y)) u v)"
    using sum_list_squares_nonneg[of "\<lambda>x y. x + y" u v] by simp
  ultimately show ?thesis using assms by (simp add: sq_diff_expand sq_sum_expand)
qed

lemma length_normalize_L2 [simp]: "length (normalize_L2 v) = length v"
  by (simp add: normalize_L2_def Let_def)

lemma index_search_ok:
  "length v = dim ix \<Longrightarrow> index_search ix v k = Inr (take k (sort_key search_order (ip_scores ix v)))"
  by (simp add: index_search_def)

lemma sorted_search_order_hd:
  "sorted (map search_order ys) \<Longrightarrow> y \<in> set ys \<Longrightarrow> snd y \<le> snd (hd ys)"
  by (cases ys) (auto simp: search_order_le less_imp_le)

lemma search_order_eq: "search_order = (\<lambda>(i, s). (- s, i))"
  by (auto simp: search_order_def)

lemma ip_scores_nth_mem:
  "i < ntotal ix \<Longrightarrow> (int i, fvec_inner_product q (xb ix ! i)) \<in> set (ip_scores ix q)"
  by (simp add: ip_scores_member)

lemma sorted_desc_index_search:
  "index_search ix q k = Inr res \<Longrightarrow> sorted_desc (map snd res)"
  by (rule sorted_neg_fst_desc) (simp add: sorted_index_search flip: search_order_eq)

end
