(* ===== verification/Build.thy ===== *)
theory Build
  imports Profile VectorIndex
begin

text \<open>
  The offline batch job \<open>generate_assets\<close> of
  src/us_foodscope/health/serving/generate_assets.py: join the two tables,
  build one chunk per joined row, embed every chunk's text with the
  sentence-transformer model, L2-normalise the embeddings, add them in order
  to a fresh \<open>IndexFlatIP\<close> whose dimension is the embeddings' width, and
  return the pair that is then written to the two artifacts. The model is
  the \<open>embedder\<close> parameter; writing the artifacts is the identity on the
  pair (faiss and pickle serialisation are not modelled).
\<close>

text \<open>\<open>np.array(model.encode(texts)).astype('float32')\<close>: rows of different
  widths cannot form an array.\<close>

definition embed_texts :: "embedder \<Rightarrow> string list \<Rightarrow> exn + vec list" where
  "embed_texts model texts =
     (let es = map model texts in
      if list_all (\<lambda>e. length e = length (hd es)) es then Inr es else Inl ValueError)"

text \<open>
  \<open>embeddings.shape[1]\<close> of an empty batch is an \<open>IndexError\<close>: a build with
  no rows fails before any index exists.
\<close>

definition generate_assets ::
  "embedder \<Rightarrow> row list \<Rightarrow> row list option \<Rightarrow> exn + (index_flat_ip \<times> chunk list)" where
  "generate_assets model df_main df_worst =
     (case combine_tables df_main df_worst of
        Inl e \<Rightarrow> Inl e
      | Inr df_combined \<Rightarrow>
          (let chunks = build_chunks df_combined;
               texts = map row_to_text df_combined
           in case embed_texts model texts of
                Inl e \<Rightarrow> Inl e
              | Inr raw \<Rightarrow>
                  (let embeddings = map normalize_L2 raw
                   in case embeddings of
                        [] \<Rightarrow> Inl IndexError
                      | e # _ \<Rightarrow>
                          (case index_add (index_new (length e)) embeddings of
                             Inl err \<Rightarrow> Inl err
                           | Inr index \<Rightarrow> Inr (index, chunks)))))"

text \<open>
  The pairing contract of the two artifacts (spec section 3): as many vectors
  as chunks, every chunk's id its position, and the \<open>i\<close>-th vector the
  normalised embedding of the \<open>i\<close>-th chunk's text.
\<close>

definition artifacts_paired :: "embedder \<Rightarrow> index_flat_ip \<Rightarrow> chunk list \<Rightarrow> bool" where
  "artifacts_paired model ix cs \<longleftrightarrow>
     ntotal ix = length cs
     \<and> list_all (\<lambda>(i, c). chunk_id c = i \<and> xb ix ! i = normalize_L2 (model (chunk_text c)))
          (enumerate 0 cs)"

section \<open>The scenario of the spec's end-to-end test\<close>

text \<open>
  Three county profiles (Alpha, CA with 40\% obesity; Beta, TX with 10\%;
  Gamma, NY with 25\%), no risk table, and a deterministic two-dimensional
  embedder that places the question ``which county has the highest obesity
  rate'' closest to Alpha's profile. Used to instantiate the theorems below.
\<close>

definition scenario_rows :: "row list" where
  "scenario_rows =
     [[(''County'', Cell ''Alpha''), (''State'', Cell ''CA''), (''Adult_Obesity_Rate13'', Cell ''40'')],
      [(''County'', Cell ''Beta''), (''State'', Cell ''TX''), (''Adult_Obesity_Rate13'', Cell ''10'')],
      [(''County'', Cell ''Gamma''), (''State'', Cell ''NY''), (''Adult_Obesity_Rate13'', Cell ''25'')]]"

definition scenario_query :: string where
  "scenario_query = ''which county has the highest obesity rate''"

definition scenario_embed :: embedder where
  "scenario_embed t =
     (if t = scenario_query then [0.96, 0.28]
      else if take 27 t = ''Comprehensive Profile for A'' then [1, 0]
      else if take 27 t = ''Comprehensive Profile for B'' then [0, 1] else [0.6, 0.8])"

definition scenario_index :: index_flat_ip where
  "scenario_index = \<lparr>dim = 2, xb = [[1, 0], [0, 1], [0.6, 0.8]]\<rparr>"

definition scenario_chunks :: "chunk list" where
  "scenario_chunks = build_chunks scenario_rows"

section \<open>The build produces a paired index and chunk list\<close>

lemma embed_texts_Inr: "embed_texts model texts = Inr es \<Longrightarrow> es = map model texts"
  by (simp add: embed_texts_def Let_def split: if_splits)

lemma generate_assets_Inr:
  assumes "generate_assets model main worst = Inr (ix, cs)"
  shows "\<exists>rows. combine_tables main worst = Inr rows \<and> cs = build_chunks rows
           \<and> xb ix = map (normalize_L2 \<circ> model \<circ> row_to_text) rows"
  using assms
  by (auto simp: generate_assets_def index_add_def index_new_def Let_def
           dest!: embed_texts_Inr split: sum.splits list.splits if_splits)

lemma artifacts_paired_nth:
  assumes "artifacts_paired m ix cs" "i < length cs"
  shows "chunk_id (cs ! i) = i \<and> xb ix ! i = normalize_L2 (m (chunk_text (cs ! i)))"
proof -
  have "(i, cs ! i) \<in> set (enumerate 0 cs)"
    using assms(2) by (simp add: in_set_enumerate_eq)
  with assms(1) show ?thesis
    by (auto simp: artifacts_paired_def list_all_iff)
qed

lemmas scenario_eval_defs =
  scenario_rows_def scenario_embed_def scenario_query_def scenario_index_def scenario_chunks_def
  row_to_text_def profile_line_defs row_get_def Let_def nl_def normalize_L2_def
  fvec_norm_L2sqr_def

lemma scenario_build:
  "generate_assets scenario_embed scenario_rows None = Inr (scenario_index, scenario_chunks)"
  by (simp add: generate_assets_def combine_tables_def embed_texts_def index_add_def
      index_new_def scenario_eval_defs)

lemma scenario_paired: "artifacts_paired scenario_embed scenario_index scenario_chunks"
  by (simp add: artifacts_paired_def build_chunks_def make_chunk_def scenario_eval_defs)

lemma generate_assets_norm:
  assumes "generate_assets model main worst = Inr (ix, cs)" "i < length cs"
  shows "xb ix ! i = normalize_L2 (model (chunk_text (cs ! i)))"
proof -
  from generate_assets_Inr[OF assms(1)] obtain rows where
    cs: "cs = build_chunks rows" and xb: "xb ix = map (normalize_L2 \<circ> model \<circ> row_to_text) rows"
    by blast
  show ?thesis using assms(2) by (simp add: cs xb make_chunk_def)
qed

lemma generate_assets_pairs:
  assumes "generate_assets model main worst = Inr (ix, cs)"
  shows "artifacts_paired model ix cs"
proof -
  from generate_assets_Inr[OF assms] obtain rows where
    cs: "cs = build_chunks rows" and xb: "xb ix = map (normalize_L2 \<circ> model \<circ> row_to_text) rows"
    by blast
  show ?thesis
    by (auto simp: artifacts_paired_def cs xb list_all_iff in_set_enumerate_eq make_chunk_def)
qed

section \<open>Properties of the build\<close>

text \<open>
  C1. Positional invariant: a successful build returns an index with exactly
  one vector per chunk, every chunk's id is its position, and the vector at
  position \<open>i\<close> is the L2-normalised embedding of chunk \<open>i\<close>'s text.
\<close>

theorem generate_assets_paired:
  assumes "generate_assets model main worst = Inr (ix, cs)"
  shows "artifacts_paired model ix cs"
  by (rule generate_assets_pairs[OF assms])


theorem generate_assets_paired_witness:
  "artifacts_paired scenario_embed scenario_index scenario_chunks"
  using generate_assets_paired [OF scenario_build] .

text \<open>
  C14. Every vector the build stores for a text with a non-zero embedding has
  inner product 1 with itself: the index holds unit vectors, so inner-product
  search is cosine similarity.
\<close>

theorem generate_assets_unit_vectors:
  assumes "generate_assets model main worst = Inr (ix, cs)" "i < length cs"
    "0 < fvec_norm_L2sqr (model (chunk_text (cs ! i)))"
  shows "fvec_inner_product (xb ix ! i) (xb ix ! i) = 1"
  using generate_assets_norm[OF assms(1,2)] normalize_L2_unit[OF assms(3)]
  by (simp add: inner_self)

theorem generate_assets_unit_vectors_witness:
  "fvec_inner_product (xb scenario_index ! 0) (xb scenario_index ! 0) = 1"
proof -
  have "0 < fvec_norm_L2sqr (scenario_embed (chunk_text (scenario_chunks ! 0)))"
    by (simp add: build_chunks_def make_chunk_def scenario_eval_defs)
  then show ?thesis
    using generate_assets_unit_vectors [OF scenario_build, of 0]
    by (simp add: scenario_chunks_def scenario_rows_def build_chunks_def)
qed

end
