(* ===== verification/RagService.thy ===== *)
theory RagService
  imports Build
begin

text \<open>
  The online half of the RAG pipeline: class \<open>RAGService\<close> of
  src/us_foodscope/health/serving/rag_service.py. Its state is the record
  \<open>rag_state\<close> (the attributes set by \<open>__init__\<close>); \<open>initialize\<close>, \<open>retrieve\<close>
  and \<open>ask\<close> are its three methods. What the methods read from the outside
  world is explicit: \<open>rag_env\<close> says whether the embedding model loads,
  what the two artifact files hold and what \<open>GROQ_API_KEY\<close> is; \<open>groq_api\<close>
  is the remote chat-completion call (an error message or the completion's
  content). A method that raises returns the exception with the state as far
  as it got (\<open>py_eff\<close>).
\<close>

section \<open>State and environment\<close>

record rag_state =
  model :: "embedder option"
  index :: "index_flat_ip option"
  chunks :: "chunk list"
  client :: "string option"
  initialized :: bool

text \<open>\<open>RAGService.__init__\<close>: nothing loaded. The paths and the model name are
  constants of the deployment and are not modelled.\<close>

definition rag_init :: rag_state where
  "rag_init = \<lparr>model = None, index = None, chunks = [], client = None, initialized = False\<rparr>"

text \<open>What an artifact path holds: no file, a file the reader rejects, or a value.\<close>

datatype 'a artifact = Missing | Unreadable | Loaded 'a

record rag_env =
  st_model :: "embedder option"
  index_file :: "index_flat_ip artifact"
  chunks_file :: "chunk list artifact"
  groq_api_key :: "string option"

section \<open>initialize\<close>

definition load_embedding_model :: "rag_env \<Rightarrow> rag_state \<Rightarrow> rag_state py_eff" where
  "load_embedding_model env s =
     (case st_model env of None \<Rightarrow> (Some OSError, s) | Some m \<Rightarrow> (None, s\<lparr>model := Some m\<rparr>))"

definition load_faiss_index :: "rag_env \<Rightarrow> rag_state \<Rightarrow> rag_state py_eff" where
  "load_faiss_index env s =
     (case index_file env of
        Missing \<Rightarrow> (None, s)
      | Unreadable \<Rightarrow> (Some FaissError, s)
      | Loaded ix \<Rightarrow> (None, s\<lparr>index := Some ix\<rparr>))"

definition load_chunks :: "rag_env \<Rightarrow> rag_state \<Rightarrow> rag_state py_eff" where
  "load_chunks env s =
     (case chunks_file env of
        Missing \<Rightarrow> (None, s)
      | Unreadable \<Rightarrow> (Some UnpicklingError, s)
      | Loaded cs \<Rightarrow> (None, s\<lparr>chunks := cs\<rparr>))"

text \<open>\<open>if api_key:\<close> an empty key counts as absent.\<close>

definition load_groq_client :: "rag_env \<Rightarrow> rag_state \<Rightarrow> rag_state py_eff" where
  "load_groq_client env s =
     (case groq_api_key env of
        Some k \<Rightarrow> (if k \<noteq> [] then (None, s\<lparr>client := Some k\<rparr>) else (None, s))
      | None \<Rightarrow> (None, s))"

definition initialize :: "rag_env \<Rightarrow> rag_state \<Rightarrow> rag_state py_eff" where
  "initialize env s =
     (if initialized s then (None, s)
      else then_do (load_embedding_model env s) (\<lambda>s.
           then_do (load_faiss_index env s) (\<lambda>s.
           then_do (load_chunks env s) (\<lambda>s.
           then_do (load_groq_client env s) (\<lambda>s.
             (None, s\<lparr>initialized := True\<rparr>))))))"

section \<open>retrieve\<close>

text \<open>
  The loop over faiss's result row: a label outside the chunk list is
  skipped, a score is clamped to [0, 1].
\<close>

fun collect_results :: "chunk list \<Rightarrow> (int \<times> real) list \<Rightarrow> (chunk \<times> real) list" where
  "collect_results cs [] = []"
| "collect_results cs ((idx, d) # rs) =
     (if 0 \<le> idx \<and> idx < int (length cs)
      then (cs ! nat idx, clip 0 1 d) # collect_results cs rs
      else collect_results cs rs)"

definition retrieve :: "rag_state \<Rightarrow> string \<Rightarrow> nat \<Rightarrow> exn + (chunk \<times> real) list" where
  "retrieve s query top_k =
     (case index s of
        None \<Rightarrow> Inr []
      | Some ix \<Rightarrow>
          if chunks s = [] then Inr []
          else (case model s of
                  None \<Rightarrow> Inl AttributeError
                | Some m \<Rightarrow>
                    (case index_search ix (normalize_L2 (m query)) top_k of
                       Inl e \<Rightarrow> Inl e
                     | Inr res \<Rightarrow> Inr (collect_results (chunks s) res))))"

section \<open>ask\<close>

text \<open>The chat-completion request \<open>ask\<close> sends.\<close>

record completion_request =
  req_model :: string
  req_messages :: "(string \<times> string) list"
  req_temperature :: real
  req_max_tokens :: nat

type_synonym groq_api = "string \<Rightarrow> completion_request \<Rightarrow> string + string"

text \<open>\<open>c.metadata.get('county', 'Unknown')\<close>: the key is always present, so the
  stored value is printed (\<open>None\<close> when the row had no County column).\<close>

definition source_tag :: "chunk \<Rightarrow> string" where
  "source_tag c =
     ''[Source: '' @ py_str (county (metadata c)) @ '', '' @ py_str (state (metadata c))
     @ ''] '' @ chunk_text c"

definition build_context :: "(chunk \<times> real) list \<Rightarrow> string" where
  "build_context rel = py_join (nl @ nl) (map (\<lambda>(c, _). source_tag c) rel)"

definition build_prompt :: "string \<Rightarrow> string \<Rightarrow> string" where
  \<open>build_prompt context query =
     nl
     @ ''        You are an expert in U.S. food environment and health analysis. '' @ nl
     @ ''        Use the following retrieved context to answer the user's question accurately.'' @ nl
     @ ''        '' @ nl
     @ ''        FORMATTING & STYLE RULES:'' @ nl
     @ ''        1. NEVER mention words like "context", "provided data", "the text above", or "based on the information" in your response.'' @ nl
     @ ''        2. Speak directly as an expert performing the analysis.'' @ nl
     @ ''        3. Use **bold text** for key metrics like percentages or scores.'' @ nl
     @ ''        4. Use bullet points for lists of facts or recommendations.'' @ nl
     @ ''        5. Use Markdown TABLES when comparing data for two or more counties.'' @ nl
     @ ''        6. Keep your tone professional, authoritative, and data-driven.'' @ nl
     @ ''        '' @ nl
     @ ''        Context:'' @ nl
     @ ''        '' @ context @ nl
     @ ''        '' @ nl
     @ ''        User Question: '' @ query @ nl
     @ ''        '' @ nl
     @ ''        Answer:'' @ nl
     @ ''        ''\<close>

definition completion_request_of :: "string \<Rightarrow> completion_request" where
  "completion_request_of prompt =
     \<lparr>req_model = ''llama-3.3-70b-versatile'', req_messages = [(''user'', prompt)],
      req_temperature = 0.2, req_max_tokens = 1024\<rparr>"

text \<open>\<open>source_info = c.metadata.copy(); source_info["similarity"] = score\<close>.\<close>

record source =
  src_county :: "cell option"
  src_state :: "cell option"
  src_is_high_risk :: bool
  similarity :: real

definition source_info :: "chunk \<times> real \<Rightarrow> source" where
  "source_info p =
     \<lparr>src_county = county (metadata (fst p)), src_state = state (metadata (fst p)),
      src_is_high_risk = is_high_risk (metadata (fst p)), similarity = snd p\<rparr>"

text \<open>The dict \<open>ask\<close> returns: \<open>{"error": ...}\<close>, or answer, sources and context.\<close>

datatype ask_result =
    AskError string
  | AskAnswer string "source list" string

definition groq_missing_msg :: string where
  "groq_missing_msg = ''Groq client not initialized. Set GROQ_API_KEY environment variable.''"

definition ask :: "rag_env \<Rightarrow> groq_api \<Rightarrow> rag_state \<Rightarrow> string \<Rightarrow> (exn + ask_result) \<times> rag_state" where
  "ask env groq s query =
     (let (r, s1) = (if \<not> initialized s then initialize env s else (None, s))
      in case r of
           Some e \<Rightarrow> (Inl e, s1)
         | None \<Rightarrow>
             (case client s1 of
                None \<Rightarrow> (Inr (AskError groq_missing_msg), s1)
              | Some key \<Rightarrow>
                  (case retrieve s1 query 10 of
                     Inl e \<Rightarrow> (Inl e, s1)
                   | Inr relevant_chunks \<Rightarrow>
                       (let context = build_context relevant_chunks;
                            prompt = build_prompt context query
                        in case groq key (completion_request_of prompt) of
                             Inl err \<Rightarrow> (Inr (AskError err), s1)
                           | Inr response_text \<Rightarrow>
                               (Inr (AskAnswer response_text (map source_info relevant_chunks)
                                       context), s1)))))"

section \<open>The service as a state machine\<close>

text \<open>
  A step is one call of a public method, against whatever environment the
  process sees at that moment (files may appear, the key may be set later).
\<close>

inductive rag_step :: "rag_state \<Rightarrow> rag_state \<Rightarrow> bool" where
  step_initialize: "rag_step s (snd (initialize env s))"
| step_ask: "rag_step s (snd (ask env groq s q))"

inductive rag_reachable :: "rag_state \<Rightarrow> bool" where
  reach_init: "rag_reachable rag_init"
| reach_step: "rag_reachable s \<Longrightarrow> rag_step s t \<Longrightarrow> rag_reachable t"

text \<open>
  The spec's lifecycle states (section 4.7) as an abstraction of the code's
  attributes: READY when the model, the index and a non-empty chunk list are
  loaded, DEGRADED when initialisation completed without them.
\<close>

datatype rag_status = UNINITIALIZED | READY | DEGRADED

definition status_of :: "rag_state \<Rightarrow> rag_status" where
  "status_of s =
     (if \<not> initialized s then UNINITIALIZED
      else if index s \<noteq> None \<and> chunks s \<noteq> [] \<and> model s \<noteq> None then READY else DEGRADED)"

definition artifact_present :: "'a artifact \<Rightarrow> bool" where
  "artifact_present a = (case a of Loaded _ \<Rightarrow> True | _ \<Rightarrow> False)"

text \<open>
  A sequence of public calls in one environment, and the environments in
  which initialisation finds everything: the model, the index and a
  non-empty chunk list.
\<close>

datatype rag_op = OpInitialize | OpAsk string

fun rag_run :: "rag_env \<Rightarrow> groq_api \<Rightarrow> rag_op list \<Rightarrow> rag_state \<Rightarrow> rag_state" where
  "rag_run env groq [] s = s"
| "rag_run env groq (OpInitialize # ops) s = rag_run env groq ops (snd (initialize env s))"
| "rag_run env groq (OpAsk q # ops) s = rag_run env groq ops (snd (ask env groq s q))"

definition env_ready :: "rag_env \<Rightarrow> bool" where
  "env_ready env \<longleftrightarrow>
     st_model env \<noteq> None \<and> artifact_present (index_file env) \<and>
     (case chunks_file env of Loaded cs \<Rightarrow> cs \<noteq> [] | _ \<Rightarrow> False)"

text \<open>The invariant of reachable states: the model is loaded before anything else.\<close>

definition rag_inv :: "rag_state \<Rightarrow> bool" where
  "rag_inv s \<longleftrightarrow> (index s \<noteq> None \<longrightarrow> model s \<noteq> None) \<and> (initialized s \<longrightarrow> model s \<noteq> None)"

section \<open>The scenario deployment\<close>

text \<open>
  The build of the end-to-end scenario (theory Build) deployed: both artifacts
  present, a key set, and a completion endpoint that answers every request.
\<close>

definition scenario_env :: rag_env where
  "scenario_env = \<lparr>st_model = Some scenario_embed, index_file = Loaded scenario_index,
                   chunks_file = Loaded scenario_chunks, groq_api_key = Some ''gsk_test''\<rparr>"

definition scenario_state :: rag_state where
  "scenario_state = \<lparr>model = Some scenario_embed, index = Some scenario_index,
                     chunks = scenario_chunks, client = Some ''gsk_test'', initialized = True\<rparr>"

definition scenario_groq :: groq_api where
  "scenario_groq key req = Inr ''Alpha, CA has the highest adult obesity rate (40%).''"

section \<open>Lemmas on retrieve\<close>

lemma collect_results_eq:
  "collect_results cs rs =
     map (\<lambda>(i, d). (cs ! nat i, clip 0 1 d)) (filter (\<lambda>(i, d). 0 \<le> i \<and> i < int (length cs)) rs)"
  by (induction cs rs rule: collect_results.induct) auto

lemma collect_results_in_range:
  "list_all (\<lambda>(i, d). 0 \<le> i \<and> i < int (length cs)) rs \<Longrightarrow>
   collect_results cs rs = map (\<lambda>(i, d). (cs ! nat i, clip 0 1 d)) rs"
  by (induction cs rs rule: collect_results.induct) auto

lemma collect_results_props:
  "length (collect_results cs rs) \<le> length rs
   \<and> list_all (\<lambda>p. 0 \<le> snd p \<and> snd p \<le> 1 \<and> fst p \<in> set cs) (collect_results cs rs)"
  by (induction cs rs rule: collect_results.induct) (auto simp: clip_def)

lemma sorted_desc_collect_results:
  "sorted_desc (map snd rs) \<Longrightarrow> sorted_desc (map snd (collect_results cs rs))"
proof -
  assume "sorted_desc (map snd rs)"
  then have "sorted_desc (map snd (filter (\<lambda>(i, d). 0 \<le> i \<and> i < int (length cs)) rs))"
    by (rule sorted_desc_filter_map)
  then have "sorted_desc (map (clip 0 1) (map snd (filter (\<lambda>(i, d). 0 \<le> i \<and> i < int (length cs)) rs)))"
    by (rule sorted_desc_map_clip)
  then show ?thesis by (simp add: collect_results_eq o_def case_prod_beta)
qed

lemma index_search_in_range:
  assumes "index_search ix v k = Inr raw" "ntotal ix = length cs"
  shows "list_all (\<lambda>(i, d). 0 \<le> i \<and> i < int (length cs)) raw"
  using index_search_member[OF assms(1)] assms(2) by (auto simp: list_all_iff)

lemma retrieve_Inr_cases:
  assumes "retrieve s q k = Inr res"
  shows "res = [] \<or> (\<exists>ix m raw. index s = Some ix \<and> model s = Some m \<and> chunks s \<noteq> []
            \<and> index_search ix (normalize_L2 (m q)) k = Inr raw \<and> res = collect_results (chunks s) raw)"
  using assms by (auto simp: retrieve_def split: option.splits if_splits sum.splits)

text \<open>What every successful \<open>retrieve\<close> returns, whatever the state.\<close>

lemma retrieve_Inr_props:
  assumes "retrieve s q k = Inr res"
  shows "length res \<le> k \<and> sorted_desc (map snd res)
         \<and> list_all (\<lambda>p. 0 \<le> snd p \<and> snd p \<le> 1 \<and> fst p \<in> set (chunks s)) res"
proof (cases "res = []")
  case True
  then show ?thesis by simp
next
  case False
  with retrieve_Inr_cases[OF assms] obtain ix m raw where
    raw: "index_search ix (normalize_L2 (m q)) k = Inr raw" and res: "res = collect_results (chunks s) raw"
    by blast
  have "length raw \<le> k" using length_index_search[OF raw] by simp
  moreover have "sorted_desc (map snd raw)" using sorted_desc_index_search[OF raw] .
  ultimately show ?thesis
    using collect_results_props[of "chunks s" raw] sorted_desc_collect_results
    by (auto simp: res)
qed

text \<open>A loaded, consistent service: faiss's labels all name chunks.\<close>

lemma retrieve_loaded:
  assumes "index s = Some ix" "model s = Some m" "chunks s \<noteq> []"
    "ntotal ix = length (chunks s)" "length (m q) = dim ix"
  shows "retrieve s q k = Inr (map (\<lambda>(i, d). (chunks s ! nat i, clip 0 1 d))
            (take k (sort_key search_order (ip_scores ix (normalize_L2 (m q))))))"
proof -
  have ok: "index_search ix (normalize_L2 (m q)) k
              = Inr (take k (sort_key search_order (ip_scores ix (normalize_L2 (m q)))))"
    using assms(5) by (simp add: index_search_ok)
  show ?thesis
    using assms(1-3) ok index_search_in_range[OF ok assms(4)]
    by (simp add: retrieve_def collect_results_in_range)
qed

section \<open>Lemmas on initialize and ask\<close>

lemmas rag_loader_defs =
  load_embedding_model_def load_faiss_index_def load_chunks_def load_groq_client_def

lemma load_groq_client_eq:
  "load_groq_client env s =
     (None, s\<lparr>client := (case groq_api_key env of
                           Some k \<Rightarrow> if k \<noteq> [] then Some k else client s
                         | None \<Rightarrow> client s)\<rparr>)"
  by (simp add: load_groq_client_def split: option.splits)

lemma initialize_initialized [simp]: "initialized s \<Longrightarrow> initialize env s = (None, s)"
  by (simp add: initialize_def)

lemma ask_state: "snd (ask env groq s q) = (if initialized s then s else snd (initialize env s))"
  by (auto simp: ask_def Let_def split: prod.splits option.splits sum.splits)

lemma initialize_keeps_inv: "rag_inv s \<Longrightarrow> rag_inv (snd (initialize env s))"
  by (auto simp: rag_inv_def initialize_def rag_loader_defs
           split: option.splits artifact.splits if_splits)

lemma rag_step_inv: "rag_step s t \<Longrightarrow> rag_inv s \<Longrightarrow> rag_inv t"
  by (induction rule: rag_step.induct) (simp_all add: ask_state initialize_keeps_inv)

lemma rag_reachable_inv: "rag_reachable s \<Longrightarrow> rag_inv s"
proof (induction rule: rag_reachable.induct)
  case reach_init
  show ?case by (simp add: rag_inv_def rag_init_def)
next
  case (reach_step s t)
  then show ?case by (blast intro: rag_step_inv)
qed

lemma ask_Inr_answer:
  assumes "ask env groq s q = (Inr (AskAnswer a srcs ctx), s')"
  shows "\<exists>key rel. client s' = Some key \<and> retrieve s' q 10 = Inr rel
           \<and> ctx = build_context rel \<and> srcs = map source_info rel
           \<and> groq key (completion_request_of (build_prompt ctx q)) = Inr a"
  using assms
  by (auto simp: ask_def Let_def split: prod.splits option.splits sum.splits if_splits)

section \<open>The scenario evaluated\<close>

lemma scenario_chunks_length: "length scenario_chunks = 3"
  by (simp add: scenario_chunks_def scenario_rows_def)

lemma scenario_initialize: "initialize scenario_env rag_init = (None, scenario_state)"
  by (simp add: initialize_def rag_loader_defs scenario_env_def scenario_state_def rag_init_def)

lemma scenario_reachable: "rag_reachable scenario_state"
  using reach_step [OF reach_init step_initialize [of rag_init scenario_env]]
  by (simp add: scenario_initialize)

lemma scenario_state_simps:
  "initialized scenario_state" "client scenario_state = Some ''gsk_test''"
  by (simp_all add: scenario_state_def)

lemma scenario_query_dim: "length (scenario_embed scenario_query) = dim scenario_index"
  by (simp add: scenario_embed_def scenario_index_def)

lemma scenario_retrieve:
  "retrieve scenario_state scenario_query 10 =
     Inr [(scenario_chunks ! 0, 0.96), (scenario_chunks ! 2, 0.8), (scenario_chunks ! 1, 0.28)]"
proof -
  have "retrieve scenario_state scenario_query 10 =
          Inr (map (\<lambda>(i, d). (chunks scenario_state ! nat i, clip 0 1 d))
            (take 10 (sort_key search_order (ip_scores scenario_index
               (normalize_L2 (scenario_embed scenario_query))))))"
    by (rule retrieve_loaded)
       (simp_all add: scenario_state_def scenario_chunks_length scenario_query_dim
          flip: length_greater_0_conv, simp add: scenario_index_def)
  also have "\<dots> = Inr [(scenario_chunks ! 0, 0.96), (scenario_chunks ! 2, 0.8), (scenario_chunks ! 1, 0.28)]"
    by (simp add: scenario_index_def scenario_embed_def scenario_query_def normalize_L2_def
        fvec_norm_L2sqr_def ip_scores_def fvec_inner_product_def search_order_def clip_def
        scenario_state_def)
  finally show ?thesis .
qed

section \<open>Properties of retrieve\<close>

text \<open>
  C2. Retrieval returns the best match first: on a loaded service whose index
  and chunk list are paired (as the build makes them), with a query embedding
  of the index's dimension and \<open>k > 0\<close>, \<open>retrieve\<close> succeeds with a
  non-empty result whose first similarity is at least the (clamped) cosine
  similarity of the query with any chunk of the store.
\<close>

theorem retrieve_top_is_best:
  assumes "index s = Some ix" "model s = Some m" "artifacts_paired m ix (chunks s)"
    "length (m q) = dim ix" "0 < k" "chunks s \<noteq> []"
  shows "\<exists>res. retrieve s q k = Inr res \<and> res \<noteq> [] \<and>
           (\<forall>c \<in> set (chunks s).
              clip 0 1 (fvec_inner_product (normalize_L2 (m q)) (normalize_L2 (m (chunk_text c))))
                \<le> snd (hd res))"
proof -
  let ?qv = "normalize_L2 (m q)"
  let ?ys = "sort_key search_order (ip_scores ix ?qv)"
  let ?res = "map (\<lambda>(i, d). (chunks s ! nat i, clip 0 1 d)) (take k ?ys)"
  have n: "ntotal ix = length (chunks s)"
    using assms(3) by (simp add: artifacts_paired_def)
  have r: "retrieve s q k = Inr ?res"
    by (rule retrieve_loaded[OF assms(1,2,6) n assms(4)])
  have "length ?ys = length (chunks s)" using n by simp
  then have ys_ne: "?ys \<noteq> []" using assms(6) by (metis length_0_conv)
  have hd: "snd (hd ?res) = clip 0 1 (snd (hd ?ys))"
    using ys_ne assms(5) by (cases ?ys) (auto simp: take_Cons')
  have best: "clip 0 1 (fvec_inner_product ?qv (normalize_L2 (m (chunk_text c)))) \<le> snd (hd ?res)"
    if "c \<in> set (chunks s)" for c
  proof -
    from that obtain i where i: "i < length (chunks s)" "chunks s ! i = c"
      by (auto simp: in_set_conv_nth)
    have xi: "xb ix ! i = normalize_L2 (m (chunk_text c))"
      using artifacts_paired_nth[OF assms(3) i(1)] i(2) by simp
    have mem: "(int i, fvec_inner_product ?qv (xb ix ! i)) \<in> set ?ys"
      using ip_scores_nth_mem[of i ix ?qv] i n by simp
    have "snd (int i, fvec_inner_product ?qv (xb ix ! i)) \<le> snd (hd ?ys)"
      by (rule sorted_search_order_hd[OF sorted_sort_key mem])
    then have "fvec_inner_product ?qv (xb ix ! i) \<le> snd (hd ?ys)" by simp
    then show ?thesis by (simp add: hd xi clip_mono)
  qed
  show ?thesis
    using r ys_ne assms(5) best by auto
qed

theorem retrieve_top_is_best_witness:
  "\<exists>res. retrieve scenario_state scenario_query 10 = Inr res \<and> res \<noteq> [] \<and>
     (\<forall>c \<in> set scenario_chunks.
        clip 0 1 (fvec_inner_product (normalize_L2 (scenario_embed scenario_query))
                    (normalize_L2 (scenario_embed (chunk_text c)))) \<le> snd (hd res))"
  using retrieve_top_is_best [of scenario_state scenario_index scenario_embed scenario_query 10]
    scenario_paired scenario_chunks_length
  by (simp add: scenario_state_def scenario_index_def scenario_embed_def scenario_query_def
      flip: length_greater_0_conv)

text \<open>
  C3. Top-k monotonicity: the similarities \<open>retrieve\<close> returns are in
  descending order, whatever the state (also after the clamp and after
  out-of-range labels are dropped).
\<close>

theorem retrieve_sorted:
  "retrieve s q k = Inr res \<Longrightarrow> sorted_desc (map snd res)"
  by (drule retrieve_Inr_props) simp

theorem retrieve_sorted_witness:
  "sorted_desc (map snd [(scenario_chunks ! 0, 0.96 :: real), (scenario_chunks ! 2, 0.8),
                         (scenario_chunks ! 1, 0.28)])"
  using retrieve_sorted [OF scenario_retrieve] .

text \<open>
  C4. Score bounds: every similarity \<open>retrieve\<close> returns lies in [0, 1], and
  every returned chunk is a chunk of the store.
\<close>

theorem retrieve_similarity_bounds:
  "retrieve s q k = Inr res \<Longrightarrow> (c, x) \<in> set res \<Longrightarrow> 0 \<le> x \<and> x \<le> 1 \<and> c \<in> set (chunks s)"
  by (drule retrieve_Inr_props) (auto simp: list_all_iff)

theorem retrieve_similarity_bounds_witness:
  "0 \<le> (0.96 :: real) \<and> (0.96 :: real) \<le> 1 \<and> scenario_chunks ! 0 \<in> set (chunks scenario_state)"
  using retrieve_similarity_bounds [OF scenario_retrieve, of "scenario_chunks ! 0" "0.96"]
  by simp



text \<open>
  C6. Empty-index behaviour: with no index loaded or an empty chunk list,
  \<open>retrieve\<close> returns the empty list, not an exception.
\<close>

theorem retrieve_unloaded:
  "index s = None \<or> chunks s = [] \<Longrightarrow> retrieve s q k = Inr []"
  by (auto simp: retrieve_def split: option.splits)

theorem retrieve_unloaded_witness: "retrieve rag_init scenario_query 10 = Inr []"
  using retrieve_unloaded [of rag_init] by (simp add: rag_init_def)

section \<open>Properties of the service lifecycle\<close>

text \<open>
  C8. Read-only after initialisation: once \<open>initialized\<close> is set, no call of
  \<open>initialize\<close> or \<open>ask\<close>, in any environment, changes the service's state;
  the loaded model, index, chunks and client are never mutated.
\<close>

theorem rag_frozen_after_initialize:
  "rag_step s t \<Longrightarrow> initialized s \<Longrightarrow> t = s"
  by (induction rule: rag_step.induct) (simp_all add: ask_state)

theorem rag_frozen_after_initialize_witness:
  "snd (ask scenario_env scenario_groq scenario_state scenario_query) = scenario_state"
  using rag_frozen_after_initialize [OF step_ask [of scenario_state scenario_env scenario_groq scenario_query]]
  by (simp add: scenario_state_def)

text \<open>
  C9. In every state reachable from \<open>__init__\<close> by calls of \<open>initialize\<close> and
  \<open>ask\<close>, \<open>retrieve\<close> never fails with \<open>AttributeError\<close> (\<open>self.model\<close> is
  \<open>None\<close> while an index is loaded): the model is always loaded first.
\<close>

theorem retrieve_reachable_no_attribute_error:
  "rag_reachable s \<Longrightarrow> retrieve s q k \<noteq> Inl AttributeError"
  using rag_reachable_inv[of s]
  by (auto simp: rag_inv_def retrieve_def index_search_def split: option.splits if_splits)

theorem retrieve_reachable_no_attribute_error_witness:
  "retrieve scenario_state scenario_query 10 \<noteq> Inl AttributeError"
  using retrieve_reachable_no_attribute_error [OF scenario_reachable] .

text \<open>
  C10. \<open>initialize\<close> refines the spec's lifecycle (section 4.7): from a fresh
  service, when the embedding model loads and no artifact file is unreadable,
  initialisation completes without an exception, in state READY when both
  artifacts are present and the chunk list is non-empty, and DEGRADED
  otherwise.
\<close>

theorem initialize_refines_status:
  assumes "st_model env = Some m" "index_file env \<noteq> Unreadable" "chunks_file env \<noteq> Unreadable"
  shows "fst (initialize env rag_init) = None \<and>
           status_of (snd (initialize env rag_init)) =
             (if artifact_present (index_file env) \<and> artifact_present (chunks_file env)
                 \<and> chunks_file env \<noteq> Loaded [] then READY else DEGRADED)"
  using assms
  by (cases "index_file env"; cases "chunks_file env")
     (simp_all add: initialize_def load_embedding_model_def load_faiss_index_def load_chunks_def
        load_groq_client_eq rag_init_def status_of_def artifact_present_def)

theorem initialize_refines_status_witness:
  "fst (initialize scenario_env rag_init) = None \<and> status_of (snd (initialize scenario_env rag_init)) = READY"
  using initialize_refines_status [of scenario_env scenario_embed] scenario_chunks_length
  by (auto simp: scenario_env_def artifact_present_def)

text \<open>
  C16. An index file faiss cannot read makes \<open>initialize\<close> raise after the
  model was assigned: the service stays UNINITIALIZED (and the next call
  retries), rather than completing in a degraded state.
\<close>

theorem initialize_unreadable_index:
  assumes "st_model env = Some m" "index_file env = Unreadable"
  shows "initialize env rag_init = (Some FaissError, rag_init\<lparr>model := Some m\<rparr>)
         \<and> status_of (rag_init\<lparr>model := Some m\<rparr>) = UNINITIALIZED"
  using assms by (simp add: initialize_def rag_loader_defs rag_init_def status_of_def)

theorem initialize_unreadable_index_witness:
  "initialize (scenario_env\<lparr>index_file := Unreadable\<rparr>) rag_init
     = (Some FaissError, rag_init\<lparr>model := Some scenario_embed\<rparr>)"
  using initialize_unreadable_index [of "scenario_env\<lparr>index_file := Unreadable\<rparr>" scenario_embed]
  by (simp add: scenario_env_def)

section \<open>Properties of ask\<close>

text \<open>
  C11. Within one \<open>ask\<close>, retrieval precedes generation: an answer is
  returned only when the service holds a client, \<open>retrieve(query, 10)\<close>
  succeeded on the resulting state, the context is built from exactly those
  results, the sources are their metadata with their scores, and the
  completion endpoint answered the prompt built from that context.
\<close>

theorem ask_retrieval_precedes_generation:
  assumes "ask env groq s q = (Inr (AskAnswer a srcs ctx), s')"
  shows "\<exists>key rel. client s' = Some key \<and> retrieve s' q 10 = Inr rel
           \<and> ctx = build_context rel \<and> srcs = map source_info rel
           \<and> groq key (completion_request_of (build_prompt ctx q)) = Inr a"
  using ask_Inr_answer[OF assms] .

lemma scenario_ask:
  "ask scenario_env scenario_groq scenario_state scenario_query =
     (Inr (AskAnswer ''Alpha, CA has the highest adult obesity rate (40%).''
        (map source_info [(scenario_chunks ! 0, 0.96), (scenario_chunks ! 2, 0.8), (scenario_chunks ! 1, 0.28)])
        (build_context [(scenario_chunks ! 0, 0.96), (scenario_chunks ! 2, 0.8), (scenario_chunks ! 1, 0.28)])),
      scenario_state)"
  by (simp add: ask_def scenario_retrieve scenario_groq_def scenario_state_simps)

theorem ask_retrieval_precedes_generation_witness:
  "\<exists>key rel. client scenario_state = Some key \<and> retrieve scenario_state scenario_query 10 = Inr rel"
  using ask_retrieval_precedes_generation [OF scenario_ask] by blast

text \<open>
  The sources of an answer: at most ten (\<open>top_k=10\<close>), ordered by
  descending similarity, every similarity in [0, 1].
\<close>

theorem ask_sources_bounded:
  assumes "ask env groq s q = (Inr (AskAnswer a srcs ctx), s')"
  shows "length srcs \<le> 10 \<and> sorted_desc (map similarity srcs)
         \<and> list_all (\<lambda>x. 0 \<le> similarity x \<and> similarity x \<le> 1) srcs"
proof -
  from ask_Inr_answer[OF assms] obtain rel where
    r: "retrieve s' q 10 = Inr rel" and srcs: "srcs = map source_info rel" by blast
  show ?thesis
    using retrieve_Inr_props[OF r] by (simp add: srcs list_all_iff source_info_def o_def)
qed

theorem ask_sources_bounded_witness:
  "length (map source_info [(scenario_chunks ! 0, 0.96), (scenario_chunks ! 2, 0.8),
            (scenario_chunks ! 1, 0.28)]) \<le> 10"
  using ask_sources_bounded [OF scenario_ask] by blast

text \<open>
  C15. Degraded mode without an index: when the service is initialised with a
  client but no index, \<open>ask\<close> does not answer with a fixed unavailability
  message; it sends the prompt with an empty context to the completion
  endpoint and returns its answer with no sources.
\<close>

theorem ask_degraded_calls_llm:
  assumes "initialized s" "index s = None" "client s = Some key"
  shows "ask env groq s q =
           (case groq key (completion_request_of (build_prompt [] q)) of
              Inl err \<Rightarrow> (Inr (AskError err), s)
            | Inr a \<Rightarrow> (Inr (AskAnswer a [] []), s))"
  using assms
  by (simp add: ask_def retrieve_def build_context_def split: sum.splits)

theorem ask_degraded_calls_llm_witness:
  "ask scenario_env scenario_groq (scenario_state\<lparr>index := None\<rparr>) scenario_query =
     (Inr (AskAnswer ''Alpha, CA has the highest adult obesity rate (40%).'' [] []),
      scenario_state\<lparr>index := None\<rparr>)"
  using ask_degraded_calls_llm [of "scenario_state\<lparr>index := None\<rparr>" "''gsk_test''"
          scenario_env scenario_groq scenario_query]
  by (simp add: scenario_state_def scenario_groq_def)

lemma rag_run_initialized: "initialized s \<Longrightarrow> rag_run env groq ops s = s"
  by (induction env groq ops s rule: rag_run.induct) (simp_all add: ask_state)

lemma rag_run_first:
  assumes "ops \<noteq> []" and "\<not> initialized s" and "initialized (snd (initialize env s))"
  shows "rag_run env groq ops s = snd (initialize env s)"
proof (cases ops)
  case (Cons op rest)
  then show ?thesis using assms by (cases op) (simp_all add: ask_state rag_run_initialized)
qed (use assms in simp)

text \<open>
  C31. Progress: in an environment where the model, the index and a
  non-empty chunk list are all available, a service that is not yet
  initialised is READY after its first public call, whichever it is, and
  stays READY through every later call.
\<close>

theorem rag_eventually_ready:
  assumes "\<not> initialized s" and "env_ready env" and "ops \<noteq> []"
  shows "status_of (rag_run env groq ops s) = READY"
proof -
  obtain m ix cs where env: "st_model env = Some m" "index_file env = Loaded ix" "chunks_file env = Loaded cs" "cs \<noteq> []"
    using assms(2) by (auto simp: env_ready_def artifact_present_def split: artifact.splits)
  have init: "snd (initialize env s) =
      s\<lparr>model := Some m, index := Some ix, chunks := cs, initialized := True,
        client := (case groq_api_key env of Some k \<Rightarrow> if k \<noteq> [] then Some k else client s | None \<Rightarrow> client s)\<rparr>"
    using assms(1) env by (simp add: initialize_def rag_loader_defs split: option.splits)
  show ?thesis
    using rag_run_first[OF assms(3,1)] init env(4) by (simp add: status_of_def)
qed

theorem rag_eventually_ready_witness:
  "\<not> initialized rag_init \<and> env_ready scenario_env \<and>
   status_of (rag_run scenario_env scenario_groq [OpAsk scenario_query, OpInitialize] rag_init) = READY"
proof -
  have "scenario_chunks \<noteq> []" using scenario_chunks_length by auto
  then have r: "env_ready scenario_env"
    by (simp add: env_ready_def scenario_env_def artifact_present_def)
  have i: "\<not> initialized rag_init" by (simp add: rag_init_def)
  show ?thesis using rag_eventually_ready[OF i r, of "[OpAsk scenario_query, OpInitialize]" scenario_groq] r i by simp
qed

end
