(* ===== verification/Assets.thy ===== *)
theory Assets
  imports RagService
begin

text \<open>
  The two artifact files between the offline build and the service:
  \<open>generate_assets\<close> of src/us_foodscope/health/serving/generate_assets.py
  as the script runs it (reading its CSV files from the serving directory,
  loading the embedding model by name, and writing the index and the pickled
  chunks to their paths), and \<open>RAGService\<close> of rag_service.py reading them
  back from its constructor's paths. The directory maps a path to what the
  file holds; faiss and pickle round-trip their values (the chunks are
  pickled instances of rag_service's own \<open>Chunk\<close> class, which
  generate_assets imports).
\<close>

section \<open>The serving directory\<close>

datatype asset_file = CsvFile "row list" | IndexFile index_flat_ip | PickleFile "chunk list" | OtherFile

type_synonym serving_dir = "string \<Rightarrow> asset_file option"

text \<open>
  \<open>pd.read_csv(path)\<close>: a missing file is \<open>FileNotFoundError\<close> (an
  \<open>OSError\<close>); a file pandas cannot parse raises its \<open>ParserError\<close> (a
  \<open>ValueError\<close>).
\<close>

definition read_csv_file :: "serving_dir \<Rightarrow> string \<Rightarrow> exn + row list" where
  "read_csv_file fs p =
     (case fs p of None \<Rightarrow> Inl OSError | Some (CsvFile rows) \<Rightarrow> Inr rows | Some _ \<Rightarrow> Inl ValueError)"

text \<open>
  The reads of \<open>initialize\<close>: \<open>os.path.exists\<close> decides between a missing
  artifact and a read, and a file of the wrong kind is one the reader
  rejects.
\<close>

definition index_artifact :: "asset_file option \<Rightarrow> index_flat_ip artifact" where
  "index_artifact f = (case f of None \<Rightarrow> Missing | Some (IndexFile ix) \<Rightarrow> Loaded ix | Some _ \<Rightarrow> Unreadable)"

definition chunks_artifact :: "asset_file option \<Rightarrow> chunk list artifact" where
  "chunks_artifact f = (case f of None \<Rightarrow> Missing | Some (PickleFile cs) \<Rightarrow> Loaded cs | Some _ \<Rightarrow> Unreadable)"

section \<open>generate_assets.py\<close>

text \<open>
  \<open>generate_assets(main_csv, worst_csv, output_index, output_chunks)\<close>:
  the main table is read, the risk table only when its path exists; the
  tables are joined and the chunks built before the model
  \<open>all-MiniLM-L6-v2\<close> is loaded (\<open>load\<close> gives the model of a name, or
  \<open>None\<close> when it cannot be loaded, an \<open>OSError\<close>); the build of theory
  Build follows, and its pair is written, the index first.
\<close>

definition embedding_model_name :: string where
  "embedding_model_name = ''all-MiniLM-L6-v2''"

definition generate_assets_files ::
  "(string \<Rightarrow> embedder option) \<Rightarrow> serving_dir \<Rightarrow> string \<Rightarrow> string \<Rightarrow> string \<Rightarrow> string \<Rightarrow> exn + serving_dir" where
  "generate_assets_files load fs main_csv worst_csv output_index output_chunks =
     (case read_csv_file fs main_csv of
        Inl e \<Rightarrow> Inl e
      | Inr df_main \<Rightarrow>
          (let worst = (if fs worst_csv \<noteq> None then Some (read_csv_file fs worst_csv) else None)
           in case worst of
                Some (Inl e) \<Rightarrow> Inl e
              | _ \<Rightarrow>
                  (let df_worst = map_option projr worst
                   in case combine_tables df_main df_worst of
                        Inl e \<Rightarrow> Inl e
                      | Inr _ \<Rightarrow>
                          (case load embedding_model_name of
                             None \<Rightarrow> Inl OSError
                           | Some emb \<Rightarrow>
                               (case generate_assets emb df_main df_worst of
                                  Inl e \<Rightarrow> Inl e
                                | Inr (ix, cs) \<Rightarrow>
                                    Inr (fs(output_index \<mapsto> IndexFile ix, output_chunks \<mapsto> PickleFile cs)))))))"

text \<open>\<open>if __name__ == "__main__": generate_assets()\<close>, with the default paths.\<close>

definition generate_assets_script :: "(string \<Rightarrow> embedder option) \<Rightarrow> serving_dir \<Rightarrow> exn + serving_dir" where
  "generate_assets_script load fs =
     generate_assets_files load fs ''rag_df.csv'' ''worst_cluster_counties.csv'' ''faiss_index.bin'' ''chunks.pkl''"

section \<open>RAGService's constructor\<close>

text \<open>
  \<open>RAGService(csv_path, index_path, chunks_path, model_name)\<close> as the
  environment \<open>initialize\<close> sees: the model loaded by name, the two
  artifact files at their paths, and \<open>GROQ_API_KEY\<close> (\<open>csv_path\<close> is
  stored and never read). app.py builds it with the defaults.
\<close>

definition rag_service_env ::
  "(string \<Rightarrow> embedder option) \<Rightarrow> serving_dir \<Rightarrow> string \<Rightarrow> string \<Rightarrow> string \<Rightarrow> string option \<Rightarrow> rag_env" where
  "rag_service_env load fs index_path chunks_path model_name key =
     \<lparr>st_model = load model_name, index_file = index_artifact (fs index_path),
      chunks_file = chunks_artifact (fs chunks_path), groq_api_key = key\<rparr>"

definition default_service_env :: "(string \<Rightarrow> embedder option) \<Rightarrow> serving_dir \<Rightarrow> string option \<Rightarrow> rag_env" where
  "default_service_env load fs key =
     rag_service_env load fs ''faiss_index.bin'' ''chunks.pkl'' embedding_model_name key"

text \<open>A directory holding only the scenario's main table (theory Build).\<close>

definition scenario_dir :: serving_dir where
  "scenario_dir = [''rag_df.csv'' \<mapsto> CsvFile scenario_rows]"

section \<open>Lemmas\<close>

lemma generate_assets_nonempty:
  assumes "generate_assets emb main worst = Inr (ix, cs)"
  shows "cs \<noteq> []"
proof -
  from generate_assets_Inr[OF assms] obtain rows where
    rows: "combine_tables main worst = Inr rows" "cs = build_chunks rows" by blast
  have "rows \<noteq> []"
    using assms rows(1) by (auto simp: generate_assets_def embed_texts_def Let_def split: if_splits)
  then show ?thesis using rows(2) by (cases rows) (simp_all add: build_chunks_def)
qed

lemma generate_assets_files_Inr:
  assumes "generate_assets_files load fs mc wc oi oc = Inr fs'"
  shows "\<exists>m ix cs main worst. load embedding_model_name = Some m \<and> generate_assets m main worst = Inr (ix, cs) \<and>
           fs' = fs(oi \<mapsto> IndexFile ix, oc \<mapsto> PickleFile cs)"
  using assms
  by (auto simp: generate_assets_files_def Let_def split: sum.splits option.splits prod.splits)

lemma initialize_loaded:
  assumes "st_model env = Some m" "index_file env = Loaded ix" "chunks_file env = Loaded cs"
  shows "fst (initialize env rag_init) = None \<and> model (snd (initialize env rag_init)) = Some m \<and>
         index (snd (initialize env rag_init)) = Some ix \<and> chunks (snd (initialize env rag_init)) = cs \<and>
         initialized (snd (initialize env rag_init))"
  using assms
  by (simp add: initialize_def load_embedding_model_def load_faiss_index_def load_chunks_def load_groq_client_eq rag_init_def)

section \<open>From the build to the service\<close>

text \<open>
  C33. The build and the service agree on their files: after
  generate_assets.py ran with its default paths, a \<open>RAGService()\<close> built
  with the defaults initialises without an exception, in state READY, with
  the build's model, index and chunks, which are paired (so the service
  meets the premises of the retrieval theorems).
\<close>

theorem build_then_serve:
  assumes "generate_assets_script load fs = Inr fs'"
  shows "\<exists>m ix. fst (initialize (default_service_env load fs' key) rag_init) = None \<and>
           model (snd (initialize (default_service_env load fs' key) rag_init)) = Some m \<and>
           index (snd (initialize (default_service_env load fs' key) rag_init)) = Some ix \<and>
           artifacts_paired m ix (chunks (snd (initialize (default_service_env load fs' key) rag_init))) \<and>
           status_of (snd (initialize (default_service_env load fs' key) rag_init)) = READY"
proof -
  obtain m ix cs main worst where m: "load embedding_model_name = Some m"
    and ga: "generate_assets m main worst = Inr (ix, cs)"
    and fs': "fs' = fs(''faiss_index.bin'' \<mapsto> IndexFile ix, ''chunks.pkl'' \<mapsto> PickleFile cs)"
    using generate_assets_files_Inr[of load fs] assms unfolding generate_assets_script_def by blast
  have env: "st_model (default_service_env load fs' key) = Some m"
    "index_file (default_service_env load fs' key) = Loaded ix"
    "chunks_file (default_service_env load fs' key) = Loaded cs"
    using m by (simp_all add: default_service_env_def rag_service_env_def fs' index_artifact_def chunks_artifact_def)
  show ?thesis
    using initialize_loaded[OF env] generate_assets_pairs[OF ga] generate_assets_nonempty[OF ga]
    by (auto simp: status_of_def)
qed

theorem build_then_serve_witness:
  "status_of (snd (initialize (default_service_env (\<lambda>_. Some scenario_embed)
     (scenario_dir(''faiss_index.bin'' \<mapsto> IndexFile scenario_index, ''chunks.pkl'' \<mapsto> PickleFile scenario_chunks))
     None) rag_init)) = READY"
proof -
  have "generate_assets_script (\<lambda>_. Some scenario_embed) scenario_dir =
        Inr (scenario_dir(''faiss_index.bin'' \<mapsto> IndexFile scenario_index, ''chunks.pkl'' \<mapsto> PickleFile scenario_chunks))"
    by (simp add: generate_assets_script_def generate_assets_files_def scenario_dir_def read_csv_file_def
        combine_tables_def scenario_build)
  then show ?thesis using build_then_serve by blast
qed

end
