(* ===== verification/Roles.thy ===== *)
theory Roles
  imports Prelude
begin

text \<open>
  Role-based access control of the Django site: the roles of
  users/models.py (\<open>CustomUser.ROLE_CHOICES\<close>, the \<open>is_*\<close> predicates and
  \<open>can_access_section\<close>), the permission table and the view decorators of
  users/decorators.py (\<open>ROLE_PERMISSIONS\<close>, \<open>role_required\<close>,
  \<open>prediction_access_required\<close>), and the role-to-report map of
  dashboard/views.py. A role is the string stored in the \<open>role\<close> column, so
  roles outside \<open>ROLE_CHOICES\<close> are part of the model.
\<close>

type_synonym role = string

section \<open>users/models.py\<close>

definition role_choices :: "(role \<times> string) list" where
  "role_choices =
     [(''ADMIN'', ''Admin''),
      (''ACCESS_INSECURITY_MANAGER'', ''Access Insecurity Manager''),
      (''HEALTH_MANAGER'', ''Health Manager''),
      (''FINANCE_MANAGER'', ''Finance Manager''),
      (''LOCAL_ENVIRONMENT_MANAGER'', ''Local Environment Manager'')]"

text \<open>Django's \<open>get_role_display()\<close>: the label of a choice, the raw value otherwise.\<close>

definition get_role_display :: "role \<Rightarrow> string" where
  "get_role_display r = (case map_of role_choices r of Some l \<Rightarrow> l | None \<Rightarrow> r)"

definition is_admin :: "role \<Rightarrow> bool" where
  "is_admin r \<longleftrightarrow> r = ''ADMIN''"

definition is_access_insecurity_manager :: "role \<Rightarrow> bool" where
  "is_access_insecurity_manager r \<longleftrightarrow> r = ''ACCESS_INSECURITY_MANAGER''"

definition is_health_manager :: "role \<Rightarrow> bool" where
  "is_health_manager r \<longleftrightarrow> r = ''HEALTH_MANAGER''"

definition is_finance_manager :: "role \<Rightarrow> bool" where
  "is_finance_manager r \<longleftrightarrow> r = ''FINANCE_MANAGER''"

definition is_local_environment_manager :: "role \<Rightarrow> bool" where
  "is_local_environment_manager r \<longleftrightarrow> r = ''LOCAL_ENVIRONMENT_MANAGER''"

text \<open>The table local to \<open>can_access_section\<close>.\<close>

definition model_role_permissions :: "(string \<times> role list) list" where
  "model_role_permissions =
     [(''access'', [''ACCESS_INSECURITY_MANAGER'']),
      (''insecurity'', [''ACCESS_INSECURITY_MANAGER'']),
      (''health'', [''HEALTH_MANAGER'']),
      (''finance'', [''FINANCE_MANAGER'']),
      (''local'', [''LOCAL_ENVIRONMENT_MANAGER'']),
      (''food_env'', [''LOCAL_ENVIRONMENT_MANAGER''])]"

definition can_access_section :: "role \<Rightarrow> string \<Rightarrow> bool" where
  "can_access_section r section_name =
     (if is_admin r then True
      else r \<in> set (dict_get model_role_permissions section_name []))"

text \<open>The six \<open>can_access_*\<close> properties, one per section.\<close>

definition can_access_access :: "role \<Rightarrow> bool" where
  "can_access_access r = can_access_section r ''access''"

definition can_access_insecurity :: "role \<Rightarrow> bool" where
  "can_access_insecurity r = can_access_section r ''insecurity''"

definition can_access_health :: "role \<Rightarrow> bool" where
  "can_access_health r = can_access_section r ''health''"

definition can_access_finance :: "role \<Rightarrow> bool" where
  "can_access_finance r = can_access_section r ''finance''"

definition can_access_local :: "role \<Rightarrow> bool" where
  "can_access_local r = can_access_section r ''local''"

definition can_access_food_env :: "role \<Rightarrow> bool" where
  "can_access_food_env r = can_access_section r ''food_env''"

section \<open>users/decorators.py\<close>

definition role_permissions :: "(string \<times> role list) list" where
  "role_permissions =
     [(''access'', [''ADMIN'', ''ACCESS_INSECURITY_MANAGER'']),
      (''insecurity'', [''ADMIN'', ''ACCESS_INSECURITY_MANAGER'']),
      (''health'', [''ADMIN'', ''HEALTH_MANAGER'']),
      (''finance'', [''ADMIN'', ''FINANCE_MANAGER'']),
      (''local'', [''ADMIN'', ''LOCAL_ENVIRONMENT_MANAGER'']),
      (''food_env'', [''ADMIN'', ''LOCAL_ENVIRONMENT_MANAGER''])]"

text \<open>
  \<open>request.user\<close> as the wrapped view sees it: anonymous, or logged in with
  a \<open>role\<close> attribute (\<open>None\<close> when the user object has none).
\<close>

datatype request_user = Anonymous | Authenticated "role option"

text \<open>
  What a decorated view returns: \<open>login_required\<close>'s redirect, the
  \<open>access_denied.html\<close> page with status 403 and its message, or the view's
  own response.
\<close>

datatype 'r guarded = RedirectLogin | Denied string | Allowed 'r

definition denied_message :: "role \<Rightarrow> string" where
  "denied_message r =
     ''Your role ('' @ get_role_display r @ '') does not have permission to access this page.''"

definition role_required :: "role list \<Rightarrow> 'r \<Rightarrow> request_user \<Rightarrow> 'r guarded" where
  "role_required allowed_roles view u =
     (case u of
        Anonymous \<Rightarrow> RedirectLogin
      | Authenticated None \<Rightarrow> Denied ''User role not found.''
      | Authenticated (Some r) \<Rightarrow>
          if r \<in> set allowed_roles \<or> is_admin r then Allowed view else Denied (denied_message r))"

definition prediction_access_required :: "string \<Rightarrow> 'r \<Rightarrow> request_user \<Rightarrow> 'r guarded" where
  "prediction_access_required section_name =
     role_required (dict_get role_permissions section_name [''ADMIN''])"

section \<open>dashboard/views.py\<close>

definition report_base :: string where
  "report_base = ''https://app.powerbi.com/reportEmbed?reportId=''"

definition report_tail :: string where
  "report_tail = ''&autoAuth=true&ctid=604f1a96-cbe8-43f8-abbf-f8eaf5d85730''"

definition iframe_urls :: "(role \<times> string) list" where
  "iframe_urls =
     [(''ADMIN'', report_base @ ''4562eb1f-6168-4f87-acc0-3a57273cde06'' @ report_tail),
      (''ACCESS_INSECURITY_MANAGER'', report_base @ ''026ea629-39c4-4730-88e6-f66374a74efb'' @ report_tail),
      (''HEALTH_MANAGER'', report_base @ ''0b16b581-157b-4099-977e-60b660cd847a'' @ report_tail),
      (''FINANCE_MANAGER'', report_base @ ''0ca0c787-6379-472b-8b9d-52a8b72307e3'' @ report_tail),
      (''LOCAL_ENVIRONMENT_MANAGER'', report_base @ ''199f11f5-cd64-4c3b-810b-b4c956b82ea4'' @ report_tail)]"

record dashboard_context =
  iframe_url :: "string option"
  has_permission :: bool

definition dashboard_view :: "role \<Rightarrow> dashboard_context" where
  "dashboard_view r =
     (let u = map_of iframe_urls r in \<lparr>iframe_url = u, has_permission = (u \<noteq> None)\<rparr>)"

section \<open>Properties\<close>

lemma decorator_table_agrees:
  "(r \<in> set (dict_get role_permissions s [''ADMIN'']) \<or> is_admin r) \<longleftrightarrow> can_access_section r s"
  by (auto simp: role_permissions_def model_role_permissions_def can_access_section_def is_admin_def)

lemma dashboard_has_permission:
  "has_permission (dashboard_view r) \<longleftrightarrow> r \<in> fst ` set iframe_urls"
  using map_of_eq_None_iff[of iframe_urls r] by (cases "map_of iframe_urls r") (simp_all add: dashboard_view_def)

text \<open>
  C20. The two permission tables agree: for every section name, known or
  not, and every role, a logged-in user passes \<open>prediction_access_required\<close>
  exactly when \<open>CustomUser.can_access_section\<close> says so, and is otherwise
  shown the access-denied page naming the role.
\<close>

theorem prediction_access_iff_can_access:
  "prediction_access_required s v (Authenticated (Some r))
     = (if can_access_section r s then Allowed v else Denied (denied_message r))"
  using decorator_table_agrees[of r s]
  by (simp add: prediction_access_required_def role_required_def)

text \<open>
  C21. The dashboard shows a report exactly to the users that may open at
  least one prediction section: the roles of \<open>ROLE_CHOICES\<close>.
\<close>

theorem dashboard_permission_iff_some_section:
  "has_permission (dashboard_view r) \<longleftrightarrow> (\<exists>s. can_access_section r s)"
proof
  assume "has_permission (dashboard_view r)"
  then have "r \<in> fst ` set iframe_urls"
    by (simp add: dashboard_has_permission)
  then have "can_access_section r (if r = ''HEALTH_MANAGER'' then ''health''
      else if r = ''FINANCE_MANAGER'' then ''finance''
      else if r = ''LOCAL_ENVIRONMENT_MANAGER'' then ''local'' else ''access'')"
    by (auto simp: iframe_urls_def can_access_section_def model_role_permissions_def is_admin_def)
  then show "\<exists>s. can_access_section r s" ..
next
  assume "\<exists>s. can_access_section r s"
  then obtain s where "can_access_section r s" ..
  then have "r \<in> fst ` set iframe_urls"
    by (auto simp: iframe_urls_def can_access_section_def model_role_permissions_def is_admin_def
             split: if_splits)
  then show "has_permission (dashboard_view r)"
    by (simp add: dashboard_has_permission)
qed

text \<open>
  Anonymous requests never reach a decorated view: every section's
  decorator answers with the login redirect.
\<close>

theorem prediction_access_anonymous:
  "prediction_access_required s v Anonymous = RedirectLogin"
  by (simp add: prediction_access_required_def role_required_def)

end
