(* ===== verification/Http.thy ===== *)
theory Http
  imports Prelude
begin

text \<open>
  HTTP as the Django services and the inference apps see it through
  \<open>requests\<close> and FastAPI. A call of \<open>requests.post\<close> or \<open>requests.get\<close> either
  fails before a response (timeout, connection error, other
  \<open>RequestException\<close>, with \<open>str(e)\<close>) or yields a response: status code,
  \<open>content-type\<close> header, body text, the outcome of \<open>response.json()\<close>
  (the decoded value, or the message of the \<open>JSONDecodeError\<close>, a
  \<open>RequestException\<close>), and the message \<open>raise_for_status\<close> would raise with.
  The network is a parameter (\<open>post_fn\<close>, \<open>get_fn\<close>) from URL and JSON payload
  to outcome. On the server side, \<open>serve\<close> turns an endpoint's result into the
  response FastAPI sends: the JSON body with 200, \<open>{"detail": d}\<close> with the
  status of an \<open>HTTPException\<close>, and Starlette's plain-text 500 for any other
  exception.
\<close>

datatype req_failure = Timeout | ConnectionError | OtherFailure

record http_response =
  status_code :: nat
  content_type :: "string option"
  resp_text :: string
  resp_json :: "string + json"
  error_text :: string

datatype http_outcome = Failed req_failure string | Got http_response

type_synonym post_fn = "string \<Rightarrow> json \<Rightarrow> http_outcome"
type_synonym get_fn = "string \<Rightarrow> http_outcome"

text \<open>\<open>response.raise_for_status()\<close> raises for 4xx and 5xx statuses.\<close>

definition http_error :: "http_response \<Rightarrow> bool" where
  "http_error r \<longleftrightarrow> 400 \<le> status_code r \<and> status_code r < 600"

text \<open>\<open>str(n)\<close> of a natural number.\<close>

fun nat_str :: "nat \<Rightarrow> string" where
  "nat_str n = (if n < 10 then [''0123456789'' ! n] else nat_str (n div 10) @ [''0123456789'' ! (n mod 10)])"

declare nat_str.simps [simp del]

text \<open>
  The message of requests' \<open>HTTPError\<close>: status, class, reason phrase and URL.
\<close>

definition reason_phrase :: "nat \<Rightarrow> string" where
  "reason_phrase s =
     (if s = 400 then ''Bad Request'' else if s = 404 then ''Not Found''
      else if s = 422 then ''Unprocessable Entity'' else if s = 500 then ''Internal Server Error''
      else if s = 503 then ''Service Unavailable'' else '''')"

definition http_error_text :: "nat \<Rightarrow> string \<Rightarrow> string" where
  "http_error_text s url =
     nat_str s @ (if s < 500 then '' Client Error: '' else '' Server Error: '') @ reason_phrase s
     @ '' for url: '' @ url"

text \<open>
  The response FastAPI sends for an endpoint's result: \<open>Inr body\<close> is a
  returned model (status 200, JSON), \<open>Inl (HTTPException s d)\<close> a raised
  \<open>HTTPException\<close>, and any other \<open>Inl\<close> an unhandled exception.
\<close>

definition serve :: "string \<Rightarrow> exn + json \<Rightarrow> http_response" where
  "serve url r =
     (case r of
        Inr body \<Rightarrow>
          \<lparr>status_code = 200, content_type = Some ''application/json'', resp_text = [],
           resp_json = Inr body, error_text = []\<rparr>
      | Inl (HTTPException s d) \<Rightarrow>
          \<lparr>status_code = s, content_type = Some ''application/json'', resp_text = [],
           resp_json = Inr (JObj [(''detail'', JStr d)]), error_text = http_error_text s url\<rparr>
      | Inl _ \<Rightarrow>
          \<lparr>status_code = 500, content_type = Some ''text/plain; charset=utf-8'',
           resp_text = ''Internal Server Error'',
           resp_json = Inl ''Expecting value: line 1 column 1 (char 0)'',
           error_text = http_error_text 500 url\<rparr>)"

text \<open>\<open>d.get(k, default)\<close> on a decoded JSON value; not a dict: \<open>AttributeError\<close>.\<close>

definition json_get :: "json \<Rightarrow> string \<Rightarrow> json \<Rightarrow> exn + json" where
  "json_get v k dflt = (case v of JObj d \<Rightarrow> Inr (dict_get d k dflt) | _ \<Rightarrow> Inl AttributeError)"

text \<open>
  \<open>k in v\<close> on a decoded value: a key of a dict, an element of a list, a
  substring of a string; numbers, booleans and \<open>None\<close> raise \<open>TypeError\<close>.
\<close>

definition json_has :: "json \<Rightarrow> string \<Rightarrow> exn + bool" where
  "json_has v k =
     (case v of
        JObj d \<Rightarrow> Inr (has_key d k)
      | JList xs \<Rightarrow> Inr (JStr k \<in> set xs)
      | JStr s \<Rightarrow> Inr (sublist k s)
      | _ \<Rightarrow> Inl TypeError)"

lemma serve_Inr [simp]:
  "serve url (Inr b) = \<lparr>status_code = 200, content_type = Some ''application/json'', resp_text = [],
                        resp_json = Inr b, error_text = []\<rparr>"
  by (simp add: serve_def)

lemma http_error_serve_Inr [simp]: "\<not> http_error (serve url (Inr b))"
  by (simp add: http_error_def)

lemma http_error_serve_HTTPException [simp]:
  "400 \<le> s \<Longrightarrow> s < 600 \<Longrightarrow> http_error (serve url (Inl (HTTPException s d)))"
  by (simp add: http_error_def serve_def)

lemma http_error_serve_exn:
  "(\<forall>s d. e \<noteq> HTTPException s d) \<Longrightarrow> http_error (serve url (Inl e))"
  by (cases e) (simp_all add: http_error_def serve_def)

lemma digit_char_of: "d < 10 \<Longrightarrow> of_char (''0123456789'' ! d) = (48 + d :: nat)"
proof -
  assume "d < 10"
  then have "d \<in> set [0..<10]" by simp
  then show ?thesis by (simp add: upt_rec) (elim disjE; simp)
qed

lemma nat_str_props:
  "nat_str n \<noteq> [] \<and> list_all is_digit (nat_str n) \<and> digits_nat (nat_str n) = n"
proof (induction n rule: nat_str.induct)
  case (1 n)
  show ?case
  proof (cases "n < 10")
    case True
    then have "nat_str n = [''0123456789'' ! n]" by (simp add: nat_str.simps)
    with True show ?thesis by (simp add: digits_nat_def is_digit_def digit_char_of)
  next
    case False
    then have "n mod 10 < 10" by simp
    moreover have "nat_str n = nat_str (n div 10) @ [''0123456789'' ! (n mod 10)]"
      using False by (simp add: nat_str.simps)
    ultimately show ?thesis using False 1
      by (simp add: digits_nat_snoc is_digit_def digit_char_of)
  qed
qed

lemma nat_str_strip_sign:
  "py_strip (nat_str n) = nat_str n \<and> py_sign (nat_str n) = (1, nat_str n)"
proof -
  obtain d ds where ns: "nat_str n = d # ds" using nat_str_props[of n] by (cases "nat_str n") auto
  have dig: "list_all is_digit (nat_str n)" using nat_str_props[of n] by auto
  have sp: "\<forall>c \<in> set (nat_str n). \<not> py_isspace c"
    using dig by (auto simp: list_all_iff is_digit_def py_isspace_def)
  have "dropWhile py_isspace (nat_str n) = nat_str n" using sp by (rule dropWhile_none)
  moreover have "dropWhile py_isspace (rev (nat_str n)) = rev (nat_str n)"
    using sp by (intro dropWhile_none) simp
  moreover have "py_sign (nat_str n) = (1, nat_str n)"
    using dig ns by (auto simp: is_digit_def py_sign_def)
  ultimately show ?thesis by (simp add: py_strip_def)
qed

lemma py_float_str_nat_str: "py_float_str (nat_str n) = Some (of_nat n)"
proof -
  have tw: "takeWhile is_digit (nat_str n) = nat_str n" "dropWhile is_digit (nat_str n) = []"
    using nat_str_props[of n] by (simp_all add: list_all_iff)
  have man: "parse_mantissa (nat_str n) = Some (of_nat n, [])"
    using nat_str_props[of n] by (simp add: parse_mantissa_def Let_def tw)
  show ?thesis
    using nat_str_strip_sign[of n] man by (simp add: py_float_str_def parse_exponent_def pow10_def)
qed

lemma dropWhile_nat_str:
  "\<not> P (hd (nat_str n)) \<Longrightarrow> dropWhile P (nat_str n @ xs) = nat_str n @ xs"
  using nat_str_props[of n] by (cases "nat_str n") auto

end
