(* ===== verification/Clients.thy ===== *)
theory Clients
  imports Http
begin

text \<open>
  The Django side's HTTP clients of the inference services: rag/services.py
  (\<open>RemoteRAGService.generate_response\<close>, \<open>get_rag_service\<close> and the
  \<open>init_rag\<close> management command over it), health/services.py
  (\<open>HealthPredictionService.predict\<close>, \<open>predict_cluster\<close>,
  \<open>load_clustering_data\<close>), local/services.py (\<open>LocalFoodPredictionService\<close>
  with its mock fallbacks) and finance/services.py
  (\<open>FinancePredictionService.predict\<close>). Each method is one definition over the
  network parameter; the dicts they return are JSON objects; an exception
  that escapes a method is an \<open>Inl\<close>. \<open>random.random()\<close> and
  \<open>random.randint(0, 4)\<close> are parameters of the mock generators.
\<close>

section \<open>rag/services.py\<close>

text \<open>The dict \<open>generate_response\<close> returns.\<close>

record rag_reply =
  response :: json
  reply_sources :: json
  reply_error :: "string option"

definition unavailable_msg :: string where
  "unavailable_msg = ''The AI assistant is currently unavailable. Please try again later.''"

definition rag_fallback :: "string \<Rightarrow> rag_reply" where
  "rag_fallback msg = \<lparr>response = JStr unavailable_msg, reply_sources = JList [], reply_error = Some msg\<rparr>"

text \<open>
  \<open>result.get(...)\<close> on a body that decodes to something other than a dict
  raises \<open>AttributeError\<close>, which the \<open>except RequestException\<close> does not catch.
\<close>

definition generate_response :: "string \<Rightarrow> post_fn \<Rightarrow> string \<Rightarrow> exn + rag_reply" where
  "generate_response hf_api_url post query =
     (case post (hf_api_url @ ''/ask'') (JObj [(''query'', JStr query)]) of
        Failed _ msg \<Rightarrow> Inr (rag_fallback msg)
      | Got r \<Rightarrow>
          if http_error r then Inr (rag_fallback (error_text r))
          else (case resp_json r of
                  Inl msg \<Rightarrow> Inr (rag_fallback msg)
                | Inr (JObj d) \<Rightarrow>
                    Inr \<lparr>response = dict_get d ''answer'' JNull,
                         reply_sources = dict_get d ''sources'' (JList []), reply_error = None\<rparr>
                | Inr _ \<Rightarrow> Inl AttributeError))"

text \<open>
  The module's singleton: \<open>get_rag_service\<close> creates the client on its first
  call and returns the stored one afterwards. A \<open>RemoteRAGService\<close> has
  the attributes \<open>initialized\<close>, \<open>HF_API_URL\<close> and \<open>generate_response\<close>
  only; any other attribute lookup raises \<open>AttributeError\<close>.
\<close>

record remote_rag =
  rr_initialized :: bool
  rr_hf_api_url :: string

definition remote_rag_new :: "string \<Rightarrow> remote_rag" where
  "remote_rag_new hf_api_url = \<lparr>rr_initialized = True, rr_hf_api_url = hf_api_url\<rparr>"

definition get_rag_service :: "string \<Rightarrow> remote_rag option \<Rightarrow> remote_rag \<times> remote_rag option" where
  "get_rag_service hf_api_url g =
     (case g of
        None \<Rightarrow> (remote_rag_new hf_api_url, Some (remote_rag_new hf_api_url))
      | Some r \<Rightarrow> (r, g))"

definition remote_rag_attrs :: "string list" where
  "remote_rag_attrs = [''initialized'', ''HF_API_URL'', ''generate_response'']"

text \<open>
  The \<open>init_rag\<close> management command: it fetches the singleton, then calls
  \<open>initialize(force_rebuild=...)\<close> and reads \<open>vector_storage\<close> on it; the
  first missing attribute raises, the handler prints and re-raises. The
  result is the exception the command ends with, if any, and the
  singleton.
\<close>

definition init_rag_handle :: "string \<Rightarrow> remote_rag option \<Rightarrow> bool \<Rightarrow> exn option \<times> remote_rag option" where
  "init_rag_handle hf_api_url g force_rebuild =
     (let (rag_service, g') = get_rag_service hf_api_url g in
      if ''initialize'' \<notin> set remote_rag_attrs then (Some AttributeError, g')
      else if ''vector_storage'' \<notin> set remote_rag_attrs then (Some AttributeError, g')
      else (None, g'))"

section \<open>health/services.py\<close>

definition health_predict :: "string \<Rightarrow> post_fn \<Rightarrow> string \<Rightarrow> (string \<times> json) list \<Rightarrow> json" where
  "health_predict hf_api_url post model_type features =
     (case post (hf_api_url @ ''/predict'')
             (JObj [(''model_type'', JStr model_type), (''features'', JObj features)]) of
        Failed _ msg \<Rightarrow> JObj [(''details'', JStr msg)]
      | Got r \<Rightarrow>
          if http_error r then JObj [(''details'', JStr (error_text r))]
          else (case resp_json r of Inl msg \<Rightarrow> JObj [(''details'', JStr msg)] | Inr v \<Rightarrow> v))"

definition cluster_unavailable :: "string \<Rightarrow> json" where
  "cluster_unavailable msg =
     JObj [(''error'', JStr ''Clustering Service Unavailable''), (''details'', JStr msg)]"

definition health_predict_cluster :: "string \<Rightarrow> post_fn \<Rightarrow> (string \<times> json) list \<Rightarrow> json" where
  "health_predict_cluster hf_api_url post features =
     (case post (hf_api_url @ ''/predict-cluster'')
             (JObj [(''model_type'', JStr ''kmeans''), (''features'', JObj features)]) of
        Failed _ msg \<Rightarrow> cluster_unavailable msg
      | Got r \<Rightarrow>
          if http_error r then cluster_unavailable (error_text r)
          else (case resp_json r of Inl msg \<Rightarrow> cluster_unavailable msg | Inr v \<Rightarrow> v))"

text \<open>
  \<open>load_clustering_data\<close>: \<open>HF_API_URL\<close> unset or empty gives \<open>[]\<close>; every
  exception is caught and gives \<open>[]\<close>, including \<open>data['counties']\<close> on a
  body that is not a dict.
\<close>

definition load_clustering_data :: "string option \<Rightarrow> get_fn \<Rightarrow> json" where
  "load_clustering_data hf_api_url get =
     (case hf_api_url of
        None \<Rightarrow> JList []
      | Some u \<Rightarrow>
          if u = [] then JList []
          else (case get (u @ ''/clustering-data'') of
                  Failed _ _ \<Rightarrow> JList []
                | Got r \<Rightarrow>
                    if status_code r \<noteq> 200 then JList []
                    else (case resp_json r of
                            Inl _ \<Rightarrow> JList []
                          | Inr data \<Rightarrow>
                              (case json_has data ''counties'' of
                                 Inr True \<Rightarrow>
                                   (case data of JObj d \<Rightarrow> dict_get d ''counties'' JNull | _ \<Rightarrow> JList [])
                               | _ \<Rightarrow> JList []))))"

section \<open>local/services.py\<close>

text \<open>
  \<open>_mock_prediction\<close>: the mean of the feature values that are numbers,
  booleans or strings (others count 0; a string \<open>float\<close> rejects raises
  \<open>ValueError\<close> out of the method), mapped into \<open>[40, 70)\<close> by
  \<open>40 + mean % 30\<close>. \<open>rnd\<close> is the value of \<open>random.random()\<close>.
\<close>

fun mock_value :: "json \<Rightarrow> exn + real" where
  "mock_value (JNum r) = Inr r"
| "mock_value (JBool b) = Inr (if b then 1 else 0)"
| "mock_value (JStr s) = (case py_float_str s of Some r \<Rightarrow> Inr r | None \<Rightarrow> Inl ValueError)"
| "mock_value _ = Inr 0"

fun sum_values :: "json list \<Rightarrow> exn + real" where
  "sum_values [] = Inr 0"
| "sum_values (v # vs) =
     (case mock_value v of
        Inl e \<Rightarrow> Inl e
      | Inr x \<Rightarrow> (case sum_values vs of Inl e \<Rightarrow> Inl e | Inr y \<Rightarrow> Inr (x + y)))"

definition mock_prediction :: "real \<Rightarrow> (string \<times> json) list \<Rightarrow> exn + json" where
  "mock_prediction rnd features =
     (case sum_values (map snd features) of
        Inl e \<Rightarrow> Inl e
      | Inr values_sum \<Rightarrow>
          (let base_value = values_sum / of_nat (max (length features) 1);
               prediction = 40 + py_mod base_value 30
           in Inr (JObj [(''prediction'', JNum (py_round2 prediction)),
                         (''confidence'', JNum (py_round2 (0.75 + rnd * 0.2))),
                         (''model'', JStr ''XGBoost (Mock)'')])))"

text \<open>\<open>_mock_cluster\<close>: \<open>cluster_id\<close> is \<open>random.randint(0, 4)\<close>.\<close>

definition mock_cluster :: "nat \<Rightarrow> real \<Rightarrow> json" where
  "mock_cluster cluster_id rnd =
     JObj [(''cluster'', JNum (of_nat cluster_id)), (''confidence'', JNum (py_round2 (0.70 + rnd * 0.25)))]"

definition is_json_response :: "http_response \<Rightarrow> bool" where
  "is_json_response r \<longleftrightarrow> sublist ''application/json'' (case content_type r of None \<Rightarrow> [] | Some c \<Rightarrow> c)"

text \<open>
  The shared shape of \<open>predict\<close> and \<open>predict_cluster\<close>: a non-JSON
  content type, an HTTP error, an undecodable body, a failed request and a
  body with an \<open>error\<close> key all give the fallback; \<open>"error" in result\<close> on
  a decoded number raises \<open>TypeError\<close>.
\<close>

definition local_call :: "post_fn \<Rightarrow> string \<Rightarrow> (string \<times> json) list \<Rightarrow> (exn + json) \<Rightarrow> exn + json" where
  "local_call post endpoint features fallback =
     (case post endpoint (JObj [(''features'', JObj features)]) of
        Failed _ _ \<Rightarrow> fallback
      | Got r \<Rightarrow>
          if \<not> is_json_response r then fallback
          else if http_error r then fallback
          else (case resp_json r of
                  Inl _ \<Rightarrow> fallback
                | Inr result \<Rightarrow>
                    (case json_has result ''error'' of
                       Inl e \<Rightarrow> Inl e
                     | Inr True \<Rightarrow> fallback
                     | Inr False \<Rightarrow> Inr result)))"

definition local_predict :: "string \<Rightarrow> post_fn \<Rightarrow> real \<Rightarrow> (string \<times> json) list \<Rightarrow> exn + json" where
  "local_predict hf_api_url post rnd features =
     local_call post (hf_api_url @ ''/predict'') features (mock_prediction rnd features)"

definition local_predict_cluster ::
  "string \<Rightarrow> post_fn \<Rightarrow> nat \<Rightarrow> real \<Rightarrow> (string \<times> json) list \<Rightarrow> exn + json" where
  "local_predict_cluster hf_api_url post k rnd features =
     local_call post (hf_api_url @ ''/cluster'') features (Inr (mock_cluster k rnd))"

definition get_clustering_map_data :: "string \<Rightarrow> get_fn \<Rightarrow> json" where
  "get_clustering_map_data hf_api_url get =
     (let unavailable = \<lambda>msg. JObj [(''error'', JStr ''Map Data Service Unavailable''), (''details'', JStr msg)]
      in case get (hf_api_url @ ''/clustering-map'') of
           Failed _ msg \<Rightarrow> unavailable msg
         | Got r \<Rightarrow>
             if http_error r then unavailable (error_text r)
             else (case resp_json r of Inl msg \<Rightarrow> unavailable msg | Inr v \<Rightarrow> v))"

section \<open>finance/services.py\<close>

definition hf_finance_space_url :: string where
  "hf_finance_space_url = ''https://mariem08-fml-models.hf.space''"

text \<open>
  \<open>re.search(marker + r'.*?(\d+...)', text)\<close>: the leftmost occurrence of the
  marker after which, on the same line (\<open>.\<close> does not match a newline),
  a digit follows; the result is the text from that digit on.
\<close>

fun search_after :: "string \<Rightarrow> string \<Rightarrow> string option" where
  "search_after m [] = None"
| "search_after m (c # cs) =
     (if prefix m (c # cs) then
        (let rest = dropWhile (\<lambda>x. \<not> is_digit x \<and> x \<noteq> CHR 0x0A) (drop (length m) (c # cs))
         in if rest \<noteq> [] \<and> is_digit (hd rest) then Some rest else search_after m cs)
      else search_after m cs)"

text \<open>Group 1 of \<open>\d+\.?\d*\<close> and of \<open>\d+\<close>, read at a digit.\<close>

definition decimal_group :: "string \<Rightarrow> string" where
  "decimal_group s =
     (let d1 = takeWhile is_digit s; r = dropWhile is_digit s in
      if r \<noteq> [] \<and> hd r = CHR ''.'' then d1 @ ''.'' @ takeWhile is_digit (tl r) else d1)"

definition digits_group :: "string \<Rightarrow> string" where
  "digits_group s = takeWhile is_digit s"

text \<open>\<open>x[0]\<close> and \<open>len(x)\<close> on a decoded value.\<close>

fun py_index0 :: "json \<Rightarrow> exn + json" where
  "py_index0 (JList []) = Inl IndexError"
| "py_index0 (JList (x # _)) = Inr x"
| "py_index0 (JStr []) = Inl IndexError"
| "py_index0 (JStr (c # _)) = Inr (JStr [c])"
| "py_index0 (JObj _) = Inl KeyError"
| "py_index0 _ = Inl TypeError"

fun py_len :: "json \<Rightarrow> exn + nat" where
  "py_len (JList xs) = Inr (length xs)"
| "py_len (JStr s) = Inr (length s)"
| "py_len (JObj d) = Inr (length (remdups (map fst d)))"
| "py_len _ = Inl TypeError"

definition mock_state :: "string \<Rightarrow> real \<Rightarrow> real \<Rightarrow> real \<Rightarrow> real \<Rightarrow> json" where
  "mock_state n lat lng c score =
     JObj [(''name'', JStr n), (''lat'', JNum lat), (''lng'', JNum lng), (''cluster'', JNum c),
           (''score'', JNum score)]"

definition get_mock_cluster_data :: json where
  "get_mock_cluster_data = JList [
      mock_state ''California'' 36.7783 (-119.4179) 1 0.95,
      mock_state ''Texas'' 31.9686 (-99.9018) 2 0.85,
      mock_state ''Florida'' 27.6648 (-81.5158) 2 0.80,
      mock_state ''New York'' 42.1657 (-74.9481) 1 0.90,
      mock_state ''Illinois'' 40.6331 (-89.3985) 3 0.70,
      mock_state ''Arizona'' 34.0489 (-111.0937) 3 0.65,
      mock_state ''Washington'' 47.7511 (-120.7401) 3 0.60,
      mock_state ''Pennsylvania'' 41.2033 (-77.1945) 2 0.75,
      mock_state ''Ohio'' 40.4173 (-82.9071) 2 0.72,
      mock_state ''Georgia'' 32.1656 (-82.9001) 1 0.88,
      mock_state ''North Carolina'' 35.7596 (-79.0193) 2 0.78,
      mock_state ''Michigan'' 44.3148 (-85.6024) 3 0.68,
      mock_state ''New Jersey'' 40.0583 (-74.4057) 1 0.92,
      mock_state ''Virginia'' 37.4316 (-78.6569) 3 0.63,
      mock_state ''Massachusetts'' 42.4072 (-71.3824) 3 0.58]"

definition get_mock_priority_states :: json where
  "get_mock_priority_states = JList [
      JObj [(''name'', JStr ''California''), (''cluster'', JNum 1), (''score'', JStr ''0.95'')],
      JObj [(''name'', JStr ''New York''), (''cluster'', JNum 1), (''score'', JStr ''0.90'')],
      JObj [(''name'', JStr ''Georgia''), (''cluster'', JNum 1), (''score'', JStr ''0.88'')],
      JObj [(''name'', JStr ''New Jersey''), (''cluster'', JNum 1), (''score'', JStr ''0.92'')],
      JObj [(''name'', JStr ''Texas''), (''cluster'', JNum 2), (''score'', JStr ''0.85'')]]"

definition cluster_reply :: "real \<Rightarrow> string \<Rightarrow> json" where
  "cluster_reply c prob =
     JObj [(''prediction'', JNum c), (''probability'', JStr prob),
           (''cluster_data'', get_mock_cluster_data), (''priority_states'', get_mock_priority_states)]"

definition tax_reply :: "real \<Rightarrow> string \<Rightarrow> json" where
  "tax_reply v prob = JObj [(''prediction'', JNum v), (''probability'', JStr prob)]"

text \<open>
  What \<open>FinancePredictionService.predict\<close> returns: a dict, or the dict
  \<open>{'error': True, 'details': 'Unexpected error: ' + str(e)}\<close> of its generic
  handler, kept as the exception \<open>e\<close> (its message is not rendered).
\<close>

datatype fin_result = FinReply json | FinUnexpected exn

definition fin_error :: "string \<Rightarrow> json" where
  "fin_error d = JObj [(''error'', JBool True), (''details'', JStr d)]"

definition finance_payload :: "string \<Rightarrow> (string \<times> json) list \<Rightarrow> json" where
  "finance_payload model_type input_data =
     (if model_type = ''tax_rate'' then
        JObj [(''data'', JList (map (\<lambda>k. dict_get input_data k (JNum 0))
          [''Adult_Obesity_Rate_08'', ''Adult_Diabetes_Rate_08'', ''Adult_Obesity_Rate13'',
           ''Adult_Diabetes_Rate13'', ''SODATAX_STORES14'', ''CHIPSTAX_VENDM14'', ''PCT_LOCLFARM12'',
           ''VLFOODSEC_10_12'']))]
      else JObj [(''data'', JList (map (\<lambda>k. dict_get input_data k (JNum 0))
          [''Median_Income'', ''FOODINSEC_13_15'', ''Adult_Obesity_Rate13'']))])"

text \<open>The tax-rate branch of the response processing.\<close>

definition parse_tax_result :: "json \<Rightarrow> exn + json" where
  "parse_tax_result result =
     (case result of
        JObj d \<Rightarrow>
          if has_key d ''data'' then
            (case py_index0 (dict_get d ''data'' JNull) of
               Inl e \<Rightarrow> Inl e
             | Inr (JStr t) \<Rightarrow>
                 (case search_after ''Predicted Tax Rate'' t of
                    Some m \<Rightarrow>
                      (case py_float_str (decimal_group m) of
                         Some v \<Rightarrow> Inr (tax_reply v ''85%'')
                       | None \<Rightarrow> Inl ValueError)
                  | None \<Rightarrow> Inr (tax_reply 0 ''N/A''))
             | Inr _ \<Rightarrow> Inl TypeError)
          else Inr (tax_reply 0 ''N/A'')
      | _ \<Rightarrow> Inr (tax_reply 0 ''N/A''))"

text \<open>The clustering branch of the response processing.\<close>

definition parse_cluster_result :: "json \<Rightarrow> exn + json" where
  "parse_cluster_result result =
     (case result of
        JObj d \<Rightarrow>
          if has_key d ''data'' then
            (let result_data = dict_get d ''data'' JNull in
             case py_len result_data of
               Inl e \<Rightarrow> Inl e
             | Inr n \<Rightarrow>
                 if 1 \<le> n then
                   (case py_index0 result_data of
                      Inl e \<Rightarrow> Inl e
                    | Inr (JStr t) \<Rightarrow>
                        (case search_after ''State Cluster'' t of
                           Some m \<Rightarrow> Inr (cluster_reply (of_nat (digits_nat (digits_group m))) ''90%'')
                         | None \<Rightarrow> Inr (cluster_reply 1 ''N/A''))
                    | Inr _ \<Rightarrow> Inl TypeError)
                 else Inr (cluster_reply 1 ''N/A''))
          else Inr (cluster_reply 1 ''N/A'')
      | _ \<Rightarrow> Inr (cluster_reply 1 ''N/A''))"

text \<open>
  \<open>predict\<close>: an unknown model type is refused before any request; a 404 is
  retried once without the \<open>/api\<close> prefix; every \<open>RequestException\<close>
  (failed request, HTTP error, undecodable body) gives the mock reply of the
  model type; an exception while reading the body gives the generic reply.
\<close>

definition finance_predict :: "post_fn \<Rightarrow> string \<Rightarrow> (string \<times> json) list \<Rightarrow> fin_result" where
  "finance_predict post model_type input_data =
     (if model_type \<noteq> ''tax_rate'' \<and> model_type \<noteq> ''clustering''
      then FinReply (fin_error (''Unknown model type: '' @ model_type))
      else
        (let is_tax = (model_type = ''tax_rate'');
             payload = finance_payload model_type input_data;
             url = hf_finance_space_url @ (if is_tax then ''/api/predict_tax'' else ''/api/predict_cluster'');
             alt_url = hf_finance_space_url @ (if is_tax then ''/predict_tax'' else ''/predict_cluster'');
             mock = (if is_tax then tax_reply 25.5 ''85%'' else cluster_reply 1 ''90%'');
             response = (case post url payload of
                           Got r \<Rightarrow> if status_code r = 404 then post alt_url payload else Got r
                         | f \<Rightarrow> f)
         in case response of
              Failed _ _ \<Rightarrow> FinReply mock
            | Got r \<Rightarrow>
                if http_error r then FinReply mock
                else (case resp_json r of
                        Inl _ \<Rightarrow> FinReply mock
                      | Inr result \<Rightarrow>
                          (case (if is_tax then parse_tax_result result else parse_cluster_result result) of
                             Inl e \<Rightarrow> FinUnexpected e
                           | Inr v \<Rightarrow> FinReply v))))"

section \<open>foodenvironment/services.py\<close>

definition required_features :: "string list" where
  "required_features =
     [''soda_price'', ''fmrktpth16'', ''pch_grocpth_09_14'', ''fsrpth09'', ''fsrpth14'',
      ''pct_65older10'', ''poploss10'']"

definition clean_features :: "(string \<times> json) list \<Rightarrow> (string \<times> json) list" where
  "clean_features features = filter (\<lambda>(k, _). k \<in> set required_features) features"

definition candidate_keys :: "string list" where
  "candidate_keys =
     [''prediction'', ''pred'', ''predicted_grocpth09'', ''predicted_value'', ''result'', ''output'',
      ''outputs'']"

text \<open>The first of \<open>('value', 'pred', 'prediction')\<close> present in a nested dict.\<close>

definition nested_sub :: "(string \<times> json) list \<Rightarrow> json option" where
  "nested_sub d =
     (case filter (has_key d) [''value'', ''pred'', ''prediction''] of
        [] \<Rightarrow> None
      | sub # _ \<Rightarrow> Some (dict_get d sub JNull))"

text \<open>The first entry of a nested dict that \<open>float()\<close> accepts.\<close>

fun first_float :: "(string \<times> json) list \<Rightarrow> real option" where
  "first_float [] = None"
| "first_float ((_, v) # d) = (case py_float v of Some r \<Rightarrow> Some r | None \<Rightarrow> first_float d)"

definition prediction_of_val :: "json \<Rightarrow> json" where
  "prediction_of_val val =
     (case val of
        JObj d \<Rightarrow>
          (let p = (case nested_sub d of Some v \<Rightarrow> v | None \<Rightarrow> JNull) in
           if p = JNull then (case first_float d of Some r \<Rightarrow> JNum r | None \<Rightarrow> JNull) else p)
      | _ \<Rightarrow> val)"

text \<open>
  The loop over \<open>candidate_keys\<close>: \<open>key in result\<close> on a decoded number and
  \<open>result.get\<close> on a list escape the method (neither \<open>TypeError\<close> nor
  \<open>AttributeError\<close> is among its handlers).
\<close>

fun extract_prediction :: "json \<Rightarrow> string list \<Rightarrow> exn + json" where
  "extract_prediction result [] = Inr JNull"
| "extract_prediction result (key # ks) =
     (case json_has result key of
        Inl e \<Rightarrow> Inl e
      | Inr False \<Rightarrow> extract_prediction result ks
      | Inr True \<Rightarrow>
          (case json_get result key JNull of
             Inl e \<Rightarrow> Inl e
           | Inr val \<Rightarrow>
               (let p = prediction_of_val val in
                if p = JNull then extract_prediction result ks else Inr p)))"

definition foodenv_failure :: "string \<Rightarrow> json" where
  "foodenv_failure msg = JObj [(''success'', JBool False), (''prediction'', JNull), (''error'', JStr msg)]"

definition foodenv_predict :: "string \<Rightarrow> post_fn \<Rightarrow> (string \<times> json) list \<Rightarrow> exn + json" where
  "foodenv_predict hf_api_url post features =
     (case post (hf_api_url @ ''/predict-grocery'') (JObj [(''features'', JObj (clean_features features))]) of
        Failed Timeout _ \<Rightarrow> Inr (foodenv_failure ''ML Service timeout - request took too long'')
      | Failed ConnectionError _ \<Rightarrow>
          Inr (foodenv_failure ''Cannot connect to ML Service - check API URL configuration'')
      | Failed OtherFailure msg \<Rightarrow> Inr (foodenv_failure (''ML Service Error: '' @ msg))
      | Got r \<Rightarrow>
          if http_error r then Inr (foodenv_failure (''ML Service Error: '' @ error_text r))
          else (case resp_json r of
                  Inl _ \<Rightarrow>
                    Inr (JObj [(''success'', JBool False), (''prediction'', JNull),
                               (''error'', JStr ''Invalid JSON from HF Service''),
                               (''raw_text'', JStr (resp_text r))])
                | Inr result \<Rightarrow>
                    (case extract_prediction result candidate_keys of
                       Inl e \<Rightarrow> Inl e
                     | Inr prediction \<Rightarrow>
                         (let pred_float = (case py_float prediction of Some x \<Rightarrow> JNum x | None \<Rightarrow> JNull)
                          in Inr (JObj [(''success'', JBool True), (''prediction'', pred_float),
                                        (''error'', JNull), (''raw'', result)])))))"

definition validate_features :: "(string \<times> json) list \<Rightarrow> bool \<times> string option" where
  "validate_features features =
     (let cleaned = clean_features features;
          missing = filter (\<lambda>f. \<not> has_key cleaned f) required_features
      in if missing \<noteq> [] then (False, Some (''Missing features: '' @ py_join '', '' missing))
         else (case filter (\<lambda>(_, v). py_float v = None) cleaned of
                 [] \<Rightarrow> (True, None)
               | (n, _) # _ \<Rightarrow> (False, Some (''Feature '' @ [CHR 0x27] @ n @ [CHR 0x27] @ '' must be numeric''))))"

text \<open>The singleton is created once; \<open>init_rag\<close> always ends with
  \<open>AttributeError\<close>, having created the singleton.\<close>

lemma get_rag_service_memo:
  "get_rag_service u (snd (get_rag_service u g)) = get_rag_service u g"
  by (cases g) (simp_all add: get_rag_service_def)

lemma init_rag_fails:
  "init_rag_handle u g force = (Some AttributeError, Some (fst (get_rag_service u g)))"
  by (cases g) (simp_all add: init_rag_handle_def get_rag_service_def remote_rag_attrs_def)

lemma local_call_Inr:
  "local_call post ep fs fb = Inr v \<Longrightarrow> fb = Inr v \<or> json_has v ''error'' = Inr False"
  by (auto simp: local_call_def split: http_outcome.splits if_splits sum.splits bool.splits)

lemma mock_prediction_Inr:
  "mock_prediction rnd fs = Inr v \<Longrightarrow>
   \<exists>b. v = JObj [(''prediction'', JNum (py_round2 (40 + py_mod b 30))),
                  (''confidence'', JNum (py_round2 (0.75 + rnd * 0.2))),
                  (''model'', JStr ''XGBoost (Mock)'')]"
  by (auto simp: mock_prediction_def Let_def split: sum.splits)

lemma local_predict_reply_no_error:
  assumes "local_predict u post rnd fs = Inr v"
  shows "json_has v ''error'' = Inr False"
  using local_call_Inr[OF assms[unfolded local_predict_def]]
  by (auto simp: json_has_def dest!: mock_prediction_Inr)

lemma decimal_group_nat_str:
  "\<not> is_digit c \<Longrightarrow> c \<noteq> CHR ''.'' \<Longrightarrow> decimal_group (nat_str n @ c # xs) = nat_str n"
proof -
  assume c: "\<not> is_digit c" "c \<noteq> CHR ''.''"
  have "\<forall>x \<in> set (nat_str n). is_digit x" using nat_str_props[of n] by (simp add: list_all_iff)
  with c show ?thesis by (simp add: decimal_group_def takeWhile_append2 dropWhile_append2)
qed

lemma mock_prediction_empty:
  "mock_prediction 0 [] = Inr (JObj [(''prediction'', JNum 40), (''confidence'', JNum 0.75),
                                     (''model'', JStr ''XGBoost (Mock)'')])"
  by (simp add: mock_prediction_def py_mod_def py_round2_def round_half_even_def Let_def)

section \<open>Properties of the clients\<close>

text \<open>
  C23. Whatever goes wrong on the way to the RAG endpoint (no response, an
  HTTP error status, a body that is not JSON), \<open>generate_response\<close> returns
  the unavailability message with no sources and the error text, and never
  raises.
\<close>

theorem generate_response_fallback:
  assumes "\<forall>r. post (u @ ''/ask'') (JObj [(''query'', JStr q)]) = Got r \<longrightarrow>
             http_error r \<or> (\<exists>m. resp_json r = Inl m)"
  shows "\<exists>msg. generate_response u post q = Inr (rag_fallback msg)"
  using assms
  by (cases "post (u @ ''/ask'') (JObj [(''query'', JStr q)])")
     (auto simp: generate_response_def)

theorem generate_response_fallback_witness:
  "\<exists>msg. generate_response ''https://edamhakim-us-foodscope.hf.space'' (\<lambda>_ _. Failed ConnectionError ''refused'')
           ''obesity in CA'' = Inr (rag_fallback msg)"
  by (rule generate_response_fallback) simp

text \<open>
  The mock regression reply of the local-food client is a prediction
  in [40, 70] and a confidence in [0.75, 0.95], for every input on which it
  does not raise and every value of \<open>random.random()\<close>.
\<close>

theorem mock_prediction_bounds:
  assumes "mock_prediction rnd fs = Inr (JObj d)" "0 \<le> rnd" "rnd < 1"
  shows "\<exists>p c. dict_get d ''prediction'' JNull = JNum p \<and> 40 \<le> p \<and> p \<le> 70
           \<and> dict_get d ''confidence'' JNull = JNum c \<and> 0.75 \<le> c \<and> c \<le> 0.95"
proof -
  obtain b where d: "JObj d = JObj [(''prediction'', JNum (py_round2 (40 + py_mod b 30))),
                  (''confidence'', JNum (py_round2 (0.75 + rnd * 0.2))),
                  (''model'', JStr ''XGBoost (Mock)'')]"
    using mock_prediction_Inr[OF assms(1)] by blast
  have "0 \<le> py_mod b 30 \<and> py_mod b 30 < 30" by (rule py_mod_bounds) simp
  then have p: "40 \<le> py_round2 (40 + py_mod b 30) \<and> py_round2 (40 + py_mod b 30) \<le> 70"
    using py_round2_bounds[of 4000 "40 + py_mod b 30" 7000] by simp
  have c: "0.75 \<le> py_round2 (0.75 + rnd * 0.2) \<and> py_round2 (0.75 + rnd * 0.2) \<le> 0.95"
    using py_round2_bounds[of 75 "0.75 + rnd * 0.2" 95] assms(2,3) by simp
  show ?thesis using d p c by simp
qed

theorem mock_prediction_bounds_witness:
  "\<exists>p c. dict_get [(''prediction'', JNum 40), (''confidence'', JNum 0.75), (''model'', JStr ''XGBoost (Mock)'')]
             ''prediction'' JNull = JNum p \<and> 40 \<le> p \<and> p \<le> 70
       \<and> dict_get [(''prediction'', JNum 40), (''confidence'', JNum 0.75), (''model'', JStr ''XGBoost (Mock)'')]
             ''confidence'' JNull = JNum c \<and> 0.75 \<le> c \<and> c \<le> 0.95"
  by (rule mock_prediction_bounds[OF mock_prediction_empty]) simp_all

text \<open>
  C26. When the finance service cannot be reached, \<open>predict\<close> reports the
  fixed mock values (a 25.5\% tax rate with 85\% probability, cluster 1 with
  90\%) as if they were predictions, without an \<open>error\<close> key.
\<close>

theorem finance_predict_failure_is_mock:
  assumes "\<forall>u p. \<exists>f m. post u p = Failed f m"
  shows "finance_predict post ''tax_rate'' d = FinReply (tax_reply 25.5 ''85%'')
       \<and> finance_predict post ''clustering'' d = FinReply (cluster_reply 1 ''90%'')"
proof -
  obtain f1 m1 where
    t: "post (hf_finance_space_url @ ''/api/predict_tax'') (finance_payload ''tax_rate'' d) = Failed f1 m1"
    using assms by blast
  obtain f2 m2 where
    c: "post (hf_finance_space_url @ ''/api/predict_cluster'') (finance_payload ''clustering'' d) = Failed f2 m2"
    using assms by blast
  show ?thesis by (simp add: finance_predict_def Let_def t c)
qed

theorem finance_predict_failure_is_mock_witness:
  "finance_predict (\<lambda>_ _. Failed ConnectionError ''refused'') ''tax_rate'' [] = FinReply (tax_reply 25.5 ''85%'')
   \<and> finance_predict (\<lambda>_ _. Failed ConnectionError ''refused'') ''clustering'' [] = FinReply (cluster_reply 1 ''90%'')"
  by (rule finance_predict_failure_is_mock) simp


text \<open>
  \<open>validate_features\<close> accepts a request exactly when each of the seven
  required features is present and \<open>float()\<close> accepts every value among
  them; otherwise it says why.
\<close>

theorem validate_features_iff:
  "validate_features fs = (True, None) \<longleftrightarrow>
     (\<forall>f \<in> set required_features. has_key (clean_features fs) f)
     \<and> (\<forall>(k, v) \<in> set (clean_features fs). py_float v \<noteq> None)"
  by (auto simp: validate_features_def Let_def filter_empty_conv filter_eq_Cons_iff split: list.splits)

theorem validate_features_iff_witness:
  "validate_features [(''soda_price'', JStr ''1.5''), (''fmrktpth16'', JNum 0.2), (''pch_grocpth_09_14'', JNum 3),
      (''fsrpth09'', JNum 0.7), (''fsrpth14'', JNum 0.8), (''pct_65older10'', JNum 14), (''poploss10'', JBool False),
      (''csrfmiddlewaretoken'', JStr ''x'')] = (True, None)
   \<and> list_all (has_key (clean_features [(''soda_price'', JStr ''1.5''),
      (''fmrktpth16'', JNum 0.2), (''pch_grocpth_09_14'', JNum 3), (''fsrpth09'', JNum 0.7), (''fsrpth14'', JNum 0.8),
      (''pct_65older10'', JNum 14), (''poploss10'', JBool False), (''csrfmiddlewaretoken'', JStr ''x'')]))
      required_features"
proof -
  let ?fs = "[(''soda_price'', JStr ''1.5''), (''fmrktpth16'', JNum 0.2), (''pch_grocpth_09_14'', JNum 3),
      (''fsrpth09'', JNum 0.7), (''fsrpth14'', JNum 0.8), (''pct_65older10'', JNum 14), (''poploss10'', JBool False),
      (''csrfmiddlewaretoken'', JStr ''x'')]"
  have v: "validate_features ?fs = (True, None)"
    by (simp add: validate_features_def clean_features_def required_features_def Let_def float_parse_defs)
  show ?thesis using v validate_features_iff[of ?fs] by (simp add: list_all_iff)
qed

end
