(* ===== verification/HealthApi.thy ===== *)
theory HealthApi
  imports RagService Http
begin

text \<open>
  The FastAPI inference service of src/us_foodscope/health/serving/app.py:
  the module's globals as the record \<open>api_state\<close>, the startup hook
  \<open>load_artifacts\<close> as five independent guarded blocks over the files it
  finds, and the endpoints \<open>/\<close>, \<open>/clustering-data\<close>, \<open>/predict\<close>, \<open>/ask\<close>
  and \<open>/predict-cluster\<close>. The fitted scikit-learn objects are modelled by
  what the endpoints use of them: a regressor's prediction function, the
  per-tree predictions of a forest (\<open>estimators_\<close>) and its
  \<open>feature_names_in_\<close>; a \<open>StandardScaler\<close>'s \<open>mean_\<close>, \<open>scale_\<close> and
  \<open>feature_names_in_\<close>; a \<open>KMeans\<close>'s centres; a \<open>LabelEncoder\<close>'s
  \<open>transform([str(v)])[0]\<close> as a partial function on the request value.
\<close>

section \<open>Fitted models\<close>

record regressor =
  reg_predict :: "real list \<Rightarrow> real"
  n_features_in :: nat
  estimators :: "(real list \<Rightarrow> real) list option"
  feature_names_in :: "string list option"

text \<open>\<open>model.predict(X)[0]\<close>: scikit-learn refuses a row of the wrong width.\<close>

definition model_predict :: "regressor \<Rightarrow> real list \<Rightarrow> exn + real" where
  "model_predict m x = (if length x = n_features_in m then Inr (reg_predict m x) else Inl ValueError)"

record std_scaler =
  sc_mean :: "real list"
  sc_scale :: "real list"
  sc_feature_names :: "string list option"

definition scaler_transform :: "std_scaler \<Rightarrow> real list \<Rightarrow> exn + real list" where
  "scaler_transform sc x =
     (if length x = length (sc_mean sc) \<and> length (sc_scale sc) = length (sc_mean sc)
      then Inr (map2 (\<lambda>v (m, s). (v - m) / s) x (zip (sc_mean sc) (sc_scale sc)))
      else Inl ValueError)"

record kmeans =
  cluster_centers :: "real list list"

definition sq_dist :: "real list \<Rightarrow> real list \<Rightarrow> real" where
  "sq_dist u v = sum_list (map2 (\<lambda>a b. (a - b)\<^sup>2) u v)"

text \<open>\<open>KMeans.predict\<close>: the index of the nearest centre, the first on ties.\<close>

fun nearest_from :: "nat \<Rightarrow> real list list \<Rightarrow> real list \<Rightarrow> nat \<Rightarrow> real \<Rightarrow> nat" where
  "nearest_from i [] x best d = best"
| "nearest_from i (c # cs) x best d =
     (if sq_dist x c < d then nearest_from (Suc i) cs x i (sq_dist x c) else nearest_from (Suc i) cs x best d)"

definition kmeans_predict :: "kmeans \<Rightarrow> real list \<Rightarrow> exn + nat" where
  "kmeans_predict km x =
     (case cluster_centers km of
        [] \<Rightarrow> Inl ValueError
      | c # cs \<Rightarrow>
          if list_all (\<lambda>c. length c = length x) (c # cs)
          then Inr (nearest_from 1 cs x 0 (sq_dist x c)) else Inl ValueError)"

type_synonym label_encoder = "json \<Rightarrow> real option"

section \<open>The module's globals\<close>

record cluster_record =
  cd_county :: string
  cd_state :: string
  cd_risk :: "real option"
  cd_cluster :: int

text \<open>\<open>cd_risk = None\<close> is a NaN \<open>composite_risk\<close> (\<open>float('nan')\<close>).\<close>

record api_state =
  model_obesity :: "regressor option"
  model_diabetes :: "regressor option"
  model_kmeans :: "kmeans option"
  scaler :: "std_scaler option"
  scaler_clustering :: "std_scaler option"
  encoders :: "(string \<times> label_encoder) list"
  all_feature_names :: "string list"
  scaler_feature_names :: "string list"
  clustering_data :: "cluster_record list"
  rag_service :: rag_state

definition clustering_feature_names :: "string list" where
  "clustering_feature_names =
     [''Adult_Diabetes_Rate_08'', ''Adult_Diabetes_Rate13'', ''Adult_Obesity_Rate_08'',
      ''Adult_Obesity_Rate13'', ''GYMs_Per_1000_Count_14'', ''Farmers_Markets_Count_16'', ''GROCPTH09'']"

definition api_init :: api_state where
  "api_init =
     \<lparr>model_obesity = None, model_diabetes = None, model_kmeans = None, scaler = None,
      scaler_clustering = None, encoders = [], all_feature_names = [], scaler_feature_names = [],
      clustering_data = [], rag_service = rag_init\<rparr>"

section \<open>Startup: load_artifacts\<close>

text \<open>
  What the startup hook finds on disk: the files of the \<open>encoders\<close>
  directory (\<open>None\<close> when it does not exist), each model file missing,
  unreadable or holding a fitted object, the clustering CSV, and the
  environment of the RAG service.
\<close>

record api_files =
  encoder_dir :: "(string \<times> label_encoder artifact) list option"
  obesity_file :: "regressor artifact"
  diabetes_file :: "regressor artifact"
  scaler_file :: "std_scaler artifact"
  kmeans_file :: "kmeans artifact"
  clustering_scaler_file :: "std_scaler artifact"
  clustering_csv :: "row list artifact"
  rag_files :: rag_env

text \<open>\<open>s.replace(old, '')\<close>: every non-overlapping occurrence, left to right.\<close>

function str_remove_all :: "string \<Rightarrow> string \<Rightarrow> string" where
  "str_remove_all p [] = []"
| "str_remove_all p (c # cs) =
     (if p \<noteq> [] \<and> prefix p (c # cs) then str_remove_all p (drop (length p - 1) cs)
      else c # str_remove_all p cs)"
  by pat_completeness auto
termination
  by (relation "measure (\<lambda>(p, s). length s)") auto

text \<open>\<open>joblib.load\<close> of one file under \<open>if os.path.exists\<close>: a missing file is
  skipped, an unreadable one raises.\<close>

definition load_opt :: "'a artifact \<Rightarrow> ('a \<Rightarrow> api_state \<Rightarrow> api_state) \<Rightarrow> api_state \<Rightarrow> api_state py_eff" where
  "load_opt a upd s = (case a of Missing \<Rightarrow> (None, s) | Unreadable \<Rightarrow> (Some UnpicklingError, s) | Loaded x \<Rightarrow> (None, upd x s))"

fun load_encoders :: "(string \<times> label_encoder artifact) list \<Rightarrow> api_state \<Rightarrow> api_state py_eff" where
  "load_encoders [] s = (None, s)"
| "load_encoders ((f, a) # fs) s =
     (if suffix ''_encoder.joblib'' f then
        then_do (load_opt a (\<lambda>enc s. s\<lparr>encoders := (str_remove_all ''_encoder.joblib'' f, enc) # encoders s\<rparr>) s)
          (load_encoders fs)
      else load_encoders fs s)"

definition load_encoders_block :: "api_files \<Rightarrow> api_state \<Rightarrow> api_state py_eff" where
  "load_encoders_block env s = (case encoder_dir env of None \<Rightarrow> (None, s) | Some fs \<Rightarrow> load_encoders fs s)"

definition load_models_block :: "api_files \<Rightarrow> api_state \<Rightarrow> api_state py_eff" where
  "load_models_block env s =
     then_do (load_opt (obesity_file env) (\<lambda>m s. s\<lparr>model_obesity := Some m\<rparr>) s) (\<lambda>s.
     then_do (load_opt (diabetes_file env) (\<lambda>m s. s\<lparr>model_diabetes := Some m\<rparr>) s) (\<lambda>s.
     then_do (load_opt (scaler_file env) (\<lambda>m s. s\<lparr>scaler := Some m\<rparr>) s) (\<lambda>s.
       (None, s\<lparr>all_feature_names :=
                  (case model_obesity s of
                     Some m \<Rightarrow> (case feature_names_in m of Some fs \<Rightarrow> fs | None \<Rightarrow> all_feature_names s)
                   | None \<Rightarrow> all_feature_names s),
                scaler_feature_names :=
                  (case scaler s of
                     Some sc \<Rightarrow> (case sc_feature_names sc of Some fs \<Rightarrow> fs | None \<Rightarrow> scaler_feature_names s)
                   | None \<Rightarrow> scaler_feature_names s)\<rparr>))))"

definition load_clustering_block :: "api_files \<Rightarrow> api_state \<Rightarrow> api_state py_eff" where
  "load_clustering_block env s =
     then_do (load_opt (kmeans_file env) (\<lambda>m s. s\<lparr>model_kmeans := Some m\<rparr>) s) (\<lambda>s.
       load_opt (clustering_scaler_file env) (\<lambda>m s. s\<lparr>scaler_clustering := Some m\<rparr>) s)"

text \<open>
  One CSV row as a clustering record: \<open>str(row['County']).strip()\<close>,
  \<open>float(row['composite_risk'])\<close> (NaN stays NaN), \<open>int(row['Cluster'])\<close>
  (NaN raises, floats truncate). A missing column is a \<open>KeyError\<close>. Cells
  of the numeric columns are read through their printed values.
\<close>

definition py_trunc :: "real \<Rightarrow> int" where
  "py_trunc x = (if 0 \<le> x then \<lfloor>x\<rfloor> else \<lceil>x\<rceil>)"

definition cell_str :: "row \<Rightarrow> string \<Rightarrow> exn + string" where
  "cell_str r k = (case map_of r k of None \<Rightarrow> Inl KeyError | c \<Rightarrow> Inr (py_strip (py_str c)))"

definition cell_float :: "row \<Rightarrow> string \<Rightarrow> exn + real option" where
  "cell_float r k =
     (case map_of r k of
        None \<Rightarrow> Inl KeyError
      | Some NaN \<Rightarrow> Inr None
      | Some (Cell v) \<Rightarrow> (case py_float_str v of Some x \<Rightarrow> Inr (Some x) | None \<Rightarrow> Inl ValueError))"

definition cell_int :: "row \<Rightarrow> string \<Rightarrow> exn + int" where
  "cell_int r k =
     (case cell_float r k of
        Inl e \<Rightarrow> Inl e
      | Inr None \<Rightarrow> Inl ValueError
      | Inr (Some x) \<Rightarrow> Inr (py_trunc x))"

definition row_record :: "row \<Rightarrow> exn + cluster_record" where
  "row_record r =
     (case (cell_str r ''County'', cell_str r ''State'', cell_float r ''composite_risk'', cell_int r ''Cluster'') of
        (Inr c, Inr st, Inr rk, Inr cl) \<Rightarrow> Inr \<lparr>cd_county = c, cd_state = st, cd_risk = rk, cd_cluster = cl\<rparr>
      | (Inl e, _, _, _) \<Rightarrow> Inl e
      | (_, Inl e, _, _) \<Rightarrow> Inl e
      | (_, _, Inl e, _) \<Rightarrow> Inl e
      | (_, _, _, Inl e) \<Rightarrow> Inl e)"

text \<open>\<open>CLUSTERING_DATA.append\<close> row by row: a failing row stops the loop, the
  records appended before it stay.\<close>

fun load_rows :: "row list \<Rightarrow> api_state \<Rightarrow> api_state py_eff" where
  "load_rows [] s = (None, s)"
| "load_rows (r # rs) s =
     (case row_record r of
        Inl e \<Rightarrow> (Some e, s)
      | Inr c \<Rightarrow> load_rows rs (s\<lparr>clustering_data := clustering_data s @ [c]\<rparr>))"

definition load_data_block :: "api_files \<Rightarrow> api_state \<Rightarrow> api_state py_eff" where
  "load_data_block env s =
     (case clustering_csv env of
        Missing \<Rightarrow> (None, s)
      | Unreadable \<Rightarrow> (Some OSError, s)
      | Loaded rows \<Rightarrow> load_rows rows s)"

definition load_rag_block :: "api_files \<Rightarrow> api_state \<Rightarrow> api_state py_eff" where
  "load_rag_block env s =
     (let (r, rs) = initialize (rag_files env) (rag_service s) in (r, s\<lparr>rag_service := rs\<rparr>))"

text \<open>Each block's exception is caught and printed; the next block runs.\<close>

definition load_artifacts :: "api_files \<Rightarrow> api_state \<Rightarrow> api_state" where
  "load_artifacts env s =
     (let s1 = snd (load_encoders_block env s);
          s2 = snd (load_models_block env s1);
          s3 = snd (load_clustering_block env s2);
          s4 = snd (load_data_block env s3)
      in snd (load_rag_block env s4))"

section \<open>Endpoints\<close>

definition home :: "api_state \<Rightarrow> json" where
  "home s =
     JObj [(''status'', JStr ''running''),
           (''models_loaded'', JBool (model_obesity s \<noteq> None \<and> model_kmeans s \<noteq> None)),
           (''clustering_data_loaded'', JBool (0 < length (clustering_data s)))]"

text \<open>
  Serialising a response: Starlette's JSON encoder refuses NaN
  (\<open>allow_nan=False\<close>), so a record with a NaN risk makes the endpoint fail.
\<close>

definition cluster_record_json :: "cluster_record \<Rightarrow> exn + json" where
  "cluster_record_json c =
     (case cd_risk c of
        None \<Rightarrow> Inl ValueError
      | Some rk \<Rightarrow> Inr (JObj [(''county'', JStr (cd_county c)), (''state'', JStr (cd_state c)),
                            (''risk'', JNum rk), (''cluster'', JNum (of_int (cd_cluster c)))]))"

fun json_all :: "('a \<Rightarrow> exn + json) \<Rightarrow> 'a list \<Rightarrow> exn + json list" where
  "json_all f [] = Inr []"
| "json_all f (x # xs) =
     (case f x of Inl e \<Rightarrow> Inl e | Inr j \<Rightarrow> (case json_all f xs of Inl e \<Rightarrow> Inl e | Inr js \<Rightarrow> Inr (j # js)))"

definition get_clustering_data :: "api_state \<Rightarrow> exn + json" where
  "get_clustering_data s =
     (case json_all cluster_record_json (clustering_data s) of
        Inl e \<Rightarrow> Inl e
      | Inr cs \<Rightarrow> Inr (JObj [(''counties'', JList cs)]))"

subsection \<open>/predict\<close>

text \<open>
  How \<open>/predict\<close> can fail: an \<open>HTTPException\<close> raised outside the \<open>try\<close>
  (status and detail), or any exception raised inside it, which the
  \<open>except Exception as e\<close> turns into \<open>HTTPException(500, str(e))\<close>; that
  includes the \<open>HTTPException(400)\<close> of an unknown model type.
\<close>

datatype predict_error = HttpError nat string | Http500Of exn

record pred_response =
  prediction :: real
  probability :: "(real \<times> real) option"
  model_used :: string

text \<open>\<open>str.lower()\<close> (ASCII letters; other characters are kept).\<close>

text \<open>The interval is sent as \<open>"95% Confidence Interval: {lower:.1f}% - {upper:.1f}%"\<close>.\<close>

definition lower_char :: "char \<Rightarrow> char" where
  "lower_char c =
     (case map_of (zip ''ABCDEFGHIJKLMNOPQRSTUVWXYZ'' ''abcdefghijklmnopqrstuvwxyz'') c of Some l \<Rightarrow> l | None \<Rightarrow> c)"

definition py_lower :: "string \<Rightarrow> string" where
  "py_lower = map lower_char"

text \<open>One raw input: encoded when an encoder exists (unknown category: 0),
  otherwise \<open>float(val)\<close> (failure: 0); absent features are \<open>0.0\<close>.\<close>

definition raw_value :: "api_state \<Rightarrow> (string \<times> json) list \<Rightarrow> string \<Rightarrow> real" where
  "raw_value s features name =
     (let v = dict_get features name (JNum 0) in
      case map_of (encoders s) name of
        Some enc \<Rightarrow> (case enc v of Some x \<Rightarrow> x | None \<Rightarrow> 0)
      | None \<Rightarrow> (case py_float v of Some x \<Rightarrow> x | None \<Rightarrow> 0))"

definition raw_inputs :: "api_state \<Rightarrow> (string \<times> json) list \<Rightarrow> (string \<times> real) list" where
  "raw_inputs s features =
     map (\<lambda>n. (n, raw_value s features n)) (remdups (all_feature_names s @ scaler_feature_names s))"

definition proxy_feature :: "string \<Rightarrow> string" where
  "proxy_feature model_type =
     (if model_type = ''obesity'' then ''Adult_Obesity_Rate_08'' else ''Adult_Diabetes_Rate_08'')"

text \<open>\<open>names.index(x)\<close> (called only when \<open>x in names\<close>).\<close>

fun list_index :: "'a list \<Rightarrow> 'a \<Rightarrow> nat" where
  "list_index [] x = 0"
| "list_index (y # ys) x = (if y = x then 0 else Suc (list_index ys x))"

text \<open>\<open>v * SCALER.scale_[idx] + SCALER.mean_[idx]\<close> for the proxy's column.\<close>

definition inverse_at :: "std_scaler \<Rightarrow> string list \<Rightarrow> string \<Rightarrow> real \<Rightarrow> exn + real" where
  "inverse_at sc names proxy v =
     (let idx = list_index names proxy in
      if idx < length (sc_mean sc) \<and> idx < length (sc_scale sc)
      then Inr (v * sc_scale sc ! idx + sc_mean sc ! idx) else Inl IndexError)"

text \<open>
  The confidence interval from the trees' predictions; the trees are put
  back on the original scale only when the prediction is above 10 in
  absolute value and the raw prediction below 10. Any failure leaves it
  \<open>None\<close> (\<open>except: pass\<close>).
\<close>

definition confidence_interval ::
  "std_scaler \<Rightarrow> string list \<Rightarrow> string \<Rightarrow> regressor \<Rightarrow> real list \<Rightarrow> real \<Rightarrow> real \<Rightarrow> (real \<times> real) option" where
  "confidence_interval sc names model_type m x raw_pred pv =
     (case estimators m of
        None \<Rightarrow> None
      | Some ests \<Rightarrow>
          (let trees = map (\<lambda>est. est x) ests;
               proxy = proxy_feature model_type;
               trees' = (if \<bar>pv\<bar> > 10 \<and> \<bar>raw_pred\<bar> < 10 \<and> proxy \<in> set names
                         then (let idx = list_index names proxy in
                               if idx < length (sc_mean sc) \<and> idx < length (sc_scale sc)
                               then Some (map (\<lambda>t. t * sc_scale sc ! idx + sc_mean sc ! idx) trees) else None)
                         else Some trees)
           in case trees' of
                None \<Rightarrow> None
              | Some ts \<Rightarrow> (let sd = np_std ts in Some (max 0 (pv - 1.96 * sd), pv + 1.96 * sd))))"

definition predict :: "api_state \<Rightarrow> string \<Rightarrow> (string \<times> json) list \<Rightarrow> predict_error + pred_response" where
  "predict s model_type_in features =
     (case (model_obesity s, scaler s) of
        (Some obesity, Some sc) \<Rightarrow>
          (let model_type = py_lower model_type_in in
           if model_type \<noteq> ''obesity'' \<and> model_type \<noteq> ''diabetes''
           then Inl (Http500Of (HTTPException 400 ''Invalid model_type''))
           else
             (let (model, target_name) =
                    (if model_type = ''obesity'' then (Some obesity, ''Obesity'') else (model_diabetes s, ''Diabetes''));
                  raw = raw_inputs s features;
                  names = scaler_feature_names s;
                  scaled = (if names \<noteq> []
                            then (case scaler_transform sc (map (\<lambda>n. dict_get raw n 0) names) of
                                    Inl e \<Rightarrow> Inl e
                                  | Inr xs \<Rightarrow> Inr (zip names xs))
                            else Inr raw)
              in case scaled of
                   Inl e \<Rightarrow> Inl (Http500Of e)
                 | Inr scaled_map \<Rightarrow>
                     (let x = map (\<lambda>n. dict_get scaled_map n 0) (all_feature_names s) in
                      case model of
                        None \<Rightarrow> Inl (Http500Of AttributeError)
                      | Some m \<Rightarrow>
                          (case model_predict m x of
                             Inl e \<Rightarrow> Inl (Http500Of e)
                           | Inr raw_pred \<Rightarrow>
                               (let proxy = proxy_feature model_type;
                                    pv = (if \<bar>raw_pred\<bar> < 10 \<and> proxy \<in> set names
                                          then inverse_at sc names proxy raw_pred else Inr raw_pred)
                                in case pv of
                                     Inl e \<Rightarrow> Inl (Http500Of e)
                                   | Inr v \<Rightarrow>
                                       Inr \<lparr>prediction = v,
                                            probability = confidence_interval sc names model_type m x raw_pred v,
                                            model_used = target_name\<rparr>)))))
      | _ \<Rightarrow> Inl (HttpError 503 ''Models not loaded''))"

subsection \<open>/ask\<close>

text \<open>
  The response body of \<open>/ask\<close>: each source's metadata with its similarity.
  A NaN county or state cannot be serialised; a missing one is \<open>null\<close>.
\<close>

definition cell_json :: "cell option \<Rightarrow> exn + json" where
  "cell_json c = (case c of None \<Rightarrow> Inr JNull | Some NaN \<Rightarrow> Inl ValueError | Some (Cell v) \<Rightarrow> Inr (JStr v))"

definition source_json :: "source \<Rightarrow> exn + json" where
  "source_json src =
     (case (cell_json (src_county src), cell_json (src_state src)) of
        (Inr c, Inr st) \<Rightarrow>
          Inr (JObj [(''county'', c), (''state'', st), (''is_high_risk'', JBool (src_is_high_risk src)),
                     (''similarity'', JNum (similarity src))])
      | (Inl e, _) \<Rightarrow> Inl e
      | (_, Inl e) \<Rightarrow> Inl e)"

definition ask_endpoint :: "groq_api \<Rightarrow> rag_env \<Rightarrow> api_state \<Rightarrow> string \<Rightarrow> (exn + json) \<times> api_state" where
  "ask_endpoint groq env s query =
     (let (r0, rs0) = (if \<not> initialized (rag_service s) then initialize env (rag_service s)
                       else (None, rag_service s))
      in case r0 of
           Some e \<Rightarrow> (Inl e, s\<lparr>rag_service := rs0\<rparr>)
         | None \<Rightarrow>
             (let (r, rs) = RagService.ask env groq rs0 query;
                  s' = s\<lparr>rag_service := rs\<rparr>
              in case r of
                   Inl e \<Rightarrow> (Inl e, s')
                 | Inr (AskError m) \<Rightarrow> (Inl (HTTPException 500 m), s')
                 | Inr (AskAnswer a srcs _) \<Rightarrow>
                     (case json_all source_json srcs of
                        Inl e \<Rightarrow> (Inl e, s')
                      | Inr js \<Rightarrow> (Inr (JObj [(''answer'', JStr a), (''sources'', JList js)]), s'))))"

subsection \<open>/predict-cluster\<close>

text \<open>A clustering feature: absent or \<open>null\<close> gives 0, so does a value \<open>float\<close> refuses.\<close>

definition cluster_input :: "(string \<times> json) list \<Rightarrow> string \<Rightarrow> real" where
  "cluster_input features name =
     (case map_of features name of
        None \<Rightarrow> 0
      | Some JNull \<Rightarrow> 0
      | Some v \<Rightarrow> (case py_float v of Some x \<Rightarrow> x | None \<Rightarrow> 0))"

definition predict_cluster :: "api_state \<Rightarrow> (string \<times> json) list \<Rightarrow> predict_error + (nat \<times> (string \<times> real) list)" where
  "predict_cluster s features =
     (case (model_kmeans s, scaler_clustering s) of
        (Some km, Some sc) \<Rightarrow>
          (let features_used = map (\<lambda>n. (n, cluster_input features n)) clustering_feature_names
           in case scaler_transform sc (map snd features_used) of
                Inl e \<Rightarrow> Inl (Http500Of e)
              | Inr x \<Rightarrow>
                  (case kmeans_predict km x of
                     Inl e \<Rightarrow> Inl (Http500Of e)
                   | Inr c \<Rightarrow> Inr (c, features_used)))
      | _ \<Rightarrow> Inl (HttpError 503 ''Clustering models not loaded''))"

section \<open>The service over HTTP\<close>

text \<open>
  The routes the Django site calls, as the network it sees: \<open>POST /ask\<close>
  with an \<open>AskRequest\<close> body and \<open>GET /clustering-data\<close>; anything else is
  a 404. A body that is not an \<open>AskRequest\<close> is refused with 422 by FastAPI's
  validation. The service state is the one the request finds.
\<close>

definition health_post :: "groq_api \<Rightarrow> rag_env \<Rightarrow> api_state \<Rightarrow> string \<Rightarrow> post_fn" where
  "health_post groq env s base url payload =
     (if url = base @ ''/ask'' then
        (case payload of
           JObj [(''query'', JStr q)] \<Rightarrow> Got (serve url (fst (ask_endpoint groq env s q)))
         | _ \<Rightarrow> Got (serve url (Inl (HTTPException 422 ''Unprocessable Entity''))))
      else Got (serve url (Inl (HTTPException 404 ''Not Found''))))"

definition health_get :: "api_state \<Rightarrow> string \<Rightarrow> get_fn" where
  "health_get s base url =
     (if url = base @ ''/clustering-data'' then Got (serve url (get_clustering_data s))
      else Got (serve url (Inl (HTTPException 404 ''Not Found''))))"

text \<open>
  \<open>PredictionRequest\<close>, the body of \<open>/predict\<close> and \<open>/predict-cluster\<close>:
  an object with a string \<open>model_type\<close> and a dict \<open>features\<close> (other keys
  are ignored); anything else is refused with 422.
\<close>

definition prediction_request :: "json \<Rightarrow> (string \<times> (string \<times> json) list) option" where
  "prediction_request body =
     (case body of
        JObj d \<Rightarrow> (case (map_of d ''model_type'', map_of d ''features'') of
                    (Some (JStr m), Some (JObj f)) \<Rightarrow> Some (m, f)
                  | _ \<Rightarrow> None)
      | _ \<Rightarrow> None)"

text \<open>\<open>ClusteringResponse(cluster=..., features_used=...)\<close> as sent.\<close>

definition clustering_response_json :: "nat \<times> (string \<times> real) list \<Rightarrow> json" where
  "clustering_response_json r =
     JObj [(''cluster'', JNum (of_nat (fst r))), (''features_used'', JObj (map (\<lambda>(n, v). (n, JNum v)) (snd r)))]"

text \<open>
  An error of an endpoint as the exception FastAPI answers: the
  \<open>HTTPException\<close> raised outside the \<open>try\<close>, or
  \<open>HTTPException(500, str(e))\<close> (\<open>exn_str\<close> is \<open>str(e)\<close>).
\<close>

definition predict_exn :: "(exn \<Rightarrow> string) \<Rightarrow> predict_error \<Rightarrow> exn" where
  "predict_exn exn_str err =
     (case err of HttpError st d \<Rightarrow> HTTPException st d | Http500Of e \<Rightarrow> HTTPException 500 (exn_str e))"

text \<open>
  \<open>f"{x:.1f}"\<close>: the value rounded to one decimal (half to even on the
  exact value), with a minus sign for a negative value even when it rounds
  to zero.
\<close>

definition fmt_1f :: "real \<Rightarrow> string" where
  "fmt_1f x =
     (let n = nat \<bar>round_half_even (x * 10)\<bar>
      in (if x < 0 then ''-'' else []) @ nat_str (n div 10) @ ''.'' @ nat_str (n mod 10))"

definition interval_str :: "real \<times> real \<Rightarrow> string" where
  "interval_str i = ''95% Confidence Interval: '' @ fmt_1f (fst i) @ ''% - '' @ fmt_1f (snd i) @ ''%''"

text \<open>\<open>PredictionResponse(prediction=..., probability=prob_str, model_used=...)\<close> as sent.\<close>

definition pred_response_json :: "pred_response \<Rightarrow> json" where
  "pred_response_json r =
     JObj [(''prediction'', JNum (prediction r)),
           (''probability'', case probability r of None \<Rightarrow> JNull | Some i \<Rightarrow> JStr (interval_str i)),
           (''model_used'', JStr (model_used r))]"

text \<open>
  The service with its \<open>/predict\<close> and \<open>/predict-cluster\<close> routes
  too, as the Django health client's network.
\<close>

definition health_api_post :: "(exn \<Rightarrow> string) \<Rightarrow> groq_api \<Rightarrow> rag_env \<Rightarrow> api_state \<Rightarrow> string \<Rightarrow> post_fn" where
  "health_api_post exn_str groq env s base url payload =
     (if url = base @ ''/predict'' then
        (case prediction_request payload of
           None \<Rightarrow> Got (serve url (Inl (HTTPException 422 ''Unprocessable Entity'')))
         | Some (model_type, features) \<Rightarrow>
             Got (serve url (case predict s model_type features of
                               Inl err \<Rightarrow> Inl (predict_exn exn_str err)
                             | Inr r \<Rightarrow> Inr (pred_response_json r))))
      else if url = base @ ''/predict-cluster'' then
        (case prediction_request payload of
           None \<Rightarrow> Got (serve url (Inl (HTTPException 422 ''Unprocessable Entity'')))
         | Some (_, features) \<Rightarrow>
             Got (serve url (case predict_cluster s features of
                               Inl err \<Rightarrow> Inl (predict_exn exn_str err)
                             | Inr r \<Rightarrow> Inr (clustering_response_json r))))
      else health_post groq env s base url payload)"

text \<open>The exceptions the RAG service can raise.\<close>

definition rag_exn :: "exn \<Rightarrow> bool" where
  "rag_exn e \<longleftrightarrow> e = OSError \<or> e = FaissError \<or> e = UnpicklingError \<or> e = AttributeError"

section \<open>Examples\<close>

text \<open>Small fitted objects and files used to instantiate the theorems below.\<close>

definition example_regressor :: regressor where
  "example_regressor =
     \<lparr>reg_predict = (\<lambda>x. 0.5), n_features_in = 1, estimators = Some [(\<lambda>x. 0.5), (\<lambda>x. 0.5)],
      feature_names_in = Some [''Adult_Obesity_Rate_08'']\<rparr>"

definition example_scaler :: std_scaler where
  "example_scaler = \<lparr>sc_mean = [30], sc_scale = [5], sc_feature_names = Some [''Adult_Obesity_Rate_08'']\<rparr>"

definition example_api :: api_state where
  "example_api =
     api_init\<lparr>model_obesity := Some example_regressor, scaler := Some example_scaler,
              all_feature_names := [''Adult_Obesity_Rate_08''], scaler_feature_names := [''Adult_Obesity_Rate_08'']\<rparr>"

definition example_rows :: "row list" where
  "example_rows =
     [[(''County'', Cell ''Alpha''), (''State'', Cell ''CA''), (''composite_risk'', Cell ''8.2''), (''Cluster'', Cell ''1'')],
      [(''County'', Cell ''Beta''), (''State'', Cell ''TX''), (''composite_risk'', Cell ''7.5''), (''Cluster'', NaN)],
      [(''County'', Cell ''Gamma''), (''State'', Cell ''NY''), (''composite_risk'', Cell ''6.1''), (''Cluster'', Cell ''1'')]]"

definition example_files :: api_files where
  "example_files =
     \<lparr>encoder_dir = None, obesity_file = Missing, diabetes_file = Missing, scaler_file = Missing,
      kmeans_file = Missing, clustering_scaler_file = Missing, clustering_csv = Loaded example_rows,
      rag_files = \<lparr>st_model = None, index_file = Missing, chunks_file = Missing, groq_api_key = None\<rparr>\<rparr>"

definition example_kmeans :: kmeans where
  "example_kmeans = \<lparr>cluster_centers = [[0, 0, 0, 0, 0, 0, 0], [1, 1, 1, 1, 1, 1, 1]]\<rparr>"

definition example_cluster_api :: api_state where
  "example_cluster_api =
     api_init\<lparr>model_kmeans := Some example_kmeans,
              scaler_clustering := Some \<lparr>sc_mean = [0, 0, 0, 0, 0, 0, 0], sc_scale = [1, 1, 1, 1, 1, 1, 1], sc_feature_names = None\<rparr>\<rparr>"

section \<open>Lemmas and properties\<close>

lemma nearest_from_bound: "best < i \<Longrightarrow> nearest_from i cs x best d < i + length cs"
  by (induction i cs x best d rule: nearest_from.induct) simp_all

lemma kmeans_predict_bound: "kmeans_predict km x = Inr c \<Longrightarrow> c < length (cluster_centers km)"
  using nearest_from_bound[of 0 1]
  by (auto simp: kmeans_predict_def split: list.splits if_splits)

lemma load_encoders_keeps:
  "rag_service (snd (load_encoders fs s)) = rag_service s \<and> clustering_data (snd (load_encoders fs s)) = clustering_data s"
  by (induction fs s rule: load_encoders.induct) (auto simp: then_do_def load_opt_def split: artifact.splits prod.splits option.splits)

lemma load_rows_keeps: "rag_service (snd (load_rows rows s)) = rag_service s"
  by (induction rows s rule: load_rows.induct) (simp_all split: sum.splits)

lemma load_rows_data:
  "clustering_data (snd (load_rows rows s))
     = clustering_data s @ map (\<lambda>r. projr (row_record r)) (takeWhile (\<lambda>r. \<not> isl (row_record r)) rows)"
  by (induction rows s rule: load_rows.induct) (auto split: sum.splits)

lemma blocks_keep_rag:
  "rag_service (snd (load_encoders_block env s)) = rag_service s"
  "rag_service (snd (load_models_block env s)) = rag_service s"
  "rag_service (snd (load_clustering_block env s)) = rag_service s"
  "rag_service (snd (load_data_block env s)) = rag_service s"
  by (simp_all add: load_encoders_block_def load_models_block_def load_clustering_block_def
        load_data_block_def load_encoders_keeps load_rows_keeps then_do_def load_opt_def
        split: option.splits artifact.splits prod.splits)

lemma example_predict:
  "predict example_api ''Obesity'' [(''Adult_Obesity_Rate_08'', JNum 33)]
     = Inr \<lparr>prediction = 32.5, probability = Some (32.5, 32.5), model_used = ''Obesity''\<rparr>"
  by (simp add: predict_def example_api_def api_init_def example_regressor_def example_scaler_def
      py_lower_def lower_char_def raw_inputs_def raw_value_def scaler_transform_def model_predict_def proxy_feature_def
      inverse_at_def confidence_interval_def np_std_def np_mean_def Let_def)

text \<open>
  C29. \<open>/predict\<close> with loaded models and a model type other than obesity or
  diabetes answers 500, not 400: the \<open>HTTPException(400)\<close> raised inside the
  \<open>try\<close> is caught by \<open>except Exception\<close> and re-raised as
  \<open>HTTPException(500, "400: Invalid model_type")\<close>.
\<close>

theorem predict_invalid_model_type:
  assumes "model_obesity s = Some m" "scaler s = Some sc"
    "py_lower model_type \<noteq> ''obesity''" "py_lower model_type \<noteq> ''diabetes''"
  shows "predict s model_type features = Inl (Http500Of (HTTPException 400 ''Invalid model_type''))"
  using assms by (simp add: predict_def)

theorem predict_invalid_model_type_witness:
  "predict example_api ''cancer'' [] = Inl (Http500Of (HTTPException 400 ''Invalid model_type''))"
  by (rule predict_invalid_model_type[of _ example_regressor example_scaler])
     (simp_all add: example_api_def py_lower_def lower_char_def)

lemma np_std_nonneg: "0 \<le> np_std xs"
  unfolding np_std_def by (intro real_sqrt_ge_zero divide_nonneg_nonneg sum_list_nonneg) auto

lemma confidence_interval_shape:
  "confidence_interval sc names mt m x raw pv = Some (lo, hi) \<Longrightarrow>
   \<exists>sd. 0 \<le> sd \<and> lo = max 0 (pv - 1.96 * sd) \<and> hi = pv + 1.96 * sd"
  using np_std_nonneg
  by (fastforce simp: confidence_interval_def Let_def split: option.splits if_splits)

lemma predict_Inr_interval:
  "predict s mt fs = Inr r \<Longrightarrow>
   \<exists>sc names mt' m x raw. probability r = confidence_interval sc names mt' m x raw (prediction r)"
  by (auto simp: predict_def Let_def split: option.splits prod.splits if_splits sum.splits) (blast+)

text \<open>
  C30. The confidence interval \<open>/predict\<close> reports never has a negative
  lower bound, its upper bound is at least the prediction, and for a
  non-negative prediction the lower bound is at most the prediction.
\<close>

theorem predict_interval_bounds:
  assumes "predict s model_type features = Inr r" "probability r = Some (lo, hi)"
  shows "0 \<le> lo \<and> prediction r \<le> hi \<and> (0 \<le> prediction r \<longrightarrow> lo \<le> prediction r)"
proof -
  obtain sc names mt' m x raw where "confidence_interval sc names mt' m x raw (prediction r) = Some (lo, hi)"
    using predict_Inr_interval[OF assms(1)] assms(2) by metis
  then obtain sd where "0 \<le> sd" "lo = max 0 (prediction r - 1.96 * sd)" "hi = prediction r + 1.96 * sd"
    by (blast dest: confidence_interval_shape)
  then show ?thesis by auto
qed

theorem predict_interval_bounds_witness:
  "\<exists>r lo hi. predict example_api ''Obesity'' [(''Adult_Obesity_Rate_08'', JNum 33)] = Inr r
     \<and> probability r = Some (lo, hi) \<and> 0 \<le> lo \<and> prediction r \<le> hi \<and> lo \<le> prediction r"
proof -
  let ?r = "\<lparr>prediction = 32.5, probability = Some (32.5, 32.5), model_used = ''Obesity''\<rparr>"
  have "0 \<le> (32.5::real) \<and> prediction ?r \<le> 32.5 \<and> (0 \<le> prediction ?r \<longrightarrow> 32.5 \<le> prediction ?r)"
    using predict_interval_bounds[OF example_predict] by simp
  then show ?thesis
    by (intro exI[where x = ?r] exI[where x = "32.5::real"] conjI example_predict) simp_all
qed

lemma blocks_keep_data:
  "clustering_data (snd (load_encoders_block env s)) = clustering_data s"
  "clustering_data (snd (load_models_block env s)) = clustering_data s"
  "clustering_data (snd (load_clustering_block env s)) = clustering_data s"
  "clustering_data (snd (load_rag_block env s)) = clustering_data s"
  by (simp_all add: load_encoders_block_def load_models_block_def load_clustering_block_def
        load_rag_block_def load_encoders_keeps then_do_def load_opt_def
        split: option.splits artifact.splits prod.splits)

text \<open>
  The startup hook's blocks are isolated: whatever happens to the
  encoders, models, scalers and clustering data, the RAG service ends in
  the state \<open>initialize\<close> alone gives it.
\<close>

theorem load_artifacts_rag_isolated:
  "rag_service (load_artifacts env s) = snd (initialize (rag_files env) (rag_service s))"
  by (simp add: load_artifacts_def load_rag_block_def blocks_keep_rag split: prod.splits)

text \<open>
  C32. Loading the clustering CSV stops at the first row that cannot be
  converted (a missing column, a non-numeric risk, a NaN cluster): the rows
  before it are kept, every later row is dropped.
\<close>

theorem load_artifacts_partial_rows:
  assumes "clustering_csv env = Loaded rows"
  shows "clustering_data (load_artifacts env s)
           = clustering_data s @ map (\<lambda>r. projr (row_record r)) (takeWhile (\<lambda>r. \<not> isl (row_record r)) rows)"
  using assms
  by (simp add: load_artifacts_def Let_def blocks_keep_data load_data_block_def load_rows_data)

theorem load_artifacts_partial_rows_witness:
  "clustering_data (load_artifacts example_files api_init)
     = [\<lparr>cd_county = ''Alpha'', cd_state = ''CA'', cd_risk = Some 8.2, cd_cluster = 1\<rparr>]"
proof -
  have "map (\<lambda>r. projr (row_record r)) (takeWhile (\<lambda>r. \<not> isl (row_record r)) example_rows)
          = [\<lparr>cd_county = ''Alpha'', cd_state = ''CA'', cd_risk = Some 8.2, cd_cluster = 1\<rparr>]"
    by (simp add: example_rows_def row_record_def cell_str_def cell_float_def cell_int_def py_trunc_def
        float_parse_defs Let_def)
  then show ?thesis
    using load_artifacts_partial_rows[of example_files example_rows api_init]
    by (simp add: example_files_def api_init_def)
qed

text \<open>
  A successful \<open>/predict-cluster\<close> returns the index of one of the
  model's centres, and reports the seven clustering features in order.
\<close>

theorem predict_cluster_ok:
  assumes "model_kmeans s = Some km" "predict_cluster s features = Inr (c, used)"
  shows "c < length (cluster_centers km) \<and> map fst used = clustering_feature_names"
  using assms
  by (auto simp: predict_cluster_def Let_def o_def dest: kmeans_predict_bound split: sum.splits option.splits)

theorem predict_cluster_ok_witness:
  "0 < length (cluster_centers example_kmeans) \<and> map fst (map (\<lambda>n. (n, 0::real)) clustering_feature_names) = clustering_feature_names"
proof -
  have "predict_cluster example_cluster_api [] = Inr (0, map (\<lambda>n. (n, 0)) clustering_feature_names)"
    by (simp add: predict_cluster_def example_cluster_api_def api_init_def example_kmeans_def
        clustering_feature_names_def cluster_input_def scaler_transform_def kmeans_predict_def sq_dist_def)
  then show ?thesis
    by (rule predict_cluster_ok[rotated]) (simp add: example_cluster_api_def api_init_def)
qed

lemma initialize_exn: "fst (initialize env s) = Some e \<Longrightarrow> rag_exn e"
  by (auto simp: initialize_def then_do_def load_embedding_model_def load_faiss_index_def load_chunks_def
      load_groq_client_def rag_exn_def split: option.splits artifact.splits prod.splits if_splits)

lemma initialize_exn_pair: "initialize env s = (Some e, t) \<Longrightarrow> rag_exn e"
  using initialize_exn[of env s] by simp

lemma retrieve_exn: "retrieve s q k = Inl e \<Longrightarrow> rag_exn e"
  by (auto simp: retrieve_def index_search_def rag_exn_def split: option.splits if_splits sum.splits)

lemma ask_exn: "fst (RagService.ask env groq s q) = Inl e \<Longrightarrow> rag_exn e"
  unfolding RagService.ask_def
  by (cases "initialize env s")
     (auto simp: Let_def dest: initialize_exn_pair retrieve_exn split: if_splits option.splits sum.splits prod.splits)

lemma ask_exn_pair: "RagService.ask env groq s q = (Inl e, t) \<Longrightarrow> rag_exn e"
  using ask_exn[of env groq s q] by simp

lemma source_json_exn: "json_all source_json xs = Inl e \<Longrightarrow> e = ValueError"
  by (induction xs) (auto simp: source_json_def cell_json_def split: sum.splits option.splits cell.splits prod.splits)

lemma ask_endpoint_exn:
  "fst (ask_endpoint groq env s q) = Inl e \<Longrightarrow> http_error (serve u (Inl e))"
proof -
  assume h: "fst (ask_endpoint groq env s q) = Inl e"
  have "rag_exn e \<or> e = ValueError \<or> (\<exists>m. e = HTTPException 500 m)"
    using h unfolding ask_endpoint_def
    by (cases "initialize env (rag_service s)"; cases "RagService.ask env groq (snd (initialize env (rag_service s))) q";
        cases "RagService.ask env groq (rag_service s) q")
       (auto simp: Let_def dest: initialize_exn_pair ask_exn_pair source_json_exn
             split: if_splits option.splits sum.splits ask_result.splits)
  then show ?thesis
    by (auto simp: rag_exn_def intro: http_error_serve_exn)
qed

lemma ask_endpoint_Inr:
  "fst (ask_endpoint groq env s q) = Inr b \<Longrightarrow> \<exists>a js. b = JObj [(''answer'', JStr a), (''sources'', JList js)]"
  unfolding ask_endpoint_def
  by (cases "initialize env (rag_service s)"; cases "RagService.ask env groq (snd (initialize env (rag_service s))) q";
      cases "RagService.ask env groq (rag_service s) q")
     (auto simp: Let_def split: if_splits option.splits sum.splits ask_result.splits)

lemma json_all_records:
  "json_all cluster_record_json cs =
     (if list_all (\<lambda>c. cd_risk c \<noteq> None) cs then Inr (map (\<lambda>c. projr (cluster_record_json c)) cs)
      else Inl ValueError)"
  by (induction cs) (auto simp: cluster_record_json_def split: option.splits sum.splits)

end
