(* ===== verification/Insecurity.thy ===== *)
theory Insecurity
  imports HealthApi
begin

text \<open>
  Food-insecurity prediction, on both sides of the wire: the Django service
  of src/us_foodscope/insecurity/services.py (\<open>FoodInsecurityPredictionService\<close>
  over the singleton \<open>InsecurityMLLoader\<close> of ml_loader.py, and
  \<open>ClusteringDataService\<close>), and the FastAPI app of
  src/us_foodscope/insecurity/serving/app.py (startup loading,
  \<open>/\<close>, \<open>/clustering-data\<close>, \<open>/predict\<close>, \<open>/model-info\<close>). Fitted models are
  the records of the health API theory.
\<close>

section \<open>Risk levels\<close>

text \<open>The thresholds both sides use.\<close>

definition risk_level_of :: "real \<Rightarrow> string" where
  "risk_level_of p = (if p < 0.3 then ''Low'' else if p < 0.6 then ''Medium'' else ''High'')"

definition risk_color_of :: "real \<Rightarrow> string" where
  "risk_color_of p = (if p < 0.3 then ''#9ecae1'' else if p < 0.6 then ''#fc9272'' else ''#de2d26'')"

section \<open>insecurity/ml_loader.py\<close>

text \<open>
  The files \<open>_download_and_load\<close> can obtain (a cached or downloaded pickle:
  a failed download or an unreadable pickle raises), and the metadata
  request (its decoded body, or the message of the failure).
\<close>

record insec_env =
  kmeans_pkl :: "kmeans artifact"
  scaler_clustering_pkl :: "std_scaler artifact"
  rf_pkl :: "regressor artifact"
  scaler_prediction_pkl :: "std_scaler artifact"
  metadata_resp :: "string + json"

text \<open>\<open>_models\<close> (one optional entry per key) and \<open>_metadata\<close>.\<close>

record insec_loader =
  ld_kmeans :: "kmeans option"
  ld_scaler_clustering :: "std_scaler option"
  ld_rf :: "regressor option"
  ld_scaler_prediction :: "std_scaler option"
  ld_metadata :: json

definition loader_init :: insec_loader where
  "loader_init =
     \<lparr>ld_kmeans = None, ld_scaler_clustering = None, ld_rf = None, ld_scaler_prediction = None,
      ld_metadata = JObj []\<rparr>"

definition download_and_load :: "'a artifact \<Rightarrow> exn + 'a" where
  "download_and_load a =
     (case a of Loaded x \<Rightarrow> Inr x | Missing \<Rightarrow> Inl (RequestException ''download failed'') | Unreadable \<Rightarrow> Inl UnpicklingError)"

definition load_step :: "'a artifact \<Rightarrow> ('a \<Rightarrow> insec_loader \<Rightarrow> insec_loader) \<Rightarrow> insec_loader \<Rightarrow> insec_loader py_eff" where
  "load_step a upd s = (case download_and_load a of Inl e \<Rightarrow> (Some e, s) | Inr x \<Rightarrow> (None, upd x s))"

text \<open>\<open>_load_models\<close>: the first failure ends the \<open>try\<close>; what was stored stays.\<close>

definition load_models :: "insec_env \<Rightarrow> insec_loader \<Rightarrow> insec_loader" where
  "load_models env s =
     snd (then_do (load_step (kmeans_pkl env) (\<lambda>m s. s\<lparr>ld_kmeans := Some m\<rparr>) s) (\<lambda>s.
          then_do (load_step (scaler_clustering_pkl env) (\<lambda>m s. s\<lparr>ld_scaler_clustering := Some m\<rparr>) s) (\<lambda>s.
          then_do (load_step (rf_pkl env) (\<lambda>m s. s\<lparr>ld_rf := Some m\<rparr>) s) (\<lambda>s.
          then_do (load_step (scaler_prediction_pkl env) (\<lambda>m s. s\<lparr>ld_scaler_prediction := Some m\<rparr>) s) (\<lambda>s.
            (case metadata_resp env of
               Inl msg \<Rightarrow> (Some (RequestException msg), s)
             | Inr md \<Rightarrow> (None, s\<lparr>ld_metadata := md\<rparr>)))))))"

definition clustering_features :: "string list" where
  "clustering_features =
     [''PCT_LACCESS_POP15'', ''LACCESS_BLACK15'', ''LACCESS_HISP15'', ''LACCESS_NHASIAN15'',
      ''Poverty_Rate'', ''Adult_Obesity_Rate13'', ''Adult_Diabetes_Rate13'', ''FOODINSEC_13_15'']"

text \<open>
  The public accessors (\<open>has_model\<close> tests the key of \<open>_models\<close>,
  \<open>get_feature_names\<close> reads the metadata) and the module's singleton
  \<open>ml_loader\<close>, whose first construction runs \<open>_load_models\<close> on the empty
  class attributes.
\<close>

definition has_model :: "insec_loader \<Rightarrow> string \<Rightarrow> bool" where
  "has_model ld model_name =
     (if model_name = ''kmeans'' then ld_kmeans ld \<noteq> None
      else if model_name = ''scaler_clustering'' then ld_scaler_clustering ld \<noteq> None
      else if model_name = ''random_forest'' then ld_rf ld \<noteq> None
      else if model_name = ''scaler_prediction'' then ld_scaler_prediction ld \<noteq> None
      else False)"

definition get_feature_names :: "insec_loader \<Rightarrow> exn + json" where
  "get_feature_names ld = json_get (ld_metadata ld) ''feature_names'' (JList [])"

definition insecurity_ml_loader :: "insec_env \<Rightarrow> insec_loader" where
  "insecurity_ml_loader env = load_models env loader_init"

section \<open>insecurity/services.py\<close>

text \<open>
  What \<open>FoodInsecurityPredictionService.predict\<close> returns: a dict, or the
  dict \<open>{'error': 'Prediction failed', 'details': str(e)}\<close> of its handler,
  kept as the exception.
\<close>

datatype insec_result = InsecReply json | InsecFailed exn

definition insec_error :: "string \<Rightarrow> string \<Rightarrow> json" where
  "insec_error e d = JObj [(''error'', JStr e), (''details'', JStr d)]"

text \<open>\<open>features.get(f, 0)\<close> for each name of \<open>feature_names\<close>, converted to a float
  by numpy and scikit-learn (\<open>None\<close> and non-numeric strings are refused).\<close>

fun feature_row :: "(string \<times> json) list \<Rightarrow> json list \<Rightarrow> exn + real list" where
  "feature_row features [] = Inr []"
| "feature_row features (f # fs) =
     (let v = (case f of JStr k \<Rightarrow> Inr (dict_get features k (JNum 0))
                       | JNum _ \<Rightarrow> Inr (JNum 0) | JBool _ \<Rightarrow> Inr (JNum 0) | JNull \<Rightarrow> Inr (JNum 0)
                       | _ \<Rightarrow> Inl TypeError)
      in case v of
           Inl e \<Rightarrow> Inl e
         | Inr x \<Rightarrow>
             (case py_float x of
                None \<Rightarrow> Inl ValueError
              | Some r \<Rightarrow> (case feature_row features fs of Inl e \<Rightarrow> Inl e | Inr rs \<Rightarrow> Inr (r # rs))))"

text \<open>Iterating over a decoded value: a list's items, a string's characters,
  a dict's keys; anything else is not iterable.\<close>

fun py_iter :: "json \<Rightarrow> exn + json list" where
  "py_iter (JList xs) = Inr xs"
| "py_iter (JStr s) = Inr (map (\<lambda>c. JStr [c]) s)"
| "py_iter (JObj d) = Inr (map (JStr \<circ> fst) d)"
| "py_iter _ = Inl TypeError"

text \<open>Python truthiness of the metadata's \<open>feature_names\<close>.\<close>

fun json_truthy :: "json \<Rightarrow> bool" where
  "json_truthy JNull = False"
| "json_truthy (JBool b) = b"
| "json_truthy (JNum r) = (r \<noteq> 0)"
| "json_truthy (JStr s) = (s \<noteq> [])"
| "json_truthy (JList xs) = (xs \<noteq> [])"
| "json_truthy (JObj d) = (d \<noteq> [])"

definition service_confidence :: "regressor \<Rightarrow> real list \<Rightarrow> real \<Rightarrow> real" where
  "service_confidence rf x pv =
     (case estimators rf of
        None \<Rightarrow> 0.7
      | Some ests \<Rightarrow> clip 0 1 (1 - np_std (map (\<lambda>t. t x) ests) / (\<bar>pv\<bar> + 0.000001)))"

definition insec_predict :: "insec_loader \<Rightarrow> (string \<times> json) list \<Rightarrow> insec_result" where
  "insec_predict ld features =
     (case (ld_rf ld, ld_scaler_prediction ld) of
        (None, _) \<Rightarrow> InsecReply (insec_error ''Prediction model not available'' ''RandomForest model not loaded'')
      | (_, None) \<Rightarrow> InsecReply (insec_error ''Scaler not available'' ''Feature scaler not loaded'')
      | (Some rf, Some sc) \<Rightarrow>
          (case json_get (ld_metadata ld) ''feature_names'' (JList []) of
             Inl e \<Rightarrow> InsecFailed e
           | Inr fnames \<Rightarrow>
               (let names = (if json_truthy fnames then fnames else JList (map JStr clustering_features))
                in case py_iter names of
                     Inl e \<Rightarrow> InsecFailed e
                   | Inr ns \<Rightarrow>
                       (case feature_row features ns of
                          Inl e \<Rightarrow> InsecFailed e
                        | Inr row \<Rightarrow>
                            (case scaler_transform sc row of
                               Inl e \<Rightarrow> InsecFailed e
                             | Inr x \<Rightarrow>
                                 (case model_predict rf x of
                                    Inl e \<Rightarrow> InsecFailed e
                                  | Inr p \<Rightarrow>
                                      InsecReply (JObj [(''prediction'', JNum p), (''risk_level'', JStr (risk_level_of p)),
                                        (''risk_color'', JStr (risk_color_of p)),
                                        (''confidence'', JNum (service_confidence rf x p)),
                                        (''model_used'', JStr ''RandomForestRegressor''),
                                        (''features_used'', JNum (of_nat (length ns)))])))))))"

definition get_clustering_info :: "insec_loader \<Rightarrow> string \<Rightarrow> string \<Rightarrow> json option" where
  "get_clustering_info ld county_name st =
     (if ld_kmeans ld = None then None
      else Some (JObj [(''county'', JStr county_name), (''state'', JStr st), (''cluster'', JNum 0),
                       (''risk_label'', JStr ''Baseline'')]))"

definition get_model_performance :: "insec_loader \<Rightarrow> exn + json" where
  "get_model_performance ld = json_get (ld_metadata ld) ''model_performance'' (JObj [])"

definition get_clustering_summary :: json where
  "get_clustering_summary =
     JObj [(''algorithm'', JStr ''K-Means''), (''n_clusters'', JNum 2),
           (''features'', JList (map JStr clustering_features)),
           (''cluster_labels'', JList [JStr ''Baseline (Typical food access)'',
                                       JStr ''High Structural Food Access Vulnerability''])]"

section \<open>insecurity/serving/app.py\<close>

record insec_api =
  model_rf :: "regressor option"
  model_km :: "kmeans option"
  scaler_prediction :: "std_scaler option"
  scaler_cluster :: "std_scaler option"
  api_metadata :: json
  counties :: "json list"

definition insec_api_init :: insec_api where
  "insec_api_init =
     \<lparr>model_rf = None, model_km = None, scaler_prediction = None, scaler_cluster = None,
      api_metadata = JObj [], counties = []\<rparr>"

record insec_files =
  rf_file :: "regressor artifact"
  km_file :: "kmeans artifact"
  scaler_pred_file :: "std_scaler artifact"
  scaler_clust_file :: "std_scaler artifact"
  metadata_file :: "json artifact"
  county_csv :: "row list artifact"

definition insec_load_opt :: "'a artifact \<Rightarrow> ('a \<Rightarrow> insec_api \<Rightarrow> insec_api) \<Rightarrow> insec_api \<Rightarrow> insec_api py_eff" where
  "insec_load_opt a upd s =
     (case a of Missing \<Rightarrow> (None, s) | Unreadable \<Rightarrow> (Some UnpicklingError, s) | Loaded x \<Rightarrow> (None, upd x s))"

text \<open>One row of county_clusters.csv as the dict appended to \<open>CLUSTERING_DATA\<close>.\<close>

definition county_record :: "row \<Rightarrow> exn + json" where
  "county_record r =
     (case (cell_str r ''County'', cell_str r ''State'', cell_int r ''Cluster'', cell_str r ''risk_label'',
            cell_str r ''risk_color'') of
        (Inr c, Inr st, Inr cl, Inr lbl, Inr col) \<Rightarrow>
          Inr (JObj [(''county'', JStr c), (''state'', JStr st), (''cluster'', JNum (of_int cl)),
                     (''risk_label'', JStr lbl), (''risk_color'', JStr col)])
      | (Inl e, _) \<Rightarrow> Inl e
      | (_, Inl e, _) \<Rightarrow> Inl e
      | (_, _, Inl e, _) \<Rightarrow> Inl e
      | (_, _, _, Inl e, _) \<Rightarrow> Inl e
      | (_, _, _, _, Inl e) \<Rightarrow> Inl e)"

fun load_counties :: "row list \<Rightarrow> insec_api \<Rightarrow> insec_api py_eff" where
  "load_counties [] s = (None, s)"
| "load_counties (r # rs) s =
     (case county_record r of
        Inl e \<Rightarrow> (Some e, s)
      | Inr c \<Rightarrow> load_counties rs (s\<lparr>counties := counties s @ [c]\<rparr>))"

text \<open>
  \<open>load_artifacts\<close>: one \<open>try\<close> around the four pickles and the metadata (the
  first failure skips the rest, the CSV included); the CSV has its own
  \<open>try\<close>, whose failure keeps the rows appended so far.
\<close>

definition insec_load_artifacts :: "insec_files \<Rightarrow> insec_api \<Rightarrow> insec_api" where
  "insec_load_artifacts env s =
     snd (then_do (insec_load_opt (rf_file env) (\<lambda>m s. s\<lparr>model_rf := Some m\<rparr>) s) (\<lambda>s.
          then_do (insec_load_opt (km_file env) (\<lambda>m s. s\<lparr>model_km := Some m\<rparr>) s) (\<lambda>s.
          then_do (insec_load_opt (scaler_pred_file env) (\<lambda>m s. s\<lparr>scaler_prediction := Some m\<rparr>) s) (\<lambda>s.
          then_do (insec_load_opt (scaler_clust_file env) (\<lambda>m s. s\<lparr>scaler_cluster := Some m\<rparr>) s) (\<lambda>s.
          then_do (insec_load_opt (metadata_file env) (\<lambda>m s. s\<lparr>api_metadata := m\<rparr>) s) (\<lambda>s.
            (case county_csv env of
               Loaded rows \<Rightarrow> (None, snd (load_counties rows s))
             | _ \<Rightarrow> (None, s))))))))"

definition insec_home :: "insec_api \<Rightarrow> json" where
  "insec_home s =
     JObj [(''status'', JStr ''running''), (''model'', JStr ''US Food Insecurity Prediction''),
           (''models_loaded'', JObj [(''random_forest'', JBool (model_rf s \<noteq> None)),
                                    (''kmeans_clustering'', JBool (model_km s \<noteq> None)),
                                    (''scaler_prediction'', JBool (scaler_prediction s \<noteq> None)),
                                    (''scaler_clustering'', JBool (scaler_cluster s \<noteq> None))]),
           (''clustering_data_loaded'', JBool (0 < length (counties s)))]"

definition insec_get_clustering_data :: "insec_api \<Rightarrow> json" where
  "insec_get_clustering_data s = JObj [(''counties'', JList (counties s))]"

text \<open>The request body: eight floats, validated by pydantic.\<close>

record insec_request =
  PCT_LACCESS_POP15 :: real
  LACCESS_BLACK15 :: real
  LACCESS_HISP15 :: real
  LACCESS_NHASIAN15 :: real
  Poverty_Rate :: real
  Adult_Obesity_Rate13 :: real
  Adult_Diabetes_Rate13 :: real
  FOODINSEC_13_15 :: real

record insec_response =
  insec_prediction :: real
  insec_risk_level :: string
  insec_confidence :: real
  insec_model_used :: string

definition app_confidence :: "regressor \<Rightarrow> real list \<Rightarrow> real" where
  "app_confidence rf x =
     (case estimators rf of
        None \<Rightarrow> 85
      | Some ests \<Rightarrow> clip 0 100 (max 0 (100 * (1 - np_std (map (\<lambda>t. t x) ests)))))"

definition insec_app_predict :: "insec_api \<Rightarrow> insec_request \<Rightarrow> predict_error + insec_response" where
  "insec_app_predict s req =
     (case (model_rf s, scaler_prediction s) of
        (Some rf, Some sc) \<Rightarrow>
          (let features = [PCT_LACCESS_POP15 req, LACCESS_BLACK15 req, LACCESS_HISP15 req,
                           LACCESS_NHASIAN15 req, Poverty_Rate req, Adult_Obesity_Rate13 req,
                           Adult_Diabetes_Rate13 req, FOODINSEC_13_15 req]
           in case scaler_transform sc features of
                Inl e \<Rightarrow> Inl (Http500Of e)
              | Inr x \<Rightarrow>
                  (case model_predict rf x of
                     Inl e \<Rightarrow> Inl (Http500Of e)
                   | Inr raw_pred \<Rightarrow>
                       (let pv = clip 0 1 raw_pred in
                        Inr \<lparr>insec_prediction = pv, insec_risk_level = risk_level_of pv,
                             insec_confidence = app_confidence rf x, insec_model_used = ''Random Forest''\<rparr>)))
      | _ \<Rightarrow> Inl (HttpError 503 ''Prediction models not loaded''))"

definition get_model_info :: "insec_api \<Rightarrow> json" where
  "get_model_info s =
     JObj [(''model_type'', JStr ''Random Forest Regressor''), (''n_estimators'', JNum 200),
           (''max_depth'', JNum 7), (''r2_score'', JNum 0.953), (''rmse'', JNum 0.538), (''mae'', JNum 0.341),
           (''prediction_features'', JList (map JStr clustering_features)),
           (''risk_thresholds'', JObj [(''low'', JNum 0.3), (''medium'', JNum 0.6), (''high'', JNum 1.0)]),
           (''clustering_model'', JObj [(''type'', JStr ''KMeans''), (''n_clusters'', JNum 2),
                                       (''counties_analyzed'', JNum (of_nat (length (counties s))))])]"

section \<open>Examples\<close>

definition example_forest :: regressor where
  "example_forest =
     \<lparr>reg_predict = (\<lambda>x. 1.3), n_features_in = 8, estimators = Some [(\<lambda>x. 1.3), (\<lambda>x. 1.3)],
      feature_names_in = None\<rparr>"

definition example_scaler8 :: std_scaler where
  "example_scaler8 = \<lparr>sc_mean = [0, 0, 0, 0, 0, 0, 0, 0], sc_scale = [1, 1, 1, 1, 1, 1, 1, 1], sc_feature_names = None\<rparr>"

definition example_request :: insec_request where
  "example_request =
     \<lparr>PCT_LACCESS_POP15 = 0, LACCESS_BLACK15 = 0, LACCESS_HISP15 = 0, LACCESS_NHASIAN15 = 0,
      Poverty_Rate = 0, Adult_Obesity_Rate13 = 0, Adult_Diabetes_Rate13 = 0, FOODINSEC_13_15 = 0\<rparr>"

section \<open>Properties\<close>

text \<open>
  The two sides classify alike: the serving app clips the prediction
  to [0, 1] before applying the 0.3 / 0.6 thresholds, the Django service
  applies them to the raw prediction, and the level is the same.
\<close>

theorem risk_level_clip_agrees: "risk_level_of (clip 0 1 p) = risk_level_of p"
  by (auto simp: risk_level_of_def clip_def max_def min_def)

lemma app_confidence_bounds: "0 \<le> app_confidence rf x \<and> app_confidence rf x \<le> 100"
  by (auto simp: app_confidence_def intro!: clip_bounds[THEN conjunct1] clip_bounds[THEN conjunct2] split: option.splits)

text \<open>
  A successful \<open>/predict\<close> of the insecurity app returns a prediction in
  [0, 1], a confidence in [0, 100], and the risk level of that prediction.
\<close>

theorem insec_app_predict_bounds:
  assumes "insec_app_predict s req = Inr r"
  shows "0 \<le> insec_prediction r \<and> insec_prediction r \<le> 1 \<and> 0 \<le> insec_confidence r
         \<and> insec_confidence r \<le> 100 \<and> insec_risk_level r = risk_level_of (insec_prediction r)"
  using assms clip_bounds[of 0 1] app_confidence_bounds
  by (auto simp: insec_app_predict_def Let_def split: option.splits sum.splits)

lemma service_confidence_bounds: "0 \<le> service_confidence rf x p \<and> service_confidence rf x p \<le> 1"
  by (auto simp: service_confidence_def intro!: clip_bounds[THEN conjunct1] clip_bounds[THEN conjunct2] split: option.splits)

lemma insec_predict_reply:
  "insec_predict ld fs = InsecReply v \<Longrightarrow>
   v = insec_error ''Prediction model not available'' ''RandomForest model not loaded''
   \<or> v = insec_error ''Scaler not available'' ''Feature scaler not loaded''
   \<or> (\<exists>rf x p n. v = JObj [(''prediction'', JNum p), (''risk_level'', JStr (risk_level_of p)),
          (''risk_color'', JStr (risk_color_of p)), (''confidence'', JNum (service_confidence rf x p)),
          (''model_used'', JStr ''RandomForestRegressor''), (''features_used'', JNum (of_nat n))])"
  by (auto simp: insec_predict_def Let_def split: option.splits sum.splits prod.splits)

text \<open>
  A prediction returned by the Django insecurity service has a
  confidence in [0, 1] and the risk level and colour of its value.
\<close>

theorem insec_predict_confidence_bounds:
  assumes "insec_predict ld fs = InsecReply (JObj d)" "has_key d ''prediction''"
  shows "\<exists>p c. dict_get d ''prediction'' JNull = JNum p \<and> dict_get d ''confidence'' JNull = JNum c
           \<and> 0 \<le> c \<and> c \<le> 1 \<and> dict_get d ''risk_level'' JNull = JStr (risk_level_of p)
           \<and> dict_get d ''risk_color'' JNull = JStr (risk_color_of p)"
  using insec_predict_reply[OF assms(1)] assms(2) service_confidence_bounds
  by (auto simp: insec_error_def)

lemma example_insec_app_predict:
  "insec_app_predict (insec_api_init\<lparr>model_rf := Some example_forest, scaler_prediction := Some example_scaler8\<rparr>)
     example_request
   = Inr \<lparr>insec_prediction = 1, insec_risk_level = ''High'', insec_confidence = 100, insec_model_used = ''Random Forest''\<rparr>"
  by (simp add: insec_app_predict_def insec_api_init_def example_forest_def example_scaler8_def example_request_def
      scaler_transform_def model_predict_def clip_def risk_level_of_def app_confidence_def np_std_def np_mean_def)

theorem insec_app_predict_bounds_witness:
  "0 \<le> (1::real) \<and> (1::real) \<le> 1 \<and> 0 \<le> (100::real) \<and> (100::real) \<le> 100 \<and> ''High'' = risk_level_of 1"
  using insec_app_predict_bounds[OF example_insec_app_predict] by simp

lemma example_insec_predict:
  "insec_predict (loader_init\<lparr>ld_rf := Some example_forest, ld_scaler_prediction := Some example_scaler8\<rparr>) []
   = InsecReply (JObj [(''prediction'', JNum 1.3), (''risk_level'', JStr ''High''), (''risk_color'', JStr ''#de2d26''),
       (''confidence'', JNum 1), (''model_used'', JStr ''RandomForestRegressor''), (''features_used'', JNum 8)])"
  by (simp add: insec_predict_def loader_init_def example_forest_def example_scaler8_def json_get_def
      clustering_features_def scaler_transform_def model_predict_def risk_level_of_def risk_color_of_def
      service_confidence_def np_std_def np_mean_def clip_def)

theorem insec_predict_confidence_bounds_witness:
  "\<exists>p c. JNum 1.3 = JNum p \<and> JNum 1 = JNum c \<and> 0 \<le> c \<and> c \<le> 1 \<and> JStr ''High'' = JStr (risk_level_of p)
      \<and> JStr ''#de2d26'' = JStr (risk_color_of p)"
  using insec_predict_confidence_bounds[OF example_insec_predict] by simp

end
