(* ===== verification/Forms.thy ===== *)
theory Forms
  imports Http
begin

text \<open>
  The Django forms of the prediction sections (health/forms.py,
  finance/forms.py, foodenvironment/forms.py, insecurity/forms.py,
  access/forms.py, local/forms.py) over a model of Django's form cleaning.
  A form is the list of its declared fields, in declaration order, with the
  form's \<open>clean_<field>\<close> methods as a hook and its \<open>clean\<close> method as a
  function from the cleaned data to the errors it adds. \<open>full_clean\<close>
  returns the errors, in the order they are added, and \<open>cleaned_data\<close>.
\<close>

section \<open>Django form cleaning\<close>

text \<open>
  The field kinds the forms use: \<open>FloatField\<close> with its optional
  \<open>min_value\<close> and \<open>max_value\<close>, \<open>ChoiceField\<close> with the values of its
  choices, and \<open>CharField\<close> (\<open>strip=True\<close>).
\<close>

datatype field_kind =
    FloatF "real option" "real option"
  | ChoiceF "string list"
  | CharF

record form_field =
  fld_name :: string
  fld_kind :: field_kind
  fld_required :: bool

text \<open>
  The validation errors: Django's \<open>required\<close>, \<open>invalid\<close> (``Enter a
  number.''), the messages of \<open>MinValueValidator\<close> and \<open>MaxValueValidator\<close>
  with their limit, \<open>invalid_choice\<close> with the value, and a message of the
  form's own code.
\<close>

datatype field_error =
    Required
  | InvalidNumber
  | BelowMin real
  | AboveMax real
  | InvalidChoice string
  | FormMessage string

type_synonym post_data = "(string \<times> string) list"
type_synonym cleaned = "(string \<times> json) list"

text \<open>
  \<open>Field.clean\<close> on the submitted string (\<open>None\<close>: the key is absent): an
  empty value is refused when the field is required and is \<open>None\<close>
  (\<open>JNull\<close>; \<open>''\<close> for a \<open>ChoiceField\<close> or \<open>CharField\<close>) otherwise; a
  \<open>FloatField\<close> parses with \<open>float()\<close> and then checks its bounds; a
  \<open>ChoiceField\<close> keeps the value only when it is one of the choices. The
  validators of the bounds all run (\<open>MaxValueValidator\<close> first, as
  \<open>IntegerField.__init__\<close> appends it first) and their errors are collected.
\<close>

definition bound_errors :: "real option \<Rightarrow> real option \<Rightarrow> real \<Rightarrow> field_error list" where
  "bound_errors lo hi x =
     (case hi of Some h \<Rightarrow> if h < x then [AboveMax h] else [] | None \<Rightarrow> []) @
     (case lo of Some l \<Rightarrow> if x < l then [BelowMin l] else [] | None \<Rightarrow> [])"

definition clean_field :: "form_field \<Rightarrow> string option \<Rightarrow> field_error list + json" where
  "clean_field f v =
     (let s = (case v of None \<Rightarrow> [] | Some s \<Rightarrow> s) in
      case fld_kind f of
        FloatF lo hi \<Rightarrow>
          if s = [] then (if fld_required f then Inl [Required] else Inr JNull)
          else (case py_float_str s of
                  None \<Rightarrow> Inl [InvalidNumber]
                | Some x \<Rightarrow> if bound_errors lo hi x = [] then Inr (JNum x) else Inl (bound_errors lo hi x))
      | ChoiceF cs \<Rightarrow>
          if s = [] then (if fld_required f then Inl [Required] else Inr (JStr []))
          else if s \<in> set cs then Inr (JStr s)
          else Inl [InvalidChoice s]
      | CharF \<Rightarrow>
          (let t = py_strip s in
           if t = [] \<and> fld_required f then Inl [Required] else Inr (JStr t)))"

text \<open>
  \<open>_clean_fields\<close>: each field is cleaned, then its \<open>clean_<name>\<close> hook
  runs on the cleaned value; a field whose cleaning or hook fails gets the
  error and leaves \<open>cleaned_data\<close>.
\<close>

type_synonym field_hook = "string \<Rightarrow> json \<Rightarrow> field_error option"

definition no_hook :: field_hook where
  "no_hook n v = None"

definition clean_one :: "field_hook \<Rightarrow> post_data \<Rightarrow> form_field \<Rightarrow> field_error list + json" where
  "clean_one hook data f =
     (case clean_field f (map_of data (fld_name f)) of
        Inl es \<Rightarrow> Inl es
      | Inr v \<Rightarrow> (case hook (fld_name f) v of Some e \<Rightarrow> Inl [e] | None \<Rightarrow> Inr v))"

definition clean_fields :: "form_field list \<Rightarrow> field_hook \<Rightarrow> post_data \<Rightarrow> (string \<times> field_error) list \<times> cleaned" where
  "clean_fields fs hook data =
     (let rs = map (\<lambda>f. (fld_name f, clean_one hook data f)) fs
      in ([(n, e). (n, Inl es) \<leftarrow> rs, e \<leftarrow> es], [(n, v). (n, Inr v) \<leftarrow> rs]))"

text \<open>
  \<open>full_clean\<close>: the form's \<open>clean\<close> sees the cleaned fields; each error it
  adds with \<open>add_error\<close> also removes the field from \<open>cleaned_data\<close>.
  \<open>is_valid\<close> holds when no error was added.
\<close>

definition full_clean ::
  "form_field list \<Rightarrow> field_hook \<Rightarrow> (cleaned \<Rightarrow> (string \<times> field_error) list) \<Rightarrow> post_data
   \<Rightarrow> (string \<times> field_error) list \<times> cleaned" where
  "full_clean fs hook form_clean data =
     (let (errs, cd) = clean_fields fs hook data;
          extra = form_clean cd
      in (errs @ extra, filter (\<lambda>(n, _). n \<notin> set (map fst extra)) cd))"

definition no_form_clean :: "cleaned \<Rightarrow> (string \<times> field_error) list" where
  "no_form_clean cd = []"

definition float_field :: "string \<Rightarrow> form_field" where
  "float_field n = \<lparr>fld_name = n, fld_kind = FloatF None None, fld_required = True\<rparr>"

definition is_valid :: "form_field list \<Rightarrow> field_hook \<Rightarrow> (cleaned \<Rightarrow> (string \<times> field_error) list) \<Rightarrow> post_data \<Rightarrow> bool" where
  "is_valid fs hook form_clean data \<longleftrightarrow> fst (full_clean fs hook form_clean data) = []"

section \<open>health/forms.py\<close>

definition model_choices :: "string list" where
  "model_choices = [''obesity'', ''diabetes'']"

text \<open>
  \<open>get_categorical_choices\<close> over \<open>ENCODER_CHOICES\<close> (the classes of each
  encoder, read by health/ml_loader.py; a parameter here).
\<close>

definition get_categorical_choices :: "(string \<times> string list) list \<Rightarrow> string \<Rightarrow> string list" where
  "get_categorical_choices enc feature_name = dict_get enc feature_name []"

text \<open>
  \<open>HealthPredictionForm\<close>'s declared fields, in the training order the
  class documents: the model type, \<open>Risk_Level\<close> (declared with
  \<open>choices=[]\<close>), the numeric features at positions 2--9, \<open>StatusName\<close>
  (also \<open>choices=[]\<close>) and the numeric features at positions 11--15.
\<close>

definition health_numeric_2_9 :: "form_field list" where
  "health_numeric_2_9 =
     map float_field [''VLFOODSEC_13_15'', ''Adult_Obesity_Rate_08'', ''CH_FOODINSEC_12_15'', ''Median_Income'',
       ''MILK_SODA_PRICE10'', ''Farmers_Markets_Count_16'', ''GYMs_Per_1000_Count_14'', ''Adult_Diabetes_Rate_08'']"

definition health_numeric_11_15 :: "form_field list" where
  "health_numeric_11_15 =
     map float_field [''FSRPTH14'', ''Poverty_Rate'', ''VLFOODSEC_10_12'', ''PCT_NHBLACK10'', ''PCH_VEG_ACRESPTH_07_12'']"

definition health_declared_fields :: "form_field list" where
  "health_declared_fields =
     [\<lparr>fld_name = ''model_type'', fld_kind = ChoiceF model_choices, fld_required = True\<rparr>,
      \<lparr>fld_name = ''Risk_Level'', fld_kind = ChoiceF [], fld_required = True\<rparr>] @ health_numeric_2_9 @
     [\<lparr>fld_name = ''StatusName'', fld_kind = ChoiceF [], fld_required = True\<rparr>] @ health_numeric_11_15"

text \<open>
  \<open>__init__\<close>: each of the two categorical fields present gets the
  encoder's classes as its choices (the default it also sets, the first
  choice, only affects the rendered form).
\<close>

definition health_form_init :: "(string \<times> string list) list \<Rightarrow> form_field list \<Rightarrow> form_field list" where
  "health_form_init enc fs =
     map (\<lambda>f. if fld_name f \<in> set [''Risk_Level'', ''StatusName'']
               then f\<lparr>fld_kind := ChoiceF (get_categorical_choices enc (fld_name f))\<rparr> else f) fs"

text \<open>\<open>HealthPredictionForm()\<close>: the declared fields after \<open>__init__\<close>.\<close>

definition health_form_fields :: "(string \<times> string list) list \<Rightarrow> form_field list" where
  "health_form_fields enc = health_form_init enc health_declared_fields"

lemmas health_form_defs =
  health_form_fields_def health_form_init_def health_declared_fields_def health_numeric_2_9_def health_numeric_11_15_def

definition clustering_form_fields :: "form_field list" where
  "clustering_form_fields =
     map float_field [''Adult_Diabetes_Rate_08'', ''Adult_Diabetes_Rate13'', ''Adult_Obesity_Rate_08'',
       ''Adult_Obesity_Rate13'', ''GYMs_Per_1000_Count_14'', ''Farmers_Markets_Count_16'', ''GROCPTH09'']"

section \<open>finance/forms.py\<close>

definition opt_float_field :: "string \<Rightarrow> form_field" where
  "opt_float_field n = \<lparr>fld_name = n, fld_kind = FloatF None None, fld_required = False\<rparr>"

definition finance_form_fields :: "form_field list" where
  "finance_form_fields =
     \<lparr>fld_name = ''model_type'', fld_kind = CharF, fld_required = False\<rparr> #
     map opt_float_field
       [''Adult_Obesity_Rate_08'', ''Adult_Diabetes_Rate_08'', ''Adult_Obesity_Rate13'',
        ''Adult_Diabetes_Rate13'', ''SODATAX_STORES14'', ''CHIPSTAX_VENDM14'', ''PCT_LOCLFARM12'',
        ''VLFOODSEC_10_12'', ''Median_Income'', ''FOODINSEC_13_15'']"

text \<open>The ten \<open>clean_<field>\<close> methods: a range check on a present value.\<close>

definition finance_field_hook :: field_hook where
  "finance_field_hook n v =
     (case v of
        JNum x \<Rightarrow>
          if n \<in> set [''Adult_Obesity_Rate_08'', ''Adult_Diabetes_Rate_08'', ''Adult_Obesity_Rate13'',
                      ''Adult_Diabetes_Rate13''] \<and> (x < 0 \<or> 100 < x)
          then Some (FormMessage ''Rate must be between 0 and 100'')
          else if n = ''PCT_LOCLFARM12'' \<and> (x < 0 \<or> 100 < x)
          then Some (FormMessage ''Percentage must be between 0 and 100'')
          else if n = ''FOODINSEC_13_15'' \<and> (x < 0 \<or> 100 < x)
          then Some (FormMessage ''Value must be between 0 and 100'')
          else if n = ''Median_Income'' \<and> x < 0
          then Some (FormMessage ''Median income cannot be negative'')
          else if n \<in> set [''SODATAX_STORES14'', ''CHIPSTAX_VENDM14'', ''VLFOODSEC_10_12''] \<and> x < 0
          then Some (FormMessage ''Value cannot be negative'')
          else None
      | _ \<Rightarrow> None)"

definition tax_required_fields :: "string list" where
  "tax_required_fields =
     [''Adult_Obesity_Rate_08'', ''Adult_Diabetes_Rate_08'', ''Adult_Obesity_Rate13'', ''Adult_Diabetes_Rate13'',
      ''SODATAX_STORES14'', ''CHIPSTAX_VENDM14'', ''PCT_LOCLFARM12'', ''VLFOODSEC_10_12'']"

definition cluster_required_fields :: "string list" where
  "cluster_required_fields = [''Median_Income'', ''FOODINSEC_13_15'', ''Adult_Obesity_Rate13'']"

definition missing_errors :: "cleaned \<Rightarrow> string list \<Rightarrow> string \<Rightarrow> (string \<times> field_error) list" where
  "missing_errors cd names msg =
     [(f, FormMessage msg). f \<leftarrow> names, dict_get cd f JNull = JNull \<or> dict_get cd f JNull = JStr []]"

text \<open>
  \<open>clean\<close>: \<open>cleaned_data.get('model_type', 'tax_rate')\<close> selects the fields
  that must be present; any other model type adds no error.
\<close>

definition finance_clean :: "cleaned \<Rightarrow> (string \<times> field_error) list" where
  "finance_clean cd =
     (let model_type = dict_get cd ''model_type'' (JStr ''tax_rate'') in
      if model_type = JStr ''tax_rate''
      then missing_errors cd tax_required_fields ''This field is required for tax rate predictions.''
      else if model_type = JStr ''clustering''
      then missing_errors cd cluster_required_fields ''This field is required for clustering.''
      else [])"

section \<open>foodenvironment/forms.py\<close>

definition foodenv_form_fields :: "form_field list" where
  "foodenv_form_fields =
     map float_field [''soda_price'', ''fmrktpth16'', ''grocpth09'', ''pch_grocpth_09_14'', ''fsrpth09'',
       ''fsrpth14'', ''pct_65older10'', ''poploss10'']"

definition foodenv_clean :: "cleaned \<Rightarrow> (string \<times> field_error) list" where
  "foodenv_clean cd =
     [(f, FormMessage (f @ '' must be between 0 and 100'')).
        f \<leftarrow> [''fmrktpth16'', ''fsrpth09'', ''fsrpth14'', ''pct_65older10''],
        (case dict_get cd f JNull of JNum x \<Rightarrow> x < 0 \<or> 100 < x | _ \<Rightarrow> False)]"

section \<open>insecurity/forms.py\<close>

definition insecurity_form_fields :: "form_field list" where
  "insecurity_form_fields =
     map float_field [''PCT_LACCESS_POP15'', ''LACCESS_BLACK15'', ''LACCESS_HISP15'', ''LACCESS_NHASIAN15'',
       ''Poverty_Rate'', ''Adult_Obesity_Rate13'', ''Adult_Diabetes_Rate13'', ''FOODINSEC_13_15'']"

section \<open>access/forms.py\<close>

definition access_prediction_form_fields :: "form_field list" where
  "access_prediction_form_fields =
     map float_field [''PCT_LACCESS_POP10'', ''LACCESS_LOWI15'', ''LACCESS_HISP15'', ''LACCESS_NHASIAN15'',
       ''LACCESS_BLACK15'', ''Median_Income'', ''Poverty_Rate'', ''Food_Tax_Rate_14'', ''PCT_65OLDER10'',
       ''PCT_18YOUNGER10'']"

definition access_clustering_form_fields :: "form_field list" where
  "access_clustering_form_fields =
     map float_field [''Poverty_Rate'', ''Median_Income'', ''PCT_65OLDER10'', ''PCT_18YOUNGER10'', ''POPLOSS10'',
       ''LACCESS_HISP15'', ''LACCESS_NHASIAN15'', ''LACCESS_BLACK15'', ''PCT_LACCESS_POP10'']"

section \<open>local/forms.py\<close>

text \<open>
  \<open>LocalRegressionForm.__init__\<close> builds one field per entry of
  \<open>CLUSTERING_FEATURES\<close> (the decoded clustering_features.json, in file
  order): a numeric entry gives a required \<open>FloatField\<close> with the entry's
  \<open>min\<close> and \<open>max\<close>, a categorical one a required \<open>ChoiceField\<close> over its
  \<open>categories\<close>; an entry of another type gives no field. With no entries the
  form has the single \<open>CharField\<close> \<open>feature_input\<close>. An entry that is not a
  dict raises \<open>AttributeError\<close>. Bounds are JSON numbers or \<open>null\<close>
  (booleans count as 0 and 1, as Python's do) and categories are strings;
  any other bound or category is refused with \<open>TypeError\<close> when the form is
  built, where Django would fail at the first comparison.
\<close>

fun json_bound :: "json \<Rightarrow> exn + real option" where
  "json_bound JNull = Inr None"
| "json_bound (JNum x) = Inr (Some x)"
| "json_bound (JBool b) = Inr (Some (if b then 1 else 0))"
| "json_bound _ = Inl TypeError"

fun json_strings :: "json list \<Rightarrow> exn + string list" where
  "json_strings [] = Inr []"
| "json_strings (JStr s # vs) = (case json_strings vs of Inl e \<Rightarrow> Inl e | Inr ss \<Rightarrow> Inr (s # ss))"
| "json_strings (_ # vs) = Inl TypeError"

definition local_field :: "string \<Rightarrow> json \<Rightarrow> exn + form_field option" where
  "local_field feature_name feature_info =
     (case feature_info of
        JObj d \<Rightarrow>
          (let feature_type = dict_get d ''type'' (JStr ''numeric'') in
           if feature_type = JStr ''numeric'' then
             (case (json_bound (dict_get d ''min'' JNull), json_bound (dict_get d ''max'' JNull)) of
                (Inr lo, Inr hi) \<Rightarrow>
                  Inr (Some \<lparr>fld_name = feature_name, fld_kind = FloatF lo hi, fld_required = True\<rparr>)
              | _ \<Rightarrow> Inl TypeError)
           else if feature_type = JStr ''categorical'' then
             (case dict_get d ''categories'' (JList []) of
                JList vs \<Rightarrow>
                  (case json_strings vs of
                     Inr cs \<Rightarrow> Inr (Some \<lparr>fld_name = feature_name, fld_kind = ChoiceF cs, fld_required = True\<rparr>)
                   | Inl e \<Rightarrow> Inl e)
              | _ \<Rightarrow> Inl TypeError)
           else Inr None)
      | _ \<Rightarrow> Inl AttributeError)"

fun local_fields :: "(string \<times> json) list \<Rightarrow> exn + form_field list" where
  "local_fields [] = Inr []"
| "local_fields ((n, info) # fs) =
     (case local_field n info of
        Inl e \<Rightarrow> Inl e
      | Inr f \<Rightarrow> (case local_fields fs of Inl e \<Rightarrow> Inl e | Inr rest \<Rightarrow> Inr (case f of Some x \<Rightarrow> x # rest | None \<Rightarrow> rest)))"

definition local_form_fields :: "(string \<times> json) list \<Rightarrow> exn + form_field list" where
  "local_form_fields clustering_features =
     (if clustering_features = []
      then Inr [\<lparr>fld_name = ''feature_input'', fld_kind = CharF, fld_required = True\<rparr>]
      else local_fields clustering_features)"

text \<open>
  \<open>get_field_groups\<close>: the form's field names grouped by the \<open>category\<close> of
  their entry (\<open>Other\<close> by default), groups in order of first appearance,
  then stably sorted by the fixed category order (unknown categories last).
\<close>

definition category_order :: "(string \<times> nat) list" where
  "category_order =
     [(''Economic'', 0), (''Demographics'', 1), (''Ethnicity'', 2), (''Food Security'', 3),
      (''Local Food Access'', 4), (''Local Agriculture'', 5)]"

definition category_rank :: "json \<Rightarrow> nat" where
  "category_rank c = (case c of JStr s \<Rightarrow> dict_get category_order s 999 | _ \<Rightarrow> 999)"

fun group_insert :: "json \<Rightarrow> string \<Rightarrow> (json \<times> string list) list \<Rightarrow> (json \<times> string list) list" where
  "group_insert c n [] = [(c, [n])]"
| "group_insert c n ((c', ns) # gs) =
     (if c = c' then (c', ns @ [n]) # gs else (c', ns) # group_insert c n gs)"

fun temp_groups :: "(string \<times> json) list \<Rightarrow> string list \<Rightarrow> (json \<times> string list) list \<Rightarrow> exn + (json \<times> string list) list" where
  "temp_groups feats [] gs = Inr gs"
| "temp_groups feats (n # ns) gs =
     (if n = ''csrf_token'' then temp_groups feats ns gs
      else (case json_get (dict_get feats n (JObj [])) ''category'' (JStr ''Other'') of
              Inl e \<Rightarrow> Inl e
            | Inr c \<Rightarrow> temp_groups feats ns (group_insert c n gs)))"

definition get_field_groups :: "(string \<times> json) list \<Rightarrow> form_field list \<Rightarrow> exn + (json \<times> string list) list" where
  "get_field_groups feats fs =
     (case temp_groups feats (map fld_name fs) [] of
        Inl e \<Rightarrow> Inl e
      | Inr gs \<Rightarrow> Inr (sort_key (category_rank \<circ> fst) gs))"


section \<open>Typing of cleaned data\<close>

text \<open>
  What a field's cleaned value can be: a number within the bounds (or
  \<open>None\<close> for an optional float), one of the choices (or \<open>''\<close> for an
  optional choice), a stripped string that is non-empty when required.
\<close>

definition field_value_ok :: "form_field \<Rightarrow> json \<Rightarrow> bool" where
  "field_value_ok f v =
     (case (fld_kind f, v) of
        (FloatF lo hi, JNum x) \<Rightarrow> bound_errors lo hi x = []
      | (FloatF _ _, JNull) \<Rightarrow> \<not> fld_required f
      | (ChoiceF cs, JStr s) \<Rightarrow> (if s = [] then \<not> fld_required f else s \<in> set cs)
      | (CharF, JStr s) \<Rightarrow> s \<noteq> [] \<or> \<not> fld_required f
      | _ \<Rightarrow> False)"

section \<open>Lemmas\<close>

text \<open>
  A valid form hands the view one value per declared field, in declaration
  order, each of its field's type: the views may read \<open>cleaned_data\<close>
  without a missing key or a value of the wrong kind.
\<close>

lemma clean_field_typed: "clean_field f v = Inr x \<Longrightarrow> field_value_ok f x"
  by (auto simp: clean_field_def field_value_ok_def Let_def split: field_kind.splits if_splits option.splits)

lemma clean_one_typed: "clean_one hook data f = Inr x \<Longrightarrow> field_value_ok f x"
  by (auto simp: clean_one_def clean_field_typed split: sum.splits option.splits)

lemma clean_fields_Cons:
  "clean_fields (f # fs) hook data =
     (case clean_one hook data f of
        Inl es \<Rightarrow> (map (Pair (fld_name f)) es @ fst (clean_fields fs hook data), snd (clean_fields fs hook data))
      | Inr v \<Rightarrow> (fst (clean_fields fs hook data), (fld_name f, v) # snd (clean_fields fs hook data)))"
  by (simp add: clean_fields_def split: sum.splits)

lemma clean_fields_Nil [simp]: "clean_fields [] hook data = ([], [])"
  by (simp add: clean_fields_def)

lemma clean_fields_valid:
  "fst (clean_fields fs hook data) = [] \<Longrightarrow>
   map fst (snd (clean_fields fs hook data)) = map fld_name fs \<and>
   list_all2 field_value_ok fs (map snd (snd (clean_fields fs hook data)))"
proof (induction fs)
  case Nil
  then show ?case by simp
next
  case (Cons f fs)
  show ?case
  proof (cases "clean_one hook data f")
    case (Inl es)
    with Cons.prems have "es = []" by (simp add: clean_fields_Cons)
    with Inl have False
      by (auto simp: clean_one_def clean_field_def Let_def split: field_kind.splits if_splits option.splits sum.splits)
    then show ?thesis ..
  next
    case (Inr v)
    with Cons show ?thesis by (simp add: clean_fields_Cons clean_one_typed)
  qed
qed


text \<open>One failing field makes the form invalid.\<close>

lemma clean_one_error_invalid:
  assumes "f \<in> set fs" and "clean_one hook data f = Inl es" and "es \<noteq> []"
  shows "\<not> is_valid fs hook form_clean data"
proof -
  have "(fld_name f, hd es) \<in> set (fst (clean_fields fs hook data))"
    using assms by (force simp: clean_fields_def)
  then show ?thesis
    by (auto simp: is_valid_def full_clean_def Let_def split: prod.splits)
qed

text \<open>
  \<open>get_field_groups\<close> puts every field except \<open>csrf_token\<close> in exactly one
  group, the groups have distinct categories and come in category order.
\<close>

lemma group_insert_mset:
  "mset (concat (map snd (group_insert c n gs))) = mset (concat (map snd gs)) + {#n#}"
  by (induction c n gs rule: group_insert.induct) auto

lemma group_insert_keys:
  "set (map fst (group_insert c n gs)) = insert c (set (map fst gs))"
  "distinct (map fst gs) \<Longrightarrow> distinct (map fst (group_insert c n gs))"
  by (induction c n gs rule: group_insert.induct) auto

lemma temp_groups_props:
  "temp_groups feats ns gs = Inr gs' \<Longrightarrow> distinct (map fst gs) \<Longrightarrow>
   mset (concat (map snd gs')) = mset (concat (map snd gs)) + mset (filter (\<lambda>n. n \<noteq> ''csrf_token'') ns) \<and>
   distinct (map fst gs')"
proof (induction feats ns gs rule: temp_groups.induct)
  case (1 feats gs)
  then show ?case by simp
next
  case (2 feats n ns gs)
  show ?case
  proof (cases "n = ''csrf_token''")
    case True
    with 2 show ?thesis by simp
  next
    case False
    then obtain c where c: "json_get (dict_get feats n (JObj [])) ''category'' (JStr ''Other'') = Inr c"
      and rec: "temp_groups feats ns (group_insert c n gs) = Inr gs'"
      using "2.prems"(1) by (auto split: sum.splits)
    have "distinct (map fst (group_insert c n gs))" using "2.prems"(2) group_insert_keys(2) by blast
    from "2.IH"(2)[OF False c rec this] False show ?thesis
      by (simp add: group_insert_mset)
  qed
qed

lemma get_field_groups_partition:
  assumes "get_field_groups feats fs = Inr groups"
  shows "mset (concat (map snd groups)) = mset (filter (\<lambda>n. n \<noteq> ''csrf_token'') (map fld_name fs)) \<and>
         distinct (map fst groups) \<and> sorted (map (category_rank \<circ> fst) groups)"
proof -
  obtain gs where t: "temp_groups feats (map fld_name fs) [] = Inr gs"
    and g: "groups = sort_key (category_rank \<circ> fst) gs"
    using assms by (auto simp: get_field_groups_def split: sum.splits)
  from temp_groups_props[OF t] have p: "mset (concat (map snd gs)) = mset (filter (\<lambda>n. n \<noteq> ''csrf_token'') (map fld_name fs))"
    and d: "distinct (map fst gs)" by simp_all
  have m: "mset groups = mset gs" by (simp add: g)
  show ?thesis
    using mset_concat_map_perm[OF m, of snd] p d m
  proof (intro conjI)
    show "distinct (map fst groups)"
      using d m by (metis mset_map mset_eq_imp_distinct_iff)
    show "sorted (map (category_rank \<circ> fst) groups)"
      by (simp add: g)
  qed (use mset_concat_map_perm[OF m, of snd] p in simp)
qed

end
