(* ===== verification/Views.thy ===== *)
theory Views
  imports Forms Clients Roles Insecurity
begin

text \<open>
  The Django views of the prediction sections: health/views.py,
  finance/views.py, foodenvironment/views.py, local/views.py and
  insecurity/views.py. A view on a POST is a function of the submitted data
  (and of the network the services use) to the context it renders, or to
  the JSON response it returns; a GET renders the empty context. Each view
  is wrapped by its decorator from users/decorators.py. Reloading and saving
  prediction history (database reads and writes whose failures are caught)
  are not modelled.
\<close>

section \<open>Shared shapes\<close>

text \<open>
  The message a view shows: a remote reply's detail after a fixed prefix
  (\<open>f"...: {details}"\<close>), an exception's \<open>str(e)\<close> after a prefix, or a fixed
  message.
\<close>

datatype view_error = RemoteError string json | AppError string exn | ViewMessage string

text \<open>
  What a view returns: the rendered page with its context, an AJAX JSON
  reply (success, or \<open>{'success': False, 'message': ...}\<close> with its status),
  another JSON response with its status, an exception that escapes the
  view (Django's 500 page), or \<open>require_http_methods\<close>' 405.
\<close>

datatype 'c view_result =
    Render 'c | AjaxOk json | AjaxError nat view_error | JsonResp nat json | Crash exn | NotAllowed

datatype request_method = GET | POST post_data

text \<open>
  \<open>d.get(x, dflt)\<close> on a dict with integer keys: Python's equal numbers hash
  alike, so a float \<open>1.0\<close> and \<open>True\<close> find the key \<open>1\<close>; a list or dict
  is unhashable.
\<close>

definition num_dict_get :: "(real \<times> 'a) list \<Rightarrow> json \<Rightarrow> exn + 'a option" where
  "num_dict_get d k =
     (case k of
        JNum x \<Rightarrow> Inr (map_of d x)
      | JBool b \<Rightarrow> Inr (map_of d (if b then 1 else 0))
      | JList _ \<Rightarrow> Inl TypeError
      | JObj _ \<Rightarrow> Inl TypeError
      | _ \<Rightarrow> Inr None)"

text \<open>
  The shape health, finance and insecurity views share for a service's
  reply: \<open>'error' in api_response\<close> selects the remote message (the reply's
  \<open>details\<close>) or the reply's values read with \<open>.get\<close>; an exception raised
  on the way is caught as an application error.
\<close>

definition reply_values :: "string \<Rightarrow> json \<Rightarrow> (string \<times> json) list \<Rightarrow> view_error + json list" where
  "reply_values msg_prefix api_response keys =
     (case json_has api_response ''error'' of
        Inl e \<Rightarrow> Inl (AppError ''Application Error: '' e)
      | Inr True \<Rightarrow>
          (case json_get api_response ''details'' (JStr ''Unknown error'') of
             Inl e \<Rightarrow> Inl (AppError ''Application Error: '' e)
           | Inr d \<Rightarrow> Inl (RemoteError msg_prefix d))
      | Inr False \<Rightarrow>
          (case api_response of
             JObj d \<Rightarrow> Inr (map (\<lambda>(k, dflt). dict_get d k dflt) keys)
           | _ \<Rightarrow> Inl (AppError ''Application Error: '' AttributeError)))"

section \<open>health/views.py\<close>

record health_ctx =
  h_prediction_result :: json
  h_prediction_probability :: json
  h_selected_model :: "string option"
  h_error :: "view_error option"

definition health_ctx_init :: health_ctx where
  "health_ctx_init =
     \<lparr>h_prediction_result = JNull, h_prediction_probability = JNull, h_selected_model = None, h_error = None\<rparr>"

text \<open>
  \<open>health_view\<close> on a POST: an invalid form renders with no result and no
  message; a valid one sends its cleaned data to the service and shows the
  reply's \<open>prediction\<close> and \<open>probability\<close> unless the reply has an \<open>error\<close>
  key. \<open>enc\<close> is \<open>ENCODER_CHOICES\<close>.
\<close>

definition health_view_post ::
  "(string \<times> string list) list \<Rightarrow> string \<Rightarrow> post_fn \<Rightarrow> post_data \<Rightarrow> health_ctx" where
  "health_view_post enc hf_api_url post data =
     (let (errs, raw_inputs) = full_clean (health_form_fields enc) no_hook no_form_clean data in
      if errs \<noteq> [] then health_ctx_init
      else
        (let model_type = dict_get raw_inputs ''model_type'' (JStr ''obesity'');
             ctx = health_ctx_init\<lparr>h_selected_model :=
                     Some (if model_type = JStr ''obesity'' then ''Obesity'' else ''Diabetes'')\<rparr>;
             mt = (case model_type of JStr m \<Rightarrow> m | _ \<Rightarrow> []);
             api_response = health_predict hf_api_url post mt raw_inputs
         in case reply_values ''Remote Inference Error: '' api_response [(''prediction'', JNull), (''probability'', JNull)] of
              Inl err \<Rightarrow> ctx\<lparr>h_error := Some err\<rparr>
            | Inr vs \<Rightarrow> ctx\<lparr>h_prediction_result := vs ! 0, h_prediction_probability := vs ! 1\<rparr>))"

definition health_view ::
  "(string \<times> string list) list \<Rightarrow> string \<Rightarrow> post_fn \<Rightarrow> request_user \<Rightarrow> request_method \<Rightarrow> health_ctx view_result guarded" where
  "health_view enc hf_api_url post u m =
     prediction_access_required ''health''
       (case m of GET \<Rightarrow> Render health_ctx_init | POST data \<Rightarrow> Render (health_view_post enc hf_api_url post data)) u"

definition health_cluster_descriptions :: "(real \<times> string) list" where
  "health_cluster_descriptions =
     [(0, ''Healthiest Profile''), (1, ''Highest Risk (Priority Intervention)''), (2, ''Moderate Profile''),
      (3, ''Mixed Profile'')]"

record clustering_ctx =
  c_cluster_result :: json
  c_cluster_desc :: "string option"
  c_error :: "view_error option"

definition clustering_ctx_init :: clustering_ctx where
  "clustering_ctx_init = \<lparr>c_cluster_result = JNull, c_cluster_desc = None, c_error = None\<rparr>"

definition clustering_view_post :: "string \<Rightarrow> post_fn \<Rightarrow> post_data \<Rightarrow> clustering_ctx" where
  "clustering_view_post hf_api_url post data =
     (let (errs, raw_inputs) = full_clean clustering_form_fields no_hook no_form_clean data
      in if errs \<noteq> [] then clustering_ctx_init
         else
           (let api_response = health_predict_cluster hf_api_url post raw_inputs;
                app_error = (\<lambda>e. clustering_ctx_init\<lparr>c_error := Some (AppError ''Application Error: '' e)\<rparr>)
            in case json_has api_response ''error'' of
              Inl e \<Rightarrow> app_error e
            | Inr True \<Rightarrow>
                (case json_get api_response ''details'' JNull of
                   Inl e \<Rightarrow> app_error e
                 | Inr d \<Rightarrow> clustering_ctx_init\<lparr>c_error := Some (RemoteError ''Clustering Error: '' d)\<rparr>)
            | Inr False \<Rightarrow>
                (case json_get api_response ''cluster'' JNull of
                   Inl e \<Rightarrow> app_error e
                 | Inr c \<Rightarrow>
                     (case num_dict_get health_cluster_descriptions c of
                        Inl e \<Rightarrow> app_error e
                      | Inr d \<Rightarrow>
                          clustering_ctx_init\<lparr>c_cluster_result := c,
                            c_cluster_desc := Some (case d of Some s \<Rightarrow> s | None \<Rightarrow> ''Unknown Cluster'')\<rparr>))))"

definition health_clustering_view ::
  "string \<Rightarrow> post_fn \<Rightarrow> request_user \<Rightarrow> request_method \<Rightarrow> clustering_ctx view_result guarded" where
  "health_clustering_view hf_api_url post u m =
     prediction_access_required ''health''
       (case m of GET \<Rightarrow> Render clustering_ctx_init | POST data \<Rightarrow> Render (clustering_view_post hf_api_url post data)) u"

definition health_clustering_data_api :: "string option \<Rightarrow> get_fn \<Rightarrow> request_user \<Rightarrow> json guarded" where
  "health_clustering_data_api hf_api_url get u =
     prediction_access_required ''health'' (JObj [(''counties'', load_clustering_data hf_api_url get)]) u"

section \<open>finance/views.py\<close>

record finance_ctx =
  f_prediction_result :: json
  f_prediction_probability :: json
  f_selected_model :: "string option"
  f_error :: "view_error option"

definition finance_ctx_init :: finance_ctx where
  "finance_ctx_init =
     \<lparr>f_prediction_result = JNull, f_prediction_probability = JNull, f_selected_model = None, f_error = None\<rparr>"

text \<open>
  The service's reply as the view reads it: the generic handler's dict
  \<open>{'error': True, 'details': 'Unexpected error: ' + str(e)}\<close> is an error
  reply whose message ends in the exception.
\<close>

definition fin_reply_values :: "fin_result \<Rightarrow> (string \<times> json) list \<Rightarrow> view_error + json list" where
  "fin_reply_values r keys =
     (case r of
        FinUnexpected e \<Rightarrow> Inl (AppError ''Remote Inference Error: Unexpected error: '' e)
      | FinReply v \<Rightarrow> reply_values ''Remote Inference Error: '' v keys)"

text \<open>
  \<open>finance_view\<close> on a POST: an invalid form gives the fixed message; a valid
  one sends \<open>cleaned_data\<close> with its \<open>model_type\<close> (a \<open>CharField\<close>, so
  always a string) to the service.
\<close>

definition finance_view_post :: "post_fn \<Rightarrow> post_data \<Rightarrow> finance_ctx" where
  "finance_view_post post data =
     (let (errs, raw_inputs) = full_clean finance_form_fields finance_field_hook finance_clean data in
      if errs \<noteq> [] then finance_ctx_init\<lparr>f_error := Some (ViewMessage ''Please correct the errors in the form.'')\<rparr>
      else
        (let model_type = (case dict_get raw_inputs ''model_type'' (JStr ''tax_rate'') of JStr m \<Rightarrow> m | _ \<Rightarrow> []);
             ctx = finance_ctx_init\<lparr>f_selected_model := Some ''Tax Rate''\<rparr>
         in case fin_reply_values (finance_predict post model_type raw_inputs) [(''prediction'', JNull), (''probability'', JNull)] of
              Inl err \<Rightarrow> ctx\<lparr>f_error := Some err\<rparr>
            | Inr vs \<Rightarrow> ctx\<lparr>f_prediction_result := vs ! 0, f_prediction_probability := vs ! 1\<rparr>))"

definition finance_view :: "post_fn \<Rightarrow> request_user \<Rightarrow> request_method \<Rightarrow> finance_ctx view_result guarded" where
  "finance_view post u m =
     prediction_access_required ''finance''
       (case m of GET \<Rightarrow> Render finance_ctx_init | POST data \<Rightarrow> Render (finance_view_post post data)) u"

record fin_cluster_ctx =
  fc_cluster_result :: json
  fc_prediction_probability :: json
  fc_error :: "view_error option"
  fc_cluster_data :: "json option"
  fc_priority_states :: json

definition fin_cluster_ctx_init :: fin_cluster_ctx where
  "fin_cluster_ctx_init =
     \<lparr>fc_cluster_result = JNull, fc_prediction_probability = JNull, fc_error = None, fc_cluster_data = None,
      fc_priority_states = JNull\<rparr>"

text \<open>\<open>d[k] = v\<close> on a dict: an existing key keeps its place.\<close>

definition dict_set :: "(string \<times> 'v) list \<Rightarrow> string \<Rightarrow> 'v \<Rightarrow> (string \<times> 'v) list" where
  "dict_set d k v = (if has_key d k then map (\<lambda>(k', v'). if k' = k then (k', v) else (k', v')) d else d @ [(k, v)])"

text \<open>
  \<open>clustering_view\<close>: the same form, with the model type forced to
  \<open>clustering\<close> after validation (the form's own check used the submitted
  one); \<open>cluster_data\<close> is passed to the page only when truthy
  (\<open>json.dumps\<close>, else \<open>'null'\<close>).
\<close>

definition finance_clustering_view_post :: "post_fn \<Rightarrow> post_data \<Rightarrow> fin_cluster_ctx" where
  "finance_clustering_view_post post data =
     (let (errs, raw_inputs) = full_clean finance_form_fields finance_field_hook finance_clean data in
      if errs \<noteq> [] then fin_cluster_ctx_init\<lparr>fc_error := Some (ViewMessage ''Please correct the errors in the form.'')\<rparr>
      else
        (let inputs = dict_set raw_inputs ''model_type'' (JStr ''clustering'');
             api_response = finance_predict post ''clustering'' inputs
         in case fin_reply_values api_response
                   [(''prediction'', JNull), (''probability'', JNull), (''cluster_data'', JList []),
                    (''priority_states'', JList [])] of
              Inl err \<Rightarrow> fin_cluster_ctx_init\<lparr>fc_error := Some err\<rparr>
            | Inr vs \<Rightarrow>
                fin_cluster_ctx_init\<lparr>fc_cluster_result := vs ! 0, fc_prediction_probability := vs ! 1,
                  fc_cluster_data := (if json_truthy (vs ! 2) then Some (vs ! 2) else None),
                  fc_priority_states := vs ! 3\<rparr>))"

definition finance_clustering_view :: "post_fn \<Rightarrow> request_user \<Rightarrow> request_method \<Rightarrow> fin_cluster_ctx view_result guarded" where
  "finance_clustering_view post u m =
     prediction_access_required ''finance''
       (case m of GET \<Rightarrow> Render fin_cluster_ctx_init | POST data \<Rightarrow> Render (finance_clustering_view_post post data)) u"

definition finance_clustering_data_api :: "request_user \<Rightarrow> json guarded" where
  "finance_clustering_data_api u = prediction_access_required ''finance'' (JObj [(''states'', JList [])]) u"

section \<open>foodenvironment/views.py\<close>

text \<open>
  \<open>food_env_predict\<close> (\<open>require_http_methods(["POST"])\<close>, \<open>csrf_exempt\<close>,
  no access decorator): the request body decoded by \<open>json.loads\<close> (\<open>Inl\<close>:
  a decoding error) is validated and sent to the service. A body that is
  not a JSON object fails in \<open>features.items()\<close> and, like every exception
  of the service, is answered by the generic handler with status 500 and
  the message \<open>'Server error: ' + str(e)\<close>.
\<close>

datatype fe_response = FeJson nat json | FeServerError exn | FeNotAllowed

definition food_env_predict :: "string \<Rightarrow> post_fn \<Rightarrow> bool \<Rightarrow> string + json \<Rightarrow> fe_response" where
  "food_env_predict hf_api_url post is_post body =
     (if \<not> is_post then FeNotAllowed
      else (case body of
              Inl _ \<Rightarrow> FeJson 400 (JObj [(''success'', JBool False), (''error'', JStr ''Invalid JSON format'')])
            | Inr (JObj data) \<Rightarrow>
                (case validate_features data of
                   (False, msg) \<Rightarrow>
                     FeJson 400 (JObj [(''success'', JBool False),
                                       (''error'', case msg of Some m \<Rightarrow> JStr m | None \<Rightarrow> JNull)])
                 | (True, _) \<Rightarrow>
                     (case foodenv_predict hf_api_url post data of
                        Inl e \<Rightarrow> FeServerError e
                      | Inr (JObj result) \<Rightarrow>
                          if json_truthy (dict_get result ''success'' JNull)
                          then FeJson 200 (JObj [(''success'', JBool True), (''prediction'', dict_get result ''prediction'' JNull),
                                                 (''raw'', dict_get result ''raw'' JNull)])
                          else FeJson 500 (JObj [(''success'', JBool False), (''error'', dict_get result ''error'' JNull),
                                                 (''raw'', dict_get result ''raw'' JNull)])
                      | Inr _ \<Rightarrow> FeServerError AttributeError))
            | Inr _ \<Rightarrow> FeServerError AttributeError))"

text \<open>The three routes of foodenvironment/urls.py; only the page is decorated.\<close>

datatype foodenv_request = FoodEnvPage | FoodEnvPredict bool "string + json" | FoodEnvClustering

datatype foodenv_response = RenderFoodEnv | FoodEnvJson fe_response | RenderFoodEnvClustering string

definition foodenv_urls ::
  "string \<Rightarrow> string \<Rightarrow> post_fn \<Rightarrow> request_user \<Rightarrow> foodenv_request \<Rightarrow> foodenv_response guarded" where
  "foodenv_urls hf_api_url clustering_endpoint post u req =
     (case req of
        FoodEnvPage \<Rightarrow> prediction_access_required ''food_env'' RenderFoodEnv u
      | FoodEnvPredict is_post body \<Rightarrow> Allowed (FoodEnvJson (food_env_predict hf_api_url post is_post body))
      | FoodEnvClustering \<Rightarrow> Allowed (RenderFoodEnvClustering clustering_endpoint))"

section \<open>local/views.py\<close>

definition local_cluster_descriptions :: "(real \<times> string \<times> string) list" where
  "local_cluster_descriptions =
     [(0, ''Low-Income & High-Need Areas'',
       ''These regions exhibit high poverty rates and significant food insecurity. Although their economic potential is limited, they could benefit from programs improving food access and support for local farms. However, they are less of a priority for immediate agricultural market development.''),
      (1, ''Intermediate Areas'',
       ''These regions are characterized by moderate agricultural activity. They offer a moderate growth potential for the local food system, particularly through initiatives adapted to existing farms and local demand.''),
      (2, ''Wealthy & Agricultural Areas'',
       ''These counties combine high median income, low poverty, and strong local agricultural activity (farmers'' @ [CHR 0x27] @ '' markets, direct sales). They represent the highest potential regions for the development of the local food system, capable of supporting market expansion, food innovation, and community engagement.'')]"

record local_ctx =
  l_prediction_result :: "json option"
  l_cluster_result :: "json option"
  l_cluster_info :: "(string \<times> string) option"
  l_field_groups :: "(json \<times> string list) list"
  l_error :: "view_error option"

definition local_ctx_init :: local_ctx where
  "local_ctx_init =
     \<lparr>l_prediction_result = None, l_cluster_result = None, l_cluster_info = None, l_field_groups = [], l_error = None\<rparr>"

text \<open>
  The end of both local views, outside their \<open>try\<close>: the form's field
  groups, and the description of the cluster when \<open>cluster_result\<close> is
  truthy and has a \<open>cluster\<close> key (\<open>'cluster' in\<close> a number, or an
  unhashable cluster, raises out of the view).
\<close>

definition cluster_info_of :: "json option \<Rightarrow> exn + (string \<times> string) option" where
  "cluster_info_of cluster_result =
     (case cluster_result of
        None \<Rightarrow> Inr None
      | Some r \<Rightarrow>
          if \<not> json_truthy r then Inr None
          else (case json_has r ''cluster'' of
                  Inl e \<Rightarrow> Inl e
                | Inr False \<Rightarrow> Inr None
                | Inr True \<Rightarrow>
                    (case json_get r ''cluster'' JNull of
                       Inl e \<Rightarrow> Inl e
                     | Inr c \<Rightarrow> num_dict_get local_cluster_descriptions c)))"

definition local_finish :: "(string \<times> json) list \<Rightarrow> form_field list \<Rightarrow> local_ctx \<Rightarrow> local_ctx view_result" where
  "local_finish feats fs ctx =
     (case get_field_groups feats fs of
        Inl e \<Rightarrow> Crash e
      | Inr groups \<Rightarrow>
          (case cluster_info_of (l_cluster_result ctx) of
             Inl e \<Rightarrow> Crash e
           | Inr info \<Rightarrow> Render (ctx\<lparr>l_field_groups := groups, l_cluster_info := info\<rparr>)))"

text \<open>
  \<open>local_regression_view\<close> on a POST. \<open>feats\<close> is \<open>CLUSTERING_FEATURES\<close>;
  \<open>rnd\<close>, \<open>k\<close> and \<open>rnd2\<close> are the random values of the services' mock
  replies; \<open>ajax\<close> is the \<open>X-Requested-With: XMLHttpRequest\<close> header. The
  prediction is kept when the clustering call then fails.
\<close>

definition local_regression_view_post ::
  "(string \<times> json) list \<Rightarrow> string \<Rightarrow> post_fn \<Rightarrow> real \<Rightarrow> nat \<Rightarrow> real \<Rightarrow> bool \<Rightarrow> post_data \<Rightarrow> local_ctx view_result" where
  "local_regression_view_post feats hf_api_url post rnd k rnd2 ajax data =
     (case local_form_fields feats of
        Inl e \<Rightarrow> Crash e
      | Inr fs \<Rightarrow>
          (let (errs, raw_inputs) = full_clean fs no_hook no_form_clean data;
               fail = (\<lambda>ctx e. if ajax then AjaxError 500 (AppError ''Application Error: '' e)
                               else local_finish feats fs (ctx\<lparr>l_error := Some (AppError ''Application Error: '' e)\<rparr>))
           in if errs \<noteq> [] then
                local_finish feats fs (local_ctx_init\<lparr>l_error :=
                  Some (ViewMessage ''Please fill in all required fields correctly.'')\<rparr>)
              else
                (case local_predict hf_api_url post rnd raw_inputs of
                   Inl e \<Rightarrow> fail local_ctx_init e
                 | Inr api_response \<Rightarrow>
                     (case json_has api_response ''error'' of
                        Inl e \<Rightarrow> fail local_ctx_init e
                      | Inr True \<Rightarrow>
                          (case json_get api_response ''details'' (JStr ''Unknown error'') of
                             Inl e \<Rightarrow> fail local_ctx_init e
                           | Inr d \<Rightarrow>
                               if ajax then AjaxError 400 (RemoteError ''Prediction Error: '' d)
                               else local_finish feats fs
                                      (local_ctx_init\<lparr>l_error := Some (RemoteError ''Prediction Error: '' d)\<rparr>))
                      | Inr False \<Rightarrow>
                          (case api_response of
                             JObj d \<Rightarrow>
                               (let v = dict_get d ''prediction'' JNull;
                                    c = dict_get d ''confidence'' JNull;
                                    ctx = local_ctx_init\<lparr>l_prediction_result :=
                                            Some (JObj [(''value'', v), (''confidence'', c),
                                                        (''model'', dict_get d ''model'' (JStr ''XGBoost Regressor''))])\<rparr>
                                in case local_predict_cluster hf_api_url post k rnd2 raw_inputs of
                                     Inl e \<Rightarrow> fail ctx e
                                   | Inr cluster_response \<Rightarrow>
                                       (case json_has cluster_response ''error'' of
                                          Inl e \<Rightarrow> fail ctx e
                                        | Inr has_error \<Rightarrow>
                                            (case (if has_error then Inr None
                                                   else (case cluster_response of
                                                           JObj cd \<Rightarrow>
                                                             Inr (Some (dict_get cd ''cluster'' JNull,
                                                                        dict_get cd ''confidence'' (JNum 0.75)))
                                                         | _ \<Rightarrow> Inl AttributeError)) of
                                               Inl e \<Rightarrow> fail ctx e
                                             | Inr cr \<Rightarrow>
                                                 (let ctx' = ctx\<lparr>l_cluster_result :=
                                                        map_option (\<lambda>(cl, cf). JObj [(''cluster'', cl), (''confidence'', cf)]) cr\<rparr>
                                                  in if ajax then
                                                       AjaxOk (JObj [(''success'', JBool True), (''prediction'', v),
                                                         (''confidence'', c),
                                                         (''cluster'', case cr of Some (cl, _) \<Rightarrow> cl | None \<Rightarrow> JNull),
                                                         (''cluster_confidence'', case cr of Some (_, cf) \<Rightarrow> cf | None \<Rightarrow> JNull)])
                                                     else local_finish feats fs ctx'))))
                           | _ \<Rightarrow> fail local_ctx_init AttributeError)))))"

text \<open>
  \<open>local_clustering_view\<close> on a POST: an invalid form renders without a
  message; the service's reply is shown as it is, its \<open>error\<close> printed.
\<close>

definition local_clustering_view_post ::
  "(string \<times> json) list \<Rightarrow> string \<Rightarrow> post_fn \<Rightarrow> nat \<Rightarrow> real \<Rightarrow> bool \<Rightarrow> post_data \<Rightarrow> local_ctx view_result" where
  "local_clustering_view_post feats hf_api_url post k rnd ajax data =
     (case local_form_fields feats of
        Inl e \<Rightarrow> Crash e
      | Inr fs \<Rightarrow>
          (let (errs, raw_inputs) = full_clean fs no_hook no_form_clean data;
               fail = (\<lambda>ctx e. if ajax then AjaxError 500 (AppError [] e)
                               else local_finish feats fs (ctx\<lparr>l_error := Some (AppError [] e)\<rparr>))
           in if errs \<noteq> [] then local_finish feats fs local_ctx_init
              else
                (case local_predict_cluster hf_api_url post k rnd raw_inputs of
                   Inl e \<Rightarrow> fail local_ctx_init e
                 | Inr cluster_result \<Rightarrow>
                     (let ctx = local_ctx_init\<lparr>l_cluster_result := Some cluster_result\<rparr> in
                      case json_has cluster_result ''error'' of
                        Inl e \<Rightarrow> fail ctx e
                      | Inr True \<Rightarrow>
                          (case json_get cluster_result ''error'' JNull of
                             Inl e \<Rightarrow> fail ctx e
                           | Inr m \<Rightarrow>
                               if ajax then AjaxError 400 (RemoteError [] m)
                               else local_finish feats fs (ctx\<lparr>l_error := Some (RemoteError [] m)\<rparr>))
                      | Inr False \<Rightarrow>
                          if ajax then
                            (case cluster_result of
                               JObj d \<Rightarrow>
                                 AjaxOk (JObj [(''success'', JBool True), (''cluster'', dict_get d ''cluster'' JNull),
                                               (''confidence'', dict_get d ''confidence'' (JNum 0))])
                             | _ \<Rightarrow> fail ctx AttributeError)
                          else local_finish feats fs ctx))))"

definition local_regression_view ::
  "(string \<times> json) list \<Rightarrow> string \<Rightarrow> post_fn \<Rightarrow> real \<Rightarrow> nat \<Rightarrow> real \<Rightarrow> bool \<Rightarrow> request_user \<Rightarrow> request_method
   \<Rightarrow> local_ctx view_result guarded" where
  "local_regression_view feats hf_api_url post rnd k rnd2 ajax u m =
     prediction_access_required ''local''
       (case m of
          GET \<Rightarrow> (case local_form_fields feats of Inl e \<Rightarrow> Crash e | Inr fs \<Rightarrow> local_finish feats fs local_ctx_init)
        | POST data \<Rightarrow> local_regression_view_post feats hf_api_url post rnd k rnd2 ajax data) u"

definition local_clustering_view ::
  "(string \<times> json) list \<Rightarrow> string \<Rightarrow> post_fn \<Rightarrow> nat \<Rightarrow> real \<Rightarrow> bool \<Rightarrow> request_user \<Rightarrow> request_method
   \<Rightarrow> local_ctx view_result guarded" where
  "local_clustering_view feats hf_api_url post k rnd ajax u m =
     prediction_access_required ''local''
       (case m of
          GET \<Rightarrow> (case local_form_fields feats of Inl e \<Rightarrow> Crash e | Inr fs \<Rightarrow> local_finish feats fs local_ctx_init)
        | POST data \<Rightarrow> local_clustering_view_post feats hf_api_url post k rnd ajax data) u"

text \<open>
  \<open>clustering_map_view\<close>: \<open>require_http_methods(["GET"])\<close> answers other
  methods before the login check; \<open>JsonResponse\<close> of a decoded value that
  is not a dict raises \<open>TypeError\<close>.
\<close>

definition clustering_map_view :: "string \<Rightarrow> get_fn \<Rightarrow> bool \<Rightarrow> request_user \<Rightarrow> unit view_result guarded" where
  "clustering_map_view hf_api_url get is_get u =
     (if \<not> is_get then Allowed NotAllowed
      else prediction_access_required ''local''
        (let map_data = get_clustering_map_data hf_api_url get in
         case json_has map_data ''error'' of
           Inl e \<Rightarrow> Crash e
         | Inr True \<Rightarrow>
             (case json_get map_data ''details'' (JStr ''Failed to load map data'') of
                Inl e \<Rightarrow> Crash e
              | Inr d \<Rightarrow> JsonResp 500 (JObj [(''error'', d)]))
         | Inr False \<Rightarrow> (case map_data of JObj _ \<Rightarrow> JsonResp 200 map_data | _ \<Rightarrow> Crash TypeError)) u)"

section \<open>insecurity/views.py\<close>

record insec_ctx =
  i_prediction_result :: json
  i_risk_level :: json
  i_risk_color :: json
  i_confidence :: json
  i_error :: "view_error option"

definition insec_ctx_init :: insec_ctx where
  "insec_ctx_init =
     \<lparr>i_prediction_result = JNull, i_risk_level = JNull, i_risk_color = JNull, i_confidence = JNull, i_error = None\<rparr>"

text \<open>
  \<open>insecurity_view\<close> on a POST, over the loader's state: the service's
  handler dict \<open>{'error': 'Prediction failed', 'details': str(e)}\<close> is shown
  as the prediction error of the exception.
\<close>

definition insecurity_view_post :: "insec_loader \<Rightarrow> post_data \<Rightarrow> insec_ctx" where
  "insecurity_view_post ld data =
     (let (errs, raw_inputs) = full_clean insecurity_form_fields no_hook no_form_clean data in
      if errs \<noteq> [] then insec_ctx_init
      else
        (case insec_predict ld raw_inputs of
           InsecFailed e \<Rightarrow> insec_ctx_init\<lparr>i_error := Some (AppError ''Prediction Error: '' e)\<rparr>
         | InsecReply api_response \<Rightarrow>
             (case reply_values ''Prediction Error: '' api_response
                     [(''prediction'', JNull), (''risk_level'', JNull), (''risk_color'', JNull), (''confidence'', JNull)] of
                Inl err \<Rightarrow> insec_ctx_init\<lparr>i_error := Some err\<rparr>
              | Inr vs \<Rightarrow>
                  insec_ctx_init\<lparr>i_prediction_result := vs ! 0, i_risk_level := vs ! 1, i_risk_color := vs ! 2,
                                 i_confidence := vs ! 3\<rparr>)))"

definition insecurity_view :: "insec_loader \<Rightarrow> request_user \<Rightarrow> request_method \<Rightarrow> insec_ctx view_result guarded" where
  "insecurity_view ld u m =
     prediction_access_required ''insecurity''
       (case m of GET \<Rightarrow> Render insec_ctx_init | POST data \<Rightarrow> Render (insecurity_view_post ld data)) u"

text \<open>
  \<open>clustering_data_api\<close>: the county CSV fetched from the insecurity space
  and parsed by \<open>pd.read_csv\<close> (a parameter: text to rows, or its
  exception), one JSON record per row, and the counts of high-vulnerability
  counties (cluster 1). A failed request and every other exception give
  status 500 with \<open>str(e)\<close> and no counties.
\<close>

datatype insec_map_response = CountiesJson json | CountiesRequestError string | CountiesError exn

definition cell_text :: "row \<Rightarrow> string \<Rightarrow> exn + string" where
  "cell_text r k = (case map_of r k of None \<Rightarrow> Inl KeyError | c \<Rightarrow> Inr (py_str c))"

definition county_item :: "row \<Rightarrow> exn + (json \<times> int)" where
  "county_item r =
     (case (cell_text r ''State'', cell_text r ''County'') of
        (Inr st, Inr c) \<Rightarrow>
          (case cell_int r ''Cluster'' of
             Inl e \<Rightarrow> Inl e
           | Inr cl \<Rightarrow>
               (case (cell_text r ''risk_label'', cell_text r ''risk_color'') of
                  (Inr lbl, Inr col) \<Rightarrow>
                    Inr (JObj [(''id'', JStr (st @ ''|'' @ c)), (''county'', JStr c), (''state'', JStr st),
                               (''cluster'', JNum (of_int cl)), (''risk_label'', JStr lbl), (''risk_color'', JStr col)], cl)
                | (Inl e, _) \<Rightarrow> Inl e
                | (_, Inl e) \<Rightarrow> Inl e))
      | (Inl e, _) \<Rightarrow> Inl e
      | (_, Inl e) \<Rightarrow> Inl e)"

fun county_items :: "row list \<Rightarrow> exn + (json \<times> int) list" where
  "county_items [] = Inr []"
| "county_items (r # rs) =
     (case county_item r of
        Inl e \<Rightarrow> Inl e
      | Inr x \<Rightarrow> (case county_items rs of Inl e \<Rightarrow> Inl e | Inr xs \<Rightarrow> Inr (x # xs)))"

definition county_stats :: "int list \<Rightarrow> json" where
  "county_stats clusters =
     (let total = length clusters;
          high = length (filter (\<lambda>c. c = 1) clusters)
      in JObj [(''total'', JNum (of_nat total)), (''high_vulnerability'', JNum (of_nat high)),
               (''baseline'', JNum (of_nat total - of_nat high)),
               (''high_percentage'', JNum (if total = 0 then 0 else of_nat high / of_nat total * 100))])"

definition insec_clustering_data_api ::
  "string \<Rightarrow> get_fn \<Rightarrow> (string \<Rightarrow> exn + row list) \<Rightarrow> request_user \<Rightarrow> insec_map_response guarded" where
  "insec_clustering_data_api hf_insecurity_api_url get read_csv u =
     prediction_access_required ''insecurity''
     (case get (hf_insecurity_api_url @ ''/county_clusters.csv'') of
        Failed _ msg \<Rightarrow> CountiesRequestError msg
      | Got r \<Rightarrow>
          if http_error r then CountiesRequestError (error_text r)
          else (case read_csv (resp_text r) of
                  Inl e \<Rightarrow> CountiesError e
                | Inr rows \<Rightarrow>
                    (case county_items rows of
                       Inl e \<Rightarrow> CountiesError e
                     | Inr items \<Rightarrow>
                         CountiesJson (JObj [(''counties'', JList (map fst items)),
                                             (''stats'', county_stats (map snd items))])))) u"


section \<open>health/ml_loader.py and local/ml_loader.py\<close>

text \<open>
  Both modules read one JSON file at import: its content when the file
  exists and parses, else \<open>{}\<close> (a read or parse error is printed).
  \<open>ENCODER_CHOICES\<close> is the parameter \<open>enc\<close> of the health form;
  \<open>CLUSTERING_FEATURES\<close> is read by \<open>LocalRegressionForm\<close> as below.
\<close>

definition load_encoder_choices :: "json artifact \<Rightarrow> json" where
  "load_encoder_choices a = (case a of Loaded v \<Rightarrow> v | _ \<Rightarrow> JObj [])"

definition load_clustering_features :: "json artifact \<Rightarrow> json" where
  "load_clustering_features a = (case a of Loaded v \<Rightarrow> v | _ \<Rightarrow> JObj [])"

text \<open>
  \<open>LocalRegressionForm.__init__\<close> over the loaded value: a truthy value
  that is not a dict fails at \<open>.items()\<close>; a falsy one gives the fallback
  field.
\<close>

definition local_form_of :: "json \<Rightarrow> exn + form_field list" where
  "local_form_of cf =
     (case cf of
        JObj d \<Rightarrow> local_form_fields d
      | _ \<Rightarrow> if json_truthy cf then Inl AttributeError else local_form_fields [])"

section \<open>Observations on the views\<close>

text \<open>Whether a local view's answer carries a remote error message.\<close>

definition shows_remote_error :: "local_ctx view_result \<Rightarrow> bool" where
  "shows_remote_error r =
     (case r of
        AjaxError _ (RemoteError _ _) \<Rightarrow> True
      | Render ctx \<Rightarrow> (case l_error ctx of Some (RemoteError _ _) \<Rightarrow> True | _ \<Rightarrow> False)
      | _ \<Rightarrow> False)"

section \<open>Example requests\<close>

text \<open>A valid health form, the encoder choices it needs, a food-environment
  request and a grocery space that answers it.\<close>

definition ex_enc :: "(string \<times> string list) list" where
  "ex_enc = [(''Risk_Level'', [''High'']), (''StatusName'', [''Metro''])]"

definition ex_health_data :: post_data where
  "ex_health_data =
     [(''model_type'', ''diabetes''), (''Risk_Level'', ''High''), (''StatusName'', ''Metro'')] @
     map (\<lambda>n. (n, ''1'')) [''VLFOODSEC_13_15'', ''Adult_Obesity_Rate_08'', ''CH_FOODINSEC_12_15'',
      ''Median_Income'', ''MILK_SODA_PRICE10'', ''Farmers_Markets_Count_16'', ''GYMs_Per_1000_Count_14'',
      ''Adult_Diabetes_Rate_08'', ''FSRPTH14'', ''Poverty_Rate'', ''VLFOODSEC_10_12'', ''PCT_NHBLACK10'',
      ''PCH_VEG_ACRESPTH_07_12'']"

definition ex_foodenv_features :: "(string \<times> json) list" where
  "ex_foodenv_features =
     [(''soda_price'', JNum 1), (''fmrktpth16'', JNum 0.2), (''pch_grocpth_09_14'', JNum 3), (''fsrpth09'', JNum 0.7),
      (''fsrpth14'', JNum 0.8), (''pct_65older10'', JNum 14), (''poploss10'', JNum 0)]"

definition ex_grocery_space :: post_fn where
  "ex_grocery_space u p =
     Got \<lparr>status_code = 200, content_type = Some ''application/json'', resp_text = [],
          resp_json = Inr (JObj [(''prediction'', JNum 0.25)]), error_text = []\<rparr>"

section \<open>Lemmas\<close>

text \<open>
  The health service's failure dict carries only \<open>details\<close>: a failed or
  refused request never produces the \<open>error\<close> key the view tests.
\<close>

lemma health_predict_down:
  assumes "\<forall>p. case post (u @ ''/predict'') p of Failed _ _ \<Rightarrow> True | Got r \<Rightarrow> http_error r"
  shows "\<exists>d. health_predict u post mt fs = JObj [(''details'', JStr d)]"
proof (cases "post (u @ ''/predict'') (JObj [(''model_type'', JStr mt), (''features'', JObj fs)])")
  case (Failed x1 x2)
  then show ?thesis by (simp add: health_predict_def)
next
  case (Got r)
  with assms have "http_error r" by (metis http_outcome.simps(6))
  with Got show ?thesis by (simp add: health_predict_def)
qed

text \<open>
  The finance form's \<open>clean\<close> checks required fields only for the two known
  model types. A submission whose hidden \<open>model_type\<close> is anything else is
  valid with every feature \<open>None\<close>; the clustering view then forces the
  model type and the service sends \<open>null\<close> for all three features, since
  \<open>input_data.get(k, 0)\<close> finds the key.
\<close>

lemma finance_clean_unknown_model_type:
  "full_clean finance_form_fields finance_field_hook finance_clean [(''model_type'', ''x'')] =
     ([], (''model_type'', JStr ''x'') # map (\<lambda>n. (n, JNull))
        [''Adult_Obesity_Rate_08'', ''Adult_Diabetes_Rate_08'', ''Adult_Obesity_Rate13'',
         ''Adult_Diabetes_Rate13'', ''SODATAX_STORES14'', ''CHIPSTAX_VENDM14'', ''PCT_LOCLFARM12'',
         ''VLFOODSEC_10_12'', ''Median_Income'', ''FOODINSEC_13_15''])"
  by (simp add: full_clean_def clean_fields_def clean_one_def clean_field_def finance_form_fields_def
      opt_float_field_def finance_field_hook_def finance_clean_def float_parse_defs)

lemma finance_clustering_sends_nulls:
  "is_valid finance_form_fields finance_field_hook finance_clean [(''model_type'', ''x'')] \<and>
   finance_payload ''clustering''
     (dict_set (snd (full_clean finance_form_fields finance_field_hook finance_clean [(''model_type'', ''x'')]))
        ''model_type'' (JStr ''clustering'')) = JObj [(''data'', JList [JNull, JNull, JNull])]"
  by (simp add: is_valid_def finance_clean_unknown_model_type finance_payload_def dict_set_def)

text \<open>The insecurity map's statistics: high-vulnerability counties never
  exceed the total and their share is a percentage.\<close>

lemma county_stats_bounds:
  "\<exists>t h p. county_stats cs =
     JObj [(''total'', JNum t), (''high_vulnerability'', JNum h), (''baseline'', JNum (t - h)),
           (''high_percentage'', JNum p)] \<and> 0 \<le> h \<and> h \<le> t \<and> 0 \<le> p \<and> p \<le> 100"
proof -
  let ?t = "length cs" and ?h = "length (filter (\<lambda>c. c = 1) cs)"
  let ?p = "if ?t = 0 then 0 else real ?h / real ?t * 100"
  have le: "?h \<le> ?t" by (rule length_filter_le)
  have p: "0 \<le> ?p \<and> ?p \<le> (100::real)"
    using le by (auto simp: divide_le_eq)
  show ?thesis
    using le p by (intro exI[of _ "real ?t"] exI[of _ "real ?h"] exI[of _ ?p]) (simp add: county_stats_def Let_def)
qed

lemma ex_health_valid: "is_valid (health_form_fields ex_enc) no_hook no_form_clean ex_health_data"
  by (simp add: is_valid_def full_clean_def clean_fields_def clean_one_def clean_field_def health_form_defs
      ex_enc_def ex_health_data_def float_field_def no_hook_def no_form_clean_def get_categorical_choices_def
      model_choices_def bound_errors_def float_parse_defs)

lemma ex_foodenv_reply:
  "foodenv_predict ''http://hf'' ex_grocery_space ex_foodenv_features =
     Inr (JObj [(''success'', JBool True), (''prediction'', JNum 0.25), (''error'', JNull),
                (''raw'', JObj [(''prediction'', JNum 0.25)])])"
  by (simp add: foodenv_predict_def ex_grocery_space_def http_error_def candidate_keys_def json_has_def
      json_get_def prediction_of_val_def)

text \<open>
  The food-environment page is decorated and sends an anonymous user to the
  login page, but its prediction endpoint is not decorated (and is exempt
  from CSRF checks): an anonymous POST with valid features reaches the
  grocery service and gets its prediction.
\<close>

lemma food_env_predict_anonymous:
  assumes ok: "fst (validate_features d)"
    and reply: "foodenv_predict hf_api_url post d = Inr (JObj result)"
    and success: "json_truthy (dict_get result ''success'' JNull)"
  shows "foodenv_urls hf_api_url ce post Anonymous FoodEnvPage = RedirectLogin \<and>
         foodenv_urls hf_api_url ce post Anonymous (FoodEnvPredict True (Inr (JObj d))) =
           Allowed (FoodEnvJson (FeJson 200 (JObj [(''success'', JBool True),
             (''prediction'', dict_get result ''prediction'' JNull), (''raw'', dict_get result ''raw'' JNull)])))"
proof -
  obtain m where v: "validate_features d = (True, m)"
    using ok by (cases "validate_features d") auto
  show ?thesis
    using v reply success
    by (simp add: foodenv_urls_def food_env_predict_def prediction_access_anonymous)
qed

lemma shows_remote_error_simps [simp]:
  "shows_remote_error (AjaxError n err) = (case err of RemoteError _ _ \<Rightarrow> True | _ \<Rightarrow> False)"
  "\<not> shows_remote_error (AjaxOk j)" "\<not> shows_remote_error (JsonResp n j)"
  "\<not> shows_remote_error (Crash e)" "\<not> shows_remote_error NotAllowed"
  by (simp_all add: shows_remote_error_def split: view_error.splits)

lemma local_finish_error:
  "shows_remote_error (local_finish feats fs ctx) \<longleftrightarrow>
     (\<exists>p d. l_error ctx = Some (RemoteError p d)) \<and> (\<exists>g. get_field_groups feats fs = Inr g) \<and>
     (\<exists>i. cluster_info_of (l_cluster_result ctx) = Inr i)"
  by (auto simp: local_finish_def shows_remote_error_def split: sum.splits option.splits view_error.splits)

text \<open>
  C24. The local regression view never shows a remote prediction error,
  neither as its AJAX 400 reply nor on the page: the local-food client
  hands it either the space's reply, which had no \<open>error\<close> key, or its own
  mock, so the view's \<open>'error' in api_response\<close> branch is unreachable.
\<close>

theorem local_regression_no_remote_error:
  "\<not> shows_remote_error (local_regression_view_post feats u post rnd k rnd2 ajax data)"
proof
  assume a: "shows_remote_error (local_regression_view_post feats u post rnd k rnd2 ajax data)"
  show False
  proof (cases "local_form_fields feats")
    case (Inl e)
    with a show False by (simp add: local_regression_view_post_def)
  next
    case (Inr fs)
    obtain errs cd where fc: "full_clean fs no_hook no_form_clean data = (errs, cd)" by fastforce
    show False
    proof (cases "local_predict u post rnd cd")
      case (Inl e)
      with a Inr fc show False
        by (auto simp: local_regression_view_post_def local_finish_error local_ctx_init_def Let_def split: if_splits sum.splits)
    next
      case (Inr v)
      with a \<open>local_form_fields feats = Inr fs\<close> fc local_predict_reply_no_error[OF Inr] show False
        by (auto simp: local_regression_view_post_def local_finish_error local_ctx_init_def Let_def
                 split: if_splits sum.splits json.splits option.splits prod.splits)
    qed
  qed
qed

text \<open>
  C40. When the health service cannot be reached or answers with an HTTP
  error, a valid health form renders with no prediction and no error
  message: the service's failure dict has no \<open>error\<close> key, so the view takes
  the success branch and reads \<open>None\<close> for both values.
\<close>

theorem health_view_silent_failure:
  assumes valid: "is_valid (health_form_fields enc) no_hook no_form_clean data"
    and down: "\<forall>p. case post (hf_api_url @ ''/predict'') p of Failed _ _ \<Rightarrow> True | Got r \<Rightarrow> http_error r"
  shows "h_error (health_view_post enc hf_api_url post data) = None \<and>
         h_prediction_result (health_view_post enc hf_api_url post data) = JNull \<and>
         h_prediction_probability (health_view_post enc hf_api_url post data) = JNull \<and>
         h_selected_model (health_view_post enc hf_api_url post data) \<noteq> None"
proof -
  obtain cd where fc: "full_clean (health_form_fields enc) no_hook no_form_clean data = ([], cd)"
    using valid by (cases "full_clean (health_form_fields enc) no_hook no_form_clean data") (simp add: is_valid_def)
  let ?mt = "case dict_get cd ''model_type'' (JStr ''obesity'') of JStr m \<Rightarrow> m | _ \<Rightarrow> []"
  obtain d where hp: "health_predict hf_api_url post ?mt cd = JObj [(''details'', JStr d)]"
    using health_predict_down[of post hf_api_url, OF down] by blast
  show ?thesis
    by (simp add: health_view_post_def fc hp reply_values_def json_has_def health_ctx_init_def Let_def)
qed

theorem health_view_silent_failure_witness:
  "is_valid (health_form_fields ex_enc) no_hook no_form_clean ex_health_data \<and>
   h_error (health_view_post ex_enc ''http://hf'' (\<lambda>_ _. Failed ConnectionError ''refused'') ex_health_data) = None \<and>
   h_prediction_result (health_view_post ex_enc ''http://hf'' (\<lambda>_ _. Failed ConnectionError ''refused'') ex_health_data) = JNull"
  using health_view_silent_failure[OF ex_health_valid, of "\<lambda>_ _. Failed ConnectionError ''refused''" "''http://hf''"]
    ex_health_valid by simp

text \<open>
  Without encoder_choices.json the two categorical fields have no choices,
  so no health POST is valid; without clustering_features.json the local
  form has the single text field \<open>feature_input\<close>.
\<close>

lemma health_form_no_encoders: "\<not> is_valid (health_form_fields []) no_hook no_form_clean data"
proof -
  let ?f = "\<lparr>fld_name = ''Risk_Level'', fld_kind = ChoiceF [], fld_required = True\<rparr>"
  let ?s = "case map_of data ''Risk_Level'' of None \<Rightarrow> [] | Some s \<Rightarrow> s"
  have es: "clean_one no_hook data ?f = Inl [if ?s = [] then Required else InvalidChoice ?s]"
    by (simp add: clean_one_def clean_field_def Let_def)
  have "?f \<in> set (health_form_fields [])" by (simp add: health_form_defs get_categorical_choices_def)
  then show ?thesis using clean_one_error_invalid[OF _ es] by blast
qed
lemma local_form_no_features:
  "local_form_of (load_clustering_features Missing) =
     Inr [\<lparr>fld_name = ''feature_input'', fld_kind = CharF, fld_required = True\<rparr>]"
  by (simp add: local_form_of_def load_clustering_features_def local_form_fields_def)

end
