(* ===== verification/Access.thy ===== *)
theory Access
  imports Views
begin

text \<open>
  The access section (src/us_foodscope/access): the five models that
  ml_loader.py downloads and loads when the module is imported, the three
  prediction functions of services.py over them, and the views of views.py
  with their forms. The fitted models are the records of the health API
  theory; the PCA is its mean and components.
\<close>

section \<open>access/ml_loader.py\<close>

record pca =
  pca_mean :: "real list"
  pca_components :: "real list list"

text \<open>\<open>PCA.transform\<close>: the centred row projected on each component.\<close>

definition pca_transform :: "pca \<Rightarrow> real list \<Rightarrow> exn + real list" where
  "pca_transform p x =
     (if length x = length (pca_mean p) \<and> list_all (\<lambda>c. length c = length x) (pca_components p)
      then Inr (map (\<lambda>c. sum_list (map2 (*) c (map2 (-) x (pca_mean p)))) (pca_components p))
      else Inl ValueError)"

record access_models =
  reg_model :: regressor
  clf_model :: regressor
  kmeans_model :: kmeans
  pca_model :: pca
  scaler_model :: std_scaler

record access_files =
  best_reg_file :: "regressor artifact"
  best_clf_file :: "regressor artifact"
  kmeans_unsup_file :: "kmeans artifact"
  unsup_pca_file :: "pca artifact"
  unsup_scaler_file :: "std_scaler artifact"

text \<open>
  \<open>load_model\<close>: \<open>hf_hub_download\<close> then \<open>joblib.load\<close>; a failed download or
  an unreadable file raises. The module loads the five models in order at
  import time, so the first failure makes the import, and the URL
  configuration that imports the views, fail.
\<close>

definition load_model :: "'a artifact \<Rightarrow> exn + 'a" where
  "load_model a =
     (case a of
        Loaded x \<Rightarrow> Inr x
      | Missing \<Rightarrow> Inl (RequestException ''download failed'')
      | Unreadable \<Rightarrow> Inl UnpicklingError)"

definition access_ml_loader :: "access_files \<Rightarrow> exn + access_models" where
  "access_ml_loader env =
     (case load_model (best_reg_file env) of Inl e \<Rightarrow> Inl e | Inr reg \<Rightarrow>
      case load_model (best_clf_file env) of Inl e \<Rightarrow> Inl e | Inr clf \<Rightarrow>
      case load_model (kmeans_unsup_file env) of Inl e \<Rightarrow> Inl e | Inr km \<Rightarrow>
      case load_model (unsup_pca_file env) of Inl e \<Rightarrow> Inl e | Inr p \<Rightarrow>
      case load_model (unsup_scaler_file env) of Inl e \<Rightarrow> Inl e | Inr sc \<Rightarrow>
        Inr \<lparr>reg_model = reg, clf_model = clf, kmeans_model = km, pca_model = p, scaler_model = sc\<rparr>)"

section \<open>access/services.py\<close>

text \<open>\<open>np.array([features], dtype=float)\<close>: each value through \<open>float()\<close>.\<close>

fun np_float :: "json \<Rightarrow> exn + real" where
  "np_float JNull = Inl TypeError"
| "np_float (JList _) = Inl TypeError"
| "np_float (JObj _) = Inl TypeError"
| "np_float v = (case py_float v of Some x \<Rightarrow> Inr x | None \<Rightarrow> Inl ValueError)"

fun np_float_row :: "json list \<Rightarrow> exn + real list" where
  "np_float_row [] = Inr []"
| "np_float_row (v # vs) =
     (case np_float v of Inl e \<Rightarrow> Inl e | Inr x \<Rightarrow> (case np_float_row vs of Inl e \<Rightarrow> Inl e | Inr xs \<Rightarrow> Inr (x # xs)))"

definition predict_access :: "access_models \<Rightarrow> json list \<Rightarrow> exn + real" where
  "predict_access ms features =
     (case np_float_row features of Inl e \<Rightarrow> Inl e | Inr x \<Rightarrow> model_predict (reg_model ms) x)"

text \<open>\<open>int(clf_model.predict(X)[0])\<close>: the class label, truncated.\<close>

definition classify_access :: "access_models \<Rightarrow> json list \<Rightarrow> exn + int" where
  "classify_access ms features =
     (case np_float_row features of
        Inl e \<Rightarrow> Inl e
      | Inr x \<Rightarrow> (case model_predict (clf_model ms) x of Inl e \<Rightarrow> Inl e | Inr y \<Rightarrow> Inr (py_trunc y)))"

definition cluster_access :: "access_models \<Rightarrow> json list \<Rightarrow> exn + nat" where
  "cluster_access ms features =
     (case np_float_row features of Inl e \<Rightarrow> Inl e | Inr x \<Rightarrow>
      case scaler_transform (scaler_model ms) x of Inl e \<Rightarrow> Inl e | Inr xs \<Rightarrow>
      case pca_transform (pca_model ms) xs of Inl e \<Rightarrow> Inl e | Inr xp \<Rightarrow>
        kmeans_predict (kmeans_model ms) xp)"

section \<open>access/views.py\<close>

definition prediction_cols :: "string list" where
  "prediction_cols =
     [''PCT_LACCESS_POP10'', ''LACCESS_LOWI15'', ''LACCESS_HISP15'', ''LACCESS_NHASIAN15'', ''LACCESS_BLACK15'',
      ''Median_Income'', ''Poverty_Rate'', ''Food_Tax_Rate_14'', ''PCT_65OLDER10'', ''PCT_18YOUNGER10'']"

record access_ctx =
  a_prediction_result :: "real option"
  a_classification_result :: "int option"
  a_cluster_result :: "nat option"
  a_error :: "view_error option"

definition access_ctx_init :: access_ctx where
  "access_ctx_init =
     \<lparr>a_prediction_result = None, a_classification_result = None, a_cluster_result = None, a_error = None\<rparr>"

text \<open>
  \<open>access_prediction\<close> on a POST: the ten prediction features in
  \<open>PREDICTION_COLS\<close> order, then the nine clustering features with
  \<open>POPLOSS10\<close> set to 0. Each result is assigned as soon as it is computed,
  so a later failure leaves the earlier results on the page beside the
  error. Saving the history entry (inside the same \<open>try\<close>) is assumed to
  succeed.
\<close>

definition access_prediction_post :: "access_models \<Rightarrow> post_data \<Rightarrow> access_ctx" where
  "access_prediction_post ms data =
     (let (errs, cleaned) = full_clean access_prediction_form_fields no_hook no_form_clean data;
          col = (\<lambda>k. dict_get cleaned k JNull);
          fail = (\<lambda>ctx e. ctx\<lparr>a_error := Some (AppError ''Prediction Error: '' e)\<rparr>)
      in if errs \<noteq> [] then access_ctx_init
         else
           (let prediction_features = map col prediction_cols;
                clustering_features =
                  [col ''Poverty_Rate'', col ''Median_Income'', col ''PCT_65OLDER10'', col ''PCT_18YOUNGER10'', JNum 0,
                   col ''LACCESS_HISP15'', col ''LACCESS_NHASIAN15'', col ''LACCESS_BLACK15'', col ''PCT_LACCESS_POP10'']
            in case predict_access ms prediction_features of
                 Inl e \<Rightarrow> fail access_ctx_init e
               | Inr p \<Rightarrow>
                   (let ctx1 = access_ctx_init\<lparr>a_prediction_result := Some p\<rparr> in
                    case classify_access ms prediction_features of
                      Inl e \<Rightarrow> fail ctx1 e
                    | Inr c \<Rightarrow>
                        (let ctx2 = ctx1\<lparr>a_classification_result := Some c\<rparr> in
                         case cluster_access ms clustering_features of
                           Inl e \<Rightarrow> fail ctx2 e
                         | Inr k \<Rightarrow> ctx2\<lparr>a_cluster_result := Some k\<rparr>))))"

definition access_prediction :: "access_models \<Rightarrow> request_user \<Rightarrow> request_method \<Rightarrow> access_ctx guarded" where
  "access_prediction ms u m =
     prediction_access_required ''access''
       (case m of GET \<Rightarrow> access_ctx_init | POST data \<Rightarrow> access_prediction_post ms data) u"

definition cluster_labels :: "(nat \<times> string) list" where
  "cluster_labels =
     [(0, ''Moderate Access Risk''), (1, ''High Minority + High Access Risk''), (2, ''High Poverty + High Low Access'')]"

record access_cluster_ctx =
  ac_cluster :: "nat option"
  ac_cluster_label :: "string option"
  ac_error :: "view_error option"

definition access_cluster_ctx_init :: access_cluster_ctx where
  "access_cluster_ctx_init = \<lparr>ac_cluster = None, ac_cluster_label = None, ac_error = None\<rparr>"

text \<open>
  \<open>access_clustering\<close>: the form is bound to \<open>request.POST or None\<close>, so a
  POST with no fields leaves it unbound, and an unbound form is never valid:
  such a request renders like a GET, without errors.
\<close>

definition access_clustering_post :: "access_models \<Rightarrow> post_data \<Rightarrow> access_cluster_ctx" where
  "access_clustering_post ms data =
     (if data = [] then access_cluster_ctx_init
      else
        (let (errs, cleaned) = full_clean access_clustering_form_fields no_hook no_form_clean data
         in if errs \<noteq> [] then access_cluster_ctx_init
            else
              (case cluster_access ms (map (\<lambda>k. dict_get cleaned k JNull)
                      [''Poverty_Rate'', ''Median_Income'', ''PCT_65OLDER10'', ''PCT_18YOUNGER10'', ''POPLOSS10'',
                       ''LACCESS_HISP15'', ''LACCESS_NHASIAN15'', ''LACCESS_BLACK15'', ''PCT_LACCESS_POP10'']) of
                 Inl e \<Rightarrow> access_cluster_ctx_init\<lparr>ac_error := Some (AppError ''Clustering Error: '' e)\<rparr>
               | Inr k \<Rightarrow>
                   access_cluster_ctx_init\<lparr>ac_cluster := Some k,
                     ac_cluster_label := Some (case map_of cluster_labels k of Some l \<Rightarrow> l | None \<Rightarrow> ''Unknown Cluster'')\<rparr>)))"

definition access_clustering :: "access_models \<Rightarrow> request_user \<Rightarrow> request_method \<Rightarrow> access_cluster_ctx guarded" where
  "access_clustering ms u m =
     prediction_access_required ''access''
       (case m of GET \<Rightarrow> access_cluster_ctx_init | POST data \<Rightarrow> access_clustering_post ms data) u"


text \<open>
  access/urls.py: \<open>access_home\<close> renders its page without a decorator;
  \<open>access_clustering_clear\<close>, decorated like the two prediction views,
  redirects to the clustering page.
\<close>

datatype access_request = AccessHome | AccessPrediction request_method | AccessClustering request_method
  | AccessClusteringClear

datatype access_response = RenderAccessHome | RedirectTo "string guarded" | PredictionPage "access_ctx guarded"
  | ClusteringPage "access_cluster_ctx guarded"

definition access_urls :: "access_models \<Rightarrow> request_user \<Rightarrow> access_request \<Rightarrow> access_response" where
  "access_urls ms u req =
     (case req of
        AccessHome \<Rightarrow> RenderAccessHome
      | AccessPrediction m \<Rightarrow> PredictionPage (access_prediction ms u m)
      | AccessClustering m \<Rightarrow> ClusteringPage (access_clustering ms u m)
      | AccessClusteringClear \<Rightarrow> RedirectTo (prediction_access_required ''access'' ''access:clustering'' u))"


section \<open>Lemmas\<close>

text \<open>
  The import succeeds exactly when all five files load, and a cluster is
  always the index of one of the k-means centres. A failure of the
  classifier or the clustering leaves the results computed before it on
  the page.
\<close>

lemma access_ml_loader_Inr:
  "access_ml_loader env = Inr ms \<longleftrightarrow>
     best_reg_file env = Loaded (reg_model ms) \<and> best_clf_file env = Loaded (clf_model ms) \<and>
     kmeans_unsup_file env = Loaded (kmeans_model ms) \<and> unsup_pca_file env = Loaded (pca_model ms) \<and>
     unsup_scaler_file env = Loaded (scaler_model ms)"
  by (cases ms) (auto simp: access_ml_loader_def load_model_def split: artifact.splits sum.splits)

lemma cluster_access_bound:
  "cluster_access ms f = Inr k \<Longrightarrow> k < length (cluster_centers (kmeans_model ms))"
  by (auto simp: cluster_access_def split: sum.splits intro: kmeans_predict_bound)

lemma access_prediction_partial:
  assumes "is_valid access_prediction_form_fields no_hook no_form_clean data"
    and "predict_access ms (map (\<lambda>k. dict_get (snd (full_clean access_prediction_form_fields no_hook no_form_clean data)) k JNull) prediction_cols) = Inr p"
    and "classify_access ms (map (\<lambda>k. dict_get (snd (full_clean access_prediction_form_fields no_hook no_form_clean data)) k JNull) prediction_cols) = Inr c"
  shows "a_prediction_result (access_prediction_post ms data) = Some p \<and>
         a_classification_result (access_prediction_post ms data) = Some c"
  using assms
  by (auto simp: access_prediction_post_def is_valid_def Let_def split: prod.splits sum.splits)

text \<open>
  An anonymous user reaches no prediction: only the undecorated home page
  renders, every other route sends them to the login.
\<close>

lemma access_urls_anonymous:
  "access_urls ms Anonymous req \<in>
     {RenderAccessHome, RedirectTo RedirectLogin, PredictionPage RedirectLogin, ClusteringPage RedirectLogin}"
  by (cases req) (simp_all add: access_urls_def access_prediction_def access_clustering_def prediction_access_anonymous)

end
