(* ===== verification/LocalApp.thy ===== *)
theory LocalApp
  imports Clients HealthApi Forms
begin

text \<open>
  The FastAPI inference app of src/us_foodscope/local/my_hfspace/app.py:
  its module globals as the record \<open>local_api\<close>, the startup hook as six
  independently guarded loads, and the endpoints \<open>/\<close>, \<open>/health\<close>,
  \<open>/predict\<close>, \<open>/cluster\<close> and \<open>/clustering-map\<close>. Which of joblib, numpy and
  pandas imported is a parameter (\<open>local_libs\<close>). \<open>local_post\<close> and
  \<open>local_get\<close> present the app as the network the Django client of
  local/services.py sees.
\<close>

section \<open>Globals and startup\<close>

record local_libs =
  has_joblib :: bool
  has_numpy :: bool
  has_pandas :: bool

record local_api =
  regression_model :: "regressor option"
  clustering_model :: "kmeans option"
  scaler_regression :: "std_scaler option"
  scaler_clustering_l :: "std_scaler option"
  clustering_features_config :: json
  scaling_columns :: "string list"
  models_loaded :: bool

definition local_api_init :: local_api where
  "local_api_init =
     \<lparr>regression_model = None, clustering_model = None, scaler_regression = None, scaler_clustering_l = None,
      clustering_features_config = JObj [], scaling_columns = [], models_loaded = False\<rparr>"

text \<open>The files the startup hook looks for: missing, unreadable or loaded.\<close>

record local_files =
  xgboost_file :: "regressor artifact"
  kmeans_pkl_file :: "kmeans artifact"
  scaler_regression_file :: "std_scaler artifact"
  scaler_file :: "std_scaler artifact"
  scaled_columns_file :: "string list artifact"
  features_config_file :: "json artifact"

text \<open>One guarded load: a missing file is skipped, a failing load is printed
  and skipped; either way the hook goes on.\<close>

definition try_load :: "'a artifact \<Rightarrow> ('a \<Rightarrow> local_api \<Rightarrow> local_api) \<Rightarrow> local_api \<Rightarrow> local_api" where
  "try_load a upd s = (case a of Loaded x \<Rightarrow> upd x s | _ \<Rightarrow> s)"

text \<open>
  \<open>clustering_features.json\<close>: a list of names becomes a dict of empty
  entries; any other decoded value is kept as it is. A list holding a
  value that is not a string is treated as failing, which leaves the
  previous value (Python would fail only on unhashable names and keep
  numbers as keys; no endpoint reads this global).
\<close>

fun names_config :: "json list \<Rightarrow> (string \<times> json) list option" where
  "names_config [] = Some []"
| "names_config (JStr n # vs) = map_option (\<lambda>d. (n, JObj []) # d) (names_config vs)"
| "names_config (_ # vs) = None"

definition features_config_of :: "json \<Rightarrow> json option" where
  "features_config_of config =
     (case config of JList xs \<Rightarrow> map_option JObj (names_config xs) | _ \<Rightarrow> Some config)"

definition startup_event :: "local_libs \<Rightarrow> local_files \<Rightarrow> local_api \<Rightarrow> local_api" where
  "startup_event libs files s =
     (if \<not> has_joblib libs then s
      else
        (let s = try_load (xgboost_file files) (\<lambda>m s. s\<lparr>regression_model := Some m\<rparr>) s;
             s = try_load (kmeans_pkl_file files) (\<lambda>m s. s\<lparr>clustering_model := Some m\<rparr>) s;
             s = try_load (scaler_regression_file files) (\<lambda>m s. s\<lparr>scaler_regression := Some m\<rparr>) s;
             s = try_load (scaler_file files) (\<lambda>m s. s\<lparr>scaler_clustering_l := Some m\<rparr>) s;
             s = try_load (scaled_columns_file files) (\<lambda>cs s. s\<lparr>scaling_columns := cs\<rparr>) s;
             s = try_load (features_config_file files)
                   (\<lambda>c s. case features_config_of c of
                            Some cfg \<Rightarrow> s\<lparr>clustering_features_config := cfg\<rparr> | None \<Rightarrow> s) s
         in s\<lparr>models_loaded := True\<rparr>))"

section \<open>Endpoints\<close>

text \<open>
  An endpoint's failure: an \<open>HTTPException\<close> with its status and detail,
  or the \<open>HTTPException(400, str(e))\<close> of the generic handler, kept as the
  exception \<open>e\<close>.
\<close>

datatype local_error = LocalHttpError nat string | Local400Of exn

definition local_root :: json where
  "local_root =
     JObj [(''message'', JStr ''Local Food Analysis API''), (''version'', JStr ''1.0.0''),
           (''endpoints'', JObj [(''POST /predict'', JStr ''Regression prediction''),
                                 (''POST /cluster'', JStr ''Cluster assignment''),
                                 (''GET /clustering-map'', JStr ''Map data''),
                                 (''GET /health'', JStr ''Health check'')])]"

definition health_check :: "local_api \<Rightarrow> json" where
  "health_check s =
     JObj [(''status'', JStr ''ok''),
           (''models'', JObj [(''regression'', JBool (regression_model s \<noteq> None)),
                             (''clustering'', JBool (clustering_model s \<noteq> None))])]"

text \<open>
  The feature row: with \<open>SCALING_COLUMNS\<close>, each column's value through
  \<open>float()\<close>, 0.0 when absent or refused; without, every value of the
  request in order, numbers, booleans and strings through \<open>float()\<close> (a
  refused string raises) and anything else 0.
\<close>

definition column_value :: "(string \<times> json) list \<Rightarrow> string \<Rightarrow> real" where
  "column_value features col = (case py_float (dict_get features col (JNum 0)) of Some x \<Rightarrow> x | None \<Rightarrow> 0)"

fun fallback_row :: "json list \<Rightarrow> exn + real list" where
  "fallback_row [] = Inr []"
| "fallback_row (v # vs) =
     (let x = (case v of
                 JNum r \<Rightarrow> Inr r
               | JBool b \<Rightarrow> Inr (if b then 1 else 0)
               | JStr t \<Rightarrow> (case py_float_str t of Some r \<Rightarrow> Inr r | None \<Rightarrow> Inl ValueError)
               | _ \<Rightarrow> Inr 0)
      in case x of
           Inl e \<Rightarrow> Inl e
         | Inr r \<Rightarrow> (case fallback_row vs of Inl e \<Rightarrow> Inl e | Inr rs \<Rightarrow> Inr (r # rs)))"

definition feature_values :: "string list \<Rightarrow> (string \<times> json) list \<Rightarrow> exn + real list" where
  "feature_values cols features =
     (if cols \<noteq> [] then Inr (map (column_value features) cols) else fallback_row (map snd features))"

text \<open>
  Scaling through a \<open>DataFrame\<close> whose columns are \<open>SCALING_COLUMNS\<close> (or
  \<open>feat_i\<close>): any failure (too few column names, a width or feature-name
  mismatch) is swallowed and the unscaled row is used.
\<close>

definition feat_names :: "nat \<Rightarrow> string list" where
  "feat_names n = map (\<lambda>i. ''feat_'' @ nat_str i) [0..<n]"

definition df_scale :: "std_scaler option \<Rightarrow> bool \<Rightarrow> string list \<Rightarrow> real list \<Rightarrow> real list" where
  "df_scale sc has_pd cols x =
     (case sc of
        Some sclr \<Rightarrow>
          if has_pd then
            (let names = (if cols \<noteq> [] then cols else feat_names (length x)) in
             if length names < length x then x
             else if (case sc_feature_names sclr of Some fs \<Rightarrow> fs \<noteq> take (length x) names | None \<Rightarrow> False) then x
             else (case scaler_transform sclr x of Inr y \<Rightarrow> y | Inl _ \<Rightarrow> x))
          else x
      | None \<Rightarrow> x)"

definition local_app_predict :: "local_libs \<Rightarrow> local_api \<Rightarrow> (string \<times> json) list \<Rightarrow> local_error + json" where
  "local_app_predict libs s features =
     (case regression_model s of
        None \<Rightarrow> Inl (LocalHttpError 503 ''Regression model not loaded'')
      | Some m \<Rightarrow>
          if \<not> has_numpy libs then Inl (LocalHttpError 500 ''numpy not available'')
          else (case feature_values (scaling_columns s) features of
                  Inl e \<Rightarrow> Inl (Local400Of e)
                | Inr x \<Rightarrow>
                    (case model_predict m (df_scale (scaler_regression s) (has_pandas libs) (scaling_columns s) x) of
                       Inl e \<Rightarrow> Inl (Local400Of e)
                     | Inr p \<Rightarrow>
                         Inr (JObj [(''prediction'', JNum p), (''confidence'', JNum 0.85), (''model'', JStr ''XGBoost'')]))))"

text \<open>
  \<open>KMeans.transform\<close>: the Euclidean distance to each centre; the
  confidence is \<open>1 - min(d) / (max(d) + 1e-8)\<close>.
\<close>

definition kmeans_distances :: "kmeans \<Rightarrow> real list \<Rightarrow> real list" where
  "kmeans_distances km x = map (\<lambda>c. sqrt (sq_dist x c)) (cluster_centers km)"

definition distance_confidence :: "real list \<Rightarrow> real" where
  "distance_confidence ds = 1 - Min (set ds) / (Max (set ds) + 0.00000001)"

definition local_app_cluster :: "local_libs \<Rightarrow> local_api \<Rightarrow> (string \<times> json) list \<Rightarrow> local_error + json" where
  "local_app_cluster libs s features =
     (case clustering_model s of
        None \<Rightarrow> Inl (LocalHttpError 503 ''Clustering model not loaded'')
      | Some km \<Rightarrow>
          if \<not> has_numpy libs then Inl (LocalHttpError 500 ''numpy not available'')
          else (case feature_values (scaling_columns s) features of
                  Inl e \<Rightarrow> Inl (Local400Of e)
                | Inr x \<Rightarrow>
                    (let x' = df_scale (scaler_clustering_l s) (has_pandas libs) (scaling_columns s) x in
                     case kmeans_predict km x' of
                       Inl e \<Rightarrow> Inl (Local400Of e)
                     | Inr k \<Rightarrow>
                         Inr (JObj [(''cluster'', JNum (of_nat k)),
                                    (''confidence'', JNum (distance_confidence (kmeans_distances km x')))]))))"

text \<open>\<open>/clustering-map\<close>: the decoded map file, or the placeholder when it is
  missing or unreadable.\<close>

definition get_clustering_map :: "json artifact \<Rightarrow> json" where
  "get_clustering_map f =
     (case f of
        Loaded v \<Rightarrow> v
      | _ \<Rightarrow> JObj [(''status'', JStr ''no_map_data''), (''clusters'', JObj [])])"

section \<open>The app as the Django client's network\<close>

text \<open>
  FastAPI's answer: 200 with the endpoint's JSON, or the status and
  \<open>{"detail": ...}\<close> of an \<open>HTTPException\<close>; \<open>exn_str\<close> is \<open>str(e)\<close>.
  A body without a \<open>features\<close> dict is refused by pydantic with 422.
\<close>

definition local_serve :: "(exn \<Rightarrow> string) \<Rightarrow> string \<Rightarrow> local_error + json \<Rightarrow> http_response" where
  "local_serve exn_str url r =
     (case r of
        Inr body \<Rightarrow> serve url (Inr body)
      | Inl (LocalHttpError s d) \<Rightarrow> serve url (Inl (HTTPException s d))
      | Inl (Local400Of e) \<Rightarrow> serve url (Inl (HTTPException 400 (exn_str e))))"

definition local_post :: "(exn \<Rightarrow> string) \<Rightarrow> local_libs \<Rightarrow> local_api \<Rightarrow> string \<Rightarrow> post_fn" where
  "local_post exn_str libs s base url payload =
     (let endpoint = (if url = base @ ''/predict'' then Some local_app_predict
                      else if url = base @ ''/cluster'' then Some local_app_cluster else None)
      in case endpoint of
           None \<Rightarrow> Got (serve url (Inl (HTTPException 404 ''Not Found'')))
         | Some f \<Rightarrow>
             (case payload of
                JObj [(''features'', JObj features)] \<Rightarrow> Got (local_serve exn_str url (f libs s features))
              | _ \<Rightarrow> Got (serve url (Inl (HTTPException 422 ''Unprocessable Entity'')))))"

definition local_get :: "json artifact \<Rightarrow> string \<Rightarrow> get_fn" where
  "local_get map_file base url =
     (if url = base @ ''/clustering-map'' then Got (serve url (Inr (get_clustering_map map_file)))
      else Got (serve url (Inl (HTTPException 404 ''Not Found''))))"


section \<open>my_hfspace/generate_config.py\<close>

text \<open>
  The two JSON files the configuration script writes: the feature
  configuration that the Django form is built from (local/ml_loader.py
  reads it as \<open>CLUSTERING_FEATURES\<close>) and the map template the app serves
  at \<open>/clustering-map\<close>.
\<close>

definition create_feature_config :: "(string \<times> json) list" where
  "create_feature_config =
     [(''feature_1'', JObj [(''display_name'', JStr ''Feature 1 Name''), (''description'', JStr ''Description of feature 1''),
                           (''type'', JStr ''numeric''), (''min'', JNum 0), (''max'', JNum 100), (''unit'', JStr ''units'')]),
      (''feature_2'', JObj [(''display_name'', JStr ''Feature 2 Name''), (''description'', JStr ''Description of feature 2''),
                           (''type'', JStr ''numeric''), (''min'', JNum (-50)), (''max'', JNum 50), (''unit'', JStr ''units'')]),
      (''category_feature'', JObj [(''display_name'', JStr ''Category Feature''),
                                  (''description'', JStr ''A categorical feature''), (''type'', JStr ''categorical''),
                                  (''categories'', JList [JStr ''category_a'', JStr ''category_b'', JStr ''category_c''])])]"

definition create_clustering_map_template :: json where
  "create_clustering_map_template =
     JObj [(''clusters'', JObj [
             (''0'', JObj [(''name'', JStr ''Cluster 0''), (''description'', JStr ''Description of cluster 0''),
                          (''centroid'', JObj [(''x'', JNum 0.5), (''y'', JNum 0.5)]), (''color'', JStr ''#FF6B6B''),
                          (''counties'', JList [])]),
             (''1'', JObj [(''name'', JStr ''Cluster 1''), (''description'', JStr ''Description of cluster 1''),
                          (''centroid'', JObj [(''x'', JNum (-0.5)), (''y'', JNum 0.5)]), (''color'', JStr ''#4ECDC4''),
                          (''counties'', JList [])])]),
           (''metadata'', JObj [(''total_counties'', JNum 0), (''total_clusters'', JNum 2),
                               (''feature_scaling'', JStr ''StandardScaler'')])]"

section \<open>Lemmas\<close>

text \<open>
  \<open>/cluster\<close> answers with the index of one of the centres and a
  confidence in (0, 1]: the distances are non-negative, so the smallest is
  at most the largest. Startup marks the models loaded exactly when joblib
  imported. Over this app the Django client returns the app's prediction
  when the model answered, and its own mock when the model is not loaded:
  the 503 never reaches the page.
\<close>

lemma sq_dist_nonneg: "0 \<le> sq_dist u v"
  unfolding sq_dist_def by (rule sum_list_nonneg) (auto simp: set_zip)

lemma distance_confidence_bounds:
  assumes "ds \<noteq> []" and "list_all (\<lambda>d. 0 \<le> d) ds"
  shows "0 < distance_confidence ds \<and> distance_confidence ds \<le> 1"
proof -
  have fin: "finite (set ds)" and ne: "set ds \<noteq> {}" using assms(1) by auto
  have mn: "0 \<le> Min (set ds)" using assms(2) fin ne by (simp add: list_all_iff)
  have le: "Min (set ds) \<le> Max (set ds)"
    using fin ne Min_le[OF fin, of "hd ds"] Max_ge[OF fin, of "hd ds"] assms(1) by simp
  have pos: "0 < Max (set ds) + 0.00000001" using mn le by simp
  have "Min (set ds) / (Max (set ds) + 0.00000001) < 1" using le pos by (simp add: divide_less_eq)
  moreover have "0 \<le> Min (set ds) / (Max (set ds) + 0.00000001)" using mn pos by simp
  ultimately show ?thesis by (simp add: distance_confidence_def)
qed

lemma local_app_cluster_ok:
  assumes "local_app_cluster libs s features = Inr r"
  shows "\<exists>km k c. clustering_model s = Some km \<and> k < length (cluster_centers km) \<and>
           r = JObj [(''cluster'', JNum (of_nat k)), (''confidence'', JNum c)] \<and> 0 < c \<and> c \<le> 1"
proof -
  obtain km x k where km: "clustering_model s = Some km"
    and kp: "kmeans_predict km (df_scale (scaler_clustering_l s) (has_pandas libs) (scaling_columns s) x) = Inr k"
    and r: "r = JObj [(''cluster'', JNum (of_nat k)), (''confidence'', JNum (distance_confidence
               (kmeans_distances km (df_scale (scaler_clustering_l s) (has_pandas libs) (scaling_columns s) x))))]"
    using assms by (auto simp: local_app_cluster_def Let_def split: option.splits if_splits sum.splits)
  have ne: "cluster_centers km \<noteq> []" using kp by (auto simp: kmeans_predict_def split: list.splits)
  have "0 < distance_confidence (kmeans_distances km (df_scale (scaler_clustering_l s) (has_pandas libs) (scaling_columns s) x)) \<and>
        distance_confidence (kmeans_distances km (df_scale (scaler_clustering_l s) (has_pandas libs) (scaling_columns s) x)) \<le> 1"
    by (rule distance_confidence_bounds) (use ne in \<open>simp_all add: kmeans_distances_def list_all_iff sq_dist_nonneg\<close>)
  with km kmeans_predict_bound[OF kp] r show ?thesis by blast
qed

lemma startup_event_loaded:
  "models_loaded (startup_event libs files s) = (has_joblib libs \<or> models_loaded s)"
  "has_joblib libs \<Longrightarrow> regression_model (startup_event libs files s) =
     (case xgboost_file files of Loaded m \<Rightarrow> Some m | _ \<Rightarrow> regression_model s)"
  by (auto simp: startup_event_def try_load_def Let_def split: artifact.splits option.splits)

lemma local_predict_over_app:
  assumes "local_app_predict libs s features = Inr body"
  shows "local_predict base (local_post exn_str libs s base) rnd features = Inr body"
proof -
  have "json_has body ''error'' = Inr False"
    using assms by (auto simp: local_app_predict_def json_has_def split: option.splits if_splits sum.splits)
  then show ?thesis
    using assms by (simp add: local_predict_def local_call_def local_post_def local_serve_def is_json_response_def http_error_def)
qed

lemma local_predict_unloaded_is_mock:
  assumes "regression_model s = None"
  shows "local_predict base (local_post exn_str libs s base) rnd features = mock_prediction rnd features"
  using assms
  by (simp add: local_predict_def local_call_def local_post_def local_serve_def local_app_predict_def
      is_json_response_def http_error_def serve_def)

text \<open>
  The form built from the generated configuration has one bounded float
  field per numeric entry and a choice field for the categorical one; no
  entry has a \<open>category\<close>, so the page shows a single group \<open>Other\<close>.
\<close>

lemma generated_config_form:
  "local_form_fields create_feature_config =
     Inr [\<lparr>fld_name = ''feature_1'', fld_kind = FloatF (Some 0) (Some 100), fld_required = True\<rparr>,
          \<lparr>fld_name = ''feature_2'', fld_kind = FloatF (Some (-50)) (Some 50), fld_required = True\<rparr>,
          \<lparr>fld_name = ''category_feature'', fld_kind = ChoiceF [''category_a'', ''category_b'', ''category_c''],
           fld_required = True\<rparr>] \<and>
   get_field_groups create_feature_config
     [\<lparr>fld_name = ''feature_1'', fld_kind = FloatF (Some 0) (Some 100), fld_required = True\<rparr>,
      \<lparr>fld_name = ''feature_2'', fld_kind = FloatF (Some (-50)) (Some 50), fld_required = True\<rparr>,
      \<lparr>fld_name = ''category_feature'', fld_kind = ChoiceF [''category_a'', ''category_b'', ''category_c''],
       fld_required = True\<rparr>] =
     Inr [(JStr ''Other'', [''feature_1'', ''feature_2'', ''category_feature''])]"
  by (simp add: local_form_fields_def create_feature_config_def local_field_def get_field_groups_def
      json_get_def category_rank_def)

end
