(* ===== verification/Tables.thy ===== *)
theory Tables
  imports Http
begin

text \<open>
  The database tables of the prediction histories, as the Django ORM
  calls on them in the views and the admin site: \<open>objects.create\<close>,
  \<open>objects.get\<close>, the five-row listing, the \<open>?load_id=\<close> reload, and the
  admin's change and delete. \<open>hist_reach\<close> is the set of tables these
  operations can build; on it ids are unique and grow with time, which
  makes a reload return the requesting user's own row or nothing.
\<close>

section \<open>Tables and queries\<close>

record 'r hist_row =
  row_id :: nat
  row_user :: string
  row_input :: "(string \<times> json) list"
  row_fields :: 'r

text \<open>
  A table: its rows in insertion order (the order of \<open>created_at\<close>) and the
  next value of the id sequence. The sequence is never reset or reused,
  as with SQLite's \<open>AUTOINCREMENT\<close> and PostgreSQL's sequences that Django
  uses for an \<open>AutoField\<close>.
\<close>

record 'r history =
  tbl_rows :: "'r hist_row list"
  tbl_next :: nat

definition empty_table :: "'r history" where
  "empty_table = \<lparr>tbl_rows = [], tbl_next = 1\<rparr>"

text \<open>\<open>objects.create(user=..., input_data=..., ...)\<close>.\<close>

definition objects_create :: "'r history \<Rightarrow> string \<Rightarrow> (string \<times> json) list \<Rightarrow> 'r \<Rightarrow> 'r history" where
  "objects_create db user input r =
     \<lparr>tbl_rows = tbl_rows db @ [\<lparr>row_id = tbl_next db, row_user = user, row_input = input, row_fields = r\<rparr>],
      tbl_next = Suc (tbl_next db)\<rparr>"

text \<open>\<open>objects.get(id=n, user=request.user)\<close>: \<open>None\<close> is \<open>DoesNotExist\<close>.\<close>

definition objects_get :: "'r history \<Rightarrow> int \<Rightarrow> string \<Rightarrow> 'r hist_row option" where
  "objects_get db n user = find (\<lambda>r. int (row_id r) = n \<and> row_user r = user) (tbl_rows db)"

text \<open>\<open>objects.filter(user=request.user, ...).order_by('-created_at')[:5]\<close>.\<close>

definition recent_history :: "('r hist_row \<Rightarrow> bool) \<Rightarrow> 'r history \<Rightarrow> string \<Rightarrow> 'r hist_row list" where
  "recent_history keep db user = take 5 (rev (filter (\<lambda>r. row_user r = user \<and> keep r) (tbl_rows db)))"

text \<open>
  The query's \<open>id=load_id\<close>: Django converts the string with \<open>int()\<close>
  (surrounding whitespace and a sign allowed; underscores between digits,
  which \<open>int()\<close> also accepts, are not modelled) and raises \<open>ValueError\<close>
  when it cannot.
\<close>

definition py_int_str :: "string \<Rightarrow> int option" where
  "py_int_str s =
     (let (sg, ds) = py_sign (py_strip s) in
      if ds \<noteq> [] \<and> list_all is_digit ds then Some (sg * int (digits_nat ds)) else None)"

text \<open>
  The GET branch: with a non-empty \<open>load_id\<close>, the user's row of that id
  gives the form's initial data (none when it does not exist or its input
  is empty); a \<open>load_id\<close> that is not a number raises out of the view,
  since only \<open>DoesNotExist\<close> is caught.
\<close>

definition load_initial :: "'r history \<Rightarrow> string \<Rightarrow> string option \<Rightarrow> exn + (string \<times> json) list" where
  "load_initial db user load_id =
     (case load_id of
        None \<Rightarrow> Inr []
      | Some s \<Rightarrow>
          if s = [] then Inr []
          else (case py_int_str s of
                  None \<Rightarrow> Inl ValueError
                | Some n \<Rightarrow> Inr (case objects_get db n user of Some r \<Rightarrow> row_input r | None \<Rightarrow> [])))"

text \<open>The page of a GET: the form's initial data and the listed rows.\<close>

definition history_get ::
  "('r hist_row \<Rightarrow> bool) \<Rightarrow> 'r history \<Rightarrow> string \<Rightarrow> string option
   \<Rightarrow> exn + ((string \<times> json) list \<times> 'r hist_row list)" where
  "history_get keep db user load_id =
     (case load_initial db user load_id of
        Inl e \<Rightarrow> Inl e
      | Inr initial \<Rightarrow> Inr (initial, recent_history keep db user))"

section \<open>The admin site\<close>

text \<open>
  \<open>ModelAdmin\<close>'s delete view and its \<open>delete_selected\<close> action remove the
  rows with the given ids; its change view rewrites a row's editable
  fields (the id and \<open>created_at\<close> stay).
\<close>

definition admin_delete :: "'r history \<Rightarrow> nat list \<Rightarrow> 'r history" where
  "admin_delete db ns = db\<lparr>tbl_rows := filter (\<lambda>r. row_id r \<notin> set ns) (tbl_rows db)\<rparr>"

definition admin_change :: "'r history \<Rightarrow> nat \<Rightarrow> string \<Rightarrow> (string \<times> json) list \<Rightarrow> 'r \<Rightarrow> 'r history" where
  "admin_change db n u i f =
     db\<lparr>tbl_rows := map (\<lambda>r. if row_id r = n then r\<lparr>row_user := u, row_input := i, row_fields := f\<rparr> else r)
                        (tbl_rows db)\<rparr>"

section \<open>Reachable tables\<close>

text \<open>The tables the views and the admin site can build from an empty one.\<close>

inductive hist_reach :: "'r history \<Rightarrow> bool" where
  empty: "hist_reach empty_table"
| create: "hist_reach db \<Longrightarrow> hist_reach (objects_create db u i r)"
| delete: "hist_reach db \<Longrightarrow> hist_reach (admin_delete db ns)"
| change: "hist_reach db \<Longrightarrow> hist_reach (admin_change db n u i f)"

text \<open>Ids grow along the rows, are positive, and are below the sequence's next value.\<close>

definition hist_ids_ok :: "'r history \<Rightarrow> bool" where
  "hist_ids_ok db \<longleftrightarrow>
     0 < tbl_next db \<and> sorted_wrt (\<lambda>a b. row_id a < row_id b) (tbl_rows db) \<and>
     list_all (\<lambda>r. 0 < row_id r \<and> row_id r < tbl_next db) (tbl_rows db)"

section \<open>Lemmas\<close>

lemma py_int_str_nat_str: "py_int_str (nat_str n) = Some (int n)"
  using nat_str_strip_sign[of n] nat_str_props[of n] by (simp add: py_int_str_def)

lemma sorted_ids_map:
  "(\<And>x. row_id (g x) = row_id x) \<Longrightarrow>
   sorted_wrt (\<lambda>a b. row_id a < row_id b) (map g xs) = sorted_wrt (\<lambda>a b. row_id a < row_id b) xs"
  by (simp add: sorted_wrt_map)

lemma hist_reach_ids_ok: "hist_reach db \<Longrightarrow> hist_ids_ok db"
proof (induction rule: hist_reach.induct)
  case empty
  then show ?case by (simp add: hist_ids_ok_def empty_table_def)
next
  case (create db u i r)
  then show ?case by (auto simp: hist_ids_ok_def objects_create_def sorted_wrt_append list_all_iff)
next
  case (delete db ns)
  then show ?case by (auto simp: hist_ids_ok_def admin_delete_def sorted_wrt_filter list_all_iff)
next
  case (change db n u i f)
  then show ?case by (auto simp: hist_ids_ok_def admin_change_def sorted_ids_map list_all_iff)
qed

lemma hist_reach_step:
  assumes "hist_reach db" and "db' = db \<or> (\<exists>i r. db' = objects_create db u i r)"
  shows "hist_reach db'"
  using assms by (auto intro: hist_reach.create)

lemma sorted_ids_unique:
  "sorted_wrt (\<lambda>a b. row_id a < row_id b) xs \<Longrightarrow> r \<in> set xs \<Longrightarrow> r' \<in> set xs \<Longrightarrow> row_id r = row_id r' \<Longrightarrow> r = r'"
  by (induction xs) fastforce+

lemma objects_get_row:
  assumes "hist_ids_ok db" and "r \<in> set (tbl_rows db)"
  shows "objects_get db (int (row_id r)) u = (if row_user r = u then Some r else None)"
proof -
  have uniq: "\<And>x. x \<in> set (tbl_rows db) \<Longrightarrow> row_id x = row_id r \<Longrightarrow> x = r"
    using assms sorted_ids_unique unfolding hist_ids_ok_def by blast
  show ?thesis
  proof (cases "row_user r = u")
    case True
    have "find (\<lambda>x. int (row_id x) = int (row_id r) \<and> row_user x = u) (tbl_rows db) = Some r"
      using assms(2) True uniq by (intro find_unique) auto
    then show ?thesis using True by (simp add: objects_get_def)
  next
    case False
    have "\<not> (\<exists>x \<in> set (tbl_rows db). int (row_id x) = int (row_id r) \<and> row_user x = u)"
      using False uniq by fastforce
    then show ?thesis using False by (simp add: objects_get_def find_None_iff)
  qed
qed

text \<open>What a reload can put in a form: only the requesting user's rows.\<close>

lemma load_initial_own:
  assumes "load_initial db u lid = Inr init" and "init \<noteq> []"
  shows "\<exists>r \<in> set (tbl_rows db). row_user r = u \<and> row_input r = init"
  using assms
  by (auto simp: load_initial_def objects_get_def split: option.splits if_splits dest!: find_Some_iff[THEN iffD1])

text \<open>The listed history: the user's kept rows, newest first, at most five.\<close>

lemma recent_history_props:
  assumes "hist_reach db"
  shows "set (recent_history keep db u) \<subseteq> {r \<in> set (tbl_rows db). row_user r = u \<and> keep r} \<and>
         length (recent_history keep db u) \<le> 5 \<and>
         sorted_wrt (\<lambda>a b. row_id b < row_id a) (recent_history keep db u)"
proof -
  have "sorted_wrt (\<lambda>a b. row_id a < row_id b) (tbl_rows db)"
    using hist_reach_ids_ok[OF assms] by (simp add: hist_ids_ok_def)
  then have "sorted_wrt (\<lambda>a b. row_id b < row_id a) (rev (filter (\<lambda>r. row_user r = u \<and> keep r) (tbl_rows db)))"
    by (simp add: sorted_wrt_rev sorted_wrt_filter)
  then show ?thesis
    by (auto simp: recent_history_def sorted_wrt_take dest: in_set_takeD)
qed

section \<open>Reloading a saved prediction\<close>

text \<open>
  C39. In every table the views and the admin site can build,
  \<open>?load_id=\<close> with the id of a row reloads that row's input into the form
  when the row is the requesting user's, and an empty form when it is
  another user's: the reload is a round trip of the saved input, and no
  user sees another's, also after the admin deleted or reassigned rows.
\<close>

theorem reload_own_row:
  assumes "hist_reach db" and "r \<in> set (tbl_rows db)"
  shows "load_initial db u (Some (nat_str (row_id r))) = Inr (if row_user r = u then row_input r else [])"
proof -
  have "nat_str (row_id r) \<noteq> []" using nat_str_props[of "row_id r"] by simp
  moreover have "objects_get db (int (row_id r)) u = (if row_user r = u then Some r else None)"
    using objects_get_row[OF hist_reach_ids_ok[OF assms(1)] assms(2)] .
  ultimately show ?thesis by (simp add: load_initial_def py_int_str_nat_str)
qed

theorem reload_own_row_witness:
  "hist_reach (admin_delete (objects_create (objects_create empty_table ''alice'' [(''a'', JNum 1)] ()) ''bob'' [(''b'', JNum 2)] ()) [2]) \<and>
   load_initial (admin_delete (objects_create (objects_create empty_table ''alice'' [(''a'', JNum 1)] ()) ''bob'' [(''b'', JNum 2)] ()) [2])
     ''bob'' (Some ''1'') = Inr []"
proof -
  let ?db = "admin_delete (objects_create (objects_create empty_table ''alice'' [(''a'', JNum 1)] ()) ''bob'' [(''b'', JNum 2)] ()) [2]"
  have h: "hist_reach ?db" by (intro hist_reach.intros)
  have m: "\<lparr>row_id = 1, row_user = ''alice'', row_input = [(''a'', JNum 1)], row_fields = ()\<rparr> \<in> set (tbl_rows ?db)"
    by (simp add: objects_create_def admin_delete_def empty_table_def)
  show ?thesis using reload_own_row[OF h m, of "''bob''"] h by (simp add: nat_str.simps)
qed

end
