(* ===== verification/History.thy ===== *)
theory History
  imports Access Tables
begin

text \<open>
  The prediction-history models of the five sections (the \<open>models.py\<close>
  files), what the views store in them (a successful prediction saves a
  row for the logged-in user), which rows each page lists, and the two
  \<open>admin.py\<close> registrations. The tables and their queries are those of
  theory \<open>Tables\<close>.
\<close>

section \<open>Column conversions\<close>

text \<open>
  The columns' conversions in \<open>create\<close>: a \<open>FloatField\<close> takes
  \<open>float(v)\<close> and an \<open>IntegerField\<close> \<open>int(v)\<close> (which truncates a float);
  \<open>None\<close> in a column without \<open>null=True\<close> violates \<open>NOT NULL\<close>. \<open>None\<close>
  below is a raise, which the views catch around \<open>create\<close>.
\<close>

definition db_float :: "json \<Rightarrow> real option" where
  "db_float v = py_float v"

fun db_int :: "json \<Rightarrow> int option" where
  "db_int (JNum x) = Some (py_trunc x)"
| "db_int (JBool b) = Some (if b then 1 else 0)"
| "db_int (JStr s) = py_int_str s"
| "db_int _ = None"

text \<open>A column with \<open>null=True\<close>: \<open>None\<close> is stored as \<open>NULL\<close>.\<close>

definition db_nullable :: "(json \<Rightarrow> 'a option) \<Rightarrow> json \<Rightarrow> 'a option option" where
  "db_nullable conv v = (if v = JNull then Some None else map_option Some (conv v))"

text \<open>\<open>float(str(v))\<close>, as the finance clustering view stores its cluster.\<close>

fun py_float_of_str :: "json \<Rightarrow> real option" where
  "py_float_of_str (JNum x) = Some x"
| "py_float_of_str (JStr s) = py_float_str s"
| "py_float_of_str _ = None"

section \<open>health/models.py and the save in health/views.py\<close>

text \<open>\<open>risk_level_input\<close> holds the value whose \<open>str()\<close> is stored.\<close>

record health_row =
  hr_model_type :: json
  hr_prediction_value :: real
  hr_risk_level_input :: json
  hr_confidence_interval :: json

text \<open>
  \<open>health_view\<close> on a POST, with its table: the row is created in the
  branch without error of a valid form, and a failing \<open>create\<close> is printed
  and forgotten. That branch is the one that leaves \<open>error_message\<close>
  unset with a valid form.
\<close>

definition health_view_db ::
  "(string \<times> string list) list \<Rightarrow> string \<Rightarrow> post_fn \<Rightarrow> string \<Rightarrow> health_row history \<Rightarrow> post_data
   \<Rightarrow> health_ctx \<times> health_row history" where
  "health_view_db enc hf_api_url post uid db data =
     (let ctx = health_view_post enc hf_api_url post data;
          (errs, raw_inputs) = full_clean (health_form_fields enc) no_hook no_form_clean data
      in (ctx,
          if errs = [] \<and> h_error ctx = None then
            (case db_float (h_prediction_result ctx) of
               None \<Rightarrow> db
             | Some v \<Rightarrow>
                 objects_create db uid raw_inputs
                   \<lparr>hr_model_type = dict_get raw_inputs ''model_type'' (JStr ''obesity''), hr_prediction_value = v,
                    hr_risk_level_input = dict_get raw_inputs ''Risk_Level'' (JStr ''N/A''),
                    hr_confidence_interval =
                      (if json_truthy (h_prediction_probability ctx) then h_prediction_probability ctx else JStr [])\<rparr>)
          else db))"

section \<open>finance/models.py and the saves in finance/views.py\<close>

record finance_row =
  fr_model_type :: string
  fr_prediction_value :: real
  fr_confidence_interval :: json

definition finance_view_db ::
  "post_fn \<Rightarrow> string \<Rightarrow> finance_row history \<Rightarrow> post_data \<Rightarrow> finance_ctx \<times> finance_row history" where
  "finance_view_db post uid db data =
     (let ctx = finance_view_post post data;
          (errs, raw_inputs) = full_clean finance_form_fields finance_field_hook finance_clean data
      in (ctx,
          if errs = [] \<and> f_error ctx = None then
            (case db_float (f_prediction_result ctx) of
               None \<Rightarrow> db
             | Some v \<Rightarrow>
                 objects_create db uid raw_inputs
                   \<lparr>fr_model_type = (case dict_get raw_inputs ''model_type'' (JStr ''tax_rate'') of JStr m \<Rightarrow> m | _ \<Rightarrow> []),
                    fr_prediction_value = v,
                    fr_confidence_interval =
                      (if json_truthy (f_prediction_probability ctx) then f_prediction_probability ctx else JStr [])\<rparr>)
          else db))"

text \<open>
  \<open>clustering_view\<close> stores \<open>str(cluster_result)\<close> in the float column
  and the inputs with \<open>model_type\<close> set to \<open>clustering\<close>.
\<close>

definition finance_clustering_view_db ::
  "post_fn \<Rightarrow> string \<Rightarrow> finance_row history \<Rightarrow> post_data \<Rightarrow> fin_cluster_ctx \<times> finance_row history" where
  "finance_clustering_view_db post uid db data =
     (let ctx = finance_clustering_view_post post data;
          (errs, raw_inputs) = full_clean finance_form_fields finance_field_hook finance_clean data
      in (ctx,
          if errs = [] \<and> fc_error ctx = None then
            (case py_float_of_str (fc_cluster_result ctx) of
               None \<Rightarrow> db
             | Some v \<Rightarrow>
                 objects_create db uid (dict_set raw_inputs ''model_type'' (JStr ''clustering''))
                   \<lparr>fr_model_type = ''clustering'', fr_prediction_value = v,
                    fr_confidence_interval =
                      (if json_truthy (fc_prediction_probability ctx) then fc_prediction_probability ctx else JStr [])\<rparr>)
          else db))"

text \<open>\<open>finance_view\<close> lists only the tax-rate rows.\<close>

definition finance_history_keep :: "finance_row hist_row \<Rightarrow> bool" where
  "finance_history_keep r \<longleftrightarrow> fr_model_type (row_fields r) = ''tax_rate''"

section \<open>insecurity/models.py and the save in insecurity/views.py\<close>

record insecurity_row =
  ir_prediction_value :: real
  ir_risk_level :: string
  ir_confidence :: real

text \<open>\<open>risk_level.lower()\<close> raises unless the reply's level is a string.\<close>

definition insecurity_view_db ::
  "insec_loader \<Rightarrow> string \<Rightarrow> insecurity_row history \<Rightarrow> post_data \<Rightarrow> insec_ctx \<times> insecurity_row history" where
  "insecurity_view_db ld uid db data =
     (let ctx = insecurity_view_post ld data;
          (errs, raw_inputs) = full_clean insecurity_form_fields no_hook no_form_clean data
      in (ctx,
          if errs = [] \<and> i_error ctx = None then
            (case (db_float (i_prediction_result ctx), i_risk_level ctx,
                   db_float (if json_truthy (i_confidence ctx) then i_confidence ctx else JNum 0)) of
               (Some v, JStr lvl, Some c) \<Rightarrow>
                 objects_create db uid raw_inputs
                   \<lparr>ir_prediction_value = v, ir_risk_level = py_lower lvl, ir_confidence = c\<rparr>
             | _ \<Rightarrow> db)
          else db))"

section \<open>access/models.py and the save in access/views.py\<close>

text \<open>
  \<open>access_prediction\<close> creates the row inside its main \<open>try\<close>, once the
  three predictions succeeded, with the cleaned data and the regression
  value (a float, so the row is always valid), and lists the history again
  after it.
\<close>

definition access_prediction_db ::
  "access_models \<Rightarrow> string \<Rightarrow> real history \<Rightarrow> post_data \<Rightarrow> access_ctx \<times> real history" where
  "access_prediction_db ms uid db data =
     (let ctx = access_prediction_post ms data;
          cleaned = snd (full_clean access_prediction_form_fields no_hook no_form_clean data)
      in (ctx,
          case (a_prediction_result ctx, a_cluster_result ctx) of
            (Some p, Some _) \<Rightarrow> objects_create db uid cleaned p
          | _ \<Rightarrow> db))"

section \<open>local/models.py and the saves in local/views.py\<close>

record local_row =
  lr_prediction_value :: real
  lr_confidence_score :: "real option"
  lr_cluster_assigned :: "int option"
  lr_cluster_probability :: "real option"

text \<open>
  \<open>local_regression_view\<close>'s \<open>create\<close>, after the regression reply
  without error: its prediction \<open>v\<close> and confidence \<open>c\<close>, and the cluster
  and its confidence when the clustering call succeeded.
\<close>

definition local_regression_save ::
  "local_row history \<Rightarrow> string \<Rightarrow> (string \<times> json) list \<Rightarrow> json \<Rightarrow> json \<Rightarrow> (json \<times> json) option
   \<Rightarrow> local_row history" where
  "local_regression_save db uid inputs v c cr =
     (case (db_float v, db_nullable db_float c,
            db_nullable db_int (case cr of Some (cl, _) \<Rightarrow> cl | None \<Rightarrow> JNull),
            db_nullable db_float (case cr of Some (_, cf) \<Rightarrow> cf | None \<Rightarrow> JNull)) of
        (Some pv, Some cs, Some ca, Some cp) \<Rightarrow>
          objects_create db uid inputs
            \<lparr>lr_prediction_value = pv, lr_confidence_score = cs, lr_cluster_assigned = ca, lr_cluster_probability = cp\<rparr>
      | _ \<Rightarrow> db)"

text \<open>
  \<open>local_clustering_view\<close>'s \<open>create\<close>, after a clustering reply without
  error: the cluster number is stored as the prediction value too.
\<close>

definition local_clustering_save ::
  "local_row history \<Rightarrow> string \<Rightarrow> (string \<times> json) list \<Rightarrow> json \<Rightarrow> local_row history" where
  "local_clustering_save db uid inputs cluster_result =
     (case cluster_result of
        JObj d \<Rightarrow>
          (case (db_float (dict_get d ''cluster'' (JNum 0)), db_nullable db_float (dict_get d ''confidence'' (JNum 0)),
                 db_nullable db_int (dict_get d ''cluster'' JNull),
                 db_nullable db_float (dict_get d ''confidence'' (JNum 0))) of
             (Some pv, Some cs, Some ca, Some cp) \<Rightarrow>
               objects_create db uid inputs
                 \<lparr>lr_prediction_value = pv, lr_confidence_score = cs, lr_cluster_assigned = ca,
                  lr_cluster_probability = cp\<rparr>
           | _ \<Rightarrow> db)
      | _ \<Rightarrow> db)"

text \<open>
  The table that \<open>local_regression_view\<close>'s POST leaves: the \<open>create\<close>
  runs after a regression reply without \<open>error\<close> and once the clustering
  reply is read, before the AJAX or page answer, with the same calls as
  \<open>local_regression_view_post\<close>.
\<close>

definition local_regression_view_db ::
  "(string \<times> json) list \<Rightarrow> string \<Rightarrow> post_fn \<Rightarrow> real \<Rightarrow> nat \<Rightarrow> real \<Rightarrow> string \<Rightarrow> local_row history \<Rightarrow> post_data
   \<Rightarrow> local_row history" where
  "local_regression_view_db feats hf_api_url post rnd k rnd2 uid db data =
     (case local_form_fields feats of
        Inl _ \<Rightarrow> db
      | Inr fs \<Rightarrow>
          (let (errs, raw_inputs) = full_clean fs no_hook no_form_clean data
           in if errs \<noteq> [] then db
              else
                (case local_predict hf_api_url post rnd raw_inputs of
                   Inr (JObj d) \<Rightarrow>
                     (if json_has (JObj d) ''error'' \<noteq> Inr False then db
                      else
                        (case local_predict_cluster hf_api_url post k rnd2 raw_inputs of
                           Inl _ \<Rightarrow> db
                         | Inr cluster_response \<Rightarrow>
                             (case json_has cluster_response ''error'' of
                                Inl _ \<Rightarrow> db
                              | Inr True \<Rightarrow>
                                  local_regression_save db uid raw_inputs (dict_get d ''prediction'' JNull)
                                    (dict_get d ''confidence'' JNull) None
                              | Inr False \<Rightarrow>
                                  (case cluster_response of
                                     JObj cd \<Rightarrow>
                                       local_regression_save db uid raw_inputs (dict_get d ''prediction'' JNull)
                                         (dict_get d ''confidence'' JNull)
                                         (Some (dict_get cd ''cluster'' JNull, dict_get cd ''confidence'' (JNum 0.75)))
                                   | _ \<Rightarrow> db))))
                 | _ \<Rightarrow> db)))"

text \<open>\<open>local_clustering_view\<close>'s POST with its table.\<close>

definition local_clustering_view_db ::
  "(string \<times> json) list \<Rightarrow> string \<Rightarrow> post_fn \<Rightarrow> nat \<Rightarrow> real \<Rightarrow> string \<Rightarrow> local_row history \<Rightarrow> post_data
   \<Rightarrow> local_row history" where
  "local_clustering_view_db feats hf_api_url post k rnd uid db data =
     (case local_form_fields feats of
        Inl _ \<Rightarrow> db
      | Inr fs \<Rightarrow>
          (let (errs, raw_inputs) = full_clean fs no_hook no_form_clean data
           in if errs \<noteq> [] then db
              else
                (case local_predict_cluster hf_api_url post k rnd raw_inputs of
                   Inl _ \<Rightarrow> db
                 | Inr cluster_result \<Rightarrow>
                     (if json_has cluster_result ''error'' = Inr False
                      then local_clustering_save db uid raw_inputs cluster_result else db))))"

text \<open>\<open>local_clustering_view\<close> lists the rows that have a cluster.\<close>

definition local_clustering_keep :: "local_row hist_row \<Rightarrow> bool" where
  "local_clustering_keep r \<longleftrightarrow> lr_cluster_assigned (row_fields r) \<noteq> None"

section \<open>finance/admin.py and local/admin.py\<close>

text \<open>What the admin site is asked to do with a history table.\<close>

datatype 'r admin_action = AdminAdd string "(string \<times> json) list" 'r
  | AdminChange nat string "(string \<times> json) list" 'r | AdminDelete "nat list"

text \<open>
  \<open>PredictionHistoryAdmin\<close> (finance): \<open>has_add_permission\<close> is
  \<open>False\<close>; change and delete follow Django's model permissions
  (\<open>perm_change\<close>, \<open>perm_delete\<close>); only \<open>created_at\<close> is read-only, so a
  change may rewrite the user, the model type, the value, the inputs and
  the confidence. \<open>None\<close> is the 403 answer.
\<close>

definition finance_admin ::
  "bool \<Rightarrow> bool \<Rightarrow> finance_row admin_action \<Rightarrow> finance_row history \<Rightarrow> finance_row history option" where
  "finance_admin perm_change perm_delete act db =
     (case act of
        AdminAdd _ _ _ \<Rightarrow> None
      | AdminChange n u i f \<Rightarrow> if perm_change then Some (admin_change db n u i f) else None
      | AdminDelete ns \<Rightarrow> if perm_delete then Some (admin_delete db ns) else None)"

text \<open>
  \<open>RegressionPredictionHistoryAdmin\<close> (local): no adding, every field
  read-only (a saved change form leaves the row as it was), and deleting
  only for superusers, whatever the model permissions.
\<close>

definition local_admin ::
  "bool \<Rightarrow> bool \<Rightarrow> local_row admin_action \<Rightarrow> local_row history \<Rightarrow> local_row history option" where
  "local_admin is_superuser perm_change act db =
     (case act of
        AdminAdd _ _ _ \<Rightarrow> None
      | AdminChange _ _ _ _ \<Rightarrow> if perm_change then Some db else None
      | AdminDelete ns \<Rightarrow> if is_superuser then Some (admin_delete db ns) else None)"

subsection \<open>The admin's change lists\<close>

text \<open>
  The change list of a registration: the table in its ordering
  (\<open>-created_at\<close>, the newest row first), narrowed by the chosen list
  filters and by the search box. Django splits the search text into words
  (quoting is not modelled) and keeps a row when every word occurs, without
  regard to ASCII case (\<open>icontains\<close>), in one of the search fields.
  The \<open>created_at\<close> date filter needs the clock and is left at ``Any
  date''; pagination is not modelled (the rows of all pages, in order).
\<close>

fun split_words_acc :: "string \<Rightarrow> string \<Rightarrow> string list" where
  "split_words_acc acc [] = (if acc = [] then [] else [rev acc])"
| "split_words_acc acc (c # cs) =
     (if py_isspace c then (if acc = [] then split_words_acc [] cs else rev acc # split_words_acc [] cs)
      else split_words_acc (c # acc) cs)"

definition search_words :: "string \<Rightarrow> string list" where
  "search_words q = split_words_acc [] q"

fun str_contains :: "string \<Rightarrow> string \<Rightarrow> bool" where
  "str_contains t [] = (t = [])"
| "str_contains t (c # s) = (take (length t) (c # s) = t \<or> str_contains t s)"

definition icontains :: "string \<Rightarrow> string \<Rightarrow> bool" where
  "icontains s t \<longleftrightarrow> str_contains (py_lower t) (py_lower s)"

definition admin_search :: "('r hist_row \<Rightarrow> string list) \<Rightarrow> string \<Rightarrow> 'r hist_row \<Rightarrow> bool" where
  "admin_search cols q r \<longleftrightarrow> list_all (\<lambda>w. list_ex (\<lambda>v. icontains v w) (cols r)) (search_words q)"

text \<open>
  \<open>RegressionPredictionHistoryAdmin\<close>: filters on \<open>cluster_assigned\<close>
  (a value, or ``Empty'' for \<open>NULL\<close>) and on the user, search in the
  user's username and email (\<open>email_of\<close>, the users table).
\<close>

definition local_admin_changelist ::
  "(string \<Rightarrow> string) \<Rightarrow> int option option \<Rightarrow> string option \<Rightarrow> string \<Rightarrow> local_row history \<Rightarrow> local_row hist_row list" where
  "local_admin_changelist email_of cluster_filter user_filter q db =
     filter (\<lambda>r. (case cluster_filter of None \<Rightarrow> True | Some c \<Rightarrow> lr_cluster_assigned (row_fields r) = c) \<and>
                 (case user_filter of None \<Rightarrow> True | Some u \<Rightarrow> row_user r = u) \<and>
                 admin_search (\<lambda>r. [row_user r, email_of (row_user r)]) q r)
       (rev (tbl_rows db))"

text \<open>Its columns (\<open>list_display\<close> without \<open>created_at\<close>).\<close>

definition local_admin_columns :: "local_row hist_row \<Rightarrow> string \<times> real \<times> int option \<times> real option" where
  "local_admin_columns r =
     (row_user r, lr_prediction_value (row_fields r), lr_cluster_assigned (row_fields r),
      lr_cluster_probability (row_fields r))"

text \<open>\<open>PredictionHistoryAdmin\<close> (finance): a filter on the model type, search in the username.\<close>

definition finance_admin_changelist :: "string option \<Rightarrow> string \<Rightarrow> finance_row history \<Rightarrow> finance_row hist_row list" where
  "finance_admin_changelist type_filter q db =
     filter (\<lambda>r. (case type_filter of None \<Rightarrow> True | Some t \<Rightarrow> fr_model_type (row_fields r) = t) \<and>
                 admin_search (\<lambda>r. [row_user r]) q r)
       (rev (tbl_rows db))"

definition finance_admin_columns :: "finance_row hist_row \<Rightarrow> string \<times> string \<times> real" where
  "finance_admin_columns r = (row_user r, fr_model_type (row_fields r), fr_prediction_value (row_fields r))"

section \<open>Lemmas\<close>

text \<open>Each POST handler leaves its table as it was or creates one row in it.\<close>

lemma health_view_db_step:
  "snd (health_view_db enc hf_api_url post uid db data) = db \<or>
   (\<exists>i r. snd (health_view_db enc hf_api_url post uid db data) = objects_create db uid i r)"
  by (auto simp: health_view_db_def Let_def split: prod.splits option.splits)

lemma finance_view_db_step:
  "snd (finance_view_db post uid db data) = db \<or> (\<exists>i r. snd (finance_view_db post uid db data) = objects_create db uid i r)"
  by (auto simp: finance_view_db_def Let_def split: prod.splits option.splits)

lemma finance_clustering_view_db_step:
  "snd (finance_clustering_view_db post uid db data) = db \<or>
   (\<exists>i r. snd (finance_clustering_view_db post uid db data) = objects_create db uid i r)"
  by (auto simp: finance_clustering_view_db_def Let_def split: prod.splits option.splits)

lemma insecurity_view_db_step:
  "snd (insecurity_view_db ld uid db data) = db \<or> (\<exists>i r. snd (insecurity_view_db ld uid db data) = objects_create db uid i r)"
  by (auto simp: insecurity_view_db_def Let_def split: prod.splits option.splits json.splits)

lemma access_prediction_db_step:
  "snd (access_prediction_db ms uid db data) = db \<or> (\<exists>i r. snd (access_prediction_db ms uid db data) = objects_create db uid i r)"
  by (auto simp: access_prediction_db_def Let_def split: prod.splits option.splits)

lemma local_regression_save_step:
  "local_regression_save db uid i v c cr = db \<or> (\<exists>j r. local_regression_save db uid i v c cr = objects_create db uid j r)"
  by (auto simp: local_regression_save_def split: prod.splits option.splits)

lemma local_clustering_save_step:
  "local_clustering_save db uid i cl = db \<or> (\<exists>j r. local_clustering_save db uid i cl = objects_create db uid j r)"
  by (auto simp: local_clustering_save_def split: json.splits prod.splits option.splits)

lemma local_regression_view_db_step:
  "local_regression_view_db feats u post rnd k rnd2 uid db data = db \<or>
   (\<exists>i r. local_regression_view_db feats u post rnd k rnd2 uid db data = objects_create db uid i r)"
  using local_regression_save_step
  by (auto simp: local_regression_view_db_def Let_def split: sum.splits json.splits prod.splits bool.splits if_splits)

lemma local_clustering_view_db_step:
  "local_clustering_view_db feats u post k rnd uid db data = db \<or>
   (\<exists>i r. local_clustering_view_db feats u post k rnd uid db data = objects_create db uid i r)"
  using local_clustering_save_step
  by (auto simp: local_clustering_view_db_def Let_def split: sum.splits prod.splits if_splits)

text \<open>
  With the space unreachable, the service's mock values are saved in the
  history like a real prediction: the row holds the mock prediction (in
  [40, 70]) and the mock cluster \<open>k\<close>; the table has no column for the
  reply's \<open>model\<close>, so nothing marks the row as a mock.
\<close>

lemma local_mock_saved:
  assumes down: "\<forall>ep p. case post ep p of Failed _ _ \<Rightarrow> True | Got _ \<Rightarrow> False"
    and fs: "local_form_fields feats = Inr fs" and valid: "is_valid fs no_hook no_form_clean data"
    and mock: "mock_prediction rnd (snd (full_clean fs no_hook no_form_clean data)) = Inr v"
  shows "\<exists>r. local_regression_view_db feats u post rnd k rnd2 uid db data =
              objects_create db uid (snd (full_clean fs no_hook no_form_clean data)) r \<and>
            40 \<le> lr_prediction_value r \<and> lr_prediction_value r \<le> 70 \<and> lr_cluster_assigned r = Some (int k)"
proof -
  obtain cd where fc: "full_clean fs no_hook no_form_clean data = ([], cd)"
    using valid by (cases "full_clean fs no_hook no_form_clean data") (simp add: is_valid_def)
  have failed: "\<And>ep p fb. local_call post ep p fb = fb"
    using down by (auto simp: local_call_def split: http_outcome.splits)
  obtain b where v: "v = JObj [(''prediction'', JNum (py_round2 (40 + py_mod b 30))),
                  (''confidence'', JNum (py_round2 (0.75 + rnd * 0.2))), (''model'', JStr ''XGBoost (Mock)'')]"
    using mock_prediction_Inr[OF mock] by blast
  have "0 \<le> py_mod b 30 \<and> py_mod b 30 < 30" by (rule py_mod_bounds) simp
  then have p: "40 \<le> py_round2 (40 + py_mod b 30) \<and> py_round2 (40 + py_mod b 30) \<le> 70"
    using py_round2_bounds[of 4000 "40 + py_mod b 30" 7000] by simp
  have "local_predict u post rnd cd = Inr v" using mock fc failed by (simp add: local_predict_def)
  moreover have "local_predict_cluster u post k rnd2 cd = Inr (mock_cluster k rnd2)"
    using failed by (simp add: local_predict_cluster_def)
  ultimately have "local_regression_view_db feats u post rnd k rnd2 uid db data =
      objects_create db uid cd
        \<lparr>lr_prediction_value = py_round2 (40 + py_mod b 30), lr_confidence_score = Some (py_round2 (0.75 + rnd * 0.2)),
         lr_cluster_assigned = Some (int k), lr_cluster_probability = Some (py_round2 (0.70 + rnd2 * 0.25))\<rparr>"
    using fs fc
    by (simp add: local_regression_view_db_def v json_has_def mock_cluster_def local_regression_save_def
        db_float_def db_nullable_def py_trunc_def)
  then show ?thesis using fc p by auto
qed

lemma history_views_reachable:
  assumes "hist_reach hdb" and "hist_reach fdb" and "hist_reach idb" and "hist_reach adb" and "hist_reach ldb"
  shows "hist_reach (snd (health_view_db enc hf_api_url post uid hdb data)) \<and>
         hist_reach (snd (finance_view_db post uid fdb data)) \<and>
         hist_reach (snd (finance_clustering_view_db post uid fdb data)) \<and>
         hist_reach (snd (insecurity_view_db ld uid idb data)) \<and>
         hist_reach (snd (access_prediction_db ms uid adb data)) \<and>
         hist_reach (local_regression_view_db feats u post rnd k rnd2 uid ldb data) \<and>
         hist_reach (local_clustering_view_db feats u post k rnd uid ldb data)"
  by (intro conjI)
    (fact hist_reach_step[OF assms(1) health_view_db_step] hist_reach_step[OF assms(2) finance_view_db_step]
      hist_reach_step[OF assms(2) finance_clustering_view_db_step] hist_reach_step[OF assms(3) insecurity_view_db_step]
      hist_reach_step[OF assms(4) access_prediction_db_step] hist_reach_step[OF assms(5) local_regression_view_db_step]
      hist_reach_step[OF assms(5) local_clustering_view_db_step])+

text \<open>
  A \<open>load_id\<close> that is not a number makes the GET raise \<open>ValueError\<close>,
  which no view catches: the page answers 500.
\<close>

lemma load_id_not_number: "history_get keep db u (Some ''abc'') = Inl ValueError"
  by (simp add: history_get_def load_initial_def py_int_str_def py_strip_def py_isspace_def py_sign_def is_digit_def)

text \<open>
  With the health service down, the page shows no result (see the views)
  and no row is saved: the prediction \<open>None\<close> violates \<open>NOT NULL\<close>.
\<close>

lemma health_down_no_row:
  assumes valid: "is_valid (health_form_fields enc) no_hook no_form_clean data"
    and down: "\<forall>p. case post (hf_api_url @ ''/predict'') p of Failed _ _ \<Rightarrow> True | Got r \<Rightarrow> http_error r"
  shows "snd (health_view_db enc hf_api_url post uid db data) = db"
proof -
  obtain cd where fc: "full_clean (health_form_fields enc) no_hook no_form_clean data = ([], cd)"
    using valid by (cases "full_clean (health_form_fields enc) no_hook no_form_clean data") (simp add: is_valid_def)
  let ?mt = "case dict_get cd ''model_type'' (JStr ''obesity'') of JStr m \<Rightarrow> m | _ \<Rightarrow> []"
  obtain d where hp: "health_predict hf_api_url post ?mt cd = JObj [(''details'', JStr d)]"
    using health_predict_down[of post hf_api_url, OF down] by blast
  show ?thesis
    by (simp add: health_view_db_def health_view_post_def fc hp reply_values_def json_has_def health_ctx_init_def
        Let_def db_float_def)
qed

text \<open>
  After a successful access prediction the page's history, read again
  after the save, starts with the new row.
\<close>

lemma access_history_shows_new_row:
  assumes "a_cluster_result (fst (access_prediction_db ms uid db data)) \<noteq> None"
  shows "hd (recent_history (\<lambda>_. True) (snd (access_prediction_db ms uid db data)) uid) =
         \<lparr>row_id = tbl_next db, row_user = uid,
          row_input = snd (full_clean access_prediction_form_fields no_hook no_form_clean data),
          row_fields = the (a_prediction_result (fst (access_prediction_db ms uid db data)))\<rparr>"
proof -
  have "a_prediction_result (access_prediction_post ms data) \<noteq> None"
    using assms
    by (auto simp: access_prediction_db_def access_prediction_post_def access_ctx_init_def Let_def
        split: prod.splits if_splits sum.splits)
  then show ?thesis
    using assms
    by (auto simp: access_prediction_db_def recent_history_def objects_create_def Let_def split: option.splits)
qed

text \<open>
  \<open>local_clustering_view\<close> saves into the regression table with the cluster
  number as \<open>prediction_value\<close>, and \<open>local_regression_view\<close> lists all
  the user's rows: a clustering run appears in the regression history as a
  prediction equal to its cluster number.
\<close>

lemma local_cluster_row_in_regression_history:
  "recent_history (\<lambda>_. True)
     (local_clustering_save empty_table ''u'' [] (JObj [(''cluster'', JNum 2), (''confidence'', JNum 0.9)])) ''u'' =
   [\<lparr>row_id = 1, row_user = ''u'', row_input = [],
     row_fields = \<lparr>lr_prediction_value = 2, lr_confidence_score = Some 0.9, lr_cluster_assigned = Some 2,
                   lr_cluster_probability = Some 0.9\<rparr>\<rparr>]"
  by (simp add: local_clustering_save_def recent_history_def objects_create_def db_float_def db_nullable_def
      py_trunc_def empty_table_def)

text \<open>The admin site keeps tables reachable.\<close>

lemma admin_reachable:
  assumes "hist_reach fdb" and "hist_reach ldb"
  shows "finance_admin pc pd act fdb = Some fdb' \<Longrightarrow> hist_reach fdb'"
    and "local_admin su pc act' ldb = Some ldb' \<Longrightarrow> hist_reach ldb'"
  using assms
  by (auto simp: finance_admin_def local_admin_def intro: hist_reach.intros split: admin_action.splits if_splits)

text \<open>
  Through the local admin, history rows are immutable: an action either
  is refused or removes rows, and only a superuser can remove any.
\<close>

lemma local_admin_only_removes:
  assumes "local_admin su pc act db = Some db'"
  shows "set (tbl_rows db') \<subseteq> set (tbl_rows db) \<and> tbl_next db' = tbl_next db \<and> (\<not> su \<longrightarrow> db' = db)"
  using assms
  by (auto simp: local_admin_def admin_delete_def split: admin_action.splits if_splits)

text \<open>The admin's change lists.\<close>

lemma str_contains_append: "str_contains t (t @ s)"
  by (cases t) (auto, cases s, auto)

lemma split_words_acc_nospace:
  "\<not> list_ex py_isspace w \<Longrightarrow> split_words_acc acc w = (if acc = [] \<and> w = [] then [] else [rev acc @ w])"
  by (induction acc w rule: split_words_acc.induct) auto

lemma search_words_one: "w \<noteq> [] \<Longrightarrow> \<not> list_ex py_isspace w \<Longrightarrow> search_words w = [w]"
  by (simp add: search_words_def split_words_acc_nospace)

lemma icontains_self: "icontains s s"
  using str_contains_append[of "py_lower s" "[]"] by (simp add: icontains_def)

lemma local_admin_changelist_sound:
  assumes "r \<in> set (local_admin_changelist email_of cf uf q db)"
  shows "r \<in> set (tbl_rows db) \<and> (uf = None \<or> uf = Some (row_user r)) \<and>
         (\<forall>w \<in> set (search_words q). icontains (row_user r) w \<or> icontains (email_of (row_user r)) w)"
  using assms
  by (auto simp: local_admin_changelist_def admin_search_def list_all_iff split: option.splits)

lemma local_admin_changelist_finds_user:
  assumes "r \<in> set (tbl_rows db)" "row_user r \<noteq> []" "\<not> list_ex py_isspace (row_user r)"
  shows "r \<in> set (local_admin_changelist email_of None None (row_user r) db)"
  using assms icontains_self[of "row_user r"]
  by (simp add: local_admin_changelist_def admin_search_def search_words_one)

lemma local_admin_changelist_user_filter:
  "local_admin_changelist email_of None (Some u) [] db = filter (\<lambda>r. row_user r = u) (rev (tbl_rows db))"
  by (simp add: local_admin_changelist_def admin_search_def search_words_def)

lemma local_admin_changelist_newest_first:
  assumes "hist_reach db"
  shows "sorted_wrt (\<lambda>a b. row_id b < row_id a) (local_admin_changelist email_of cf uf q db)"
proof -
  have "sorted_wrt (\<lambda>a b. row_id a < row_id b) (tbl_rows db)"
    using hist_reach_ids_ok[OF assms] by (simp add: hist_ids_ok_def)
  then show ?thesis by (simp add: local_admin_changelist_def sorted_wrt_rev sorted_wrt_filter)
qed

text \<open>The search matches parts of names: a search for \<open>bob\<close> lists Bobby's rows too.\<close>

lemma ex_icontains: "icontains ''Bobby'' ''bob''"
  by (simp add: icontains_def py_lower_def lower_char_def)

lemma finance_admin_changelist_type_filter:
  "finance_admin_changelist (Some t) [] db = filter (\<lambda>r. fr_model_type (row_fields r) = t) (rev (tbl_rows db))"
  by (simp add: finance_admin_changelist_def admin_search_def search_words_def)

end
