(* ===== verification/Site.thy ===== *)
theory Site
  imports History
begin

text \<open>
  The Django site as one request handler: each app's \<open>urls.py\<close> resolves
  a path to a view, and each view runs under its decorator with the five
  history tables as the site's state. The pages with a history (health,
  finance, insecurity, access, local) are the whole view functions: the
  POST flow with its save (theory History), the GET branch with its
  \<open>?load_id=\<close> reload, and the five-row listing read after the save. The
  other routes are the views of theories Views and Access, which touch no
  table. A request names its app and its path inside the app: the project's
  root URLconf, which gives each app its prefix, is not in the repository.
\<close>

section \<open>Requests, state and environment\<close>

text \<open>
  What a view reads of \<open>request\<close>: the user (as the decorator sees it), the
  username the ORM filters on, the method with its POST data,
  \<open>GET.get('load_id')\<close>, the AJAX header, and the decoded JSON body.
\<close>

record site_request =
  rq_user :: request_user
  rq_username :: string
  rq_method :: request_method
  rq_load_id :: "string option"
  rq_ajax :: bool
  rq_body :: "string + json"

definition is_authenticated :: "request_user \<Rightarrow> bool" where
  "is_authenticated u \<longleftrightarrow> u \<noteq> Anonymous"

record site_db =
  health_tbl :: "health_row history"
  finance_tbl :: "finance_row history"
  insecurity_tbl :: "insecurity_row history"
  access_tbl :: "real history"
  local_tbl :: "local_row history"

definition site_db_init :: site_db where
  "site_db_init =
     \<lparr>health_tbl = empty_table, finance_tbl = empty_table, insecurity_tbl = empty_table,
      access_tbl = empty_table, local_tbl = empty_table\<rparr>"

text \<open>
  The settings, the loaded modules' globals and the network the views use,
  and the random values of the local service's mock replies.
\<close>

record site_env =
  env_enc :: "(string \<times> string list) list"
  env_health_url :: string
  env_health_data_url :: "string option"
  env_post :: post_fn
  env_get :: get_fn
  env_insec_loader :: insec_loader
  env_insec_url :: string
  env_read_csv :: "string \<Rightarrow> exn + row list"
  env_local_features :: "(string \<times> json) list"
  env_local_url :: string
  env_rnd :: real
  env_k :: nat
  env_rnd2 :: real
  env_access_models :: access_models
  env_foodenv_url :: string
  env_foodenv_endpoint :: string

section \<open>Pages with a history\<close>

text \<open>The form a page renders: built with initial data, or bound to the POST.\<close>

datatype form_state = FormInitial "(string \<times> json) list" | FormBound post_data

record ('c, 'r) page =
  pg_ctx :: 'c
  pg_form :: form_state
  pg_history :: "'r hist_row list"

text \<open>
  \<open>@prediction_access_required(section)\<close> around a view that may write:
  the view runs, and its table changes, only when the user gets through.
\<close>

definition guard_view :: "string \<Rightarrow> request_user \<Rightarrow> 'db \<Rightarrow> 'p \<times> 'db \<Rightarrow> 'p guarded \<times> 'db" where
  "guard_view section_name u db run =
     (case prediction_access_required section_name () u of
        RedirectLogin \<Rightarrow> (RedirectLogin, db)
      | Denied msg \<Rightarrow> (Denied msg, db)
      | Allowed _ \<Rightarrow> (Allowed (fst run), snd run))"

text \<open>
  The views' \<open>if request.user.is_authenticated:\<close> around the listing and
  the reload, and \<open>request.GET.get('load_id')\<close>.
\<close>

definition listing :: "('r hist_row \<Rightarrow> bool) \<Rightarrow> 'r history \<Rightarrow> site_request \<Rightarrow> 'r hist_row list" where
  "listing keep db req = (if is_authenticated (rq_user req) then recent_history keep db (rq_username req) else [])"

definition get_initial :: "'r history \<Rightarrow> site_request \<Rightarrow> exn + (string \<times> json) list" where
  "get_initial db req =
     (if is_authenticated (rq_user req) then load_initial db (rq_username req) (rq_load_id req) else Inr [])"

text \<open>The save of a POST happens only for a logged-in user.\<close>

definition saved :: "site_request \<Rightarrow> 'r history \<Rightarrow> 'r history \<Rightarrow> 'r history" where
  "saved req db db1 = (if is_authenticated (rq_user req) then db1 else db)"

definition health_page ::
  "site_env \<Rightarrow> site_request \<Rightarrow> health_row history
   \<Rightarrow> (health_ctx, health_row) page view_result guarded \<times> health_row history" where
  "health_page env req db =
     guard_view ''health'' (rq_user req) db
       (case rq_method req of
          POST data \<Rightarrow>
            (let (ctx, db1) = health_view_db (env_enc env) (env_health_url env) (env_post env) (rq_username req) db data;
                 db' = saved req db db1
             in (Render \<lparr>pg_ctx = ctx, pg_form = FormBound data, pg_history = listing (\<lambda>_. True) db' req\<rparr>, db'))
        | GET \<Rightarrow>
            (case get_initial db req of
               Inl e \<Rightarrow> (Crash e, db)
             | Inr initial \<Rightarrow>
                 (Render \<lparr>pg_ctx = health_ctx_init, pg_form = FormInitial initial,
                          pg_history = listing (\<lambda>_. True) db req\<rparr>, db)))"

definition finance_page ::
  "site_env \<Rightarrow> site_request \<Rightarrow> finance_row history
   \<Rightarrow> (finance_ctx, finance_row) page view_result guarded \<times> finance_row history" where
  "finance_page env req db =
     guard_view ''finance'' (rq_user req) db
       (case rq_method req of
          POST data \<Rightarrow>
            (let (ctx, db1) = finance_view_db (env_post env) (rq_username req) db data;
                 db' = saved req db db1
             in (Render \<lparr>pg_ctx = ctx, pg_form = FormBound data, pg_history = listing finance_history_keep db' req\<rparr>,
                 db'))
        | GET \<Rightarrow>
            (case get_initial db req of
               Inl e \<Rightarrow> (Crash e, db)
             | Inr initial \<Rightarrow>
                 (Render \<lparr>pg_ctx = finance_ctx_init, pg_form = FormInitial initial,
                          pg_history = listing finance_history_keep db req\<rparr>, db)))"

text \<open>\<open>clustering_view\<close> of finance: the same reload, and no listing.\<close>

definition finance_clustering_page ::
  "site_env \<Rightarrow> site_request \<Rightarrow> finance_row history
   \<Rightarrow> (fin_cluster_ctx \<times> form_state) view_result guarded \<times> finance_row history" where
  "finance_clustering_page env req db =
     guard_view ''finance'' (rq_user req) db
       (case rq_method req of
          POST data \<Rightarrow>
            (let (ctx, db1) = finance_clustering_view_db (env_post env) (rq_username req) db data
             in (Render (ctx, FormBound data), saved req db db1))
        | GET \<Rightarrow>
            (case get_initial db req of
               Inl e \<Rightarrow> (Crash e, db)
             | Inr initial \<Rightarrow> (Render (fin_cluster_ctx_init, FormInitial initial), db)))"

definition insecurity_page ::
  "site_env \<Rightarrow> site_request \<Rightarrow> insecurity_row history
   \<Rightarrow> (insec_ctx, insecurity_row) page view_result guarded \<times> insecurity_row history" where
  "insecurity_page env req db =
     guard_view ''insecurity'' (rq_user req) db
       (case rq_method req of
          POST data \<Rightarrow>
            (let (ctx, db1) = insecurity_view_db (env_insec_loader env) (rq_username req) db data;
                 db' = saved req db db1
             in (Render \<lparr>pg_ctx = ctx, pg_form = FormBound data, pg_history = listing (\<lambda>_. True) db' req\<rparr>, db'))
        | GET \<Rightarrow>
            (case get_initial db req of
               Inl e \<Rightarrow> (Crash e, db)
             | Inr initial \<Rightarrow>
                 (Render \<lparr>pg_ctx = insec_ctx_init, pg_form = FormInitial initial,
                          pg_history = listing (\<lambda>_. True) db req\<rparr>, db)))"

text \<open>
  \<open>access_prediction\<close>: the listing read before the reload and, after a
  successful save, read again; \<open>load_id\<close> is honoured on a GET only.
\<close>

definition access_page ::
  "site_env \<Rightarrow> site_request \<Rightarrow> real history \<Rightarrow> (access_ctx, real) page view_result guarded \<times> real history" where
  "access_page env req db =
     guard_view ''access'' (rq_user req) db
       (case rq_method req of
          POST data \<Rightarrow>
            (let (ctx, db1) = access_prediction_db (env_access_models env) (rq_username req) db data;
                 db' = saved req db db1
             in (Render \<lparr>pg_ctx = ctx, pg_form = FormBound data, pg_history = listing (\<lambda>_. True) db' req\<rparr>, db'))
        | GET \<Rightarrow>
            (case get_initial db req of
               Inl e \<Rightarrow> (Crash e, db)
             | Inr initial \<Rightarrow>
                 (Render \<lparr>pg_ctx = access_ctx_init, pg_form = FormInitial initial,
                          pg_history = listing (\<lambda>_. True) db req\<rparr>, db)))"

text \<open>
  \<open>local_regression_view\<close>: \<open>LocalRegressionForm()\<close> is built first (its
  fields come from \<open>CLUSTERING_FEATURES\<close>); a POST saves before it answers,
  so an AJAX answer or an exception raised after the save leaves the row in
  the table; only a rendered page shows the listing.
\<close>

definition local_regression_page ::
  "site_env \<Rightarrow> site_request \<Rightarrow> local_row history
   \<Rightarrow> (local_ctx, local_row) page view_result guarded \<times> local_row history" where
  "local_regression_page env req db =
     guard_view ''local'' (rq_user req) db
       (case rq_method req of
          POST data \<Rightarrow>
            (let db' = saved req db
                   (local_regression_view_db (env_local_features env) (env_local_url env) (env_post env) (env_rnd env)
                      (env_k env) (env_rnd2 env) (rq_username req) db data)
             in (map_view_result (\<lambda>ctx. \<lparr>pg_ctx = ctx, pg_form = FormBound data, pg_history = listing (\<lambda>_. True) db' req\<rparr>)
                   (local_regression_view_post (env_local_features env) (env_local_url env) (env_post env) (env_rnd env)
                      (env_k env) (env_rnd2 env) (rq_ajax req) data), db'))
        | GET \<Rightarrow>
            (case local_form_fields (env_local_features env) of
               Inl e \<Rightarrow> (Crash e, db)
             | Inr fs \<Rightarrow>
                 (case get_initial db req of
                    Inl e \<Rightarrow> (Crash e, db)
                  | Inr initial \<Rightarrow>
                      (map_view_result (\<lambda>ctx. \<lparr>pg_ctx = ctx, pg_form = FormInitial initial,
                                               pg_history = listing (\<lambda>_. True) db req\<rparr>)
                         (local_finish (env_local_features env) fs local_ctx_init), db))))"

text \<open>\<open>local_clustering_view\<close>: no reload; the listing keeps the rows with a cluster.\<close>

definition local_clustering_page ::
  "site_env \<Rightarrow> site_request \<Rightarrow> local_row history
   \<Rightarrow> (local_ctx, local_row) page view_result guarded \<times> local_row history" where
  "local_clustering_page env req db =
     guard_view ''local'' (rq_user req) db
       (case rq_method req of
          POST data \<Rightarrow>
            (let db' = saved req db
                   (local_clustering_view_db (env_local_features env) (env_local_url env) (env_post env) (env_k env)
                      (env_rnd env) (rq_username req) db data)
             in (map_view_result (\<lambda>ctx. \<lparr>pg_ctx = ctx, pg_form = FormBound data,
                                         pg_history = listing local_clustering_keep db' req\<rparr>)
                   (local_clustering_view_post (env_local_features env) (env_local_url env) (env_post env) (env_k env)
                      (env_rnd env) (rq_ajax req) data), db'))
        | GET \<Rightarrow>
            (case local_form_fields (env_local_features env) of
               Inl e \<Rightarrow> (Crash e, db)
             | Inr fs \<Rightarrow>
                 (map_view_result (\<lambda>ctx. \<lparr>pg_ctx = ctx, pg_form = FormInitial [],
                                          pg_history = listing local_clustering_keep db req\<rparr>)
                    (local_finish (env_local_features env) fs local_ctx_init), db)))"

section \<open>The pages without a table\<close>

text \<open>
  \<open>food_clustering_view\<close> (insecurity) and \<open>local_view\<close> only render
  their template.
\<close>

definition food_clustering_view :: "request_user \<Rightarrow> unit guarded" where
  "food_clustering_view u = prediction_access_required ''insecurity'' () u"

definition local_view :: "request_user \<Rightarrow> unit guarded" where
  "local_view u = prediction_access_required ''local'' () u"

section \<open>The URL configurations\<close>

datatype site_route =
    HealthR | HealthClusteringR | HealthClusteringApiR
  | FinanceR | FinanceClusteringR | FinanceClusteringDataR
  | InsecurityR | FoodClusteringR | FoodClusteringApiR
  | LocalR | LocalRegressionR | LocalClusteringR | ClusteringMapR
  | AccessHomeR | AccessPredictionR | AccessClusteringR | AccessClusteringClearR
  | FoodEnvR | FoodEnvPredictR | FoodEnvClusteringR

datatype site_app = AppHealth | AppFinance | AppInsecurity | AppLocal | AppAccess | AppFoodEnv | AppRag

text \<open>Each app's \<open>urlpatterns\<close>, in order.\<close>

definition health_urlpatterns :: "(string \<times> site_route) list" where
  "health_urlpatterns = [([], HealthR), (''clustering/'', HealthClusteringR), (''clustering/api/'', HealthClusteringApiR)]"

definition finance_urlpatterns :: "(string \<times> site_route) list" where
  "finance_urlpatterns =
     [([], FinanceR), (''clustering/'', FinanceClusteringR), (''api/clustering-data/'', FinanceClusteringDataR)]"

definition insecurity_urlpatterns :: "(string \<times> site_route) list" where
  "insecurity_urlpatterns = [([], InsecurityR), (''clustering/'', FoodClusteringR), (''clustering/api/'', FoodClusteringApiR)]"

definition local_urlpatterns :: "(string \<times> site_route) list" where
  "local_urlpatterns =
     [([], LocalR), (''regression/'', LocalRegressionR), (''clustering/'', LocalClusteringR),
      (''api/clustering-map/'', ClusteringMapR)]"

definition access_urlpatterns :: "(string \<times> site_route) list" where
  "access_urlpatterns =
     [([], AccessHomeR), (''prediction/'', AccessPredictionR), (''clustering/'', AccessClusteringR),
      (''clustering/clear/'', AccessClusteringClearR)]"

definition foodenv_urlpatterns :: "(string \<times> site_route) list" where
  "foodenv_urlpatterns = [([], FoodEnvR), (''predict/'', FoodEnvPredictR), (''clustering/'', FoodEnvClusteringR)]"

text \<open>
  rag/urls.py runs \<open>from . import views\<close>, and the rag package has no
  \<open>views\<close> module: importing the URLconf raises \<open>ImportError\<close> before its
  two patterns (\<open>views.chat_api\<close>, \<open>views.health_check\<close>) exist.
\<close>

definition rag_urlpatterns :: "exn + (string \<times> site_route) list" where
  "rag_urlpatterns = Inl ImportError"

definition app_urlpatterns :: "site_app \<Rightarrow> exn + (string \<times> site_route) list" where
  "app_urlpatterns app =
     (case app of
        AppHealth \<Rightarrow> Inr health_urlpatterns
      | AppFinance \<Rightarrow> Inr finance_urlpatterns
      | AppInsecurity \<Rightarrow> Inr insecurity_urlpatterns
      | AppLocal \<Rightarrow> Inr local_urlpatterns
      | AppAccess \<Rightarrow> Inr access_urlpatterns
      | AppFoodEnv \<Rightarrow> Inr foodenv_urlpatterns
      | AppRag \<Rightarrow> rag_urlpatterns)"

text \<open>What the site answers: each route's response, a 404, or the import failure.\<close>

datatype site_response =
    HealthResp "(health_ctx, health_row) page view_result guarded"
  | HealthClusteringResp "clustering_ctx view_result guarded"
  | FinanceResp "(finance_ctx, finance_row) page view_result guarded"
  | FinanceClusteringResp "(fin_cluster_ctx \<times> form_state) view_result guarded"
  | ClusteringJsonResp "json guarded"
  | InsecurityResp "(insec_ctx, insecurity_row) page view_result guarded"
  | CountiesResp "insec_map_response guarded"
  | TemplateResp "unit guarded"
  | LocalResp "(local_ctx, local_row) page view_result guarded"
  | ClusteringMapResp "unit view_result guarded"
  | AccessPredictionResp "(access_ctx, real) page view_result guarded"
  | AccessResp access_response
  | FoodEnvResp "foodenv_response guarded"
  | NotFound
  | ImportFailure exn

definition site_dispatch :: "site_env \<Rightarrow> site_db \<Rightarrow> site_route \<Rightarrow> site_request \<Rightarrow> site_response \<times> site_db" where
  "site_dispatch env db r req =
     (let u = rq_user req; m = rq_method req in
      case r of
        HealthR \<Rightarrow> (let (p, t) = health_page env req (health_tbl db) in (HealthResp p, db\<lparr>health_tbl := t\<rparr>))
      | HealthClusteringR \<Rightarrow> (HealthClusteringResp (health_clustering_view (env_health_url env) (env_post env) u m), db)
      | HealthClusteringApiR \<Rightarrow>
          (ClusteringJsonResp (health_clustering_data_api (env_health_data_url env) (env_get env) u), db)
      | FinanceR \<Rightarrow> (let (p, t) = finance_page env req (finance_tbl db) in (FinanceResp p, db\<lparr>finance_tbl := t\<rparr>))
      | FinanceClusteringR \<Rightarrow>
          (let (p, t) = finance_clustering_page env req (finance_tbl db) in (FinanceClusteringResp p, db\<lparr>finance_tbl := t\<rparr>))
      | FinanceClusteringDataR \<Rightarrow> (ClusteringJsonResp (finance_clustering_data_api u), db)
      | InsecurityR \<Rightarrow>
          (let (p, t) = insecurity_page env req (insecurity_tbl db) in (InsecurityResp p, db\<lparr>insecurity_tbl := t\<rparr>))
      | FoodClusteringR \<Rightarrow> (TemplateResp (food_clustering_view u), db)
      | FoodClusteringApiR \<Rightarrow>
          (CountiesResp (insec_clustering_data_api (env_insec_url env) (env_get env) (env_read_csv env) u), db)
      | LocalR \<Rightarrow> (TemplateResp (local_view u), db)
      | LocalRegressionR \<Rightarrow>
          (let (p, t) = local_regression_page env req (local_tbl db) in (LocalResp p, db\<lparr>local_tbl := t\<rparr>))
      | LocalClusteringR \<Rightarrow>
          (let (p, t) = local_clustering_page env req (local_tbl db) in (LocalResp p, db\<lparr>local_tbl := t\<rparr>))
      | ClusteringMapR \<Rightarrow> (ClusteringMapResp (clustering_map_view (env_local_url env) (env_get env) (m = GET) u), db)
      | AccessHomeR \<Rightarrow> (AccessResp (access_urls (env_access_models env) u AccessHome), db)
      | AccessPredictionR \<Rightarrow>
          (let (p, t) = access_page env req (access_tbl db) in (AccessPredictionResp p, db\<lparr>access_tbl := t\<rparr>))
      | AccessClusteringR \<Rightarrow> (AccessResp (access_urls (env_access_models env) u (AccessClustering m)), db)
      | AccessClusteringClearR \<Rightarrow> (AccessResp (access_urls (env_access_models env) u AccessClusteringClear), db)
      | FoodEnvR \<Rightarrow> (FoodEnvResp (foodenv_urls (env_foodenv_url env) (env_foodenv_endpoint env) (env_post env) u FoodEnvPage), db)
      | FoodEnvPredictR \<Rightarrow>
          (FoodEnvResp (foodenv_urls (env_foodenv_url env) (env_foodenv_endpoint env) (env_post env) u
                          (FoodEnvPredict (m \<noteq> GET) (rq_body req))), db)
      | FoodEnvClusteringR \<Rightarrow>
          (FoodEnvResp (foodenv_urls (env_foodenv_url env) (env_foodenv_endpoint env) (env_post env) u FoodEnvClustering), db))"

text \<open>
  A request to a path of an app: the app's URLconf is imported, its first
  pattern equal to the path gives the view (Django's resolver tries the
  patterns in order), and no match is a 404.
\<close>

definition site_handle ::
  "site_env \<Rightarrow> site_db \<Rightarrow> site_app \<Rightarrow> string \<Rightarrow> site_request \<Rightarrow> site_response \<times> site_db" where
  "site_handle env db app path req =
     (case app_urlpatterns app of
        Inl e \<Rightarrow> (ImportFailure e, db)
      | Inr patterns \<Rightarrow>
          (case map_of patterns path of
             None \<Rightarrow> (NotFound, db)
           | Some r \<Rightarrow> site_dispatch env db r req))"

section \<open>Observations and reachable sites\<close>

text \<open>
  A table after a request is the table before it, or has one more row, of
  the requesting user, who is logged in with a role that may open the
  section.
\<close>

definition write_allowed :: "string \<Rightarrow> request_user \<Rightarrow> string \<Rightarrow> 'r history \<Rightarrow> 'r history \<Rightarrow> bool" where
  "write_allowed section_name u name old new \<longleftrightarrow>
     new = old \<or> (\<exists>r i f. u = Authenticated (Some r) \<and> can_access_section r section_name \<and> new = objects_create old name i f)"

text \<open>The users whose rows a response lists.\<close>

definition page_users :: "('c, 'r) page view_result guarded \<Rightarrow> string list" where
  "page_users g = (case g of Allowed (Render p) \<Rightarrow> map row_user (pg_history p) | _ \<Rightarrow> [])"

fun listed_users :: "site_response \<Rightarrow> string list" where
  "listed_users (HealthResp g) = page_users g"
| "listed_users (FinanceResp g) = page_users g"
| "listed_users (InsecurityResp g) = page_users g"
| "listed_users (LocalResp g) = page_users g"
| "listed_users (AccessPredictionResp g) = page_users g"
| "listed_users _ = []"

text \<open>The initial data a response's form is filled with, if any.\<close>

definition page_initial :: "('c, 'r) page view_result guarded \<Rightarrow> (string \<times> json) list" where
  "page_initial g =
     (case g of Allowed (Render p) \<Rightarrow> (case pg_form p of FormInitial i \<Rightarrow> i | FormBound _ \<Rightarrow> []) | _ \<Rightarrow> [])"

fun form_initial :: "site_response \<Rightarrow> (string \<times> json) list" where
  "form_initial (HealthResp g) = page_initial g"
| "form_initial (FinanceResp g) = page_initial g"
| "form_initial (FinanceClusteringResp (Allowed (Render (_, FormInitial i)))) = i"
| "form_initial (InsecurityResp g) = page_initial g"
| "form_initial (LocalResp g) = page_initial g"
| "form_initial (AccessPredictionResp g) = page_initial g"
| "form_initial _ = []"

text \<open>The inputs of a user's saved rows, over the five tables.\<close>

definition own_inputs :: "site_db \<Rightarrow> string \<Rightarrow> (string \<times> json) list list" where
  "own_inputs db name =
     map row_input (filter (\<lambda>r. row_user r = name) (tbl_rows (health_tbl db))) @
     map row_input (filter (\<lambda>r. row_user r = name) (tbl_rows (finance_tbl db))) @
     map row_input (filter (\<lambda>r. row_user r = name) (tbl_rows (insecurity_tbl db))) @
     map row_input (filter (\<lambda>r. row_user r = name) (tbl_rows (access_tbl db))) @
     map row_input (filter (\<lambda>r. row_user r = name) (tbl_rows (local_tbl db)))"

text \<open>The sites that requests and the two admin registrations build from empty tables.\<close>

inductive site_reach :: "site_db \<Rightarrow> bool" where
  init: "site_reach site_db_init"
| request: "site_reach db \<Longrightarrow> site_reach (snd (site_handle env db app path req))"
| finance_admin: "site_reach db \<Longrightarrow> finance_admin pc pd act (finance_tbl db) = Some t \<Longrightarrow> site_reach (db\<lparr>finance_tbl := t\<rparr>)"
| local_admin: "site_reach db \<Longrightarrow> local_admin su pc act (local_tbl db) = Some t \<Longrightarrow> site_reach (db\<lparr>local_tbl := t\<rparr>)"

section \<open>Lemmas\<close>

lemma guard_view_write:
  assumes "snd run = db \<or> (\<exists>i f. snd run = objects_create db name i f)"
  shows "write_allowed s u name db (snd (guard_view s u db run))"
  using assms decorator_table_agrees
  by (cases u) (auto simp: write_allowed_def guard_view_def prediction_access_required_def role_required_def
      split: option.splits)

lemma saved_step:
  "db1 = db \<or> (\<exists>i f. db1 = objects_create db n i f) \<Longrightarrow>
   saved req db db1 = db \<or> (\<exists>i f. saved req db db1 = objects_create db n i f)"
  by (auto simp: saved_def)

lemma write_allowed_reach: "write_allowed s u n old new \<Longrightarrow> hist_reach old \<Longrightarrow> hist_reach new"
  by (auto simp: write_allowed_def intro: hist_reach.create)

lemma page_write:
  assumes post: "\<And>data. rq_method req = POST data \<Longrightarrow> snd run = db \<or> (\<exists>i f. snd run = objects_create db (rq_username req) i f)"
    and get: "rq_method req = GET \<Longrightarrow> snd run = db"
  shows "write_allowed s (rq_user req) (rq_username req) db (snd (guard_view s (rq_user req) db run))"
  by (rule guard_view_write) (cases "rq_method req"; simp add: post get)

lemma health_page_write:
  "write_allowed ''health'' (rq_user req) (rq_username req) db (snd (health_page env req db))"
  unfolding health_page_def
  by (rule page_write) (simp_all add: Let_def prod.case_eq_if saved_step[OF health_view_db_step] split: sum.splits)

lemma finance_page_write:
  "write_allowed ''finance'' (rq_user req) (rq_username req) db (snd (finance_page env req db))"
  unfolding finance_page_def
  by (rule page_write) (simp_all add: Let_def prod.case_eq_if saved_step[OF finance_view_db_step] split: sum.splits)

lemma finance_clustering_page_write:
  "write_allowed ''finance'' (rq_user req) (rq_username req) db (snd (finance_clustering_page env req db))"
  unfolding finance_clustering_page_def
  by (rule page_write)
    (simp_all add: Let_def prod.case_eq_if saved_step[OF finance_clustering_view_db_step] split: sum.splits)

lemma insecurity_page_write:
  "write_allowed ''insecurity'' (rq_user req) (rq_username req) db (snd (insecurity_page env req db))"
  unfolding insecurity_page_def
  by (rule page_write) (simp_all add: Let_def prod.case_eq_if saved_step[OF insecurity_view_db_step] split: sum.splits)

lemma access_page_write:
  "write_allowed ''access'' (rq_user req) (rq_username req) db (snd (access_page env req db))"
  unfolding access_page_def
  by (rule page_write) (simp_all add: Let_def prod.case_eq_if saved_step[OF access_prediction_db_step] split: sum.splits)

lemma local_regression_page_write:
  "write_allowed ''local'' (rq_user req) (rq_username req) db (snd (local_regression_page env req db))"
  unfolding local_regression_page_def
  by (rule page_write) (simp_all add: Let_def saved_step[OF local_regression_view_db_step] split: sum.splits)

lemma local_clustering_page_write:
  "write_allowed ''local'' (rq_user req) (rq_username req) db (snd (local_clustering_page env req db))"
  unfolding local_clustering_page_def
  by (rule page_write) (simp_all add: Let_def saved_step[OF local_clustering_view_db_step] split: sum.splits)

lemma write_allowed_refl [simp]: "write_allowed s u n db db"
  by (simp add: write_allowed_def)

lemmas page_writes = health_page_write finance_page_write finance_clustering_page_write insecurity_page_write
  access_page_write local_regression_page_write local_clustering_page_write

lemma site_dispatch_write:
  "write_allowed ''health'' (rq_user req) (rq_username req) (health_tbl db) (health_tbl (snd (site_dispatch env db r req))) \<and>
   write_allowed ''finance'' (rq_user req) (rq_username req) (finance_tbl db) (finance_tbl (snd (site_dispatch env db r req))) \<and>
   write_allowed ''insecurity'' (rq_user req) (rq_username req) (insecurity_tbl db)
     (insecurity_tbl (snd (site_dispatch env db r req))) \<and>
   write_allowed ''access'' (rq_user req) (rq_username req) (access_tbl db) (access_tbl (snd (site_dispatch env db r req))) \<and>
   write_allowed ''local'' (rq_user req) (rq_username req) (local_tbl db) (local_tbl (snd (site_dispatch env db r req)))"
  by (cases r) (simp_all add: site_dispatch_def Let_def prod.case_eq_if page_writes)

lemma map_view_result_Render: "map_view_result f r = Render p \<longleftrightarrow> (\<exists>c. r = Render c \<and> p = f c)"
  by (cases r) auto

lemma listing_users: "r \<in> set (listing keep db req) \<Longrightarrow> row_user r = rq_username req"
  by (auto simp: listing_def recent_history_def split: if_splits dest: in_set_takeD)

lemma listing_length: "length (listing keep db req) \<le> 5"
  by (simp add: listing_def recent_history_def)

lemma page_users_own:
  assumes "\<And>p. g = Allowed (Render p) \<Longrightarrow> \<exists>keep t. pg_history p = listing keep t req"
  shows "set (page_users g) \<subseteq> {rq_username req} \<and> length (page_users g) \<le> 5"
  using assms
  by (auto simp: page_users_def listing_length split: guarded.splits view_result.splits) (metis listing_users)

lemmas page_unfolds = guard_view_def Let_def prod.case_eq_if map_view_result_Render

lemmas page_defs = health_page_def finance_page_def insecurity_page_def access_page_def local_regression_page_def
  local_clustering_page_def

lemma health_page_listing:
  "fst (health_page env req db) = Allowed (Render p) \<Longrightarrow> \<exists>keep t. pg_history p = listing keep t req"
  by (auto simp: health_page_def page_unfolds split: guarded.splits request_method.splits sum.splits) blast+

lemma finance_page_listing:
  "fst (finance_page env req db) = Allowed (Render p) \<Longrightarrow> \<exists>keep t. pg_history p = listing keep t req"
  by (auto simp: finance_page_def page_unfolds split: guarded.splits request_method.splits sum.splits) blast+

lemma insecurity_page_listing:
  "fst (insecurity_page env req db) = Allowed (Render p) \<Longrightarrow> \<exists>keep t. pg_history p = listing keep t req"
  by (auto simp: insecurity_page_def page_unfolds split: guarded.splits request_method.splits sum.splits) blast+

lemma access_page_listing:
  "fst (access_page env req db) = Allowed (Render p) \<Longrightarrow> \<exists>keep t. pg_history p = listing keep t req"
  by (auto simp: access_page_def page_unfolds split: guarded.splits request_method.splits sum.splits) blast+

lemma local_regression_page_listing:
  "fst (local_regression_page env req db) = Allowed (Render p) \<Longrightarrow> \<exists>keep t. pg_history p = listing keep t req"
  by (auto simp: local_regression_page_def page_unfolds split: guarded.splits request_method.splits sum.splits) blast+

lemma local_clustering_page_listing:
  "fst (local_clustering_page env req db) = Allowed (Render p) \<Longrightarrow> \<exists>keep t. pg_history p = listing keep t req"
  by (auto simp: local_clustering_page_def page_unfolds split: guarded.splits request_method.splits sum.splits) blast+

lemma page_users_pages:
  "set (page_users (fst (health_page env req db))) \<subseteq> {rq_username req} \<and>
     length (page_users (fst (health_page env req db))) \<le> 5"
  "set (page_users (fst (finance_page env req fdb))) \<subseteq> {rq_username req} \<and>
     length (page_users (fst (finance_page env req fdb))) \<le> 5"
  "set (page_users (fst (insecurity_page env req idb))) \<subseteq> {rq_username req} \<and>
     length (page_users (fst (insecurity_page env req idb))) \<le> 5"
  "set (page_users (fst (access_page env req adb))) \<subseteq> {rq_username req} \<and>
     length (page_users (fst (access_page env req adb))) \<le> 5"
  "set (page_users (fst (local_regression_page env req ldb))) \<subseteq> {rq_username req} \<and>
     length (page_users (fst (local_regression_page env req ldb))) \<le> 5"
  "set (page_users (fst (local_clustering_page env req ldb))) \<subseteq> {rq_username req} \<and>
     length (page_users (fst (local_clustering_page env req ldb))) \<le> 5"
  by (rule page_users_own; fact health_page_listing finance_page_listing insecurity_page_listing access_page_listing
      local_regression_page_listing local_clustering_page_listing)+

text \<open>A reload fills a form only with one of the requesting user's saved inputs.\<close>

lemma get_initial_own:
  "get_initial db req = Inr i \<Longrightarrow> i = [] \<or> i \<in> set (map row_input (filter (\<lambda>r. row_user r = rq_username req) (tbl_rows db)))"
  by (auto simp: get_initial_def split: if_splits dest!: load_initial_own)

lemma page_initial_pages:
  "page_initial (fst (health_page env req db)) = [] \<or>
     page_initial (fst (health_page env req db)) \<in> set (map row_input (filter (\<lambda>r. row_user r = rq_username req) (tbl_rows db)))"
  "page_initial (fst (finance_page env req fdb)) = [] \<or>
     page_initial (fst (finance_page env req fdb)) \<in> set (map row_input (filter (\<lambda>r. row_user r = rq_username req) (tbl_rows fdb)))"
  "page_initial (fst (insecurity_page env req idb)) = [] \<or>
     page_initial (fst (insecurity_page env req idb)) \<in> set (map row_input (filter (\<lambda>r. row_user r = rq_username req) (tbl_rows idb)))"
  "page_initial (fst (access_page env req adb)) = [] \<or>
     page_initial (fst (access_page env req adb)) \<in> set (map row_input (filter (\<lambda>r. row_user r = rq_username req) (tbl_rows adb)))"
  "page_initial (fst (local_regression_page env req ldb)) = [] \<or>
     page_initial (fst (local_regression_page env req ldb)) \<in> set (map row_input (filter (\<lambda>r. row_user r = rq_username req) (tbl_rows ldb)))"
  "page_initial (fst (local_clustering_page env req ldb)) = [] \<or>
     page_initial (fst (local_clustering_page env req ldb)) \<in> set (map row_input (filter (\<lambda>r. row_user r = rq_username req) (tbl_rows ldb)))"
  by (auto simp: page_defs page_initial_def page_unfolds
      split: guarded.splits request_method.splits sum.splits view_result.splits form_state.splits
      dest: get_initial_own)

lemma finance_clustering_initial:
  "fst (finance_clustering_page env req db) = Allowed (Render (c, FormInitial i)) \<Longrightarrow>
   i = [] \<or> i \<in> set (map row_input (filter (\<lambda>r. row_user r = rq_username req) (tbl_rows db)))"
  by (auto simp: finance_clustering_page_def page_unfolds split: guarded.splits request_method.splits sum.splits
      dest: get_initial_own)

lemma form_initial_finance_clustering:
  "form_initial (FinanceClusteringResp g) = (case g of Allowed (Render (_, FormInitial i)) \<Rightarrow> i | _ \<Rightarrow> [])"
  by (cases g rule: guarded.exhaust) (auto split: view_result.splits form_state.splits prod.splits)

lemma site_dispatch_initial:
  "form_initial (fst (site_dispatch env db r req)) = [] \<or>
   form_initial (fst (site_dispatch env db r req)) \<in> set (own_inputs db (rq_username req))"
  using page_initial_pages(1)[of env req "health_tbl db"] page_initial_pages(2)[of env req "finance_tbl db"]
    page_initial_pages(3)[of env req "insecurity_tbl db"] page_initial_pages(4)[of env req "access_tbl db"]
    page_initial_pages(5)[of env req "local_tbl db"] page_initial_pages(6)[of env req "local_tbl db"]
    finance_clustering_initial[of env req "finance_tbl db"]
  by (cases r)
    (auto simp: site_dispatch_def Let_def prod.case_eq_if own_inputs_def form_initial_finance_clustering
      split: guarded.splits view_result.splits form_state.splits)

lemma site_dispatch_lists:
  "set (listed_users (fst (site_dispatch env db r req))) \<subseteq> {rq_username req} \<and>
   length (listed_users (fst (site_dispatch env db r req))) \<le> 5"
  by (cases r) (simp_all add: site_dispatch_def Let_def prod.case_eq_if page_users_pages)

lemma site_handle_rag: "site_handle env db AppRag path req = (ImportFailure ImportError, db)"
  by (simp add: site_handle_def app_urlpatterns_def rag_urlpatterns_def)

lemma site_handle_dispatch:
  "snd (site_handle env db app path req) = db \<or> (\<exists>r. snd (site_handle env db app path req) = snd (site_dispatch env db r req))"
  by (auto simp: site_handle_def split: sum.splits option.splits)

lemma write_allowed_anonymous [simp]: "write_allowed s Anonymous n old new \<longleftrightarrow> new = old"
  by (simp add: write_allowed_def)

text \<open>An anonymous request leaves every table as it was.\<close>

lemma site_anonymous_no_write:
  assumes "rq_user req = Anonymous"
  shows "snd (site_handle env db app path req) = db"
proof -
  have "snd (site_dispatch env db r req) = db" for r
  proof -
    let ?d = "snd (site_dispatch env db r req)"
    have "health_tbl ?d = health_tbl db \<and> finance_tbl ?d = finance_tbl db \<and> insecurity_tbl ?d = insecurity_tbl db \<and>
          access_tbl ?d = access_tbl db \<and> local_tbl ?d = local_tbl db"
      using site_dispatch_write[of req db env r] assms by simp
    then show ?thesis by (intro site_db.equality) simp_all
  qed
  then show ?thesis using site_handle_dispatch[of env db app path req] by auto
qed

text \<open>The tables of a reachable site are reachable tables (theory Tables).\<close>

lemma site_reach_tables:
  "site_reach db \<Longrightarrow>
   hist_reach (health_tbl db) \<and> hist_reach (finance_tbl db) \<and> hist_reach (insecurity_tbl db) \<and>
   hist_reach (access_tbl db) \<and> hist_reach (local_tbl db)"
proof (induction rule: site_reach.induct)
  case init
  then show ?case by (simp add: site_db_init_def hist_reach.empty)
next
  case (request db env app path req)
  then show ?case
    using site_handle_dispatch[of env db app path req] site_dispatch_write[of req db env] by (metis write_allowed_reach)
next
  case (finance_admin db pc pd act t)
  then show ?case using admin_reachable(1)[of "finance_tbl db" "local_tbl db"] by simp
next
  case (local_admin db su pc act t)
  then show ?case using admin_reachable(2)[of "finance_tbl db" "local_tbl db"] by simp
qed

text \<open>
  The pages agree with the views of theory Views and Access: without a
  \<open>load_id\<close>, the context a page renders is the one the view returns.
\<close>

lemma guard_view_fst: "fst (guard_view s u db run) = prediction_access_required s (fst run) u"
  by (simp add: guard_view_def prediction_access_required_def role_required_def split: request_user.splits option.splits)

lemma map_guarded_access: "map_guarded f (prediction_access_required s x u) = prediction_access_required s (f x) u"
  by (simp add: prediction_access_required_def role_required_def split: request_user.splits option.splits)

lemma view_db_fst:
  "fst (health_view_db enc url post uid db data) = health_view_post enc url post data"
  "fst (finance_view_db post uid fdb data) = finance_view_post post data"
  "fst (finance_clustering_view_db post uid fdb data) = finance_clustering_view_post post data"
  "fst (insecurity_view_db ld uid idb data) = insecurity_view_post ld data"
  "fst (access_prediction_db ms uid adb data) = access_prediction_post ms data"
  by (simp_all add: health_view_db_def finance_view_db_def finance_clustering_view_db_def insecurity_view_db_def
      access_prediction_db_def Let_def prod.case_eq_if)

lemma pages_agree:
  assumes "rq_load_id req = None"
  shows "map_guarded (map_view_result pg_ctx) (fst (health_page env req hdb)) =
           health_view (env_enc env) (env_health_url env) (env_post env) (rq_user req) (rq_method req)"
    and "map_guarded (map_view_result pg_ctx) (fst (finance_page env req fdb)) =
           finance_view (env_post env) (rq_user req) (rq_method req)"
    and "map_guarded (map_view_result pg_ctx) (fst (insecurity_page env req idb)) =
           insecurity_view (env_insec_loader env) (rq_user req) (rq_method req)"
    and "map_guarded (map_view_result pg_ctx) (fst (access_page env req adb)) =
           map_guarded Render (access_prediction (env_access_models env) (rq_user req) (rq_method req))"
    and "map_guarded (map_view_result pg_ctx) (fst (local_regression_page env req ldb)) =
           local_regression_view (env_local_features env) (env_local_url env) (env_post env) (env_rnd env) (env_k env)
             (env_rnd2 env) (rq_ajax req) (rq_user req) (rq_method req)"
    and "map_guarded (map_view_result pg_ctx) (fst (local_clustering_page env req ldb)) =
           local_clustering_view (env_local_features env) (env_local_url env) (env_post env) (env_k env) (env_rnd env)
             (rq_ajax req) (rq_user req) (rq_method req)"
  using assms
  by (simp_all add: page_defs health_view_def finance_view_def insecurity_view_def access_prediction_def
      local_regression_view_def local_clustering_view_def guard_view_fst map_guarded_access get_initial_def
      load_initial_def Let_def prod.case_eq_if view_db_fst view_result.map_comp o_def view_result.map_ident
      split: request_method.splits sum.splits)

section \<open>Properties of the site\<close>

text \<open>
  C28. No request writes a history table on behalf of a user the section's
  decorator would refuse: after any request to any app and path, each of the
  five tables is unchanged, or holds one more row, created for the
  requesting user, who is logged in with a role that may open that section.
  Anonymous users and users of other roles never write.
\<close>

theorem site_writes_need_access:
  "write_allowed ''health'' (rq_user req) (rq_username req) (health_tbl db) (health_tbl (snd (site_handle env db app path req))) \<and>
   write_allowed ''finance'' (rq_user req) (rq_username req) (finance_tbl db) (finance_tbl (snd (site_handle env db app path req))) \<and>
   write_allowed ''insecurity'' (rq_user req) (rq_username req) (insecurity_tbl db)
     (insecurity_tbl (snd (site_handle env db app path req))) \<and>
   write_allowed ''access'' (rq_user req) (rq_username req) (access_tbl db) (access_tbl (snd (site_handle env db app path req))) \<and>
   write_allowed ''local'' (rq_user req) (rq_username req) (local_tbl db) (local_tbl (snd (site_handle env db app path req)))"
  by (simp add: site_handle_def site_dispatch_write split: sum.splits option.splits)

text \<open>
  C37. No page of the site shows another user's data: every page lists at
  most five history rows, all of them the requesting user's, and a form is
  pre-filled only with the saved input of one of the requesting user's
  rows (or left empty), whatever the app, path, method, \<open>load_id\<close> and
  tables.
\<close>

theorem site_lists_own_rows:
  "set (listed_users (fst (site_handle env db app path req))) \<subseteq> {rq_username req} \<and>
   length (listed_users (fst (site_handle env db app path req))) \<le> 5 \<and>
   (form_initial (fst (site_handle env db app path req)) = [] \<or>
    form_initial (fst (site_handle env db app path req)) \<in> set (own_inputs db (rq_username req)))"
  by (simp add: site_handle_def site_dispatch_lists site_dispatch_initial split: sum.splits option.splits)

end
