(* ===== verification/Deploy.thy ===== *)
theory Deploy
  imports LocalApp
begin

text \<open>
  local/my_hfspace/upload_models.py: the script that pushes the local-food
  app and its artifacts to its Hugging Face Space, and what the Space's
  startup then finds. The local directory is \<open>exists\<close>, the
  authentication and each upload are outcomes given as parameters, and the
  Space is the list of paths it holds. \<open>sys.exit(1)\<close> is exit code 1;
  reaching the end of \<open>main\<close> is 0.
\<close>

section \<open>upload_models.py\<close>

definition required_files :: "string list" where
  "required_files =
     [''app.py'', ''Dockerfile'', ''requirements.txt'', ''xgboost_tuned_model.joblib'', ''kmeans_model.pkl'',
      ''scaler_regression.pkl'', ''scaler.pkl'', ''scaled_columns.pkl'', ''clustering_features.json'']"

definition optional_files :: "string list" where
  "optional_files = [''clustering_map_data.json'', ''generate_config.py'', ''README.md'']"

text \<open>The first loop: the required files that are not in the directory.\<close>

definition missing_files :: "(string \<Rightarrow> bool) \<Rightarrow> string list" where
  "missing_files exists = filter (\<lambda>f. \<not> exists f) required_files"

text \<open>
  The upload loop over \<open>required_files + optional_files\<close>: an existing
  file is uploaded (the Space then holds its path); the first failed
  upload exits with 1, leaving the files uploaded before it in place.
\<close>

fun upload_loop :: "(string \<Rightarrow> bool) \<Rightarrow> (string \<Rightarrow> bool) \<Rightarrow> string list \<Rightarrow> string list \<Rightarrow> nat \<times> string list" where
  "upload_loop exists upload [] space = (0, space)"
| "upload_loop exists upload (f # fs) space =
     (if exists f then
        (if upload f then upload_loop exists upload fs (List.insert f space) else (1, space))
      else upload_loop exists upload fs space)"

definition upload_main ::
  "(string \<Rightarrow> bool) \<Rightarrow> bool \<Rightarrow> (string \<Rightarrow> bool) \<Rightarrow> string list \<Rightarrow> nat \<times> string list" where
  "upload_main exists login_ok upload space =
     (if missing_files exists \<noteq> [] then (1, space)
      else if \<not> login_ok then (1, space)
      else upload_loop exists upload (required_files @ optional_files) space)"

section \<open>The Space's startup over the uploaded files\<close>

text \<open>
  The files the app's startup hook finds: \<open>os.path.exists\<close> of each name
  is whether the Space holds it.
\<close>

definition space_files_ok :: "string list \<Rightarrow> local_files \<Rightarrow> bool" where
  "space_files_ok space files \<longleftrightarrow>
     (xgboost_file files = Missing \<longleftrightarrow> ''xgboost_tuned_model.joblib'' \<notin> set space) \<and>
     (kmeans_pkl_file files = Missing \<longleftrightarrow> ''kmeans_model.pkl'' \<notin> set space) \<and>
     (scaler_regression_file files = Missing \<longleftrightarrow> ''scaler_regression.pkl'' \<notin> set space) \<and>
     (scaler_file files = Missing \<longleftrightarrow> ''scaler.pkl'' \<notin> set space) \<and>
     (scaled_columns_file files = Missing \<longleftrightarrow> ''scaled_columns.pkl'' \<notin> set space) \<and>
     (features_config_file files = Missing \<longleftrightarrow> ''clustering_features.json'' \<notin> set space)"

section \<open>Lemmas\<close>

lemma upload_loop_space:
  "upload_loop exists upload fs space = (c, space') \<Longrightarrow> set space \<subseteq> set space'"
  by (induction exists upload fs space arbitrary: c rule: upload_loop.induct) (fastforce split: if_splits)+

lemma upload_loop_ok:
  "fst (upload_loop exists upload fs space) = 0 \<longleftrightarrow> (\<forall>f \<in> set fs. exists f \<longrightarrow> upload f)"
  by (induction exists upload fs space rule: upload_loop.induct) auto

lemma upload_loop_uploaded:
  "upload_loop exists upload fs space = (0, space') \<Longrightarrow>
   set space' = set space \<union> {f \<in> set fs. exists f}"
  by (induction exists upload fs space arbitrary: space' rule: upload_loop.induct) (auto split: if_splits)

lemma upload_main_ok:
  "fst (upload_main exists login_ok upload space) = 0 \<longleftrightarrow>
     (\<forall>f \<in> set required_files. exists f) \<and> login_ok \<and>
     (\<forall>f \<in> set (required_files @ optional_files). exists f \<longrightarrow> upload f)"
  by (auto simp: upload_main_def missing_files_def filter_empty_conv upload_loop_ok)

lemma artifact_Loaded: "a \<noteq> Missing \<Longrightarrow> a \<noteq> Unreadable \<Longrightarrow> \<exists>x. a = Loaded x"
  by (cases a) auto

lemma upload_main_uploads_required:
  assumes "upload_main exists login_ok upload space = (0, space')"
  shows "set required_files \<subseteq> set space'"
proof -
  have ex: "\<forall>f \<in> set required_files. exists f"
    using upload_main_ok[of exists login_ok upload space] assms by simp
  have "missing_files exists = []" and "login_ok"
    using assms by (auto simp: upload_main_def split: if_splits)
  then have "upload_loop exists upload (required_files @ optional_files) space = (0, space')"
    using assms by (simp add: upload_main_def)
  then show ?thesis using ex by (auto dest: upload_loop_uploaded)
qed

text \<open>
  A failed upload ends the script with the Space holding the files sent
  before it: here \<open>app.py\<close> is replaced while the models are not.
\<close>

lemma upload_partial:
  "upload_main (\<lambda>_. True) True (\<lambda>f. f \<noteq> ''xgboost_tuned_model.joblib'') [] =
     (1, [''requirements.txt'', ''Dockerfile'', ''app.py''])"
  by (simp add: upload_main_def missing_files_def required_files_def optional_files_def)

section \<open>A deployment from the upload script\<close>

text \<open>
  C38. A run of upload_models.py that ends normally leaves a Space whose
  startup hook finds every model file; when none of the four model files is
  unreadable and joblib is installed, the app starts with the regression
  model, the k-means model and both scalers loaded.
\<close>

theorem upload_then_startup:
  assumes up: "upload_main exists login_ok upload space = (0, space')"
    and sp: "space_files_ok space' files" and lib: "has_joblib libs"
    and readable: "xgboost_file files \<noteq> Unreadable" "kmeans_pkl_file files \<noteq> Unreadable"
      "scaler_regression_file files \<noteq> Unreadable" "scaler_file files \<noteq> Unreadable"
  shows "regression_model (startup_event libs files s) \<noteq> None \<and> clustering_model (startup_event libs files s) \<noteq> None \<and>
         scaler_regression (startup_event libs files s) \<noteq> None \<and> scaler_clustering_l (startup_event libs files s) \<noteq> None \<and>
         models_loaded (startup_event libs files s)"
proof -
  have req: "set required_files \<subseteq> set space'" using upload_main_uploads_required[OF up] .
  have present: "xgboost_file files \<noteq> Missing" "kmeans_pkl_file files \<noteq> Missing"
    "scaler_regression_file files \<noteq> Missing" "scaler_file files \<noteq> Missing"
    using req sp by (simp_all add: space_files_ok_def required_files_def)
  obtain a b c d where
    "xgboost_file files = Loaded a" "kmeans_pkl_file files = Loaded b"
    "scaler_regression_file files = Loaded c" "scaler_file files = Loaded d"
    using artifact_Loaded[OF present(1) readable(1)] artifact_Loaded[OF present(2) readable(2)]
      artifact_Loaded[OF present(3) readable(3)] artifact_Loaded[OF present(4) readable(4)] by blast
  then show ?thesis using lib by (simp add: startup_event_def try_load_def Let_def split: artifact.splits option.splits)
qed

theorem upload_then_startup_witness:
  "upload_main (\<lambda>_. True) True (\<lambda>_. True) [] = (0, rev (required_files @ optional_files)) \<and>
   models_loaded (startup_event \<lparr>has_joblib = True, has_numpy = True, has_pandas = True\<rparr>
     \<lparr>xgboost_file = Loaded example_regressor, kmeans_pkl_file = Loaded example_kmeans,
      scaler_regression_file = Loaded example_scaler, scaler_file = Loaded example_scaler,
      scaled_columns_file = Loaded [], features_config_file = Loaded (JObj [])\<rparr> local_api_init)"
proof -
  let ?files = "\<lparr>xgboost_file = Loaded example_regressor, kmeans_pkl_file = Loaded example_kmeans,
      scaler_regression_file = Loaded example_scaler, scaler_file = Loaded example_scaler,
      scaled_columns_file = Loaded [], features_config_file = Loaded (JObj [])\<rparr>"
  have up: "upload_main (\<lambda>_. True) True (\<lambda>_. True) [] = (0, rev (required_files @ optional_files))"
    by (simp add: upload_main_def missing_files_def required_files_def optional_files_def)
  have sp: "space_files_ok (rev (required_files @ optional_files)) ?files"
    by (simp add: space_files_ok_def required_files_def optional_files_def)
  show ?thesis
    using upload_then_startup[OF up sp, of "\<lparr>has_joblib = True, has_numpy = True, has_pandas = True\<rparr>" local_api_init] up
    by simp
qed

end
