(* ===== verification/Spec2Isabelle.thy ===== *)
theory Spec2Isabelle
  imports RagService Assets Roles Clients HealthApi Insecurity Forms Views Access LocalApp Tables History Site Deploy
begin

text \<open>
  \<^bold>\<open>A verification library for US-FoodScope (src/us_foodscope).\<close>

  \<^bold>\<open>The program.\<close> A Django site (users, dashboard and five prediction
  sections: access, insecurity, health, finance, local, foodenvironment) whose
  views call remote inference services over HTTP, and the inference services
  themselves (FastAPI apps under health/serving, insecurity/serving and
  local/my_hfspace). The part with real algorithmic content is the
  retrieval-augmented question answering of health/serving:
  \<^item> offline, generate_assets.py turns every county row into a profile
    paragraph (\<open>row_to_text\<close>), left-joins the county table with the
    worst-risk table, embeds the profiles, L2-normalises them and stores them
    in a faiss \<open>IndexFlatIP\<close> next to the pickled chunk list;
  \<^item> online, rag_service.py's \<open>RAGService\<close> loads model, index, chunks and a
    Groq client (\<open>initialize\<close>), retrieves the ten nearest chunks of a query
    (\<open>retrieve\<close>) and asks the completion endpoint for an answer grounded in
    them (\<open>ask\<close>); serving/app.py exposes it as \<open>POST /ask\<close>, and the Django
    site's rag/services.py forwards questions there.

  \<^bold>\<open>The theories.\<close>
  \<^item> \<open>Prelude\<close>: Python exceptions (\<open>exn\<close>) and statement sequencing with
    exceptions (\<open>then_do\<close> over \<open>'s py_eff\<close>, the exception raised if any and the
    state as far as it got), pandas cells (\<open>cell\<close>: a printed value or NaN,
    \<open>notna\<close>, \<open>py_str\<close> for f-string printing), JSON values, \<open>clip\<close> for
    \<open>max(lo, min(hi, x))\<close>, and lemmas on descending order.
  \<^item> \<open>Profile\<close> (generate_assets.py lines 10--91): \<open>row_to_text\<close> and one
    definition per \<open>text +=\<close> line, \<open>merge_left\<close>/\<open>combine_tables\<close> for the
    left join (lines 63--76), the \<open>chunk\<close> record and \<open>build_chunks\<close> for the
    chunk loop (lines 80--91).
  \<^item> \<open>VectorIndex\<close>: faiss's \<open>normalize_L2\<close>, \<open>IndexFlatIP\<close>, \<open>add\<close> and exact
    \<open>search\<close>, modelled from the spec's Vector Index contract (faiss is a
    library the sources only call): results by descending inner product,
    ties to the smaller label, at most \<open>k\<close>, fewer when the index is smaller.
    Lemmas: top-k selection against the multiset of all scores, unit norm of
    normalised vectors, inner products of unit vectors in [-1, 1].
  \<^item> \<open>Build\<close> (generate_assets.py lines 61--110): \<open>generate_assets\<close> returns
    the (index, chunks) pair the two artifacts hold; \<open>artifacts_paired\<close> is
    the positional contract between them. Also the spec's three-county
    end-to-end scenario as concrete data.
  \<^item> \<open>Assets\<close> (generate_assets.py run as a script, rag_service.py's
    constructor): the serving directory as a map from paths to what each
    file holds; \<open>generate_assets_files\<close> reads the two CSV files, loads
    the model by name, runs the build and writes the index and the pickled
    chunks to their paths; \<open>rag_service_env\<close> is the environment a
    \<open>RAGService(index_path, chunks_path, model_name)\<close> finds there, and the
    \<open>default_\<close> definitions use the paths both files default to.
  \<^item> \<open>RagService\<close> (rag_service.py): the state \<open>rag_state\<close> (attributes of
    \<open>RAGService\<close>), the environment \<open>rag_env\<close> (model loadable or not, each
    artifact missing / unreadable / loaded, \<open>GROQ_API_KEY\<close>), \<open>initialize\<close>
    as four loader steps sequenced with \<open>then_do\<close>, \<open>retrieve\<close> with
    \<open>collect_results\<close>, \<open>ask\<close> with the prompt and the completion request;
    \<open>rag_step\<close>/\<open>rag_reachable\<close> is the service as a state machine whose steps
    are method calls against any environment, and \<open>status_of\<close> maps its
    attributes to the spec's UNINITIALIZED / READY / DEGRADED.

  \<^item> \<open>Roles\<close> (users/models.py, users/decorators.py, dashboard/views.py):
    roles as the stored strings, \<open>can_access_section\<close> and its table,
    \<open>ROLE_PERMISSIONS\<close>, \<open>role_required\<close> and \<open>prediction_access_required\<close>
    over a \<open>request_user\<close> (anonymous, or logged in with or without a role),
    and the dashboard's role-to-report map.
  \<^item> \<open>Http\<close>: what \<open>requests\<close> returns (a failure with \<open>str(e)\<close>, or a
    response with status, content type, body text, the outcome of
    \<open>.json()\<close> and the \<open>HTTPError\<close> message), \<open>raise_for_status\<close>, and
    \<open>serve\<close>, the response FastAPI sends for an endpoint's result. The network
    is a parameter of every client (\<open>post_fn\<close>, \<open>get_fn\<close>).
  \<^item> \<open>Clients\<close>: the Django services that call the inference spaces:
    rag/services.py (\<open>generate_response\<close>, the memoised \<open>get_rag_service\<close>
    and the \<open>init_rag\<close> command that uses it), health/services.py
    (\<open>health_predict\<close>, \<open>health_predict_cluster\<close>, \<open>load_clustering_data\<close>),
    local/services.py (\<open>local_predict\<close>, \<open>local_predict_cluster\<close> and the mock
    generators, whose \<open>random\<close> values are parameters), finance/services.py
    (\<open>finance_predict\<close> with its 404 retry, the regular-expression reading of
    the Gradio reply and the mock fallback) and foodenvironment/services.py
    (\<open>foodenv_predict\<close>, \<open>validate_features\<close>). Python's \<open>float()\<close> on
    strings is \<open>py_float_str\<close> in the prelude.
  \<^item> \<open>HealthApi\<close> (health/serving/app.py): the module globals as
    \<open>api_state\<close>, \<open>load_artifacts\<close> as five independent guarded blocks over the
    files found (\<open>api_files\<close>), and the endpoints \<open>home\<close>,
    \<open>get_clustering_data\<close>, \<open>predict\<close>, \<open>ask_endpoint\<close>, \<open>predict_cluster\<close>;
    fitted scikit-learn objects are modelled by what the code uses of them
    (\<open>regressor\<close>, \<open>std_scaler\<close>, \<open>kmeans\<close>, \<open>label_encoder\<close>). \<open>health_post\<close>,
    \<open>health_get\<close> and \<open>health_api_post\<close> present the service as the network the
    Django clients see (\<open>/ask\<close>, \<open>/clustering-data\<close>, \<open>/predict\<close> and
    \<open>/predict-cluster\<close>, with the \<open>PredictionRequest\<close> body check and the
    responses as sent, the interval formatted by \<open>fmt_1f\<close>).
  \<^item> \<open>Insecurity\<close> (insecurity/ml_loader.py, services.py, serving/app.py):
    the loader's \<open>_load_models\<close>, \<open>FoodInsecurityPredictionService.predict\<close>,
    \<open>ClusteringDataService\<close>, and the serving app's startup and endpoints.
  \<^item> \<open>Forms\<close> (the six forms.py files): Django's form cleaning as
    \<open>clean_field\<close> (float fields with their bound validators, choice and
    char fields), \<open>clean_fields\<close> with the \<open>clean_<field>\<close> hooks and
    \<open>full_clean\<close> with the form's \<open>clean\<close> and \<open>add_error\<close>; each form as its
    declared fields in order, the finance form's hooks and model-type
    dependent \<open>clean\<close>, the food-environment form's range check, and the
    local form built from \<open>CLUSTERING_FEATURES\<close> with its field groups.
  \<^item> \<open>Views\<close> (health, finance, foodenvironment, local and insecurity
    views.py): each view's POST flow as a function of the submitted data and
    the network, to the context it renders (\<open>health_ctx\<close>, ...), an AJAX
    reply, a JSON response or an escaping exception (\<open>view_result\<close>),
    wrapped by its decorator; \<open>reply_values\<close> is the reply handling the
    views share; \<open>foodenv_urls\<close> is foodenvironment/urls.py with its one
    decorated route.
  \<^item> \<open>Access\<close> (access/ml_loader.py, services.py, views.py): the five
    models loaded at import, \<open>predict_access\<close>, \<open>classify_access\<close>,
    \<open>cluster_access\<close> (scaler, PCA, k-means), the two views and the
    section's four routes (\<open>access_urls\<close>; only \<open>access_home\<close> is
    undecorated).
  \<^item> \<open>LocalApp\<close> (local/my_hfspace/app.py): the app's globals, its
    startup as six guarded loads, \<open>/predict\<close>, \<open>/cluster\<close>, \<open>/health\<close>,
    \<open>/clustering-map\<close>, and \<open>local_post\<close>/\<open>local_get\<close> presenting it to
    the Django client; generate_config.py's two configuration values.
  \<^item> \<open>Tables\<close> (the ORM calls of the views and the admin site): a table
    is its rows (\<open>hist_row\<close>: id, user, input data, the model's own
    columns) in insertion order with the id sequence's next value (ids are
    never reused); \<open>objects_create\<close>, \<open>objects_get\<close>, \<open>recent_history\<close>,
    the GET branch with \<open>?load_id=\<close> (\<open>load_initial\<close>, \<open>history_get\<close>,
    Django's \<open>int()\<close> of the id included), and the admin's
    \<open>admin_change\<close> and \<open>admin_delete\<close>; \<open>hist_reach\<close> is the inductive
    set of tables these operations build.
  \<^item> \<open>History\<close> (the five models.py files, the history code of the views,
    finance/admin.py and local/admin.py): \<open>health_view_db\<close>,
    \<open>finance_view_db\<close>, \<open>finance_clustering_view_db\<close>,
    \<open>insecurity_view_db\<close> and \<open>access_prediction_db\<close> pair each POST flow of
    the views with the table it leaves, the column conversions of
    \<open>create\<close> (\<open>db_float\<close>, \<open>db_int\<close>, \<open>db_nullable\<close>) deciding whether
    the row is written; \<open>local_regression_view_db\<close> and
    \<open>local_clustering_view_db\<close> follow the local views' calls to their
    \<open>create\<close>; \<open>finance_admin\<close> and \<open>local_admin\<close> are the
    two admin registrations' permissions over the admin's operations, and
    \<open>local_admin_changelist\<close>, \<open>finance_admin_changelist\<close> their change
    lists (ordering, list filters, word-by-word \<open>icontains\<close> search).
  \<^item> \<open>Site\<close> (the seven urls.py files, the whole view functions of the
    five sections with a history, users/decorators.py): each app's
    \<open>urlpatterns\<close>, Django's resolver (the first equal pattern, else 404),
    and \<open>site_handle\<close>, one request to an app and path against the five
    tables (\<open>site_db\<close>). Each page with a history (\<open>health_page\<close>, ...,
    \<open>local_clustering_page\<close>) runs under its decorator (\<open>guard_view\<close>),
    composes the POST flow and save of theory History with the GET reload
    of \<open>?load_id=\<close> and the listing read after the save, and keeps the
    views' own \<open>is_authenticated\<close> checks; \<open>site_reach\<close> is the set of
    sites that requests and the two admin registrations build.
  \<^item> \<open>Deploy\<close> (local/my_hfspace/upload_models.py): the script's checks,
    login and upload loop over the local directory (\<open>exists\<close>), the
    login and upload outcomes as parameters, the Space as the paths it
    holds; \<open>space_files_ok\<close> relates the Space to the files the app's
    startup hook finds.

  \<^bold>\<open>What is proved.\<close> The build's positional invariant and unit vectors;
  retrieval returns the best match first, in descending order, with scores
  in [0, 1], exactly \<open>min k n\<close> results on a consistent store, nothing on an
  unloaded one; the service never fails with \<open>AttributeError\<close> in a
  reachable state and never changes after initialisation; \<open>initialize\<close>
  refines the spec's lifecycle when no artifact is unreadable; in \<open>ask\<close>,
  retrieval precedes generation and the sources are bounded; the profile's
  risk section is conditioned on \<open>composite_risk\<close>; the join preserves the
  primary order when risk keys are unique. The two permission tables agree
  for every section and role, and the dashboard shows a report exactly to
  the roles that can open a section. The Django RAG client never raises on a
  failed exchange and, over the health service, returns the endpoint's
  answer exactly when the endpoint answered; clustering data reaches the
  site unchanged unless a risk is NaN. The local mock values are bounded and
  the local regression view never shows a remote error; the finance reply parser reads back
  the printed tax rate; feature validation is characterised. The health API
  answers an unknown model type with 500; its interval bounds, isolated
  startup blocks and partial CSV loading are proved; the insecurity service
  and app classify alike and keep their confidences in range.
  Findings proved as theorems: a degraded service still calls the
  completion endpoint with an empty context; an unreadable index aborts
  initialisation; the join drops \<open>Cluster\<close>, so alerts read
  \<open>(Cluster None)\<close>; a NaN cell prints as \<open>nan\<close>; the 400 of \<open>/predict\<close>
  becomes a 500; one NaN risk empties the Django map; unreachable finance
  and local services produce mock values shaped like predictions; the
  health view renders a failed request as an empty result with no message;
  every decorated view sends anonymous users to the login page while the
  food-environment predict endpoint serves them; \<open>init_rag\<close> always fails
  with \<open>AttributeError\<close>.
  On the Django side, a valid form hands its view one value of the right
  type per declared field; the local form's field groups partition its
  fields in category order; the insecurity map's statistics are bounded;
  the access views keep results computed before a failure. The local
  space's cluster confidence is in (0, 1], and the Django client over it
  returns the app's prediction, or its own mock when the model is not
  loaded. Every table the views and the admin build is reachable, so its
  ids are unique and grow with time; the local admin can only remove rows,
  and only for a superuser; the listed history is the user's kept rows,
  newest first, at most five; reloading a row is a round trip of its
  input for its owner and gives an empty form to anyone else
  (\<open>reload_own_row\<close>). Findings: a non-numeric \<open>load_id\<close> makes every
  history page answer 500; a failed health request saves no row; local
  clustering runs appear in the regression history with the cluster
  number as their prediction. Without encoder_choices.json no health
  POST validates; without clustering_features.json the local form has one
  text field. In an environment where everything loads, a fresh RAG
  service is READY after its first call and stays so
  (\<open>rag_eventually_ready\<close>, over \<open>rag_run\<close>, a sequence of calls); a
  normally ending upload_models.py run deploys every model file, so the
  local app starts with its models (\<open>upload_then_startup\<close>), while a failed
  upload leaves the Space half updated.
  After generate_assets.py ran with its default paths, \<open>RAGService()\<close>
  starts READY with the build's paired index and chunks
  (\<open>build_then_serve\<close>). Across the whole site: no request writes a
  history table unless it comes from a logged-in user whose role may open
  that section, and then it adds one row of that user
  (\<open>site_writes_need_access\<close>; an anonymous request changes nothing); every
  page lists at most five rows, all of the requester
  (\<open>site_lists_own_rows\<close>); every table of a reachable site is a
  reachable table; without a \<open>load_id\<close> each page renders the context of
  the view model of theory Views or Access. Finding: rag/urls.py cannot
  be imported (\<open>site_handle_rag\<close>).
  Across the HTTP boundary of the health section: a valid health form
  posted to the health page over the health service renders the service's
  prediction, formatted interval and model name and saves one row with the
  prediction (\<open>health_page_over_api\<close>); the form offers only the model
  types the service accepts, so its invalid-model-type error is unreachable
  from the site; the clustering page shows the cluster the service's
  k-means assigns to the submitted values, or the 503 as an error when the
  model is not loaded.

  \<^bold>\<open>Choices.\<close> Floats are \<open>real\<close> (float32 rounding is not modelled; a
  NaN is modelled only where the code can produce one: a NaN cell, a NaN
  risk as \<open>None\<close>); \<open>round(x, 2)\<close> rounds half to even; \<open>float()\<close> on
  strings accepts decimal and exponent notation (infinity, NaN and
  underscores give \<open>None\<close>). The embedding model, the completion endpoint,
  fitted models, the network and \<open>random\<close> are parameters; file contents are
  values of \<open>artifact\<close>. A message \<open>str(e)\<close> that depends on a library's
  wording is kept as the exception itself (\<open>fin_result\<close>, \<open>insec_result\<close>,
  \<open>predict_error\<close>). No modelled loop may run forever (every loop is over a
  finite list), so no fuel is needed.

  \<^bold>\<open>Not modelled, and why.\<close> Migrations are declarations without
  behaviour; the models' \<open>__str__\<close>, the admin's fieldsets and the date
  filter on \<open>created_at\<close> (it needs the clock) are presentation or time, and
  the change lists are modelled without pagination. The project's root URLconf is not in the
  repository, so a request names its app and its path inside the app. The
  history tables are modelled without
  the database's column length limits (SQLite does not enforce them) and
  with \<open>str()\<close> of a stored value left as the value. The two ml_loader.py
  reads are modelled as functions of the file's content
  (\<open>load_encoder_choices\<close>, \<open>load_clustering_features\<close>); the health
  form takes \<open>ENCODER_CHOICES\<close> as its lists of string classes, and the
  views take \<open>CLUSTERING_FEATURES\<close> as a dict; pandas' CSV parser is a
  parameter of the insecurity map view. The embedding model
  (SentenceTransformer) is the embedder parameter. Scripts and tests
  (inspect_models.py, test_*.py, post_test.py) are file or network I/O; of generate_config.py, the two values it writes are
  modelled. Widgets, labels and
  templates are presentation. local/config.py defines constants no module
  imports; rag/__init__.py names an app configuration
  \<open>rag.apps.RagConfig\<close> whose module does not exist, which matters only to
  the Django version's app loading (not part of the repository).

  \<^bold>\<open>Plan for the rest of the program.\<close> What remains unmodelled is
  listed above with its reason. Every route of the site is a branch of
  \<open>site_dispatch\<close>; what is left are library internals (faiss, the
  embedding model, pandas' parser, Django's ORM beyond the calls the views
  make) and the diagnostic scripts.
\<close>

section \<open>Scenario data for the cross-component properties\<close>

definition scenario_api :: api_state where
  "scenario_api = api_init\<lparr>rag_service := scenario_state\<rparr>"

definition hf_space_url :: string where
  "hf_space_url = ''https://edamhakim-us-foodscope.hf.space''"

definition example_cluster_record :: cluster_record where
  "example_cluster_record = \<lparr>cd_county = ''Alpha'', cd_state = ''CA'', cd_risk = Some 8.2, cd_cluster = 1\<rparr>"


text \<open>A valid health form's cleaned data, and a health service with both regression models.\<close>

definition ex_health_cleaned :: "(string \<times> json) list" where
  "ex_health_cleaned =
     [(''model_type'', JStr ''diabetes''), (''Risk_Level'', JStr ''High'')] @
     map (\<lambda>n. (n, JNum 1)) [''VLFOODSEC_13_15'', ''Adult_Obesity_Rate_08'', ''CH_FOODINSEC_12_15'', ''Median_Income'',
       ''MILK_SODA_PRICE10'', ''Farmers_Markets_Count_16'', ''GYMs_Per_1000_Count_14'', ''Adult_Diabetes_Rate_08''] @
     [(''StatusName'', JStr ''Metro'')] @
     map (\<lambda>n. (n, JNum 1)) [''FSRPTH14'', ''Poverty_Rate'', ''VLFOODSEC_10_12'', ''PCT_NHBLACK10'', ''PCH_VEG_ACRESPTH_07_12'']"

definition ex_health_api :: api_state where
  "ex_health_api = example_api\<lparr>model_diabetes := Some example_regressor\<rparr>"

section \<open>The spec's end-to-end scenario\<close>


section \<open>The Django site and the health service\<close>

lemma scenario_ask_endpoint: "\<exists>b. fst (ask_endpoint scenario_groq scenario_env scenario_api scenario_query) = Inr b"
proof -
  have src: "\<exists>js. json_all source_json
     (map source_info [(scenario_chunks ! 0, 0.96), (scenario_chunks ! 2, 0.8), (scenario_chunks ! 1, 0.28)]) = Inr js"
    by (simp add: source_json_def cell_json_def source_info_def scenario_chunks_def scenario_rows_def
        build_chunks_def make_chunk_def)
  show ?thesis
    using src
    by (auto simp: ask_endpoint_def scenario_api_def api_init_def scenario_ask scenario_state_simps
        split: sum.splits)
qed

text \<open>
  C34. The Django RAG client talking to the health service's \<open>/ask\<close>
  never raises, whatever the service state and environment: its reply has
  no error exactly when the endpoint answered, and then carries the
  endpoint's answer and sources; otherwise it is the unavailability
  fallback.
\<close>

theorem ask_end_to_end:
  "\<exists>rep. generate_response base (health_post groq env s base) q = Inr rep
     \<and> (reply_error rep = None \<longleftrightarrow> (\<exists>b. fst (ask_endpoint groq env s q) = Inr b))
     \<and> (\<forall>a js. fst (ask_endpoint groq env s q) = Inr (JObj [(''answer'', JStr a), (''sources'', JList js)])
           \<longrightarrow> response rep = JStr a \<and> reply_sources rep = JList js)"
proof (cases "fst (ask_endpoint groq env s q)")
  case (Inl e)
  then have "http_error (serve (base @ ''/ask'') (Inl e))" by (rule ask_endpoint_exn)
  with Inl show ?thesis
    by (simp add: generate_response_def health_post_def rag_fallback_def)
next
  case (Inr b)
  with ask_endpoint_Inr obtain a js where "b = JObj [(''answer'', JStr a), (''sources'', JList js)]" by blast
  with Inr show ?thesis
    by (simp add: generate_response_def health_post_def http_error_def)
qed

theorem ask_end_to_end_witness:
  "\<exists>rep. generate_response hf_space_url (health_post scenario_groq scenario_env scenario_api hf_space_url)
           scenario_query = Inr rep \<and> reply_error rep = None"
  using ask_end_to_end[of hf_space_url scenario_groq scenario_env scenario_api scenario_query]
    scenario_ask_endpoint
  by blast

text \<open>
  C35. The clustering data the health service loaded reaches the Django
  site unchanged through \<open>/clustering-data\<close> and \<open>load_clustering_data\<close>,
  as long as no record has a NaN risk.
\<close>

theorem clustering_data_roundtrip:
  assumes "base \<noteq> []" "list_all (\<lambda>c. cd_risk c \<noteq> None) (clustering_data s)"
  shows "load_clustering_data (Some base) (health_get s base)
           = JList (map (\<lambda>c. projr (cluster_record_json c)) (clustering_data s))"
  using assms
  by (simp add: load_clustering_data_def health_get_def get_clustering_data_def json_all_records json_has_def)

theorem clustering_data_roundtrip_witness:
  "load_clustering_data (Some hf_space_url) (health_get (api_init\<lparr>clustering_data := [example_cluster_record]\<rparr>) hf_space_url)
     = JList [JObj [(''county'', JStr ''Alpha''), (''state'', JStr ''CA''), (''risk'', JNum 8.2), (''cluster'', JNum 1)]]"
proof -
  have u: "hf_space_url \<noteq> []" by (simp add: hf_space_url_def)
  have h: "list_all (\<lambda>c. cd_risk c \<noteq> None) (clustering_data (api_init\<lparr>clustering_data := [example_cluster_record]\<rparr>))"
    by (simp add: example_cluster_record_def del: not_None_eq)
  show ?thesis
    using clustering_data_roundtrip[OF u h] by (simp add: example_cluster_record_def cluster_record_json_def)
qed

text \<open>
  C36. A single record with a NaN \<open>composite_risk\<close> makes \<open>/clustering-data\<close>
  fail to serialise (500), and the Django site then shows no county at all.
\<close>

theorem clustering_data_nan_empties:
  assumes "base \<noteq> []" "c \<in> set (clustering_data s)" "cd_risk c = None"
  shows "load_clustering_data (Some base) (health_get s base) = JList []"
proof -
  have "\<not> list_all (\<lambda>c. cd_risk c \<noteq> None) (clustering_data s)"
    using assms(2,3) by (auto simp: list_all_iff)
  then show ?thesis
    using assms(1)
    by (simp add: load_clustering_data_def health_get_def get_clustering_data_def json_all_records
        serve_def)
qed

theorem clustering_data_nan_empties_witness:
  "load_clustering_data (Some hf_space_url)
     (health_get (api_init\<lparr>clustering_data := [example_cluster_record, example_cluster_record\<lparr>cd_risk := None\<rparr>]\<rparr>)
        hf_space_url) = JList []"
  by (rule clustering_data_nan_empties[of _ "example_cluster_record\<lparr>cd_risk := None\<rparr>"])
     (simp_all add: hf_space_url_def)

section \<open>Access control across the sections\<close>

text \<open>
  C22. An anonymous request to any decorated view of the five sections
  (health, finance, local, insecurity, access, and the food-environment
  page) is sent to the login page; the food-environment prediction
  endpoint is the exception: it has no decorator, so the same anonymous
  user's valid request reaches the grocery service and gets its
  prediction.
\<close>

theorem anonymous_requests:
  assumes ok: "fst (validate_features d)"
    and reply: "foodenv_predict hf_api_url post d = Inr (JObj result)"
    and success: "json_truthy (dict_get result ''success'' JNull)"
  shows "health_view enc hf_api_url post Anonymous m = RedirectLogin \<and>
         health_clustering_view hf_api_url post Anonymous m = RedirectLogin \<and>
         health_clustering_data_api url_opt get Anonymous = RedirectLogin \<and>
         finance_view post Anonymous m = RedirectLogin \<and>
         finance_clustering_view post Anonymous m = RedirectLogin \<and>
         finance_clustering_data_api Anonymous = RedirectLogin \<and>
         local_regression_view feats hf_api_url post rnd k rnd2 ajax Anonymous m = RedirectLogin \<and>
         local_clustering_view feats hf_api_url post k rnd ajax Anonymous m = RedirectLogin \<and>
         clustering_map_view hf_api_url get True Anonymous = RedirectLogin \<and>
         insecurity_view ld Anonymous m = RedirectLogin \<and>
         insec_clustering_data_api hf_api_url get read_csv Anonymous = RedirectLogin \<and>
         access_prediction ms Anonymous m = RedirectLogin \<and>
         access_clustering ms Anonymous m = RedirectLogin \<and>
         foodenv_urls hf_api_url ce post Anonymous FoodEnvPage = RedirectLogin \<and>
         foodenv_urls hf_api_url ce post Anonymous (FoodEnvPredict True (Inr (JObj d))) =
           Allowed (FoodEnvJson (FeJson 200 (JObj [(''success'', JBool True),
             (''prediction'', dict_get result ''prediction'' JNull), (''raw'', dict_get result ''raw'' JNull)])))"
  using food_env_predict_anonymous[OF ok reply success]
  by (simp add: prediction_access_anonymous health_view_def health_clustering_view_def health_clustering_data_api_def
      finance_view_def finance_clustering_view_def finance_clustering_data_api_def local_regression_view_def
      local_clustering_view_def clustering_map_view_def insecurity_view_def insec_clustering_data_api_def
      access_prediction_def access_clustering_def)

theorem anonymous_requests_witness:
  "foodenv_urls ''http://hf'' [] ex_grocery_space Anonymous FoodEnvPage = RedirectLogin \<and>
   health_view [] ''http://hf'' ex_grocery_space Anonymous GET = RedirectLogin \<and>
   foodenv_urls ''http://hf'' [] ex_grocery_space Anonymous (FoodEnvPredict True (Inr (JObj ex_foodenv_features))) =
     Allowed (FoodEnvJson (FeJson 200 (JObj [(''success'', JBool True), (''prediction'', JNum 0.25),
       (''raw'', JObj [(''prediction'', JNum 0.25)])])))"
proof -
  have v: "fst (validate_features ex_foodenv_features)"
    by (simp add: validate_features_def ex_foodenv_features_def clean_features_def required_features_def Let_def)
  show ?thesis
    using anonymous_requests[OF v ex_foodenv_reply, where enc="[]" and m=GET and ce="[]"] by simp
qed

section \<open>The health clustering page over the health service\<close>

text \<open>
  health/views.py's \<open>clustering_view\<close> over serving/app.py's
  \<open>/predict-cluster\<close>: the two sides name the same seven features, so a
  valid form's values are the ones the service scales and clusters, and the
  page shows the service's cluster with its description; with the k-means
  model not loaded, the page shows the 503 as a clustering error.
\<close>

lemma clustering_view_over_api:
  assumes valid: "full_clean clustering_form_fields no_hook no_form_clean data = ([], cd)"
    and km: "model_kmeans s = Some km" "scaler_clustering s = Some sc"
    and x: "scaler_transform sc (map (cluster_input cd) clustering_feature_names) = Inr x"
    and c: "kmeans_predict km x = Inr c"
  shows "clustering_view_post url (health_api_post exn_str groq env s url) data =
         clustering_ctx_init\<lparr>c_cluster_result := JNum (of_nat c),
           c_cluster_desc := Some (case map_of health_cluster_descriptions (of_nat c) of Some d \<Rightarrow> d
                                   | None \<Rightarrow> ''Unknown Cluster'')\<rparr>"
proof -
  have "predict_cluster s cd = Inr (c, map (\<lambda>n. (n, cluster_input cd n)) clustering_feature_names)"
    using km x c by (simp add: predict_cluster_def comp_def)
  then show ?thesis
    using valid
    by (simp add: clustering_view_post_def health_predict_cluster_def health_api_post_def prediction_request_def
        serve_def http_error_def clustering_response_json_def json_has_def json_get_def num_dict_get_def)
qed

lemma clustering_view_api_not_loaded:
  assumes valid: "full_clean clustering_form_fields no_hook no_form_clean data = ([], cd)"
    and none: "model_kmeans s = None"
  shows "clustering_view_post url (health_api_post exn_str groq env s url) data =
           clustering_ctx_init\<lparr>c_error :=
             Some (RemoteError ''Clustering Error: '' (JStr (http_error_text 503 (url @ ''/predict-cluster''))))\<rparr>"
  using assms
  by (simp add: clustering_view_post_def health_predict_cluster_def health_api_post_def prediction_request_def
      predict_cluster_def predict_exn_def serve_def http_error_def cluster_unavailable_def json_has_def json_get_def)

section \<open>The health page over the health service\<close>

text \<open>
  health/views.py's \<open>health_view\<close> over serving/app.py's \<open>/predict\<close>:
  the form only offers the two model types the service accepts, so a valid
  form never meets the service's invalid-model-type error, and the label
  the view shows is the service's \<open>model_used\<close>.
\<close>

lemma health_valid_model_type:
  assumes "full_clean (health_form_fields enc) no_hook no_form_clean data = ([], cd)"
  shows "\<exists>m \<in> set model_choices. dict_get cd ''model_type'' dflt = JStr m"
proof -
  obtain errs where cf: "clean_fields (health_form_fields enc) no_hook data = (errs, cd)" and "errs = []"
    using assms by (cases "clean_fields (health_form_fields enc) no_hook data") (simp add: full_clean_def no_form_clean_def Let_def split: if_splits)
  then have "map fst cd = map fld_name (health_form_fields enc) \<and>
             list_all2 field_value_ok (health_form_fields enc) (map snd cd)"
    using clean_fields_valid[of "health_form_fields enc" no_hook data] by simp
  moreover obtain T where "health_form_fields enc = \<lparr>fld_name = ''model_type'', fld_kind = ChoiceF model_choices, fld_required = True\<rparr> # T"
    by (simp add: health_form_defs)
  ultimately have m: "map fst cd = ''model_type'' # map fld_name T"
    and l: "list_all2 field_value_ok (\<lparr>fld_name = ''model_type'', fld_kind = ChoiceF model_choices, fld_required = True\<rparr> # T)
              (map snd cd)"
    by simp_all
  obtain a v rest where cd: "cd = (a, v) # rest" using m by (cases cd) auto
  then have "a = ''model_type''" and "field_value_ok \<lparr>fld_name = ''model_type'', fld_kind = ChoiceF model_choices, fld_required = True\<rparr> v"
    using m l by simp_all
  then show ?thesis using cd by (auto simp: field_value_ok_def split: json.splits if_splits)
qed

lemma predict_model_used:
  "predict s m f = Inr r \<Longrightarrow> model_used r = (if py_lower m = ''obesity'' then ''Obesity'' else ''Diabetes'')"
  by (auto simp: predict_def Let_def split: option.splits if_splits sum.splits prod.splits)

lemma py_lower_model_choices: "m \<in> set model_choices \<Longrightarrow> py_lower m = m"
  by (auto simp: model_choices_def py_lower_def lower_char_def)

lemma health_view_over_api:
  assumes valid: "full_clean (health_form_fields enc) no_hook no_form_clean data = ([], cd)"
    and pred: "predict s (case dict_get cd ''model_type'' (JStr ''obesity'') of JStr m \<Rightarrow> m | _ \<Rightarrow> []) cd = Inr r"
  shows "health_view_post enc url (health_api_post exn_str groq env s url) data =
         \<lparr>h_prediction_result = JNum (prediction r),
          h_prediction_probability = (case probability r of None \<Rightarrow> JNull | Some i \<Rightarrow> JStr (interval_str i)),
          h_selected_model = Some (model_used r), h_error = None\<rparr>"
proof -
  obtain m where m: "m \<in> set model_choices" "dict_get cd ''model_type'' (JStr ''obesity'') = JStr m"
    using health_valid_model_type[OF valid] by blast
  have pm: "predict s m cd = Inr r" using pred m(2) by simp
  have used: "model_used r = (if m = ''obesity'' then ''Obesity'' else ''Diabetes'')"
    using predict_model_used[OF pm] py_lower_model_choices[OF m(1)] by simp
  have sel: "(if m = ''obesity'' then ''Obesity'' else ''Diabetes'') = model_used r" using used by simp
  show ?thesis
    using valid pm m(2) sel
    by (simp add: health_view_post_def health_predict_def health_api_post_def prediction_request_def serve_def
        http_error_def pred_response_json_def reply_values_def json_has_def health_ctx_init_def)
qed


text \<open>
  C12. A valid health form posted to the health page, with the health
  service's models loaded and predicting \<open>r\<close> for the submitted values,
  renders the service's prediction, its interval as the service formats it
  and the service's model name with no error, and saves exactly one history
  row for the user holding the submitted inputs, the model type, the
  prediction and the interval.
\<close>

theorem health_page_over_api:
  assumes valid: "full_clean (health_form_fields enc) no_hook no_form_clean data = ([], cd)"
    and pred: "predict s (case dict_get cd ''model_type'' (JStr ''obesity'') of JStr m \<Rightarrow> m | _ \<Rightarrow> []) cd = Inr r"
  shows "health_view_db enc url (health_api_post exn_str groq env s url) uid db data =
         (\<lparr>h_prediction_result = JNum (prediction r),
           h_prediction_probability = (case probability r of None \<Rightarrow> JNull | Some i \<Rightarrow> JStr (interval_str i)),
           h_selected_model = Some (model_used r), h_error = None\<rparr>,
          objects_create db uid cd
            \<lparr>hr_model_type = dict_get cd ''model_type'' (JStr ''obesity''), hr_prediction_value = prediction r,
             hr_risk_level_input = dict_get cd ''Risk_Level'' (JStr ''N/A''),
             hr_confidence_interval = (case probability r of None \<Rightarrow> JStr [] | Some i \<Rightarrow> JStr (interval_str i))\<rparr>)"
  using health_view_over_api[OF valid pred, of url exn_str groq env] valid
  by (simp add: health_view_db_def db_float_def interval_str_def split: option.splits)

theorem health_page_over_api_witness:
  "health_view_db ex_enc ''http://hf'' (health_api_post (\<lambda>_. []) scenario_groq scenario_env ex_health_api ''http://hf'')
     ''alice'' empty_table
     ex_health_data =
   (\<lparr>h_prediction_result = JNum 0.5, h_prediction_probability = JStr (interval_str (0.5, 0.5)),
     h_selected_model = Some ''Diabetes'', h_error = None\<rparr>,
    objects_create empty_table ''alice'' ex_health_cleaned
      \<lparr>hr_model_type = JStr ''diabetes'', hr_prediction_value = 0.5, hr_risk_level_input = JStr ''High'',
       hr_confidence_interval = JStr (interval_str (0.5, 0.5))\<rparr>)"
proof -
  have valid: "full_clean (health_form_fields ex_enc) no_hook no_form_clean ex_health_data = ([], ex_health_cleaned)"
    by (simp add: full_clean_def clean_fields_def clean_one_def clean_field_def health_form_defs ex_health_cleaned_def
      ex_enc_def ex_health_data_def float_field_def no_hook_def no_form_clean_def get_categorical_choices_def
      model_choices_def bound_errors_def float_parse_defs)
  have pred: "predict ex_health_api ''diabetes'' ex_health_cleaned =
              Inr \<lparr>prediction = 0.5, probability = Some (0.5, 0.5), model_used = ''Diabetes''\<rparr>"
    by (simp add: predict_def ex_health_api_def example_api_def api_init_def example_regressor_def example_scaler_def
      py_lower_def lower_char_def raw_inputs_def raw_value_def scaler_transform_def model_predict_def proxy_feature_def
      inverse_at_def confidence_interval_def np_std_def np_mean_def Let_def ex_health_cleaned_def)
  show ?thesis
    using health_page_over_api[OF valid, of ex_health_api] pred
    by (simp add: ex_health_cleaned_def)
qed

end
